(* ===== verification/Prelude.thy ===== *)
theory Prelude
  imports Main "HOL-Library.Finite_Map"
begin

text \<open>
  What every component shares: Go errors as values, actions (a call that may fail and
  may change the world), the two ways the sources handle a returned error, and the
  weakest-precondition calculus with which the components reason about such calls.

  An action takes the world and returns a result together with the world after the
  call: a failing call does not undo what happened before it, as in Go.
\<close>

section \<open>Maps\<close>

text \<open>Storing or removing the value of one key, as a change of a map.\<close>

definition set_key :: "'k \<Rightarrow> 'v option \<Rightarrow> ('k \<rightharpoonup> 'v) \<Rightarrow> ('k \<rightharpoonup> 'v)" where
  "set_key k v m = m(k := v)"

lemma set_key_apply: "set_key k v m k' = (if k' = k then v else m k')"
  by (simp add: set_key_def)

lemma set_key_same: "m k = v \<Longrightarrow> set_key k v m = m"
  by (auto simp: set_key_def)

lemma set_key_set_key: "set_key k v (set_key k u m) = set_key k v m"
  by (simp add: set_key_def)

lemmas set_key_simps = set_key_apply set_key_same set_key_set_key

text \<open>Two maps that differ at most at the keys of a set.\<close>

definition agree_off :: "'k set \<Rightarrow> ('k \<rightharpoonup> 'v) \<Rightarrow> ('k \<rightharpoonup> 'v) \<Rightarrow> bool" where
  "agree_off A m m' \<longleftrightarrow> (\<forall>k. k \<notin> A \<longrightarrow> m' k = m k)"

lemma agree_off_refl [simp]: "agree_off A m m"
  by (simp add: agree_off_def)

lemma agree_off_trans: "agree_off A m m1 \<Longrightarrow> agree_off A m1 m2 \<Longrightarrow> agree_off A m m2"
  by (simp add: agree_off_def)

lemma agree_off_set_key: "k \<in> A \<Longrightarrow> agree_off A m (set_key k v m)"
  by (auto simp: agree_off_def set_key_apply)

section \<open>Errors\<close>

text \<open>
  An error is classified the way the sources classify it: \<open>apierrors.IsNotFound\<close>,
  \<open>apierrors.IsConflict\<close>, \<open>client.IgnoreNotFound\<close>, or not at all. \<open>Errorf\<close> is
  \<open>fmt.Errorf\<close> without a cause, \<open>Wrapped\<close> is \<open>fmt.Errorf\<close> with \<open>%w\<close>. The stack
  annotations of \<open>microerror.Mask\<close> and \<open>errors.WithStack\<close> keep the cause and are left
  out. \<open>Panic\<close> is a call on a nil interface or pointer.
\<close>

datatype error =
    NotFound
  | Conflict
  | OtherError string
  | Errorf string
  | Wrapped string error
  | Panic string

fun IsNotFound :: "error \<Rightarrow> bool" where
  "IsNotFound NotFound = True"
| "IsNotFound (Wrapped _ e) = IsNotFound e"
| "IsNotFound _ = False"

fun IsConflict :: "error \<Rightarrow> bool" where
  "IsConflict Conflict = True"
| "IsConflict (Wrapped _ e) = IsConflict e"
| "IsConflict _ = False"

fun is_Panic :: "error \<Rightarrow> bool" where
  "is_Panic (Panic _) = True"
| "is_Panic _ = False"

section \<open>Actions\<close>

type_synonym ('w, 'a) action = "'w \<Rightarrow> (error + 'a) \<times> 'w"

definition returnE :: "'a \<Rightarrow> ('w, 'a) action" where
  "returnE x w = (Inr x, w)"

definition throwE :: "error \<Rightarrow> ('w, 'a) action" where
  "throwE e w = (Inl e, w)"

text \<open>
  \<open>tryE m h f\<close> is Go's \<open>if x, err := m(); err != nil { h(err) } else { f(x) }\<close>, and
  \<open>bindE m f\<close> the special case in which the error is returned as it is.
\<close>

definition tryE :: "('w, 'a) action \<Rightarrow> (error \<Rightarrow> ('w, 'b) action) \<Rightarrow> ('a \<Rightarrow> ('w, 'b) action)
    \<Rightarrow> ('w, 'b) action" where
  "tryE m h f w = (case m w of (Inl e, w') \<Rightarrow> h e w' | (Inr x, w') \<Rightarrow> f x w')"

definition bindE :: "('w, 'a) action \<Rightarrow> ('a \<Rightarrow> ('w, 'b) action) \<Rightarrow> ('w, 'b) action" where
  "bindE m f w = (case m w of (Inl e, w') \<Rightarrow> (Inl e, w') | (Inr x, w') \<Rightarrow> f x w')"

lemmas action_defs = returnE_def throwE_def tryE_def bindE_def

lemma bindE_tryE: "bindE m f = tryE m throwE f"
  by (rule ext) (simp add: action_defs split: prod.split sum.split)

lemma bindE_assoc: "bindE (bindE m f) g = bindE m (\<lambda>x. bindE (f x) g)"
  by (rule ext) (simp add: action_defs split: prod.split sum.split)

lemma bindE_returnE [simp]: "bindE (returnE x) f = f x" "bindE m returnE = m"
  by (rule ext, simp add: action_defs split: prod.split sum.split)+

lemma bindE_throwE [simp]: "bindE (throwE e) f = throwE e"
  by (rule ext) (simp add: action_defs)

section \<open>Weakest preconditions\<close>

text \<open>
  \<open>wp m Q w\<close>: run from \<open>w\<close>, the action \<open>m\<close> ends in a result and a world that satisfy
  \<open>Q\<close>; the postcondition ranges over both errors and values. The equations below
  compute \<open>wp\<close> along the structure of an action; the contracts of the calls at its
  leaves are introduction rules, collected in \<open>wp_rules\<close>.
\<close>

named_theorems wp_simps \<open>equations that push wp through an action\<close>
named_theorems wp_rules \<open>contracts of calls, as introduction rules for wp\<close>

definition wp :: "('w, 'a) action \<Rightarrow> (error + 'a \<Rightarrow> 'w \<Rightarrow> bool) \<Rightarrow> 'w \<Rightarrow> bool" where
  "wp m Q w \<longleftrightarrow> Q (fst (m w)) (snd (m w))"

lemma wp_returnE [wp_simps]: "wp (returnE x) Q w \<longleftrightarrow> Q (Inr x) w"
  by (simp add: wp_def returnE_def)

lemma wp_throwE [wp_simps]: "wp (throwE e) Q w \<longleftrightarrow> Q (Inl e) w"
  by (simp add: wp_def throwE_def)

lemma wp_tryE [wp_simps]:
  "wp (tryE m h f) Q w \<longleftrightarrow>
     wp m (\<lambda>r w'. case r of Inl e \<Rightarrow> wp (h e) Q w' | Inr x \<Rightarrow> wp (f x) Q w') w"
  by (simp add: wp_def tryE_def split: prod.split sum.split)

lemma wp_bindE [wp_simps]:
  "wp (bindE m f) Q w \<longleftrightarrow>
     wp m (\<lambda>r w'. case r of Inl e \<Rightarrow> Q (Inl e) w' | Inr x \<Rightarrow> wp (f x) Q w') w"
  by (simp add: wp_def bindE_def split: prod.split sum.split)

lemma wp_mono: "wp m P w \<Longrightarrow> (\<And>r w'. P r w' \<Longrightarrow> Q r w') \<Longrightarrow> wp m Q w"
  by (simp add: wp_def)

lemma wp_conj: "wp m P w \<Longrightarrow> wp m Q w \<Longrightarrow> wp m (\<lambda>r w'. P r w' \<and> Q r w') w"
  by (simp add: wp_def)

lemma wp_bindEI:
  assumes "wp m P w"
    and "\<And>x w'. P (Inr x) w' \<Longrightarrow> wp (f x) Q w'"
    and "\<And>e w'. P (Inl e) w' \<Longrightarrow> Q (Inl e) w'"
  shows "wp (bindE m f) Q w"
  unfolding wp_bindE by (rule wp_mono [OF assms(1)]) (auto intro: assms(2,3) split: sum.split)

lemma wp_run: "wp m Q w \<Longrightarrow> m w = (r, w') \<Longrightarrow> Q r w'"
  by (simp add: wp_def)

lemma wp_casesI:
  assumes "\<And>x w'. m w = (Inr x, w') \<Longrightarrow> Q (Inr x) w'"
    and "\<And>e w'. m w = (Inl e, w') \<Longrightarrow> Q (Inl e) w'"
  shows "wp m Q w"
  using assms by (cases "m w"; cases "fst (m w)") (auto simp: wp_def)

lemma wp_iff_run: "wp m Q w \<longleftrightarrow> (\<forall>r w'. m w = (r, w') \<longrightarrow> Q r w')"
  by (cases "m w") (simp add: wp_def)

end
