(* ===== verification/Go_Std.thy ===== *)
theory Go_Std
  imports Prelude
begin

text \<open>
  The parts of Go's standard library the sources use: \<open>strings.Split\<close>, \<open>strings.Join\<close>,
  \<open>strings.TrimSpace\<close>, \<open>strings.TrimPrefix\<close>, \<open>strings.ToLower\<close>, the verb \<open>%q\<close>,
  \<open>hex.EncodeToString\<close> and the arithmetic of \<open>time.Time\<close> and \<open>time.Duration\<close>. A Go
  string is a sequence of bytes, here a \<open>char list\<close>.
\<close>

section \<open>Package strings\<close>

fun Split :: "string \<Rightarrow> char \<Rightarrow> string list" where
  "Split [] c = [[]]"
| "Split (x # xs) c =
     (if x = c then [] # Split xs c
      else case Split xs c of [] \<Rightarrow> [[x]] | y # ys \<Rightarrow> (x # y) # ys)"

fun Join :: "string list \<Rightarrow> string \<Rightarrow> string" where
  "Join [] sep = []"
| "Join [x] sep = x"
| "Join (x # y # ys) sep = x @ sep @ Join (y # ys) sep"

definition TrimPrefix :: "string \<Rightarrow> string \<Rightarrow> string" where
  "TrimPrefix s p = (if take (length p) s = p then drop (length p) s else s)"

text \<open>
  \<open>unicode.IsSpace\<close>: the white-space code points, each by its UTF-8 encoding. UTF-8 is
  self-synchronising, so a rune at either end of a string is white space exactly when
  the string begins or ends with one of these sequences.
\<close>

definition space_runes :: "nat list list" where
  "space_runes =
     [[9], [10], [11], [12], [13], [32], [194, 133], [194, 160], [225, 154, 128],
      [226, 128, 128], [226, 128, 129], [226, 128, 130], [226, 128, 131], [226, 128, 132],
      [226, 128, 133], [226, 128, 134], [226, 128, 135], [226, 128, 136], [226, 128, 137],
      [226, 128, 138], [226, 128, 168], [226, 128, 169], [226, 128, 175], [226, 129, 159],
      [227, 128, 128]]"

definition leading :: "nat list list \<Rightarrow> string \<Rightarrow> nat" where
  "leading rs s =
     (case find (\<lambda>r. r \<noteq> [] \<and> take (length r) s = map char_of r) rs of
        None \<Rightarrow> 0 | Some r \<Rightarrow> length r)"

lemma leading_pos: "0 < leading rs s \<Longrightarrow> s \<noteq> []"
  by (auto simp: leading_def find_Some_iff split: option.splits)

function trim_left :: "nat list list \<Rightarrow> string \<Rightarrow> string" where
  "trim_left rs s = (if 0 < leading rs s then trim_left rs (drop (leading rs s) s) else s)"
  by pat_completeness auto
termination
  by (relation "measure (\<lambda>(rs, s). length s)") (auto dest: leading_pos intro!: diff_less)

declare trim_left.simps [simp del]

definition TrimSpace :: "string \<Rightarrow> string" where
  "TrimSpace s = rev (trim_left (map rev space_runes) (rev (trim_left space_runes s)))"

text \<open>
  \<open>strings.ToLower\<close> on ASCII letters. Other bytes are left alone: the sources lower the
  case of Teleport role names only, which are ASCII.
\<close>

definition lower_char :: "char \<Rightarrow> char" where
  "lower_char c =
     (if 65 \<le> (of_char c :: nat) \<and> (of_char c :: nat) \<le> 90 then char_of ((of_char c :: nat) + 32) else c)"

definition ToLower :: "string \<Rightarrow> string" where
  "ToLower s = map lower_char s"

subsection \<open>Join and Split\<close>

lemma Split_not_Nil [simp]: "Split s c \<noteq> []"
  by (induction s c rule: Split.induct) (auto split: list.splits)

lemma Split_no_sep: "c \<notin> set s \<Longrightarrow> Split s c = [s]"
  by (induction s c rule: Split.induct) auto

lemma Split_append_sep: "c \<notin> set s \<Longrightarrow> Split (s @ c # t) c = s # Split t c"
  by (induction s c rule: Split.induct) (auto split: list.splits)

lemma Split_Join:
  "xs \<noteq> [] \<Longrightarrow> \<forall>x \<in> set xs. c \<notin> set x \<Longrightarrow> Split (Join xs [c]) c = xs"
proof (induction xs "[c]" rule: Join.induct)
  case (2 x)
  then show ?case by (simp add: Split_no_sep)
next
  case (3 x y ys)
  then show ?case by (simp add: Split_append_sep)
qed simp

lemma Join_Split: "Join (Split s c) [c] = s"
proof (induction s c rule: Split.induct)
  case (2 x xs c)
  obtain y ys where yy: "Split xs c = y # ys" by (cases "Split xs c") auto
  show ?case
  proof (cases "x = c")
    case True
    with 2 yy show ?thesis by simp
  next
    case False
    with 2 yy have "Join (y # ys) [c] = xs" by simp
    with False yy show ?thesis by (cases ys) auto
  qed
qed simp

lemma Split_no_sep_parts: "p \<in> set (Split s c) \<Longrightarrow> c \<notin> set p"
  by (induction s c arbitrary: p rule: Split.induct) (auto split: list.splits if_splits)

subsection \<open>TrimSpace\<close>

lemma trim_left_none: "leading rs s = 0 \<Longrightarrow> trim_left rs s = s"
  by (simp add: trim_left.simps)

lemma leading_Nil [simp]: "leading rs [] = 0"
  by (auto simp: leading_def find_Some_iff split: option.splits)

lemma leading_first:
  assumes "\<forall>r \<in> set rs. r \<noteq> [] \<longrightarrow> char_of (hd r) \<noteq> c"
  shows "leading rs (c # s) = 0"
proof -
  have "\<not> (r \<noteq> [] \<and> take (length r) (c # s) = map char_of r)" if "r \<in> set rs" for r
    using assms that by (cases r) auto
  then have "find (\<lambda>r. r \<noteq> [] \<and> take (length r) (c # s) = map char_of r) rs = None"
    by (simp add: find_None_iff)
  then show ?thesis by (simp add: leading_def)
qed

definition ascii_graph :: "char \<Rightarrow> bool" where
  "ascii_graph c \<longleftrightarrow> 33 \<le> (of_char c :: nat) \<and> (of_char c :: nat) \<le> 126"

lemma TrimSpace_ascii_graph:
  assumes "\<forall>c \<in> set s. ascii_graph c"
  shows "TrimSpace s = s"
proof -
  have first: "trim_left rs t = t"
    if "\<forall>r \<in> set rs. r \<noteq> [] \<longrightarrow> hd r < 256 \<and> (hd r < 33 \<or> 126 < hd r)" "\<forall>c \<in> set t. ascii_graph c"
    for rs t
  proof (cases t)
    case (Cons c u)
    then have "ascii_graph c" using that(2) by simp
    then have "\<forall>r \<in> set rs. r \<noteq> [] \<longrightarrow> char_of (hd r) \<noteq> c"
      using that(1) by (auto simp: ascii_graph_def of_char_of)
    then show ?thesis using Cons by (simp add: trim_left_none leading_first)
  qed (simp add: trim_left_none)
  have "trim_left space_runes s = s"
    by (rule first) (use assms in \<open>auto simp: space_runes_def\<close>)
  moreover have "trim_left (map rev space_runes) (rev s) = rev s"
    by (rule first) (use assms in \<open>auto simp: space_runes_def\<close>)
  ultimately show ?thesis by (simp add: TrimSpace_def)
qed

section \<open>Formatting\<close>

text \<open>
  The verb \<open>%q\<close> (\<open>strconv.Quote\<close>) on ASCII text, and lower-case hexadecimal. A byte
  above 127 stands here for itself: version numbers, the only text the sources print
  with \<open>%q\<close>, are ASCII.
\<close>

definition hex_digit :: "nat \<Rightarrow> char" where
  "hex_digit n = (if n < 10 then char_of (48 + n) else char_of (87 + n))"

definition hex_byte :: "char \<Rightarrow> string" where
  "hex_byte c = [hex_digit (of_char c div 16), hex_digit (of_char c mod 16)]"

definition EncodeToString :: "string \<Rightarrow> string" where
  "EncodeToString bs = concat (map hex_byte bs)"

definition quote_char :: "char \<Rightarrow> string" where
  "quote_char c =
     (let n = (of_char c :: nat) in
      if n = 34 \<or> n = 92 then [char_of (92 :: nat), c]
      else if 32 \<le> n \<and> n \<noteq> 127 then [c]
      else if n = 7 then [char_of (92 :: nat), CHR ''a'']
      else if n = 8 then [char_of (92 :: nat), CHR ''b'']
      else if n = 12 then [char_of (92 :: nat), CHR ''f'']
      else if n = 10 then [char_of (92 :: nat), CHR ''n'']
      else if n = 13 then [char_of (92 :: nat), CHR ''r'']
      else if n = 9 then [char_of (92 :: nat), CHR ''t'']
      else if n = 11 then [char_of (92 :: nat), CHR ''v'']
      else [char_of (92 :: nat), CHR ''x''] @ hex_byte c)"

definition dquote :: "string" where
  "dquote = [char_of (34 :: nat)]"

definition newline :: "string" where
  "newline = [char_of (10 :: nat)]"

definition Quote :: "string \<Rightarrow> string" where
  "Quote s = dquote @ concat (map quote_char s) @ dquote"

text \<open>A character that stands for itself between double quotes.\<close>

definition plain_char :: "char \<Rightarrow> bool" where
  "plain_char c \<longleftrightarrow>
     32 \<le> (of_char c :: nat) \<and> (of_char c :: nat) \<le> 126 \<and> (of_char c :: nat) \<noteq> 34 \<and> (of_char c :: nat) \<noteq> 92"

lemma quote_char_plain: "plain_char c \<Longrightarrow> quote_char c = [c]"
  by (auto simp: plain_char_def quote_char_def Let_def)

lemma Quote_plain: "\<forall>c \<in> set s. plain_char c \<Longrightarrow> Quote s = dquote @ s @ dquote"
  by (induction s) (auto simp: Quote_def quote_char_plain)

lemma hex_digit_inj: "n < 16 \<Longrightarrow> m < 16 \<Longrightarrow> hex_digit n = hex_digit m \<Longrightarrow> n = m"
proof -
  assume n: "n < 16" and m: "m < 16" and eq: "hex_digit n = hex_digit m"
  define f where "f k = (if k < 10 then 48 + k else 87 + k)" for k :: nat
  have *: "(of_char (hex_digit k) :: nat) = f k" if "k < 16" for k
    using that by (auto simp: hex_digit_def f_def of_char_of)
  from eq n m have "f n = f m" by (metis *)
  then show "n = m" by (auto simp: f_def split: if_splits)
qed

lemma hex_byte_inj: "hex_byte c = hex_byte d \<Longrightarrow> c = d"
proof -
  assume eq: "hex_byte c = hex_byte d"
  let ?n = "of_char c :: nat" and ?m = "of_char d :: nat"
  have b: "?n < 256" "?m < 256" by simp_all
  have "?n div 16 < 16" "?m div 16 < 16" using b by linarith+
  then have "?n div 16 = ?m div 16"
    using eq by (intro hex_digit_inj) (simp_all add: hex_byte_def)
  moreover have "?n mod 16 = ?m mod 16"
    using eq by (intro hex_digit_inj) (simp_all add: hex_byte_def)
  ultimately have "?n = ?m" by (metis div_mult_mod_eq)
  then show "c = d" by simp
qed

lemma EncodeToString_inj: "EncodeToString s = EncodeToString t \<Longrightarrow> s = t"
proof (induction s arbitrary: t)
  case Nil
  then show ?case by (cases t) (auto simp: EncodeToString_def hex_byte_def)
next
  case (Cons c s)
  then obtain d u where t: "t = d # u"
    by (cases t) (auto simp: EncodeToString_def hex_byte_def)
  have "hex_byte c @ EncodeToString s = hex_byte d @ EncodeToString u"
    using Cons.prems t by (simp add: EncodeToString_def)
  then have "hex_byte c = hex_byte d \<and> EncodeToString s = EncodeToString u"
    by (simp add: hex_byte_def)
  with Cons.IH t hex_byte_inj show ?case by blast
qed

lemma length_EncodeToString: "length (EncodeToString s) = 2 * length s"
  by (induction s) (auto simp: EncodeToString_def hex_byte_def)

section \<open>Package time\<close>

text \<open>
  An instant is a number of nanoseconds since Go's zero time, so \<open>IsZero\<close> is equality
  with 0. A duration is a 64-bit number of nanoseconds; \<open>Sub\<close> saturates at its limits.
\<close>

type_synonym time = int
type_synonym duration = int

definition second :: duration where "second = 1000000000"
definition minute :: duration where "minute = 60 * second"
definition hour :: duration where "hour = 60 * minute"

definition minDuration :: duration where "minDuration = - (2 ^ 63)"
definition maxDuration :: duration where "maxDuration = 2 ^ 63 - 1"

definition time_Sub :: "time \<Rightarrow> time \<Rightarrow> duration" where
  "time_Sub t u = max minDuration (min maxDuration (t - u))"

definition time_Add :: "time \<Rightarrow> duration \<Rightarrow> time" where
  "time_Add t d = t + d"

definition IsZero :: "time \<Rightarrow> bool" where
  "IsZero t \<longleftrightarrow> t = 0"

definition After :: "time \<Rightarrow> time \<Rightarrow> bool" where
  "After t u \<longleftrightarrow> t > u"

text \<open>Saturation never hides that a limit below the largest duration was passed.\<close>

lemma time_Sub_greater_iff:
  "minDuration \<le> d \<Longrightarrow> d < maxDuration \<Longrightarrow> time_Sub t u > d \<longleftrightarrow> t - u > d"
  by (auto simp: time_Sub_def)

lemma time_Sub_range: "minDuration \<le> time_Sub t u \<and> time_Sub t u \<le> maxDuration"
  by (auto simp: time_Sub_def minDuration_def maxDuration_def)

end
