(* ===== verification/Key.thy ===== *)
theory Key
  imports Go_Std
begin

text \<open>
  Package \<open>internal/pkg/key\<close> (key.go): the constants, the roles, the names of the
  objects the operator manages, the comparison of chart and Teleport versions and the
  values documents written for teleport-kube-agent and tbot.

  The package \<open>Masterminds/semver\<close> is a parameter, a record of the three functions the
  code calls; \<open>semver_lib\<close> states what the code relies on.
\<close>

section \<open>Constants\<close>

definition AppOperatorVersion :: string where "AppOperatorVersion = ''0.0.0''"
definition TeleportOperatorFinalizer :: string where
  "TeleportOperatorFinalizer = ''teleport.finalizer.giantswarm.io''"
definition TeleportKubeAppDefaultNamespace :: string where
  "TeleportKubeAppDefaultNamespace = ''giantswarm''"
definition TeleportKubeAppNamespace :: string where "TeleportKubeAppNamespace = ''kube-system''"
definition TeleportOperatorLabelValue :: string where
  "TeleportOperatorLabelValue = ''teleport-operator''"
definition TeleportOperatorConfigName :: string where
  "TeleportOperatorConfigName = ''teleport-operator''"
definition TeleportBotSecretName :: string where "TeleportBotSecretName = ''identity-output''"
definition TeleportBotNamespace :: string where "TeleportBotNamespace = ''giantswarm''"
definition TeleportBotAppName :: string where "TeleportBotAppName = ''teleport-tbot''"
definition TeleportAppTokenValidity :: duration where "TeleportAppTokenValidity = 720 * hour"
definition TeleportKubeTokenValidity :: duration where "TeleportKubeTokenValidity = 720 * hour"
definition TeleportNodeTokenValidity :: duration where "TeleportNodeTokenValidity = 720 * hour"

definition AppCatalog :: string where "AppCatalog = ''appCatalog''"
definition AppName :: string where "AppName = ''appName''"
definition AppVersion :: string where "AppVersion = ''appVersion''"
definition IdentityFile :: string where "IdentityFile = ''identityFile''"
definition Identity :: string where "Identity = ''identity''"
definition ManagementClusterName :: string where "ManagementClusterName = ''managementClusterName''"
definition ProxyAddr :: string where "ProxyAddr = ''proxyAddr''"
definition TeleportVersion :: string where "TeleportVersion = ''teleportVersion''"
definition RoleKube :: string where "RoleKube = ''kube''"
definition RoleApp :: string where "RoleApp = ''app''"
definition RoleNode :: string where "RoleNode = ''node''"

definition TeleportKubeAgentValuesKey :: string where
  "TeleportKubeAgentValuesKey = ''teleport-kube-agent''"
definition teleportKubeAgentNestedSinceVersion :: string where
  "teleportKubeAgentNestedSinceVersion = ''0.11.0''"
definition teleportKubeAgentBundledTeleportVersion :: string where
  "teleportKubeAgentBundledTeleportVersion = ''18.7.6''"

lemmas role_defs = RoleKube_def RoleApp_def RoleNode_def

section \<open>Roles\<close>

definition known_roles :: "string list" where
  "known_roles = [RoleKube, RoleApp, RoleNode]"

fun parse_parts :: "string list \<Rightarrow> string list \<Rightarrow> error + string list" where
  "parse_parts [] roles = Inr roles"
| "parse_parts (part # parts) roles =
     (let part = TrimSpace part in
      if part = RoleKube \<or> part = RoleApp \<or> part = RoleNode then parse_parts parts (roles @ [part])
      else Inl (Errorf (''invalid role: '' @ part)))"

definition ParseRoles :: "string \<Rightarrow> error + string list" where
  "ParseRoles s = parse_parts (Split s (CHR '','')) []"

definition RolesToString :: "string list \<Rightarrow> string" where
  "RolesToString roles = Join roles '',''"

text \<open>
  The system roles of package \<open>teleport/api/types\<close>: a role is a string there too; the
  three values the code names are parameters, and so is the method \<open>String\<close>.
\<close>

type_synonym SystemRole = string

record role_lib =
  types_RoleKube :: SystemRole
  types_RoleApp :: SystemRole
  types_RoleNode :: SystemRole
  role_String :: "SystemRole \<Rightarrow> string"

fun RolesToSystemRoles :: "role_lib \<Rightarrow> string list \<Rightarrow> SystemRole list" where
  "RolesToSystemRoles rl [] = []"
| "RolesToSystemRoles rl (role # roles) =
     (if role = RoleKube then types_RoleKube rl # RolesToSystemRoles rl roles
      else if role = RoleApp then types_RoleApp rl # RolesToSystemRoles rl roles
      else if role = RoleNode then types_RoleNode rl # RolesToSystemRoles rl roles
      else RolesToSystemRoles rl roles)"

section \<open>Names\<close>

definition GetConfigmapName :: "string \<Rightarrow> string \<Rightarrow> string" where
  "GetConfigmapName clusterName appName = clusterName @ ''-'' @ appName @ ''-config''"

definition GetTbotConfigmapName :: "string \<Rightarrow> string" where
  "GetTbotConfigmapName clusterName = ''teleport-tbot-'' @ clusterName @ ''-config''"

definition GetSecretName :: "string \<Rightarrow> string" where
  "GetSecretName clusterName = clusterName @ ''-teleport-join-token''"

definition GetKubeconfigSecretName :: "string \<Rightarrow> string" where
  "GetKubeconfigSecretName clusterName = ''teleport-'' @ clusterName @ ''-kubeconfig''"

definition GetRegisterName :: "string \<Rightarrow> string \<Rightarrow> string" where
  "GetRegisterName managementClusterName clusterName = managementClusterName @ ''-'' @ clusterName"

definition GetAppSpecKubeConfigSecretName :: "string \<Rightarrow> string" where
  "GetAppSpecKubeConfigSecretName clusterName = clusterName @ ''-kubeconfig''"

definition GetAppName :: "string \<Rightarrow> string \<Rightarrow> string" where
  "GetAppName clusterName appName = clusterName @ ''-'' @ appName"

section \<open>Versions\<close>

record Version =
  Major :: nat
  Minor :: nat
  PatchNo :: nat
  Prerelease :: string
  VersionMetadata :: string

record semver =
  NewVersion :: "string \<Rightarrow> string + Version"
  MustParse :: "string \<Rightarrow> Version"
  Compare :: "Version \<Rightarrow> Version \<Rightarrow> int"

definition UsesNestedKubeAgentValues :: "semver \<Rightarrow> string \<Rightarrow> bool" where
  "UsesNestedKubeAgentValues sv appVersion =
     (case NewVersion sv (TrimPrefix appVersion ''v'') of
        Inl err \<Rightarrow> False
      | Inr v \<Rightarrow>
          (let threshold = MustParse sv teleportKubeAgentNestedSinceVersion
           in Compare sv v threshold \<ge> 0))"

definition ResolveNestedTeleportVersionOverride :: "semver \<Rightarrow> string \<Rightarrow> string" where
  "ResolveNestedTeleportVersionOverride sv teleportVersion =
     (if teleportVersion = '''' then ''''
      else case NewVersion sv (TrimPrefix teleportVersion ''v'') of
        Inl err \<Rightarrow> ''''
      | Inr v \<Rightarrow>
          (let bundled = MustParse sv teleportKubeAgentBundledTeleportVersion
           in if Compare sv v bundled < 0 then '''' else teleportVersion))"

section \<open>Values documents\<close>

definition renderFlatValuesBlock :: "string \<Rightarrow> string \<Rightarrow> string \<Rightarrow> string \<Rightarrow> string list \<Rightarrow> string" where
  "renderFlatValuesBlock authToken proxyAddr kubeClusterName teleportVersion roles =
     (let body =
        ''roles: '' @ dquote @ RolesToString roles @ dquote @ newline @
        ''authToken: '' @ dquote @ authToken @ dquote @ newline @
        ''proxyAddr: '' @ dquote @ proxyAddr @ dquote @ newline @
        ''kubeClusterName: '' @ dquote @ kubeClusterName @ dquote @ newline
      in if teleportVersion \<noteq> ''''
         then body @ ''teleportVersionOverride: '' @ Quote teleportVersion @ newline
         else body)"

definition renderNestedValuesBlock :: "string \<Rightarrow> string \<Rightarrow> string \<Rightarrow> string \<Rightarrow> string list \<Rightarrow> string" where
  "renderNestedValuesBlock authToken proxyAddr kubeClusterName teleportVersion roles =
     (let body =
        TeleportKubeAgentValuesKey @ '':'' @ newline @
        ''  roles: '' @ dquote @ RolesToString roles @ dquote @ newline @
        ''  authToken: '' @ dquote @ authToken @ dquote @ newline @
        ''  proxyAddr: '' @ dquote @ proxyAddr @ dquote @ newline @
        ''  kubeClusterName: '' @ dquote @ kubeClusterName @ dquote @ newline
      in if teleportVersion \<noteq> ''''
         then body @ ''  teleportVersionOverride: '' @ Quote teleportVersion @ newline
         else body)"

definition GetConfigmapDataFromTemplate ::
    "semver \<Rightarrow> string \<Rightarrow> string \<Rightarrow> string \<Rightarrow> string \<Rightarrow> string list \<Rightarrow> string \<Rightarrow> string" where
  "GetConfigmapDataFromTemplate sv authToken proxyAddr kubeClusterName teleportVersion roles tkaVersion =
     (let flat = renderFlatValuesBlock authToken proxyAddr kubeClusterName teleportVersion roles;
          nestedOverride = ResolveNestedTeleportVersionOverride sv teleportVersion;
          nested = renderNestedValuesBlock authToken proxyAddr kubeClusterName nestedOverride roles
      in if UsesNestedKubeAgentValues sv tkaVersion then nested else flat @ nested)"

definition GetTbotConfigmapDataFromTemplate :: "string \<Rightarrow> string \<Rightarrow> string" where
  "GetTbotConfigmapDataFromTemplate kubeClusterName clusterName =
     ''outputs:'' @ newline @ ''  '' @ kubeClusterName @ '': '' @ dquote @ clusterName @ dquote @ newline"

section \<open>Facts about roles and names\<close>

lemma known_role_ascii: "r \<in> set known_roles \<Longrightarrow> (\<forall>c \<in> set r. ascii_graph c) \<and> CHR '','' \<notin> set r"
  by (auto simp: known_roles_def role_defs ascii_graph_def)

lemma known_role_TrimSpace: "r \<in> set known_roles \<Longrightarrow> TrimSpace r = r"
  using known_role_ascii TrimSpace_ascii_graph by blast

lemma known_roles_iff: "r \<in> set known_roles \<longleftrightarrow> r = RoleKube \<or> r = RoleApp \<or> r = RoleNode"
  by (auto simp: known_roles_def)

lemma roles_distinct [simp]:
  "RoleKube \<noteq> RoleApp" "RoleKube \<noteq> RoleNode" "RoleApp \<noteq> RoleKube" "RoleApp \<noteq> RoleNode"
  "RoleNode \<noteq> RoleKube" "RoleNode \<noteq> RoleApp"
  by (simp_all add: role_defs)

lemma parse_parts_iff:
  "parse_parts parts acc = Inr roles \<longleftrightarrow>
     (\<forall>p \<in> set parts. TrimSpace p \<in> set known_roles) \<and> roles = acc @ map TrimSpace parts"
  by (induction parts acc rule: parse_parts.induct) (auto simp: Let_def known_roles_iff)

lemma parse_parts_error:
  "(\<exists>e. parse_parts parts acc = Inl e) \<longleftrightarrow> (\<exists>p \<in> set parts. TrimSpace p \<notin> set known_roles)"
  by (induction parts acc rule: parse_parts.induct) (auto simp: Let_def known_roles_iff)

lemma ParseRoles_iff:
  "ParseRoles s = Inr roles \<longleftrightarrow>
     (\<forall>p \<in> set (Split s (CHR '','')). TrimSpace p \<in> set known_roles) \<and>
     roles = map TrimSpace (Split s (CHR '',''))"
  by (simp add: ParseRoles_def parse_parts_iff)

lemma ParseRoles_Join:
  assumes "roles \<noteq> []" "set roles \<subseteq> set known_roles"
  shows "ParseRoles (RolesToString roles) = Inr roles"
proof -
  have "Split (RolesToString roles) (CHR '','') = roles"
    unfolding RolesToString_def using assms known_role_ascii by (intro Split_Join) auto
  moreover have "map TrimSpace roles = roles"
    using assms(2) known_role_TrimSpace by (intro map_idI) auto
  ultimately show ?thesis
    using assms(2) known_role_TrimSpace by (auto simp: ParseRoles_iff)
qed

lemma ParseRoles_role: "r \<in> set known_roles \<Longrightarrow> ParseRoles r = Inr [r]"
  using ParseRoles_Join [of "[r]"] by (simp add: RolesToString_def)

lemma GetSecretName_inj: "GetSecretName c = GetSecretName d \<longleftrightarrow> c = d"
  by (simp add: GetSecretName_def)

lemma GetConfigmapName_inj: "GetConfigmapName c a = GetConfigmapName d a \<longleftrightarrow> c = d"
  by (simp add: GetConfigmapName_def)

lemma GetTbotConfigmapName_inj: "GetTbotConfigmapName c = GetTbotConfigmapName d \<longleftrightarrow> c = d"
  by (simp add: GetTbotConfigmapName_def)

lemma GetKubeconfigSecretName_inj: "GetKubeconfigSecretName c = GetKubeconfigSecretName d \<longleftrightarrow> c = d"
  by (simp add: GetKubeconfigSecretName_def)

lemma GetAppName_inj: "GetAppName c a = GetAppName d a \<longleftrightarrow> c = d"
  by (simp add: GetAppName_def)

lemma GetRegisterName_inj: "GetRegisterName m c = GetRegisterName m d \<longleftrightarrow> c = d"
  by (simp add: GetRegisterName_def)

lemma GetRegisterName_neq: "GetRegisterName m c \<noteq> m"
  by (simp add: GetRegisterName_def)

lemmas name_inj = GetSecretName_inj GetConfigmapName_inj GetTbotConfigmapName_inj
  GetKubeconfigSecretName_inj GetAppName_inj GetRegisterName_inj

section \<open>What the code relies on in the semver package\<close>

text \<open>
  Decimal numerals and the plain release \<open>X.Y.Z\<close>. The package documents that
  \<open>NewVersion\<close> parses such a release (of 64-bit numbers), that \<open>MustParse\<close> returns what \<open>NewVersion\<close> does
  where that succeeds, and that \<open>Compare\<close> orders versions by major, minor and patch
  number, and a pre-release below its release.
\<close>

fun show_nat :: "nat \<Rightarrow> string" where
  "show_nat n = (if n < 10 then [char_of (48 + n)] else show_nat (n div 10) @ [char_of (48 + n mod 10)])"

declare show_nat.simps [simp del]

definition dotted :: "nat \<Rightarrow> nat \<Rightarrow> nat \<Rightarrow> string" where
  "dotted a b c = show_nat a @ ''.'' @ show_nat b @ ''.'' @ show_nat c"

definition release :: "nat \<Rightarrow> nat \<Rightarrow> nat \<Rightarrow> Version" where
  "release a b c = \<lparr>Major = a, Minor = b, PatchNo = c, Prerelease = '''', VersionMetadata = ''''\<rparr>"

definition core_less :: "Version \<Rightarrow> Version \<Rightarrow> bool" where
  "core_less v w \<longleftrightarrow>
     Major v < Major w \<or>
     Major v = Major w \<and> (Minor v < Minor w \<or> Minor v = Minor w \<and> PatchNo v < PatchNo w)"

definition core_eq :: "Version \<Rightarrow> Version \<Rightarrow> bool" where
  "core_eq v w \<longleftrightarrow> Major v = Major w \<and> Minor v = Minor w \<and> PatchNo v = PatchNo w"

text \<open>The order on versions as the sources use it: against a plain release.\<close>

definition at_least :: "Version \<Rightarrow> Version \<Rightarrow> bool" where
  "at_least v w \<longleftrightarrow> core_less w v \<or> core_eq v w \<and> Prerelease v = ''''"

locale semver_lib =
  fixes sv :: semver
  assumes NewVersion_dotted: "a < 2 ^ 64 \<Longrightarrow> b < 2 ^ 64 \<Longrightarrow> c < 2 ^ 64 \<Longrightarrow>
      NewVersion sv (dotted a b c) = Inr (release a b c)"
    and MustParse_NewVersion: "NewVersion sv s = Inr v \<Longrightarrow> MustParse sv s = v"
    and Compare_less: "core_less v w \<Longrightarrow> Compare sv v w < 0"
    and Compare_greater: "core_less w v \<Longrightarrow> Compare sv v w > 0"
    and Compare_release: "core_eq v w \<Longrightarrow> Prerelease v = '''' \<Longrightarrow> Prerelease w = '''' \<Longrightarrow> Compare sv v w = 0"
    and Compare_prerelease:
      "core_eq v w \<Longrightarrow> Prerelease v \<noteq> '''' \<Longrightarrow> Prerelease w = '''' \<Longrightarrow> Compare sv v w < 0"
begin

lemma threshold: "MustParse sv teleportKubeAgentNestedSinceVersion = release 0 11 0"
proof -
  have "teleportKubeAgentNestedSinceVersion = dotted 0 11 0"
    by code_simp
  moreover have "NewVersion sv (dotted 0 11 0) = Inr (release 0 11 0)"
    by (rule NewVersion_dotted) simp_all
  ultimately show ?thesis by (simp add: MustParse_NewVersion)
qed

lemma bundled: "MustParse sv teleportKubeAgentBundledTeleportVersion = release 18 7 6"
proof -
  have "teleportKubeAgentBundledTeleportVersion = dotted 18 7 6"
    by code_simp
  moreover have "NewVersion sv (dotted 18 7 6) = Inr (release 18 7 6)"
    by (rule NewVersion_dotted) simp_all
  ultimately show ?thesis by (simp add: MustParse_NewVersion)
qed

lemma Compare_ge_release:
  assumes "Prerelease w = ''''"
  shows "Compare sv v w \<ge> 0 \<longleftrightarrow> at_least v w"
proof -
  consider "core_less v w" | "core_less w v" | "core_eq v w"
    unfolding core_less_def core_eq_def by linarith
  then show ?thesis
  proof cases
    case 1
    then have "\<not> at_least v w" by (auto simp: at_least_def core_less_def core_eq_def)
    with Compare_less [OF 1] show ?thesis by simp
  next
    case 2
    then have "at_least v w" by (simp add: at_least_def)
    with Compare_greater [OF 2] show ?thesis by simp
  next
    case 3
    then have al: "at_least v w \<longleftrightarrow> Prerelease v = ''''"
      by (auto simp: at_least_def core_less_def core_eq_def)
    show ?thesis
    proof (cases "Prerelease v = ''''")
      case True
      with 3 assms al show ?thesis by (simp add: Compare_release)
    next
      case False
      with Compare_prerelease [OF 3 False assms] al show ?thesis by simp
    qed
  qed
qed

lemma uses_nested_iff:
  "UsesNestedKubeAgentValues sv ver \<longleftrightarrow>
     (\<exists>v. NewVersion sv (TrimPrefix ver ''v'') = Inr v \<and> at_least v (release 0 11 0))"
  using Compare_ge_release [of "release 0 11 0"]
  by (auto simp: UsesNestedKubeAgentValues_def threshold release_def split: sum.splits)

lemma resolve_nested_eq:
  "ResolveNestedTeleportVersionOverride sv ver =
     (if ver \<noteq> '''' \<and> (\<exists>v. NewVersion sv (TrimPrefix ver ''v'') = Inr v \<and> at_least v (release 18 7 6))
      then ver else '''')"
  using Compare_ge_release [of "release 18 7 6"]
  by (auto simp: ResolveNestedTeleportVersionOverride_def bundled release_def not_less
      split: sum.splits simp flip: linorder_not_le)

end

section \<open>Properties\<close>

text \<open>
  Whatever roles the operator writes into a token label or a values document, parsing
  them gives the same list back.
\<close>

theorem roles_roundtrip:
  assumes "roles \<noteq> []" "set roles \<subseteq> {''kube'', ''app'', ''node''}"
  shows "ParseRoles (RolesToString roles) = Inr roles"
  by (rule ParseRoles_Join [OF assms(1)]) (use assms(2) in \<open>auto simp: known_roles_def role_defs\<close>)

theorem roles_roundtrip_witness: "ParseRoles (RolesToString [''kube'', ''app'']) = Inr [''kube'', ''app'']"
  by (rule roles_roundtrip) simp_all

text \<open>
  C39. Parsing a list of roles succeeds exactly when every part between commas is, without
  the space around it, one of the three roles, and then gives the parts in order; any other
  part, the empty one included, is an error.
\<close>

theorem parse_roles_iff:
  "(ParseRoles s = Inr roles \<longleftrightarrow>
      roles = map TrimSpace (Split s (CHR '','')) \<and> set roles \<subseteq> {''kube'', ''app'', ''node''}) \<and>
   ((\<exists>e. ParseRoles s = Inl e) \<longleftrightarrow> (\<exists>p \<in> set (Split s (CHR '','')). TrimSpace p \<notin> {''kube'', ''app'', ''node''}))"
proof
  show "ParseRoles s = Inr roles \<longleftrightarrow>
      roles = map TrimSpace (Split s (CHR '','')) \<and> set roles \<subseteq> {''kube'', ''app'', ''node''}"
    unfolding ParseRoles_iff known_roles_def role_defs by (auto simp: image_subset_iff)
  show "(\<exists>e. ParseRoles s = Inl e) \<longleftrightarrow> (\<exists>p \<in> set (Split s (CHR '','')). TrimSpace p \<notin> {''kube'', ''app'', ''node''})"
    unfolding ParseRoles_def parse_parts_error known_roles_def role_defs by simp
qed

lemma join_token_not_kubeconfig: "GetSecretName c \<noteq> GetKubeconfigSecretName d"
proof
  assume "GetSecretName c = GetKubeconfigSecretName d"
  then have "last (GetSecretName c) = last (GetKubeconfigSecretName d)" by simp
  then show False by (simp add: GetSecretName_def GetKubeconfigSecretName_def)
qed

text \<open>
  Clusters with different names get different objects and register names, the two
  Secrets of clusters never share a name, and no register name is the management cluster's.
\<close>

lemma object_names_distinct:
  "inj GetSecretName \<and> inj GetKubeconfigSecretName \<and> inj GetTbotConfigmapName \<and>
   inj (\<lambda>c. GetConfigmapName c app) \<and> inj (\<lambda>c. GetAppName c app) \<and> inj (GetRegisterName mc) \<and>
   range GetSecretName \<inter> range GetKubeconfigSecretName = {} \<and> mc \<notin> range (GetRegisterName mc)"
  using join_token_not_kubeconfig GetRegisterName_neq [of mc]
  by (auto simp: inj_on_def name_inj) (metis GetRegisterName_neq)

end
