(* ===== verification/Kube.thy ===== *)
theory Kube
  imports Go_Std
begin

text \<open>
  The Kubernetes objects the operator reads and writes, reduced to the fields it uses,
  and the client through which it does so. The client (\<open>controller-runtime\<close>) and the
  patch helper (\<open>cluster-api\<close>) are parameters: records of functions on an unknown world.
  \<open>cached_api\<close> states what the code relies on in the client for one kind of object, over an
  observation of the world; \<open>resource_api\<close> adds that reads are current, \<open>reliable_api\<close> that
  no call fails without a reason the observation shows.
\<close>

section \<open>Objects\<close>

text \<open>\<open>types.NamespacedName\<close> and \<open>client.ObjectKey\<close> have the two fields of \<open>ObjectMeta\<close> used here.\<close>

record ObjectMeta =
  Name :: string
  Namespace :: string

type_synonym NamespacedName = ObjectMeta

lemma key_eta [simp]: "\<lparr>Name = Name k, Namespace = Namespace k\<rparr> = k"
  by (cases k) simp

record Secret =
  secret_meta :: ObjectMeta
  Data :: "string \<rightharpoonup> string"
  StringData :: "string \<rightharpoonup> string"

record ConfigMap =
  cm_meta :: ObjectMeta
  cm_Data :: "string \<rightharpoonup> string"
  BinaryData :: "string \<rightharpoonup> string"

text \<open>A nil deletion timestamp is \<open>None\<close>; \<open>metav1.Time.IsZero\<close> holds for it too.\<close>

record Cluster =
  cluster_meta :: ObjectMeta
  Finalizers :: "string list"
  DeletionTimestamp :: "time option"

definition deletion_IsZero :: "time option \<Rightarrow> bool" where
  "deletion_IsZero d = (case d of None \<Rightarrow> True | Some t \<Rightarrow> IsZero t)"

text \<open>A slice that may be nil is an \<open>option\<close>: Go distinguishes a nil slice from an empty one.\<close>

record AppExtraConfig =
  Kind :: string
  ec_Name :: string
  ec_Namespace :: string
  Priority :: int

record App =
  app_meta :: ObjectMeta
  Spec_Version :: string
  ExtraConfigs :: "AppExtraConfig list option"

text \<open>
  A value of type \<open>interface{}\<close> as decoding JSON or YAML produces it. Maps are finite
  maps, so that equality is \<open>reflect.DeepEqual\<close>. \<open>Scalar\<close> stands for the scalars the
  code never looks at (floats, timestamps).
\<close>

datatype iface =
    Null
  | Bool bool
  | Int int
  | Scalar string
  | Str string
  | Slice "iface list"
  | Map "(string, iface) fmap"

text \<open>
  An object of a kind the client has no type for carries the name of its kind; an empty
  one says what is to be read.
\<close>

record GroupVersionKind =
  Group :: string
  gvk_Version :: string
  gvk_Kind :: string

record Unstructured =
  hr_meta :: ObjectMeta
  gvk :: GroupVersionKind
  Object :: "(string, iface) fmap"

type_synonym HelmRelease = Unstructured

fun as_map :: "iface option \<Rightarrow> (string, iface) fmap option" where
  "as_map (Some (Map m)) = Some m"
| "as_map _ = None"

fun as_slice :: "iface option \<Rightarrow> iface list option" where
  "as_slice (Some (Slice xs)) = Some xs"
| "as_slice _ = None"

fun as_string :: "iface option \<Rightarrow> string option" where
  "as_string (Some (Str s)) = Some s"
| "as_string _ = None"

lemma as_map_Some [simp]: "as_map x = Some m \<longleftrightarrow> x = Some (Map m)"
  by (cases x rule: as_map.cases) auto

lemma as_slice_Some [simp]: "as_slice x = Some xs \<longleftrightarrow> x = Some (Slice xs)"
  by (cases x rule: as_slice.cases) auto

lemma as_string_Some [simp]: "as_string x = Some s \<longleftrightarrow> x = Some (Str s)"
  by (cases x rule: as_string.cases) auto

section \<open>The client\<close>

record ('o, 'w) kind_client =
  Get :: "NamespacedName \<Rightarrow> ('w, 'o) action"
  Create :: "'o \<Rightarrow> ('w, unit) action"
  Update :: "'o \<Rightarrow> ('w, unit) action"
  Delete :: "'o \<Rightarrow> ('w, unit) action"

record 'w ctrl_client =
  Clusters :: "(Cluster, 'w) kind_client"
  Secrets :: "(Secret, 'w) kind_client"
  ConfigMaps :: "(ConfigMap, 'w) kind_client"
  Unstructureds :: "GroupVersionKind \<Rightarrow> (Unstructured, 'w) kind_client"
  Apps :: "(App, 'w) kind_client"
  patch_NewHelper :: "Cluster \<Rightarrow> ('w, unit) action"
  patch_Patch :: "Cluster \<Rightarrow> Cluster \<Rightarrow> ('w, unit) action"

text \<open>The finalizer functions of \<open>controllerutil\<close>.\<close>

record finalizer_lib =
  ContainsFinalizer :: "Cluster \<Rightarrow> string \<Rightarrow> bool"
  AddFinalizer_obj :: "Cluster \<Rightarrow> string \<Rightarrow> Cluster"
  RemoveFinalizer_obj :: "Cluster \<Rightarrow> string \<Rightarrow> Cluster"

section \<open>What the code relies on in the client\<close>

text \<open>
  \<open>obs\<close> observes the world: the objects stored by the API server and whatever else a
  client of the locale wants to talk about. \<open>sel\<close> and \<open>upd\<close> read and change, in an
  observation, the objects of the kind at hand; \<open>admit\<close> is what the server stores for
  a submitted object; \<open>now\<close> is the clock. A read changes nothing. A write that succeeds
  has its effect and no other; a write that fails either had no effect or had it and
  lost the answer, and had none when the answer is "not found" or "conflict".
  In \<open>cached_api\<close> an object that is read has the key it was asked for and is otherwise
  anything: a cache may lag behind the server, at any distance.
\<close>

definition effect_or_none :: "('s \<Rightarrow> 's) \<Rightarrow> 's \<Rightarrow> 's \<Rightarrow> error \<Rightarrow> bool" where
  "effect_or_none f s s' e \<longleftrightarrow> s' = s \<or> s' = f s \<and> \<not> IsNotFound e \<and> \<not> IsConflict e"

lemma effect_or_none_same [simp]: "effect_or_none f s s e"
  by (simp add: effect_or_none_def)

text \<open>
  The contract of a call that changes the observation by \<open>f\<close>: on success it did, on
  failure it did or did nothing.
\<close>

definition step_post :: "('w \<Rightarrow> 's) \<Rightarrow> ('w \<Rightarrow> time) \<Rightarrow> ('s \<Rightarrow> 's) \<Rightarrow> 'w \<Rightarrow> error + 'a \<Rightarrow> 'w \<Rightarrow> bool" where
  "step_post obs now f w r w' \<longleftrightarrow> now w \<le> now w' \<and>
     (case r of Inr _ \<Rightarrow> obs w' = f (obs w) | Inl _ \<Rightarrow> obs w' = obs w \<or> obs w' = f (obs w))"

lemma step_post_at:
  "wp m (step_post obs now f w) w \<Longrightarrow> f (obs w) = g (obs w) \<Longrightarrow> wp m (step_post obs now g w) w"
  by (simp add: step_post_def wp_def split: sum.splits)

lemma step_post_later:
  "wp m (step_post obs now f w1) w1 \<Longrightarrow> obs w1 = obs w \<Longrightarrow> now w \<le> now w1 \<Longrightarrow> wp m (step_post obs now f w) w1"
  by (erule wp_mono) (auto simp: step_post_def split: sum.splits)

lemma step_post_return: "f (obs w) = obs w \<Longrightarrow> wp (returnE x) (step_post obs now f w) w"
  by (simp add: step_post_def wp_returnE)

lemma step_post_throw: "wp (throwE e) (step_post obs now f w) w"
  by (simp add: step_post_def wp_throwE)

locale cached_api =
  fixes C :: "('o, 'w) kind_client"
    and key_of :: "'o \<Rightarrow> NamespacedName"
    and admit :: "'o \<Rightarrow> 'o"
    and obs :: "'w \<Rightarrow> 's"
    and sel :: "'s \<Rightarrow> NamespacedName \<rightharpoonup> 'o"
    and upd :: "((NamespacedName \<rightharpoonup> 'o) \<Rightarrow> (NamespacedName \<rightharpoonup> 'o)) \<Rightarrow> 's \<Rightarrow> 's"
    and now :: "'w \<Rightarrow> time"
  assumes sel_upd: "sel (upd f s) = f (sel s)"
    and upd_same: "f (sel s) = sel s \<Longrightarrow> upd f s = s"
    and Get_now: "Get C k w = (g, w') \<Longrightarrow> now w \<le> now w'"
    and Get_obs: "Get C k w = (g, w') \<Longrightarrow> obs w' = obs w"
    and Get_key: "Get C k w = (Inr x, w') \<Longrightarrow> key_of x = k"
    and Create_now: "Create C x w = (r, w') \<Longrightarrow> now w \<le> now w'"
    and Create_done: "Create C x w = (Inr u, w') \<Longrightarrow>
      sel (obs w) (key_of x) = None \<and> obs w' = upd (set_key (key_of x) (Some (admit x))) (obs w)"
    and Create_failed: "Create C x w = (Inl e, w') \<Longrightarrow>
      effect_or_none (upd (set_key (key_of x) (Some (admit x)))) (obs w) (obs w') e"
    and Update_now: "Update C x w = (r, w') \<Longrightarrow> now w \<le> now w'"
    and Update_done: "Update C x w = (Inr u, w') \<Longrightarrow>
      sel (obs w) (key_of x) \<noteq> None \<and> obs w' = upd (set_key (key_of x) (Some (admit x))) (obs w)"
    and Update_failed: "Update C x w = (Inl e, w') \<Longrightarrow>
      effect_or_none (upd (set_key (key_of x) (Some (admit x)))) (obs w) (obs w') e"
    and Delete_now: "Delete C x w = (r, w') \<Longrightarrow> now w \<le> now w'"
    and Delete_done: "Delete C x w = (Inr u, w') \<Longrightarrow> obs w' = upd (set_key (key_of x) None) (obs w)"
    and Delete_failed: "Delete C x w = (Inl e, w') \<Longrightarrow>
      effect_or_none (upd (set_key (key_of x) None)) (obs w) (obs w') e"
    and Delete_missing: "Delete C x w = (Inl e, w') \<Longrightarrow> IsNotFound e \<Longrightarrow> sel (obs w) (key_of x) = None"
begin

text \<open>The same laws as weakest preconditions, one rule per call.\<close>

lemma wp_Get_any:
  assumes "\<And>x w'. obs w' = obs w \<Longrightarrow> now w \<le> now w' \<Longrightarrow> key_of x = k \<Longrightarrow> Q (Inr x) w'"
    and "\<And>e w'. obs w' = obs w \<Longrightarrow> now w \<le> now w' \<Longrightarrow> Q (Inl e) w'"
  shows "wp (Get C k) Q w"
  by (rule wp_casesI) (auto intro: assms dest: Get_now Get_obs Get_key)

lemma wp_Create:
  assumes "\<And>w'. obs w' = upd (set_key (key_of x) (Some (admit x))) (obs w) \<Longrightarrow> now w \<le> now w' \<Longrightarrow>
      sel (obs w) (key_of x) = None \<Longrightarrow> Q (Inr ()) w'"
    and "\<And>e w'. effect_or_none (upd (set_key (key_of x) (Some (admit x)))) (obs w) (obs w') e \<Longrightarrow> now w \<le> now w' \<Longrightarrow>
      Q (Inl e) w'"
  shows "wp (Create C x) Q w"
proof (rule wp_casesI)
  fix u w'
  assume r: "Create C x w = (Inr u, w')"
  show "Q (Inr u) w'" using assms(1) Create_done [OF r] Create_now [OF r] by simp
next
  fix e w'
  assume r: "Create C x w = (Inl e, w')"
  show "Q (Inl e) w'" by (rule assms(2) [OF Create_failed [OF r] Create_now [OF r]])
qed

lemma wp_Update:
  assumes "\<And>w'. obs w' = upd (set_key (key_of x) (Some (admit x))) (obs w) \<Longrightarrow> now w \<le> now w' \<Longrightarrow>
      sel (obs w) (key_of x) \<noteq> None \<Longrightarrow> Q (Inr ()) w'"
    and "\<And>e w'. effect_or_none (upd (set_key (key_of x) (Some (admit x)))) (obs w) (obs w') e \<Longrightarrow> now w \<le> now w' \<Longrightarrow>
      Q (Inl e) w'"
  shows "wp (Update C x) Q w"
proof (rule wp_casesI)
  fix u w'
  assume r: "Update C x w = (Inr u, w')"
  show "Q (Inr u) w'" using assms(1) Update_done [OF r] Update_now [OF r] by simp
next
  fix e w'
  assume r: "Update C x w = (Inl e, w')"
  show "Q (Inl e) w'" by (rule assms(2) [OF Update_failed [OF r] Update_now [OF r]])
qed

lemma wp_Delete:
  assumes "\<And>w'. obs w' = upd (set_key (key_of x) None) (obs w) \<Longrightarrow> now w \<le> now w' \<Longrightarrow> Q (Inr ()) w'"
    and "\<And>e w'. effect_or_none (upd (set_key (key_of x) None)) (obs w) (obs w') e \<Longrightarrow> now w \<le> now w' \<Longrightarrow>
      (IsNotFound e \<Longrightarrow> sel (obs w) (key_of x) = None \<and> obs w' = obs w) \<Longrightarrow> Q (Inl e) w'"
  shows "wp (Delete C x) Q w"
proof (rule wp_casesI)
  fix u w'
  assume r: "Delete C x w = (Inr u, w')"
  show "Q (Inr u) w'" using assms(1) Delete_done [OF r] Delete_now [OF r] by simp
next
  fix e w'
  assume r: "Delete C x w = (Inl e, w')"
  show "Q (Inl e) w'" 
    using assms(2) [OF Delete_failed [OF r] Delete_now [OF r]] Delete_failed [OF r] Delete_missing [OF r]
    by (auto simp: effect_or_none_def)
qed

end

text \<open>A read is of the state at hand. Where it is not, a client reads from a cache.\<close>

locale resource_api = cached_api C key_of admit obs sel upd now
  for C :: "('o, 'w) kind_client" and key_of admit and obs :: "'w \<Rightarrow> 's" and sel upd now +
  assumes Get_stored: "Get C k w = (Inr x, w') \<Longrightarrow> sel (obs w) k = Some x"
    and Get_missing: "Get C k w = (Inl e, w') \<Longrightarrow> IsNotFound e \<Longrightarrow> sel (obs w) k = None"
begin

lemma Get_found: "Get C k w = (Inr x, w') \<Longrightarrow> sel (obs w) k = Some x \<and> key_of x = k"
  using Get_stored Get_key by blast

lemma wp_Get:
  assumes "\<And>x w'. obs w' = obs w \<Longrightarrow> now w \<le> now w' \<Longrightarrow> sel (obs w) k = Some x \<Longrightarrow> key_of x = k \<Longrightarrow>
      Q (Inr x) w'"
    and "\<And>e w'. obs w' = obs w \<Longrightarrow> now w \<le> now w' \<Longrightarrow> (IsNotFound e \<Longrightarrow> sel (obs w) k = None) \<Longrightarrow>
      Q (Inl e) w'"
  shows "wp (Get C k) Q w"
proof (rule wp_casesI)
  fix y w'
  assume r: "Get C k w = (Inr y, w')"
  show "Q (Inr y) w'" using assms(1) [OF Get_obs [OF r] Get_now [OF r]] Get_found [OF r] by simp
next
  fix e w'
  assume r: "Get C k w = (Inl e, w')"
  show "Q (Inl e) w'" by (rule assms(2) [OF Get_obs [OF r] Get_now [OF r] Get_missing [OF r]])
qed

end

text \<open>
  A server that answers: a call fails only with "not found", and only where the
  observation has no such object; creating an object that is there already is the one
  other failure.
\<close>

locale reliable_api = resource_api C key_of admit obs sel upd now
  for C :: "('o, 'w) kind_client" and key_of admit and obs :: "'w \<Rightarrow> 's" and sel upd now +
  assumes Get_answers: "Get C k w = (Inl e, w') \<Longrightarrow> IsNotFound e"
    and Create_answers: "sel (obs w) (key_of x) = None \<Longrightarrow> Create C x w \<noteq> (Inl e, w')"
    and Update_answers: "sel (obs w) (key_of x) \<noteq> None \<Longrightarrow> Update C x w \<noteq> (Inl e, w')"
    and Delete_answers: "Delete C x w = (Inl e, w') \<Longrightarrow> IsNotFound e"
begin

lemma wp_Get_reliable:
  assumes "\<And>x w'. obs w' = obs w \<Longrightarrow> now w \<le> now w' \<Longrightarrow> sel (obs w) k = Some x \<Longrightarrow> key_of x = k \<Longrightarrow>
      Q (Inr x) w'"
    and "\<And>e w'. obs w' = obs w \<Longrightarrow> now w \<le> now w' \<Longrightarrow> IsNotFound e \<Longrightarrow> sel (obs w) k = None \<Longrightarrow>
      Q (Inl e) w'"
  shows "wp (Get C k) Q w"
proof (rule wp_casesI)
  fix y w'
  assume r: "Get C k w = (Inr y, w')"
  show "Q (Inr y) w'" using assms(1) [OF Get_obs [OF r] Get_now [OF r]] Get_found [OF r] by simp
next
  fix e w'
  assume r: "Get C k w = (Inl e, w')"
  show "Q (Inl e) w'" 
    by (rule assms(2) [OF Get_obs [OF r] Get_now [OF r] Get_answers [OF r] Get_missing [OF r Get_answers [OF r]]])
qed

lemma wp_Create_reliable:
  assumes "sel (obs w) (key_of x) = None"
    and "\<And>w'. obs w' = upd (set_key (key_of x) (Some (admit x))) (obs w) \<Longrightarrow> now w \<le> now w' \<Longrightarrow> Q (Inr ()) w'"
  shows "wp (Create C x) Q w"
proof (rule wp_casesI)
  fix u w'
  assume r: "Create C x w = (Inr u, w')"
  show "Q (Inr u) w'" using assms(2) Create_done [OF r] Create_now [OF r] by simp
next
  fix e w'
  assume r: "Create C x w = (Inl e, w')"
  show "Q (Inl e) w'" using Create_answers [OF assms(1)] r by blast
qed

lemma wp_Update_reliable:
  assumes "sel (obs w) (key_of x) \<noteq> None"
    and "\<And>w'. obs w' = upd (set_key (key_of x) (Some (admit x))) (obs w) \<Longrightarrow> now w \<le> now w' \<Longrightarrow> Q (Inr ()) w'"
  shows "wp (Update C x) Q w"
proof (rule wp_casesI)
  fix u w'
  assume r: "Update C x w = (Inr u, w')"
  show "Q (Inr u) w'" using assms(2) Update_done [OF r] Update_now [OF r] by simp
next
  fix e w'
  assume r: "Update C x w = (Inl e, w')"
  show "Q (Inl e) w'" using Update_answers [OF assms(1)] r by blast
qed

lemma wp_Delete_reliable:
  assumes "\<And>w'. obs w' = upd (set_key (key_of x) None) (obs w) \<Longrightarrow> now w \<le> now w' \<Longrightarrow> Q (Inr ()) w'"
    and "\<And>e w'. obs w' = obs w \<Longrightarrow> now w \<le> now w' \<Longrightarrow> IsNotFound e \<Longrightarrow>
      sel (obs w) (key_of x) = None \<Longrightarrow> Q (Inl e) w'"
  shows "wp (Delete C x) Q w"
proof (rule wp_casesI)
  fix u w'
  assume r: "Delete C x w = (Inr u, w')"
  show "Q (Inr u) w'" using assms(1) Delete_done [OF r] Delete_now [OF r] by simp
next
  fix e w'
  assume r: "Delete C x w = (Inl e, w')"
  show "Q (Inl e) w'" 
    using assms(2) [OF _ Delete_now [OF r] Delete_answers [OF r]] Delete_failed [OF r]
      Delete_missing [OF r] Delete_answers [OF r]
    by (simp add: effect_or_none_def)
qed

end

end
