(* ===== verification/Config.thy ===== *)
theory Config
  imports Key Kube
begin

text \<open>
  Package \<open>internal/pkg/config\<close>: the operator's configuration, read from a ConfigMap at
  start-up (config.go), and its Teleport identity, read from a Secret that tbot keeps
  fresh (identity.go). The clock and SHA-512 are arguments.
\<close>

section \<open>config.go\<close>

record Config =
  cfg_ProxyAddr :: string
  cfg_TeleportVersion :: string
  cfg_ManagementClusterName :: string
  cfg_AppName :: string
  cfg_AppVersion :: string
  cfg_AppCatalog :: string

definition getConfigMapString :: "ConfigMap \<Rightarrow> string \<Rightarrow> error + string" where
  "getConfigMapString configMap key =
     (case cm_Data configMap key of
        Some s \<Rightarrow> Inr s
      | None \<Rightarrow>
          (case BinaryData configMap key of
             Some b \<Rightarrow> Inr b
           | None \<Rightarrow> Inl (Errorf (''malformed Config Map: required key '' @ Quote key @ '' not found''))))"

definition liftE :: "error + 'a \<Rightarrow> ('w, 'a) action" where
  "liftE r w = (r, w)"

definition GetConfigFromConfigMap :: "'w ctrl_client \<Rightarrow> string \<Rightarrow> ('w, Config) action" where
  "GetConfigFromConfigMap ctrlClient namespace =
     bindE (Get (ConfigMaps ctrlClient) \<lparr>Name = TeleportOperatorConfigName, Namespace = namespace\<rparr>) (\<lambda>configMap.
     bindE (liftE (getConfigMapString configMap ProxyAddr)) (\<lambda>proxyAddr.
     bindE (liftE (getConfigMapString configMap ManagementClusterName)) (\<lambda>managementClusterName.
     bindE (liftE (getConfigMapString configMap TeleportVersion)) (\<lambda>teleportVersion.
     bindE (liftE (getConfigMapString configMap AppName)) (\<lambda>appName.
     bindE (liftE (getConfigMapString configMap AppVersion)) (\<lambda>appVersion.
     bindE (liftE (getConfigMapString configMap AppCatalog)) (\<lambda>appCatalog.
     returnE \<lparr>cfg_ProxyAddr = proxyAddr, cfg_TeleportVersion = teleportVersion,
       cfg_ManagementClusterName = managementClusterName, cfg_AppName = appName,
       cfg_AppVersion = appVersion, cfg_AppCatalog = appCatalog\<rparr>)))))))"

section \<open>identity.go\<close>

record IdentityConfig =
  id_IdentityFile :: string
  LastRead :: time

definition Age :: "('w \<Rightarrow> time) \<Rightarrow> IdentityConfig \<Rightarrow> 'w \<Rightarrow> duration" where
  "Age Now c w = time_Sub (Now w) (LastRead c)"

definition Hash :: "(string \<Rightarrow> string) \<Rightarrow> IdentityConfig \<Rightarrow> string" where
  "Hash sha512 c = EncodeToString (sha512 (id_IdentityFile c))"

definition getSecretString :: "Secret \<Rightarrow> string \<Rightarrow> error + string" where
  "getSecretString secret key =
     (case Data secret key of
        None \<Rightarrow> Inl (Errorf (''malformed Secret: required key '' @ Quote key @ '' not found''))
      | Some b \<Rightarrow> Inr b)"

definition GetIdentityConfigFromSecret ::
    "('w \<Rightarrow> time) \<Rightarrow> 'w ctrl_client \<Rightarrow> string \<Rightarrow> ('w, IdentityConfig) action" where
  "GetIdentityConfigFromSecret Now ctrlClient namespace =
     bindE (Get (Secrets ctrlClient) \<lparr>Name = TeleportBotSecretName, Namespace = namespace\<rparr>) (\<lambda>secret.
     bindE (liftE (getSecretString secret Identity)) (\<lambda>identityFile w.
       (Inr \<lparr>id_IdentityFile = identityFile, LastRead = Now w\<rparr>, w)))"

section \<open>Facts\<close>

lemma wp_liftE [wp_simps]: "wp (liftE r) Q w \<longleftrightarrow> Q r w"
  by (simp add: wp_def liftE_def)

lemma getConfigMapString_Inr_iff:
  "getConfigMapString cm k = Inr v \<longleftrightarrow>
     cm_Data cm k = Some v \<or> cm_Data cm k = None \<and> BinaryData cm k = Some v"
  by (auto simp: getConfigMapString_def split: option.splits)

lemma getConfigMapString_Inl_iff:
  "(\<exists>e. getConfigMapString cm k = Inl e) \<longleftrightarrow> cm_Data cm k = None \<and> BinaryData cm k = None"
  by (auto simp: getConfigMapString_def split: option.splits)

lemma liftE_Inr [simp]: "bindE (liftE (Inr x)) f = f x"
  by (rule ext) (simp add: bindE_def liftE_def)

lemma liftE_Inl [simp]: "bindE (liftE (Inl e)) f = throwE e"
  by (rule ext) (simp add: bindE_def liftE_def throwE_def)

definition config_keys :: "string list" where
  "config_keys = [ProxyAddr, ManagementClusterName, TeleportVersion, AppName, AppVersion, AppCatalog]"

definition config_of :: "(string \<Rightarrow> string) \<Rightarrow> Config" where
  "config_of f = \<lparr>cfg_ProxyAddr = f ProxyAddr, cfg_TeleportVersion = f TeleportVersion,
     cfg_ManagementClusterName = f ManagementClusterName, cfg_AppName = f AppName,
     cfg_AppVersion = f AppVersion, cfg_AppCatalog = f AppCatalog\<rparr>"

lemma GetConfigFromConfigMap_run:
  assumes "Get (ConfigMaps K) \<lparr>Name = TeleportOperatorConfigName, Namespace = ns\<rparr> w = (Inr cm, w')"
  shows "(\<forall>k \<in> set config_keys. getConfigMapString cm k = Inr (f k)) \<Longrightarrow>
           GetConfigFromConfigMap K ns w = (Inr (config_of f), w')"
    and "k \<in> set config_keys \<Longrightarrow> getConfigMapString cm k = Inl e \<Longrightarrow>
           \<exists>e'. GetConfigFromConfigMap K ns w = (Inl e', w')"
  using assms
  by (auto simp: GetConfigFromConfigMap_def config_of_def config_keys_def bindE_def [of "Get _ _"]
      action_defs liftE_def split: sum.split)

text \<open>
  Two identities have the same hash exactly when SHA-512 does not tell their files
  apart, and the hash has two hexadecimal digits for every byte of the sum.
\<close>

lemma hash_iff:
  "(Hash sha c = Hash sha d \<longleftrightarrow> sha (id_IdentityFile c) = sha (id_IdentityFile d)) \<and>
   length (Hash sha c) = 2 * length (sha (id_IdentityFile c))"
  by (auto simp: Hash_def length_EncodeToString dest: EncodeToString_inj)

end
