(* ===== verification/Teleport.thy ===== *)
theory Teleport
  imports Config
begin

text \<open>
  The Teleport side of the operator: the client interface (\<open>teleport/client.go\<close>), the
  token generator (\<open>token/generator.go\<close>), the struct \<open>Teleport\<close> and the question
  whether a cluster has Teleport apps (\<open>teleport/teleport.go\<close>).

  Parameters (records of functions): the Teleport API types and client
  (\<open>gravitational/teleport/api\<close>), YAML (\<open>gopkg.in/yaml.v3\<close>), semver, UUIDs, SHA-512
  and the clock. \<open>teleport_client\<close> and \<open>token_generator\<close> state what the code relies on.
\<close>

section \<open>Join tokens and the client interface\<close>

text \<open>
  The fields of \<open>types.ProvisionToken\<close> behind the methods the code calls: \<open>GetName\<close>,
  \<open>GetRoles\<close>, \<open>Expiry\<close> (the zero time when there is none) and \<open>GetMetadata().Labels\<close>.
\<close>

record ProvisionToken =
  GetName :: string
  GetRoles :: "SystemRole list"
  Expiry :: time
  Labels :: "string \<rightharpoonup> string"

text \<open>Reading a missing key of a Go map gives the empty string.\<close>

definition label :: "ProvisionToken \<Rightarrow> string \<Rightarrow> string" where
  "label t k = (case Labels t k of None \<Rightarrow> '''' | Some v \<Rightarrow> v)"

record 'w Client =
  Ping :: "('w, unit) action"
  GetToken :: "string \<Rightarrow> ('w, ProvisionToken) action"
  GetTokens :: "('w, ProvisionToken list) action"
  CreateToken :: "ProvisionToken \<Rightarrow> ('w, unit) action"
  UpsertToken :: "ProvisionToken \<Rightarrow> ('w, unit) action"
  DeleteToken :: "string \<Rightarrow> ('w, unit) action"

record 'w Generator =
  Generate :: "'w \<Rightarrow> string \<times> 'w"

section \<open>Libraries\<close>

record 'w libs =
  Now :: "'w \<Rightarrow> time"
  sha512 :: "string \<Rightarrow> string"
  Unmarshal :: "string \<Rightarrow> error + (string, iface) fmap"
  lib_semver :: semver
  lib_roles :: role_lib
  lib_finalizers :: finalizer_lib
  NewProvisionToken :: "string \<Rightarrow> SystemRole list \<Rightarrow> time \<Rightarrow> error + ProvisionToken"
  tc_New :: "string list \<Rightarrow> string \<Rightarrow> nat \<Rightarrow> ('w, 'w Client) action"
  uuid_NewString :: "'w \<Rightarrow> string \<times> 'w"

section \<open>generator.go and client.go\<close>

definition RandomGenerator :: "'w libs \<Rightarrow> 'w Generator" where
  "RandomGenerator L = \<lparr>Generate = uuid_NewString L\<rparr>"

definition NewGenerator :: "'w libs \<Rightarrow> 'w Generator" where
  "NewGenerator L = RandomGenerator L"

definition NewClient :: "'w libs \<Rightarrow> string \<Rightarrow> string \<Rightarrow> ('w, 'w Client) action" where
  "NewClient L proxyAddr identityFile =
     bindE (tc_New L [proxyAddr] identityFile (10 * 1024 * 1024)) (\<lambda>teleportClient.
     bindE (Ping teleportClient) (\<lambda>_.
     returnE teleportClient))"

section \<open>teleport.go\<close>

text \<open>Interfaces and pointers that may be nil are options.\<close>

record 'w Teleport =
  t_Config :: Config
  t_Identity :: "IdentityConfig option"
  TeleportClient :: "'w Client option"
  t_Namespace :: string
  TokenGenerator :: "'w Generator"
  t_Client :: "'w ctrl_client option"

definition New :: "string \<Rightarrow> Config \<Rightarrow> 'w Generator \<Rightarrow> 'w Teleport" where
  "New namespace cfg tokenGenerator =
     \<lparr>t_Config = cfg, t_Identity = None, TeleportClient = None, t_Namespace = namespace,
      TokenGenerator = tokenGenerator, t_Client = None\<rparr>"

definition user_values_name :: "string \<Rightarrow> string" where
  "user_values_name clusterName = clusterName @ ''-teleport-kube-agent-user-values''"

definition AreTeleportAppsEnabled :: "'w libs \<Rightarrow> 'w Teleport \<Rightarrow> string \<Rightarrow> string \<Rightarrow> ('w, bool) action" where
  "AreTeleportAppsEnabled L t clusterName namespace =
     (case t_Client t of
        None \<Rightarrow> throwE (Panic ''nil Client'')
      | Some ctrlClient \<Rightarrow>
          tryE (Get (ConfigMaps ctrlClient) \<lparr>Name = user_values_name clusterName, Namespace = namespace\<rparr>)
            (\<lambda>err. if \<not> IsNotFound err then throwE err else returnE False)
            (\<lambda>configMap.
               case cm_Data configMap ''values'' of
                 None \<Rightarrow> returnE False
               | Some valuesYaml \<Rightarrow>
                   (case Unmarshal L valuesYaml of
                      Inl err \<Rightarrow> throwE err
                    | Inr values \<Rightarrow>
                        (case as_slice (fmlookup values ''apps'') of
                           None \<Rightarrow> returnE False
                         | Some apps \<Rightarrow> returnE (length apps > 0)))))"

section \<open>What the code relies on in Teleport\<close>

text \<open>
  The Teleport server keeps join tokens under their names. As for Kubernetes, a write
  that fails may have had its effect. \<open>sel\<close> and \<open>upd\<close> read and change the tokens of an
  observation.
\<close>

locale teleport_client =
  fixes C :: "'w Client"
    and obs :: "'w \<Rightarrow> 's"
    and sel :: "'s \<Rightarrow> string \<rightharpoonup> ProvisionToken"
    and upd :: "((string \<rightharpoonup> ProvisionToken) \<Rightarrow> (string \<rightharpoonup> ProvisionToken)) \<Rightarrow> 's \<Rightarrow> 's"
    and now :: "'w \<Rightarrow> time"
  assumes sel_upd: "sel (upd f s) = f (sel s)"
    and Ping_now: "Ping C w = (p, w') \<Longrightarrow> now w \<le> now w'"
    and Ping_obs: "Ping C w = (p, w') \<Longrightarrow> obs w' = obs w"
    and GetTokens_now: "GetTokens C w = (g, w') \<Longrightarrow> now w \<le> now w'"
    and GetTokens_obs: "GetTokens C w = (g, w') \<Longrightarrow> obs w' = obs w"
    and GetTokens_names: "GetTokens C w = (Inr ts, w') \<Longrightarrow> distinct (map GetName ts)"
    and GetTokens_all: "GetTokens C w = (Inr ts, w') \<Longrightarrow>
      t \<in> set ts \<longleftrightarrow> sel (obs w) (GetName t) = Some t"
    and UpsertToken_now: "UpsertToken C t w = (r, w') \<Longrightarrow> now w \<le> now w'"
    and UpsertToken_done: "UpsertToken C t w = (Inr u, w') \<Longrightarrow>
      obs w' = upd (set_key (GetName t) (Some t)) (obs w)"
    and UpsertToken_failed: "UpsertToken C t w = (Inl e, w') \<Longrightarrow>
      effect_or_none (upd (set_key (GetName t) (Some t))) (obs w) (obs w') e"
    and DeleteToken_now: "DeleteToken C n w = (r, w') \<Longrightarrow> now w \<le> now w'"
    and DeleteToken_done: "DeleteToken C n w = (Inr u, w') \<Longrightarrow> obs w' = upd (set_key n None) (obs w)"
    and DeleteToken_failed: "DeleteToken C n w = (Inl e, w') \<Longrightarrow>
      effect_or_none (upd (set_key n None)) (obs w) (obs w') e"
begin

lemma wp_GetTokens:
  assumes "\<And>ts w'. obs w' = obs w \<Longrightarrow> now w \<le> now w' \<Longrightarrow> distinct (map GetName ts) \<Longrightarrow>
      (\<And>t. t \<in> set ts \<longleftrightarrow> sel (obs w) (GetName t) = Some t) \<Longrightarrow> Q (Inr ts) w'"
    and "\<And>e w'. obs w' = obs w \<Longrightarrow> now w \<le> now w' \<Longrightarrow> Q (Inl e) w'"
  shows "wp (GetTokens C) Q w"
proof (rule wp_casesI)
  fix ts w'
  assume r: "GetTokens C w = (Inr ts, w')"
  show "Q (Inr ts) w'"
    by (rule assms(1) [OF GetTokens_obs [OF r] GetTokens_now [OF r] GetTokens_names [OF r] GetTokens_all [OF r]])
next
  fix e w'
  assume r: "GetTokens C w = (Inl e, w')"
  show "Q (Inl e) w'" by (rule assms(2) [OF GetTokens_obs [OF r] GetTokens_now [OF r]])
qed

lemma wp_UpsertToken:
  assumes "\<And>w'. obs w' = upd (set_key (GetName t) (Some t)) (obs w) \<Longrightarrow> now w \<le> now w' \<Longrightarrow> Q (Inr ()) w'"
    and "\<And>e w'. effect_or_none (upd (set_key (GetName t) (Some t))) (obs w) (obs w') e \<Longrightarrow> now w \<le> now w' \<Longrightarrow>
      Q (Inl e) w'"
  shows "wp (UpsertToken C t) Q w"
proof (rule wp_casesI)
  fix u w'
  assume r: "UpsertToken C t w = (Inr u, w')"
  show "Q (Inr u) w'" using assms(1) UpsertToken_done [OF r] UpsertToken_now [OF r] by simp
next
  fix e w'
  assume r: "UpsertToken C t w = (Inl e, w')"
  show "Q (Inl e) w'" by (rule assms(2) [OF UpsertToken_failed [OF r] UpsertToken_now [OF r]])
qed

lemma wp_DeleteToken:
  assumes "\<And>w'. obs w' = upd (set_key n None) (obs w) \<Longrightarrow> now w \<le> now w' \<Longrightarrow> Q (Inr ()) w'"
    and "\<And>e w'. effect_or_none (upd (set_key n None)) (obs w) (obs w') e \<Longrightarrow> now w \<le> now w' \<Longrightarrow>
      Q (Inl e) w'"
  shows "wp (DeleteToken C n) Q w"
proof (rule wp_casesI)
  fix u w'
  assume r: "DeleteToken C n w = (Inr u, w')"
  show "Q (Inr u) w'" using assms(1) DeleteToken_done [OF r] DeleteToken_now [OF r] by simp
next
  fix e w'
  assume r: "DeleteToken C n w = (Inl e, w')"
  show "Q (Inl e) w'" by (rule assms(2) [OF DeleteToken_failed [OF r] DeleteToken_now [OF r]])
qed

end

text \<open>A server that answers.\<close>

locale reliable_teleport = teleport_client C obs sel upd now
  for C :: "'w Client" and obs :: "'w \<Rightarrow> 's" and sel upd now +
  assumes Ping_answers: "Ping C w \<noteq> (Inl e, w')"
    and GetTokens_answers: "GetTokens C w \<noteq> (Inl e, w')"
    and UpsertToken_answers: "UpsertToken C t w \<noteq> (Inl e, w')"
    and DeleteToken_answers: "sel (obs w) n \<noteq> None \<Longrightarrow> DeleteToken C n w \<noteq> (Inl e, w')"

text \<open>A generator of names that are not in use.\<close>

locale token_generator =
  fixes G :: "'w Generator"
    and obs :: "'w \<Rightarrow> 's"
    and sel :: "'s \<Rightarrow> string \<rightharpoonup> ProvisionToken"
    and now :: "'w \<Rightarrow> time"
  assumes Generate_now: "Generate G w = (n, w') \<Longrightarrow> now w \<le> now w'"
    and Generate_obs: "Generate G w = (n, w') \<Longrightarrow> obs w' = obs w"
    and Generate_fresh: "Generate G w = (n, w') \<Longrightarrow> sel (obs w) n = None"
    and Generate_nonempty: "Generate G w = (n, w') \<Longrightarrow> n \<noteq> []"

text \<open>
  The role names of Teleport and its token constructor: a role prints as its lower-case
  name up to case, and a new token carries the name, roles and expiry it was given.
\<close>

locale teleport_types =
  fixes rl :: role_lib
    and mk :: "string \<Rightarrow> SystemRole list \<Rightarrow> time \<Rightarrow> error + ProvisionToken"
  assumes lower_kube: "ToLower (role_String rl (types_RoleKube rl)) = ''kube''"
    and lower_app: "ToLower (role_String rl (types_RoleApp rl)) = ''app''"
    and lower_node: "ToLower (role_String rl (types_RoleNode rl)) = ''node''"
    and mk_token: "mk n rs x = Inr t \<Longrightarrow> GetName t = n \<and> GetRoles t = rs \<and> Expiry t = x"
    and mk_ok: "n \<noteq> '''' \<Longrightarrow> rs \<noteq> [] \<Longrightarrow>
      set rs \<subseteq> {types_RoleKube rl, types_RoleApp rl, types_RoleNode rl} \<Longrightarrow> \<exists>t. mk n rs x = Inr t"

end
