(* ===== verification/Token.thy ===== *)
theory Token
  imports Teleport "HOL-Library.Multiset"
begin

text \<open>
  \<open>teleport/token.go\<close>: is a join token still valid, generate one, delete one. The loops
  over the server's tokens are recursions that stop where the Go code returns.
\<close>

section \<open>token.go\<close>

definition with_client :: "'w Teleport \<Rightarrow> ('w Client \<Rightarrow> ('w, 'a) action) \<Rightarrow> ('w, 'a) action" where
  "with_client t f = (case TeleportClient t of None \<Rightarrow> throwE (Panic ''nil TeleportClient'') | Some c \<Rightarrow> f c)"

fun containsRole :: "role_lib \<Rightarrow> SystemRole list \<Rightarrow> string \<Rightarrow> bool" where
  "containsRole rl [] role = False"
| "containsRole rl (r # rs) role = (if ToLower (role_String rl r) = role then True else containsRole rl rs role)"

fun hasExpectedRoles :: "role_lib \<Rightarrow> SystemRole list \<Rightarrow> string list \<Rightarrow> bool" where
  "hasExpectedRoles rl tokenRoles [] = True"
| "hasExpectedRoles rl tokenRoles (role # roles) =
     (if \<not> containsRole rl tokenRoles role then False else hasExpectedRoles rl tokenRoles roles)"

fun validAmong :: "role_lib \<Rightarrow> time \<Rightarrow> string \<Rightarrow> string \<Rightarrow> string list \<Rightarrow> ProvisionToken list \<Rightarrow> bool" where
  "validAmong rl now registerName token expectedRoles [] = False"
| "validAmong rl now registerName token expectedRoles (t # tokens) =
     (if GetName t = token \<and> label t ''cluster'' = registerName
      then (if \<not> IsZero (Expiry t) \<and> After (Expiry t) now
            then (if length (GetRoles t) \<noteq> length expectedRoles then False
                  else hasExpectedRoles rl (GetRoles t) expectedRoles)
            else False)
      else validAmong rl now registerName token expectedRoles tokens)"

definition IsTokenValid :: "'w libs \<Rightarrow> 'w Teleport \<Rightarrow> string \<Rightarrow> string \<Rightarrow> string \<Rightarrow> ('w, bool) action" where
  "IsTokenValid L t registerName token tokenType =
     with_client t (\<lambda>c.
     bindE (GetTokens c) (\<lambda>tokens.
     bindE (liftE (ParseRoles tokenType)) (\<lambda>expectedRoles w.
       (Inr (validAmong (lib_roles L) (Now L w) registerName token expectedRoles tokens), w))))"

definition GenerateToken :: "'w libs \<Rightarrow> 'w Teleport \<Rightarrow> string \<Rightarrow> string list \<Rightarrow> ('w, string) action" where
  "GenerateToken L t registerName roles w =
     (let tokenValidity = time_Add (Now L w) TeleportKubeTokenValidity;
          tokenRoles = RolesToSystemRoles (lib_roles L) roles;
          (name, w1) = Generate (TokenGenerator t) w
      in case NewProvisionToken L name tokenRoles tokenValidity of
           Inl err \<Rightarrow> (Inl err, w1)
         | Inr token \<Rightarrow>
             (let token = token\<lparr>Labels := [''cluster'' \<mapsto> registerName, ''roles'' \<mapsto> RolesToString roles]\<rparr>
              in with_client t (\<lambda>c.
                   bindE (UpsertToken c token) (\<lambda>_. returnE (GetName token))) w1))"

fun deleteFirst :: "'w Client \<Rightarrow> string \<Rightarrow> ProvisionToken list \<Rightarrow> ('w, unit) action" where
  "deleteFirst c registerName [] = returnE ()"
| "deleteFirst c registerName (token # tokens) =
     (if label token ''cluster'' = registerName
      then bindE (DeleteToken c (GetName token)) (\<lambda>_. returnE ())
      else deleteFirst c registerName tokens)"

definition DeleteToken :: "'w Teleport \<Rightarrow> string \<Rightarrow> ('w, unit) action" where
  "DeleteToken t registerName =
     with_client t (\<lambda>c. bindE (GetTokens c) (deleteFirst c registerName))"

section \<open>Roles of a token\<close>

text \<open>What it means for a token to serve a cluster with some roles at an instant.\<close>

definition serves :: "role_lib \<Rightarrow> time \<Rightarrow> string \<Rightarrow> string list \<Rightarrow> ProvisionToken \<Rightarrow> bool" where
  "serves rl now registerName roles t \<longleftrightarrow>
     label t ''cluster'' = registerName \<and> Expiry t \<noteq> 0 \<and> now < Expiry t \<and>
     length (GetRoles t) = length roles \<and>
     (\<forall>role \<in> set roles. \<exists>r \<in> set (GetRoles t). ToLower (role_String rl r) = role)"

lemma containsRole_iff: "containsRole rl rs role \<longleftrightarrow> (\<exists>r \<in> set rs. ToLower (role_String rl r) = role)"
  by (induction rs) auto

lemma hasExpectedRoles_iff:
  "hasExpectedRoles rl rs roles \<longleftrightarrow> (\<forall>role \<in> set roles. \<exists>r \<in> set rs. ToLower (role_String rl r) = role)"
  by (induction roles) (auto simp: containsRole_iff)

lemma validAmong_iff:
  assumes "distinct (map GetName ts)"
  shows "validAmong rl now reg tok roles ts \<longleftrightarrow> (\<exists>t \<in> set ts. GetName t = tok \<and> serves rl now reg roles t)"
  using assms
proof (induction ts)
  case (Cons t ts)
  show ?case
  proof (cases "GetName t = tok")
    case True
    then have "tok \<notin> GetName ` set ts" using Cons.prems by simp
    then have "\<forall>t' \<in> set ts. GetName t' \<noteq> tok" by blast
    with True Cons.IH Cons.prems show ?thesis
      by (auto simp: serves_def IsZero_def After_def hasExpectedRoles_iff)
  next
    case False
    with Cons show ?thesis by auto
  qed
qed simp

lemma serves_mono: "serves rl u reg roles t \<Longrightarrow> v \<le> u \<Longrightarrow> serves rl v reg roles t"
  by (auto simp: serves_def)

context teleport_types
begin

lemma length_RolesToSystemRoles:
  "set roles \<subseteq> set known_roles \<Longrightarrow> length (RolesToSystemRoles rl roles) = length roles"
  by (induction roles) (auto simp: known_roles_def)

lemma set_RolesToSystemRoles:
  "set (RolesToSystemRoles rl roles) \<subseteq> {types_RoleKube rl, types_RoleApp rl, types_RoleNode rl}"
  by (induction roles) auto

lemma RolesToSystemRoles_lower:
  "set roles \<subseteq> set known_roles \<Longrightarrow>
     map (ToLower \<circ> role_String rl) (RolesToSystemRoles rl roles) = roles"
  by (induction roles) (auto simp: known_roles_def lower_kube lower_app lower_node role_defs)

lemma RolesToSystemRoles_serve:
  assumes "set roles \<subseteq> set known_roles" "role \<in> set roles"
  shows "\<exists>r \<in> set (RolesToSystemRoles rl roles). ToLower (role_String rl r) = role"
proof -
  have "role \<in> set (map (ToLower \<circ> role_String rl) (RolesToSystemRoles rl roles))"
    using assms RolesToSystemRoles_lower by simp
  then show ?thesis by auto
qed

end

lemma validAmong_find:
  "validAmong rl now reg tok roles ts =
     (case find (\<lambda>t. GetName t = tok \<and> label t ''cluster'' = reg) ts of
        None \<Rightarrow> False
      | Some t \<Rightarrow> Expiry t \<noteq> 0 \<and> now < Expiry t \<and> length (GetRoles t) = length roles \<and>
          set roles \<subseteq> (ToLower \<circ> role_String rl) ` set (GetRoles t))"
  by (induction ts) (auto simp: IsZero_def After_def hasExpectedRoles_iff)

text \<open>
  Checking a token against the server's list is: find the first token with the name
  and the cluster; it must expire, but later than now, have as many roles as expected, and
  each of the expected ones.
\<close>

theorem valid_among_first:
  "validAmong rl now reg tok roles ts =
     (case find (\<lambda>t. GetName t = tok \<and> label t ''cluster'' = reg) ts of
        None \<Rightarrow> False
      | Some t \<Rightarrow> Expiry t \<noteq> 0 \<and> now < Expiry t \<and> length (GetRoles t) = length roles \<and>
          set roles \<subseteq> (ToLower \<circ> role_String rl) ` set (GetRoles t))"
  by (rule validAmong_find)

lemma covering_roles:
  assumes "distinct xs" "length ys = length xs" "set xs \<subseteq> set ys"
  shows "mset ys = mset xs"
proof -
  have "set xs = set ys"
    using assms card_length [of ys] distinct_card [of xs]
    by (intro card_subset_eq) (auto intro!: antisym [OF _ card_length [of ys]] dest: card_mono [rotated])
  moreover from this have "distinct ys" using assms distinct_card [of xs] by (intro card_distinct) simp
  ultimately show ?thesis using assms(1) by (simp add: set_eq_iff_mset_eq_distinct)
qed

text \<open>
  C24. Where the expected roles are different ones, as the operator's are, a token found
  valid has exactly these roles, in whatever order: comparing the lengths is enough.
\<close>

theorem valid_token_roles:
  assumes "distinct roles" "validAmong rl now reg tok roles ts"
  shows "\<exists>t. t \<in> set ts \<and> GetName t = tok \<and> mset (map (ToLower \<circ> role_String rl) (GetRoles t)) = mset roles"
proof -
  from assms(2) obtain t where t: "find (\<lambda>t. GetName t = tok \<and> label t ''cluster'' = reg) ts = Some t"
    "length (GetRoles t) = length roles" "set roles \<subseteq> (ToLower \<circ> role_String rl) ` set (GetRoles t)"
    unfolding validAmong_find by (auto split: option.splits)
  from t(1) have "t \<in> set ts" "GetName t = tok" by (auto simp: find_Some_iff)
  moreover have "mset (map (ToLower \<circ> role_String rl) (GetRoles t)) = mset roles"
    using t(2,3) by (intro covering_roles [OF assms(1)]) simp_all
  ultimately show ?thesis by blast
qed


theorem valid_token_roles_witness:
  "\<exists>t. t \<in> set [\<lparr>GetName = ''a'', GetRoles = [''App'', ''Kube''], Expiry = 2, Labels = [''cluster'' \<mapsto> ''mc'']\<rparr>] \<and>
     GetName t = ''a'' \<and> mset (map (ToLower \<circ> (\<lambda>r. r)) (GetRoles t)) = mset [''kube'', ''app'']"
proof -
  define rl where "rl = \<lparr>types_RoleKube = ''Kube'', types_RoleApp = ''App'', types_RoleNode = ''Node'', role_String = (\<lambda>r. r)\<rparr>"
  have "validAmong rl 1 ''mc'' ''a'' [''kube'', ''app'']
      [\<lparr>GetName = ''a'', GetRoles = [''App'', ''Kube''], Expiry = 2, Labels = [''cluster'' \<mapsto> ''mc'']\<rparr>]"
    unfolding rl_def by code_simp
  from valid_token_roles [OF _ this] show ?thesis by (simp add: rl_def)
qed

section \<open>The contract of the token operations\<close>

text \<open>
  The operations together with what they need: a connected client, a generator of fresh
  names, Teleport's roles and tokens, and a clock past the zero time.
\<close>

locale token_service =
  teleport_client C obs sel upd "Now L" +
  gen: token_generator "TokenGenerator t" obs sel "Now L" +
  teleport_types "lib_roles L" "NewProvisionToken L"
  for C :: "'w Client" and obs :: "'w \<Rightarrow> 's" and sel upd and L :: "'w libs" and t :: "'w Teleport" +
  assumes connected: "TeleportClient t = Some C"
    and clock_started: "0 < Now L w"
begin

text \<open>Nothing but the clock moved.\<close>

definition unchanged :: "'w \<Rightarrow> 'w \<Rightarrow> bool" where
  "unchanged w w' \<longleftrightarrow> obs w' = obs w \<and> Now L w \<le> Now L w'"

lemma unchanged_refl [simp]: "unchanged w w"
  by (simp add: unchanged_def)

lemma wp_IsTokenValid:
  "wp (IsTokenValid L t reg tok tt)
     (\<lambda>r w'. unchanged w w' \<and>
        (\<forall>b. r = Inr b \<longrightarrow>
          (\<exists>roles. ParseRoles tt = Inr roles \<and>
            (b \<longleftrightarrow> (\<exists>p. sel (obs w) tok = Some p \<and> GetName p = tok \<and>
                      serves (lib_roles L) (Now L w') reg roles p))))) w"
proof -
  have "validAmong (lib_roles L) u reg tok roles ts \<longleftrightarrow>
      (\<exists>p. sel (obs w) tok = Some p \<and> GetName p = tok \<and> serves (lib_roles L) u reg roles p)"
    if "distinct (map GetName ts)" "\<And>p. p \<in> set ts \<longleftrightarrow> sel (obs w) (GetName p) = Some p" for u roles ts
    using validAmong_iff [OF that(1)] that(2) by auto
  then show ?thesis
    unfolding IsTokenValid_def with_client_def connected option.case wp_bindE
    by (intro wp_GetTokens) (auto simp: wp_liftE wp_def liftE_def unchanged_def split: sum.split)
qed

definition fresh_token :: "'w \<Rightarrow> string \<Rightarrow> string list \<Rightarrow> ProvisionToken \<Rightarrow> bool" where
  "fresh_token w reg roles p \<longleftrightarrow>
     sel (obs w) (GetName p) = None \<and> GetName p \<noteq> [] \<and>
     GetRoles p = RolesToSystemRoles (lib_roles L) roles \<and>
     Expiry p = Now L w + TeleportKubeTokenValidity \<and>
     Labels p = [''cluster'' \<mapsto> reg, ''roles'' \<mapsto> RolesToString roles]"

lemma wp_GenerateToken:
  "wp (GenerateToken L t reg roles)
     (\<lambda>r w'. Now L w \<le> Now L w' \<and>
        (case r of
           Inr n \<Rightarrow> \<exists>p. n = GetName p \<and> fresh_token w reg roles p \<and>
                     obs w' = upd (set_key n (Some p)) (obs w)
         | Inl e \<Rightarrow> obs w' = obs w \<or>
                     (\<exists>p. fresh_token w reg roles p \<and> obs w' = upd (set_key (GetName p) (Some p)) (obs w)))) w"
    (is "wp _ ?Q w")
proof -
  obtain n w1 where g: "Generate (TokenGenerator t) w = (n, w1)" by (cases "Generate (TokenGenerator t) w")
  note gs = gen.Generate_now [OF g] gen.Generate_obs [OF g] gen.Generate_fresh [OF g] gen.Generate_nonempty [OF g]
  let ?mk = "NewProvisionToken L n (RolesToSystemRoles (lib_roles L) roles) (time_Add (Now L w) TeleportKubeTokenValidity)"
  show ?thesis
  proof (cases ?mk)
    case (Inl e)
    with g gs show ?thesis by (simp add: wp_def GenerateToken_def)
  next
    case (Inr p0)
    let ?p = "p0\<lparr>Labels := [''cluster'' \<mapsto> reg, ''roles'' \<mapsto> RolesToString roles]\<rparr>"
    have p: "fresh_token w reg roles ?p"
      using mk_token [OF Inr] gs by (simp add: fresh_token_def time_Add_def)
    have "wp (GenerateToken L t reg roles) ?Q w \<longleftrightarrow>
        wp (bindE (UpsertToken C ?p) (\<lambda>_. returnE (GetName ?p))) ?Q w1"
      using g Inr by (simp add: wp_def GenerateToken_def Let_def with_client_def connected)
    moreover have "wp (bindE (UpsertToken C ?p) (\<lambda>_. returnE (GetName ?p))) ?Q w1"
      unfolding wp_bindE
    proof (rule wp_UpsertToken, unfold sum.case wp_returnE)
      fix w' assume "obs w' = upd (set_key (GetName ?p) (Some ?p)) (obs w1)" "Now L w1 \<le> Now L w'"
      with p gs show "Now L w \<le> Now L w' \<and> (\<exists>p. GetName ?p = GetName p \<and> fresh_token w reg roles p \<and>
          obs w' = upd (set_key (GetName ?p) (Some p)) (obs w))"
        by (intro conjI exI [of _ ?p]) auto
    next
      fix e w' assume "effect_or_none (upd (set_key (GetName ?p) (Some ?p))) (obs w1) (obs w') e" "Now L w1 \<le> Now L w'"
      with p gs show "Now L w \<le> Now L w' \<and> (obs w' = obs w \<or>
          (\<exists>p. fresh_token w reg roles p \<and> obs w' = upd (set_key (GetName p) (Some p)) (obs w)))"
        unfolding effect_or_none_def by auto
    qed
    ultimately show ?thesis by blast
  qed
qed

lemma fresh_token_serves:
  assumes "fresh_token w reg roles p" "set roles \<subseteq> set known_roles" "u < Now L w + TeleportKubeTokenValidity"
  shows "serves (lib_roles L) u reg roles p"
proof -
  have "0 < Expiry p"
    using assms(1) clock_started [of w]
    by (simp add: fresh_token_def TeleportKubeTokenValidity_def hour_def minute_def second_def)
  then show ?thesis
    using assms RolesToSystemRoles_serve
    by (simp add: serves_def fresh_token_def label_def length_RolesToSystemRoles)
qed

text \<open>A token of the cluster, in an observation.\<close>

definition token_of :: "'s \<Rightarrow> string \<Rightarrow> ProvisionToken \<Rightarrow> bool" where
  "token_of s reg p \<longleftrightarrow> sel s (GetName p) = Some p \<and> label p ''cluster'' = reg"

lemma wp_deleteFirst:
  "wp (deleteFirst C reg us)
     (\<lambda>r w'. Now L w \<le> Now L w' \<and>
        (case r of
           Inr _ \<Rightarrow> (\<forall>p \<in> set us. label p ''cluster'' \<noteq> reg) \<and> obs w' = obs w \<or>
                     (\<exists>p \<in> set us. label p ''cluster'' = reg \<and> obs w' = upd (set_key (GetName p) None) (obs w))
         | Inl e \<Rightarrow> obs w' = obs w \<or>
                     (\<exists>p \<in> set us. label p ''cluster'' = reg \<and> obs w' = upd (set_key (GetName p) None) (obs w)))) w"
proof (induction us)
  case Nil
  then show ?case by (simp add: wp_returnE)
next
  case (Cons p us)
  show ?case
  proof (cases "label p ''cluster'' = reg")
    case True
    then show ?thesis
      by (auto simp: wp_bindE wp_returnE effect_or_none_def intro!: wp_DeleteToken)
  next
    case False
    with Cons.IH show ?thesis
      by (auto elim!: wp_mono split: sum.splits)
  qed
qed

lemma wp_DeleteToken_service:
  "wp (DeleteToken t reg)
     (\<lambda>r w'. Now L w \<le> Now L w' \<and>
        (case r of
           Inr _ \<Rightarrow> (\<forall>p. \<not> token_of (obs w) reg p) \<and> obs w' = obs w \<or>
                     (\<exists>p. token_of (obs w) reg p \<and> obs w' = upd (set_key (GetName p) None) (obs w))
         | Inl e \<Rightarrow> obs w' = obs w \<or>
                     (\<exists>p. token_of (obs w) reg p \<and> obs w' = upd (set_key (GetName p) None) (obs w)))) w"
  unfolding DeleteToken_def with_client_def connected option.case wp_bindE
proof (rule wp_GetTokens, unfold sum.case)
  fix ts w1
  assume w1: "obs w1 = obs w" "Now L w \<le> Now L w1"
    and ts: "\<And>p. p \<in> set ts \<longleftrightarrow> sel (obs w) (GetName p) = Some p"
  have *: "token_of (obs w) reg p \<longleftrightarrow> p \<in> set ts \<and> label p ''cluster'' = reg" for p
    using ts by (auto simp: token_of_def)
  from wp_deleteFirst [of reg ts w1] w1
  show "wp (deleteFirst C reg ts)
     (\<lambda>r w'. Now L w \<le> Now L w' \<and>
        (case r of
           Inr _ \<Rightarrow> (\<forall>p. \<not> token_of (obs w) reg p) \<and> obs w' = obs w \<or>
                     (\<exists>p. token_of (obs w) reg p \<and> obs w' = upd (set_key (GetName p) None) (obs w))
         | Inl e \<Rightarrow> obs w' = obs w \<or>
                     (\<exists>p. token_of (obs w) reg p \<and> obs w' = upd (set_key (GetName p) None) (obs w)))) w1"
    unfolding * by (auto elim!: wp_mono split: sum.splits)
qed simp

lemma DeleteToken_success:
  assumes "DeleteToken t reg w = (Inr u, w')"
  shows "(\<exists>p. token_of (obs w) reg p \<and> sel (obs w') = (sel (obs w))(GetName p := None)) \<or>
    (\<forall>p. \<not> token_of (obs w) reg p) \<and> obs w' = obs w"
proof -
  have "sel (upd (set_key n None) s) = (sel s)(n := None)" for n s
    by (rule ext) (simp add: sel_upd set_key_def)
  then show ?thesis using wp_run [OF wp_DeleteToken_service assms] by fastforce
qed

lemma generated_valid:
  assumes roles: "roles \<noteq> []" "set roles \<subseteq> set known_roles"
    and gen: "GenerateToken L t reg roles w = (Inr n, w1)"
    and check: "IsTokenValid L t reg n (RolesToString roles) w1 = (Inr b, w2)"
    and time: "Now L w2 < Now L w + TeleportKubeTokenValidity"
  shows "b"
proof -
  obtain p where p: "n = GetName p" "fresh_token w reg roles p" "obs w1 = upd (set_key n (Some p)) (obs w)"
    using wp_run [OF wp_GenerateToken gen] by auto
  have "serves (lib_roles L) (Now L w2) reg roles p"
    by (rule fresh_token_serves [OF p(2) roles(2) time])
  moreover have "sel (obs w1) n = Some p" using p(3) by (simp add: sel_upd set_key_apply)
  ultimately show ?thesis
    using wp_run [OF wp_IsTokenValid check] ParseRoles_Join [OF roles] p(1) by auto
qed

end

end
