(* ===== verification/Secret_Ops.thy ===== *)
theory Secret_Ops
  imports Teleport
begin

text \<open>
  \<open>teleport/secret.go\<close>: the Secret with a cluster's node join token, and the kubeconfig
  Secret that tbot writes. \<open>secret_writes\<close> carries the contracts of the operations whatever
  is read, \<open>secret_store\<close> adds those of current reads.
\<close>

section \<open>secret.go\<close>

definition GetSecret :: "'w ctrl_client \<Rightarrow> string \<Rightarrow> string \<Rightarrow> ('w, Secret option) action" where
  "GetSecret ctrlClient clusterName clusterNamespace =
     tryE (Get (Secrets ctrlClient) \<lparr>Name = GetSecretName clusterName, Namespace = clusterNamespace\<rparr>)
       (\<lambda>err. if IsNotFound err then returnE None
              else throwE (Wrapped ''failed to get Secret'' err))
       (\<lambda>secret. returnE (Some secret))"

definition GetTokenFromSecret :: "Secret \<Rightarrow> error + string" where
  "GetTokenFromSecret secret =
     (case Data secret ''joinToken'' of
        None \<Rightarrow> Inl (Errorf ''failed to get joinToken from Secret'')
      | Some tokenBytes \<Rightarrow> Inr tokenBytes)"

definition token_secret :: "string \<Rightarrow> string \<Rightarrow> string \<Rightarrow> Secret" where
  "token_secret clusterName clusterNamespace token =
     \<lparr>secret_meta = \<lparr>Name = GetSecretName clusterName, Namespace = clusterNamespace\<rparr>,
      Data = Map.empty, StringData = [''joinToken'' \<mapsto> token]\<rparr>"

definition CreateSecret :: "'w ctrl_client \<Rightarrow> string \<Rightarrow> string \<Rightarrow> string \<Rightarrow> ('w, unit) action" where
  "CreateSecret ctrlClient clusterName clusterNamespace token =
     tryE (Create (Secrets ctrlClient) (token_secret clusterName clusterNamespace token))
       (\<lambda>err. throwE (Wrapped ''failed to create Secret'' err))
       (\<lambda>_. returnE ())"

definition UpdateSecret :: "'w ctrl_client \<Rightarrow> string \<Rightarrow> string \<Rightarrow> string \<Rightarrow> ('w, unit) action" where
  "UpdateSecret ctrlClient clusterName clusterNamespace token =
     tryE (Update (Secrets ctrlClient) (token_secret clusterName clusterNamespace token))
       (\<lambda>err. throwE (Wrapped ''failed to update Secret'' err))
       (\<lambda>_. returnE ())"

definition bare_secret :: "string \<Rightarrow> string \<Rightarrow> Secret" where
  "bare_secret name namespace =
     \<lparr>secret_meta = \<lparr>Name = name, Namespace = namespace\<rparr>, Data = Map.empty, StringData = Map.empty\<rparr>"

definition DeleteSecret :: "'w ctrl_client \<Rightarrow> string \<Rightarrow> string \<Rightarrow> ('w, unit) action" where
  "DeleteSecret ctrlClient clusterName clusterNamespace =
     tryE (Delete (Secrets ctrlClient) (bare_secret (GetSecretName clusterName) clusterNamespace))
       (\<lambda>err. if IsNotFound err then returnE () else throwE (Wrapped ''failed to delete Secret'' err))
       (\<lambda>_. returnE ())"

definition DeleteKubeconfigSecret :: "'w ctrl_client \<Rightarrow> string \<Rightarrow> string \<Rightarrow> ('w, unit) action" where
  "DeleteKubeconfigSecret ctrlClient clusterName clusterNamespace =
     tryE (Delete (Secrets ctrlClient) (bare_secret (GetKubeconfigSecretName clusterName) clusterNamespace))
       (\<lambda>err. if IsNotFound err then returnE () else throwE (Wrapped ''failed to delete Secret'' err))
       (\<lambda>_. returnE ())"

definition GetKubeconfigSecret :: "'w ctrl_client \<Rightarrow> string \<Rightarrow> string \<Rightarrow> ('w, Secret option) action" where
  "GetKubeconfigSecret ctrlClient clusterName clusterNamespace =
     tryE (Get (Secrets ctrlClient) \<lparr>Name = GetKubeconfigSecretName clusterName, Namespace = clusterNamespace\<rparr>)
       (\<lambda>err. if IsNotFound err then returnE None
              else throwE (Wrapped ''failed to get Secret'' err))
       (\<lambda>secret. returnE (Some secret))"

section \<open>Contracts\<close>

text \<open>The API server merges \<open>stringData\<close> into \<open>data\<close> and does not store it.\<close>

definition secret_admit :: "Secret \<Rightarrow> Secret" where
  "secret_admit s = s\<lparr>Data := Data s ++ StringData s, StringData := Map.empty\<rparr>"

definition stored_token_secret :: "string \<Rightarrow> string \<Rightarrow> string \<Rightarrow> Secret" where
  "stored_token_secret c ns tok = secret_admit (token_secret c ns tok)"

definition secret_key :: "string \<Rightarrow> string \<Rightarrow> NamespacedName" where
  "secret_key c ns = \<lparr>Name = GetSecretName c, Namespace = ns\<rparr>"

definition kubeconfig_key :: "string \<Rightarrow> string \<Rightarrow> NamespacedName" where
  "kubeconfig_key c ns = \<lparr>Name = GetKubeconfigSecretName c, Namespace = ns\<rparr>"

lemma GetTokenFromSecret_stored: "GetTokenFromSecret (stored_token_secret c ns tok) = Inr tok"
  by (simp add: GetTokenFromSecret_def stored_token_secret_def secret_admit_def token_secret_def)

lemma token_secret_key [simp]: "secret_meta (token_secret c ns tok) = secret_key c ns"
  by (simp add: token_secret_def secret_key_def)

lemma bare_secret_key [simp]: "secret_meta (bare_secret n ns) = \<lparr>Name = n, Namespace = ns\<rparr>"
  by (simp add: bare_secret_def)

locale secret_writes = cached_api "Secrets K" secret_meta secret_admit obs sel upd now
  for K :: "'w ctrl_client" and obs :: "'w \<Rightarrow> 's" and sel upd now
begin

lemma wp_GetSecret_any: "wp (GetSecret K c ns) (\<lambda>r w'. obs w' = obs w \<and> now w \<le> now w') w"
  by (auto simp: GetSecret_def wp_simps intro!: wp_Get_any)

lemma wp_GetKubeconfigSecret_any: "wp (GetKubeconfigSecret K c ns) (\<lambda>r w'. obs w' = obs w \<and> now w \<le> now w') w"
  by (auto simp: GetKubeconfigSecret_def wp_simps intro!: wp_Get_any)


lemma wp_CreateSecret:
  "wp (CreateSecret K c ns tok)
     (step_post obs now (upd (set_key (secret_key c ns) (Some (stored_token_secret c ns tok)))) w) w"
  unfolding CreateSecret_def wp_simps
  by (rule wp_Create) (auto simp: wp_simps step_post_def stored_token_secret_def effect_or_none_def)

lemma wp_UpdateSecret:
  "wp (UpdateSecret K c ns tok)
     (step_post obs now (upd (set_key (secret_key c ns) (Some (stored_token_secret c ns tok)))) w) w"
  unfolding UpdateSecret_def wp_simps
  by (rule wp_Update) (auto simp: wp_simps step_post_def stored_token_secret_def effect_or_none_def)

text \<open>Deleting: gone afterwards, whether it was there or not.\<close>

lemma wp_DeleteSecret:
  "wp (DeleteSecret K c ns) (step_post obs now (upd (set_key (secret_key c ns) None)) w) w"
  unfolding DeleteSecret_def wp_simps
  by (rule wp_Delete)
    (auto simp: wp_simps step_post_def secret_key_def effect_or_none_def set_key_same upd_same)

lemma wp_DeleteKubeconfigSecret:
  "wp (DeleteKubeconfigSecret K c ns) (step_post obs now (upd (set_key (kubeconfig_key c ns) None)) w) w"
  unfolding DeleteKubeconfigSecret_def wp_simps
  by (rule wp_Delete)
    (auto simp: wp_simps step_post_def kubeconfig_key_def effect_or_none_def set_key_same upd_same)

end

locale secret_store = secret_writes K obs sel upd now + resource_api "Secrets K" secret_meta secret_admit obs sel upd now
  for K :: "'w ctrl_client" and obs :: "'w \<Rightarrow> 's" and sel upd now
begin

lemma wp_GetSecret:
  "wp (GetSecret K c ns)
     (\<lambda>r w'. obs w' = obs w \<and> now w \<le> now w' \<and> (\<forall>x. r = Inr x \<longrightarrow> sel (obs w) (secret_key c ns) = x)) w"
  by (auto simp: GetSecret_def wp_simps secret_key_def intro!: wp_Get)

lemma wp_GetKubeconfigSecret:
  "wp (GetKubeconfigSecret K c ns)
     (\<lambda>r w'. obs w' = obs w \<and> now w \<le> now w' \<and> (\<forall>x. r = Inr x \<longrightarrow> sel (obs w) (kubeconfig_key c ns) = x)) w"
  by (auto simp: GetKubeconfigSecret_def wp_simps kubeconfig_key_def intro!: wp_Get)

end

end
