(* ===== verification/ConfigMap_Ops.thy ===== *)
theory ConfigMap_Ops
  imports Teleport
begin

text \<open>
  \<open>teleport/configmap.go\<close>: the ConfigMap with the values of a cluster's
  teleport-kube-agent, and the ConfigMap that tells tbot about the cluster.
\<close>

section \<open>Reading\<close>

definition GetConfigMap :: "'w Teleport \<Rightarrow> 'w ctrl_client \<Rightarrow> string \<Rightarrow> string \<Rightarrow> ('w, ConfigMap option) action" where
  "GetConfigMap t ctrlClient clusterName clusterNamespace =
     tryE (Get (ConfigMaps ctrlClient)
             \<lparr>Name = GetConfigmapName clusterName (cfg_AppName (t_Config t)), Namespace = clusterNamespace\<rparr>)
       (\<lambda>err. if IsNotFound err then returnE None
              else throwE (Wrapped ''failed to get ConfigMap'' err))
       (\<lambda>configMap. returnE (Some configMap))"

definition GetTbotConfigMap :: "'w ctrl_client \<Rightarrow> string \<Rightarrow> ('w, ConfigMap option) action" where
  "GetTbotConfigMap ctrlClient clusterName =
     tryE (Get (ConfigMaps ctrlClient) \<lparr>Name = GetTbotConfigmapName clusterName, Namespace = TeleportBotNamespace\<rparr>)
       (\<lambda>err. if IsNotFound err then returnE None
              else throwE (Wrapped ''bot: Failed to get configmap'' err))
       (\<lambda>configMap. returnE (Some configMap))"

definition parseConfigMapValues :: "'w libs \<Rightarrow> ConfigMap \<Rightarrow> error + (string, iface) fmap" where
  "parseConfigMapValues L configMap =
     (case cm_Data configMap ''values'' of
        None \<Rightarrow> Inl (Errorf ''malformed ConfigMap: key `values` not found'')
      | Some valuesBytes \<Rightarrow>
          (case Unmarshal L valuesBytes of
             Inl err \<Rightarrow> Inl (Wrapped ''failed to parse YAML'' err)
           | Inr root \<Rightarrow>
               (case as_map (fmlookup root TeleportKubeAgentValuesKey) of
                  Some nested \<Rightarrow> Inr nested
                | None \<Rightarrow> Inr root)))"

definition GetTokenFromConfigMap :: "'w libs \<Rightarrow> ConfigMap \<Rightarrow> error + string" where
  "GetTokenFromConfigMap L configMap =
     (case parseConfigMapValues L configMap of
        Inl err \<Rightarrow> Inl err
      | Inr valuesYaml \<Rightarrow>
          (case as_string (fmlookup valuesYaml ''authToken'') of
             None \<Rightarrow> Inl (Errorf ''malformed ConfigMap: key `authToken` not found'')
           | Some token \<Rightarrow> Inr token))"

definition GetTeleportVersionFromConfigMap :: "'w libs \<Rightarrow> ConfigMap \<Rightarrow> error + string" where
  "GetTeleportVersionFromConfigMap L configMap =
     (case parseConfigMapValues L configMap of
        Inl err \<Rightarrow> Inl err
      | Inr valuesYaml \<Rightarrow>
          (case as_string (fmlookup valuesYaml ''teleportVersionOverride'') of
             None \<Rightarrow> Inr ''''
           | Some version \<Rightarrow> Inr version))"

definition IsConfigMapLayoutUpToDate :: "'w libs \<Rightarrow> ConfigMap \<Rightarrow> string \<Rightarrow> error + bool" where
  "IsConfigMapLayoutUpToDate L configMap tkaVersion =
     (case cm_Data configMap ''values'' of
        None \<Rightarrow> Inl (Errorf ''malformed ConfigMap: key `values` not found'')
      | Some valuesBytes \<Rightarrow>
          (case Unmarshal L valuesBytes of
             Inl err \<Rightarrow> Inl (Wrapped ''failed to parse YAML'' err)
           | Inr root \<Rightarrow>
               (let hasNested = as_map (fmlookup root TeleportKubeAgentValuesKey) \<noteq> None;
                    hasFlat = as_string (fmlookup root ''authToken'') \<noteq> None
                in if UsesNestedKubeAgentValues (lib_semver L) tkaVersion
                   then Inr (hasNested \<and> \<not> hasFlat)
                   else Inr (hasNested \<and> hasFlat))))"

definition registerNameFromConfigMap :: "'w libs \<Rightarrow> ConfigMap \<Rightarrow> error + string" where
  "registerNameFromConfigMap L configMap =
     (case parseConfigMapValues L configMap of
        Inl err \<Rightarrow> Inl err
      | Inr values \<Rightarrow>
          (case as_string (fmlookup values ''kubeClusterName'') of
             None \<Rightarrow> Inl (Errorf ''malformed ConfigMap: key `kubeClusterName` not found'')
           | Some name \<Rightarrow>
               (if name = '''' then Inl (Errorf ''malformed ConfigMap: key `kubeClusterName` not found'')
                else Inr name)))"

section \<open>Rendering\<close>

definition getConfigMapData ::
    "'w libs \<Rightarrow> 'w Teleport \<Rightarrow> string \<Rightarrow> string \<Rightarrow> string list \<Rightarrow> string \<Rightarrow> string" where
  "getConfigMapData L t registerName token roles tkaVersion =
     GetConfigmapDataFromTemplate (lib_semver L) token (cfg_ProxyAddr (t_Config t)) registerName
       (cfg_TeleportVersion (t_Config t)) roles tkaVersion"

definition RenderConfigMapValues ::
    "'w libs \<Rightarrow> 'w Teleport \<Rightarrow> string \<Rightarrow> string \<Rightarrow> string list \<Rightarrow> string \<Rightarrow> string" where
  "RenderConfigMapValues L t registerName token roles tkaVersion =
     getConfigMapData L t registerName token roles tkaVersion"

definition getTbotConfigMapData :: "string \<Rightarrow> string \<Rightarrow> string" where
  "getTbotConfigMapData registerName clusterName = GetTbotConfigmapDataFromTemplate registerName clusterName"

section \<open>Writing\<close>

definition values_configmap :: "string \<Rightarrow> string \<Rightarrow> string \<Rightarrow> ConfigMap" where
  "values_configmap name namespace data =
     \<lparr>cm_meta = \<lparr>Name = name, Namespace = namespace\<rparr>, cm_Data = [''values'' \<mapsto> data], BinaryData = Map.empty\<rparr>"

definition CreateConfigMap ::
    "'w libs \<Rightarrow> 'w Teleport \<Rightarrow> 'w ctrl_client \<Rightarrow> string \<Rightarrow> string \<Rightarrow> string \<Rightarrow> string \<Rightarrow> string list \<Rightarrow> string
      \<Rightarrow> ('w, unit) action" where
  "CreateConfigMap L t ctrlClient clusterName clusterNamespace registerName token roles tkaVersion =
     (let configMapName = GetConfigmapName clusterName (cfg_AppName (t_Config t));
          configMapData = getConfigMapData L t registerName token roles tkaVersion
      in tryE (Get (ConfigMaps ctrlClient) \<lparr>Name = configMapName, Namespace = clusterNamespace\<rparr>)
           (\<lambda>err. if IsNotFound err
                  then bindE (Create (ConfigMaps ctrlClient)
                               (values_configmap configMapName clusterNamespace configMapData))
                         (\<lambda>_. returnE ())
                  else throwE err)
           (\<lambda>cm. returnE ()))"

definition CreateTbotConfigMap :: "'w ctrl_client \<Rightarrow> string \<Rightarrow> string \<Rightarrow> ('w, ConfigMap) action" where
  "CreateTbotConfigMap ctrlClient clusterName registerName =
     (let cm = values_configmap (GetTbotConfigmapName clusterName) TeleportBotNamespace
                 (getTbotConfigMapData registerName clusterName)
      in bindE (Create (ConfigMaps ctrlClient) cm) (\<lambda>_. returnE cm))"

definition EnsureTbotConfigMap ::
    "'w ctrl_client \<Rightarrow> string \<Rightarrow> string \<Rightarrow> string \<Rightarrow> ('w, unit) action" where
  "EnsureTbotConfigMap ctrlClient clusterName namespace registerName =
     bindE (GetTbotConfigMap ctrlClient clusterName) (\<lambda>cm.
       case cm of
         None \<Rightarrow> bindE (CreateTbotConfigMap ctrlClient clusterName registerName) (\<lambda>_. returnE ())
       | Some _ \<Rightarrow> returnE ())"

definition UpdateConfigMap ::
    "'w libs \<Rightarrow> 'w Teleport \<Rightarrow> 'w ctrl_client \<Rightarrow> ConfigMap \<Rightarrow> string \<Rightarrow> string list \<Rightarrow> string \<Rightarrow> ('w, unit) action" where
  "UpdateConfigMap L t ctrlClient configMap token roles tkaVersion =
     bindE (liftE (registerNameFromConfigMap L configMap)) (\<lambda>registerName.
       tryE (Update (ConfigMaps ctrlClient)
               (configMap\<lparr>cm_Data := (cm_Data configMap)
                  (''values'' \<mapsto> getConfigMapData L t registerName token roles tkaVersion)\<rparr>))
         (\<lambda>err. throwE (Wrapped ''failed to update ConfigMap'' err))
         (\<lambda>_. returnE ()))"

definition DeleteConfigMap :: "'w Teleport \<Rightarrow> 'w ctrl_client \<Rightarrow> string \<Rightarrow> string \<Rightarrow> ('w, unit) action" where
  "DeleteConfigMap t ctrlClient clusterName clusterNamespace =
     tryE (Delete (ConfigMaps ctrlClient)
             \<lparr>cm_meta = \<lparr>Name = GetConfigmapName clusterName (cfg_AppName (t_Config t)), Namespace = clusterNamespace\<rparr>,
              cm_Data = Map.empty, BinaryData = Map.empty\<rparr>)
       (\<lambda>err. if IsNotFound err then returnE () else throwE err)
       (\<lambda>_. returnE ())"

definition DeleteTbotConfigMap :: "'w ctrl_client \<Rightarrow> string \<Rightarrow> string \<Rightarrow> ('w, unit) action" where
  "DeleteTbotConfigMap ctrlClient clusterName namespace =
     tryE (Delete (ConfigMaps ctrlClient)
             \<lparr>cm_meta = \<lparr>Name = GetTbotConfigmapName clusterName, Namespace = namespace\<rparr>,
              cm_Data = Map.empty, BinaryData = Map.empty\<rparr>)
       (\<lambda>err. if IsNotFound err then returnE () else throwE err)
       (\<lambda>_. returnE ())"

section \<open>Contracts\<close>

definition configmap_key :: "'w Teleport \<Rightarrow> string \<Rightarrow> string \<Rightarrow> NamespacedName" where
  "configmap_key t c ns = \<lparr>Name = GetConfigmapName c (cfg_AppName (t_Config t)), Namespace = ns\<rparr>"

definition tbot_key :: "string \<Rightarrow> string \<Rightarrow> NamespacedName" where
  "tbot_key c ns = \<lparr>Name = GetTbotConfigmapName c, Namespace = ns\<rparr>"

lemma values_configmap_simps [simp]:
  "cm_meta (values_configmap n ns d) = \<lparr>Name = n, Namespace = ns\<rparr>"
  "cm_Data (values_configmap n ns d) ''values'' = Some d"
  by (simp_all add: values_configmap_def)

text \<open>Updating keeps the stored register name and every other key of the data.\<close>

definition rewritten :: "'w libs \<Rightarrow> 'w Teleport \<Rightarrow> ConfigMap \<Rightarrow> string \<Rightarrow> string \<Rightarrow> string list \<Rightarrow> string \<Rightarrow> ConfigMap" where
  "rewritten L t cm reg tok roles ver =
     cm\<lparr>cm_Data := (cm_Data cm)(''values'' \<mapsto> getConfigMapData L t reg tok roles ver)\<rparr>"

locale configmap_writes = cached_api "ConfigMaps K" cm_meta "\<lambda>x. x" obs sel upd now
  for K :: "'w ctrl_client" and obs :: "'w \<Rightarrow> 's" and sel upd now
begin

lemma wp_GetConfigMap_any:
  "wp (GetConfigMap t K c ns)
     (\<lambda>r w'. obs w' = obs w \<and> now w \<le> now w' \<and> (\<forall>cm. r = Inr (Some cm) \<longrightarrow> cm_meta cm = configmap_key t c ns)) w"
  unfolding GetConfigMap_def configmap_key_def wp_simps
  by (rule wp_Get_any) (auto simp: wp_simps)

lemma wp_GetTbotConfigMap_any: "wp (GetTbotConfigMap K c) (\<lambda>r w'. obs w' = obs w \<and> now w \<le> now w') w"
  unfolding GetTbotConfigMap_def wp_simps
  by (rule wp_Get_any) (auto simp: wp_simps)

text \<open>A ConfigMap is created where there is none, or not at all.\<close>

definition created_at :: "NamespacedName \<Rightarrow> string \<Rightarrow> 's \<Rightarrow> 's \<Rightarrow> bool" where
  "created_at k d s s' \<longleftrightarrow>
     s' = s \<or> s' = upd (set_key k (Some (values_configmap (Name k) (Namespace k) d))) s"

lemma wp_CreateConfigMap_any:
  "wp (CreateConfigMap L t K c ns reg tok roles ver)
     (\<lambda>r w'. now w \<le> now w' \<and>
        created_at (configmap_key t c ns) (getConfigMapData L t reg tok roles ver) (obs w) (obs w')) w"
  unfolding CreateConfigMap_def Let_def configmap_key_def wp_simps
  by (rule wp_Get_any) (auto simp: wp_simps created_at_def effect_or_none_def intro!: wp_Create)

lemma wp_EnsureTbotConfigMap_any:
  "wp (EnsureTbotConfigMap K c ns reg)
     (\<lambda>r w'. now w \<le> now w' \<and>
        created_at (tbot_key c TeleportBotNamespace) (getTbotConfigMapData reg c) (obs w) (obs w')) w"
  unfolding EnsureTbotConfigMap_def
  by (rule wp_bindEI [OF wp_GetTbotConfigMap_any])
    (auto simp: CreateTbotConfigMap_def Let_def tbot_key_def wp_simps effect_or_none_def created_at_def
      intro!: wp_Create split: option.splits)

lemma wp_UpdateConfigMap:
  assumes "registerNameFromConfigMap L cm = Inr reg"
  shows "wp (UpdateConfigMap L t K cm tok roles ver)
     (step_post obs now (upd (set_key (cm_meta cm) (Some (rewritten L t cm reg tok roles ver)))) w) w"
  unfolding UpdateConfigMap_def assms liftE_Inr wp_simps
  by (rule wp_Update) (auto simp: wp_simps step_post_def rewritten_def effect_or_none_def)

lemma wp_UpdateConfigMap_malformed:
  assumes "registerNameFromConfigMap L cm = Inl e"
  shows "UpdateConfigMap L t K cm tok roles ver = throwE e"
  by (simp add: UpdateConfigMap_def assms)

lemma wp_DeleteConfigMap:
  "wp (DeleteConfigMap t K c ns) (step_post obs now (upd (set_key (configmap_key t c ns) None)) w) w"
  unfolding DeleteConfigMap_def wp_simps
  by (rule wp_Delete)
    (auto simp: wp_simps step_post_def configmap_key_def effect_or_none_def set_key_same upd_same)

lemma wp_DeleteTbotConfigMap:
  "wp (DeleteTbotConfigMap K c ns) (step_post obs now (upd (set_key (tbot_key c ns) None)) w) w"
  unfolding DeleteTbotConfigMap_def wp_simps
  by (rule wp_Delete)
    (auto simp: wp_simps step_post_def tbot_key_def effect_or_none_def set_key_same upd_same)

end

locale configmap_store = configmap_writes K obs sel upd now + resource_api "ConfigMaps K" cm_meta "\<lambda>x. x" obs sel upd now
  for K :: "'w ctrl_client" and obs :: "'w \<Rightarrow> 's" and sel upd now
begin

lemma wp_GetConfigMap:
  "wp (GetConfigMap t K c ns)
     (\<lambda>r w'. obs w' = obs w \<and> now w \<le> now w' \<and> (\<forall>x. r = Inr x \<longrightarrow> sel (obs w) (configmap_key t c ns) = x) \<and>
        (\<forall>cm. r = Inr (Some cm) \<longrightarrow> cm_meta cm = configmap_key t c ns)) w"
  unfolding GetConfigMap_def configmap_key_def wp_simps
  by (rule wp_Get) (auto simp: wp_simps)

lemma wp_GetTbotConfigMap:
  "wp (GetTbotConfigMap K c)
     (\<lambda>r w'. obs w' = obs w \<and> now w \<le> now w' \<and>
        (\<forall>x. r = Inr x \<longrightarrow> sel (obs w) (tbot_key c TeleportBotNamespace) = x)) w"
  unfolding GetTbotConfigMap_def tbot_key_def wp_simps
  by (rule wp_Get) (auto simp: wp_simps)

text \<open>
  Creating never overwrites: where there is a ConfigMap already, nothing happens and the
  call succeeds.
\<close>

definition create_effect :: "NamespacedName \<Rightarrow> string \<Rightarrow> 's \<Rightarrow> 's" where
  "create_effect k d s =
     (if sel s k = None then upd (set_key k (Some (values_configmap (Name k) (Namespace k) d))) s else s)"

lemma wp_CreateConfigMap:
  "wp (CreateConfigMap L t K c ns reg tok roles ver)
     (step_post obs now (create_effect (configmap_key t c ns) (getConfigMapData L t reg tok roles ver)) w) w"
  unfolding CreateConfigMap_def Let_def configmap_key_def wp_simps
  by (rule wp_Get)
    (auto simp: wp_simps step_post_def create_effect_def effect_or_none_def intro!: wp_Create)

lemma wp_EnsureTbotConfigMap:
  "wp (EnsureTbotConfigMap K c ns reg)
     (step_post obs now (create_effect (tbot_key c TeleportBotNamespace) (getTbotConfigMapData reg c)) w) w"
  unfolding EnsureTbotConfigMap_def
  by (rule wp_bindEI [OF wp_GetTbotConfigMap])
    (auto simp: CreateTbotConfigMap_def Let_def tbot_key_def wp_simps effect_or_none_def step_post_def
      create_effect_def intro!: wp_Create split: option.splits)

end

end
