(* ===== verification/Finalizer.thy ===== *)
theory Finalizer
  imports Teleport
begin

text \<open>
  \<open>teleport/finalizer.go\<close>: the operator's finalizer on the Cluster object. The patch
  helper compares the object with the snapshot taken when it was made; both are passed
  to it. \<open>cached_clusters\<close> states what the code relies on in the client, the patch helper
  and \<open>controllerutil\<close>; \<open>cluster_store\<close> adds that reads are current.
\<close>

section \<open>finalizer.go\<close>

text \<open>\<open>client.IgnoreNotFound\<close> turns "not found" into no error.\<close>

definition ignoreNotFound :: "error \<Rightarrow> ('w, unit) action" where
  "ignoreNotFound err = (if IsNotFound err then returnE () else throwE err)"

definition RemoveFinalizer :: "finalizer_lib \<Rightarrow> Cluster \<Rightarrow> 'w ctrl_client \<Rightarrow> ('w, unit) action" where
  "RemoveFinalizer fl cluster ctrlClient =
     bindE (patch_NewHelper ctrlClient cluster) (\<lambda>_.
     tryE (patch_Patch ctrlClient cluster (RemoveFinalizer_obj fl cluster TeleportOperatorFinalizer))
       ignoreNotFound
       (\<lambda>_. returnE ()))"

definition AddFinalizer :: "finalizer_lib \<Rightarrow> Cluster \<Rightarrow> 'w ctrl_client \<Rightarrow> ('w, unit) action" where
  "AddFinalizer fl cluster ctrlClient =
     bindE (patch_NewHelper ctrlClient cluster) (\<lambda>_.
     tryE (patch_Patch ctrlClient cluster (AddFinalizer_obj fl cluster TeleportOperatorFinalizer))
       ignoreNotFound
       (\<lambda>_. returnE ()))"

section \<open>Contracts\<close>

text \<open>An object that is being deleted disappears with its last finalizer.\<close>

definition settle :: "Cluster \<Rightarrow> Cluster option" where
  "settle c = (if \<not> deletion_IsZero (DeletionTimestamp c) \<and> Finalizers c = [] then None else Some c)"

locale finalizer_laws =
  fixes fl :: finalizer_lib
  assumes Contains: "ContainsFinalizer fl c f \<longleftrightarrow> f \<in> set (Finalizers c)"
    and Add: "AddFinalizer_obj fl c f =
      (if f \<in> set (Finalizers c) then c else c\<lparr>Finalizers := Finalizers c @ [f]\<rparr>)"
    and Remove: "RemoveFinalizer_obj fl c f = c\<lparr>Finalizers := filter (\<lambda>g. g \<noteq> f) (Finalizers c)\<rparr>"

text \<open>
  A patch carries what distinguishes the object from its snapshot. The two differ in the
  finalizers, so these replace the stored ones; the rest of the stored object stays.
  Without a difference nothing is sent.
\<close>

definition patched :: "Cluster \<Rightarrow> Cluster option \<Rightarrow> Cluster option" where
  "patched d x = (case x of None \<Rightarrow> None | Some c \<Rightarrow> settle (c\<lparr>Finalizers := Finalizers d\<rparr>))"

definition finalizers_differ :: "Cluster \<Rightarrow> Cluster \<Rightarrow> bool" where
  "finalizers_differ c d \<longleftrightarrow> d = c\<lparr>Finalizers := Finalizers d\<rparr> \<and> Finalizers d \<noteq> Finalizers c"

lemma finalizers_differ_simps:
  assumes "finalizers_differ c d"
  shows "cluster_meta d = cluster_meta c" "patched d (Some c) = settle d"
proof -
  have d: "d = c\<lparr>Finalizers := Finalizers d\<rparr>" using assms by (simp add: finalizers_differ_def)
  from arg_cong [OF d, of cluster_meta] show "cluster_meta d = cluster_meta c" by simp
  show "patched d (Some c) = settle d" unfolding patched_def by (simp flip: d)
qed

text \<open>As with other kinds, an object that is read may come from a cache.\<close>

locale cached_clusters = finalizer_laws fl
  for K :: "'w ctrl_client" and obs :: "'w \<Rightarrow> 's"
    and sel :: "'s \<Rightarrow> NamespacedName \<rightharpoonup> Cluster"
    and upd :: "((NamespacedName \<rightharpoonup> Cluster) \<Rightarrow> (NamespacedName \<rightharpoonup> Cluster)) \<Rightarrow> 's \<Rightarrow> 's"
    and now :: "'w \<Rightarrow> time" and fl +
  assumes sel_upd: "sel (upd f s) = f (sel s)"
    and upd_same: "f (sel s) = sel s \<Longrightarrow> upd f s = s"
    and GetC_now: "Get (Clusters K) k w = (g, w') \<Longrightarrow> now w \<le> now w'"
    and GetC_obs: "Get (Clusters K) k w = (g, w') \<Longrightarrow> obs w' = obs w"
    and GetC_key: "Get (Clusters K) k w = (Inr c, w') \<Longrightarrow> cluster_meta c = k"
    and NewHelper_now: "patch_NewHelper K c w = (r, w') \<Longrightarrow> now w \<le> now w'"
    and NewHelper_obs: "patch_NewHelper K c w = (r, w') \<Longrightarrow> obs w' = obs w"
    and Patch_now: "patch_Patch K c d w = (r, w') \<Longrightarrow> now w \<le> now w'"
    and Patch_done: "patch_Patch K c d w = (Inr u, w') \<Longrightarrow> finalizers_differ c d \<Longrightarrow>
      sel (obs w) (cluster_meta c) \<noteq> None \<and>
      obs w' = upd (set_key (cluster_meta c) (patched d (sel (obs w) (cluster_meta c)))) (obs w)"
    and Patch_failed: "patch_Patch K c d w = (Inl e, w') \<Longrightarrow> finalizers_differ c d \<Longrightarrow>
      obs w' = obs w \<or> \<not> IsNotFound e \<and> \<not> IsConflict e \<and> sel (obs w) (cluster_meta c) \<noteq> None \<and>
        obs w' = upd (set_key (cluster_meta c) (patched d (sel (obs w) (cluster_meta c)))) (obs w)"
    and Patch_same: "patch_Patch K c c w = (r, w') \<Longrightarrow> obs w' = obs w"
    and Patch_missing: "patch_Patch K c d w = (Inl e, w') \<Longrightarrow> IsNotFound e \<Longrightarrow> sel (obs w) (cluster_meta c) = None"
begin

definition with_finalizer :: "Cluster \<Rightarrow> Cluster" where
  "with_finalizer c = AddFinalizer_obj fl c TeleportOperatorFinalizer"

definition without_finalizer :: "Cluster \<Rightarrow> Cluster" where
  "without_finalizer c = RemoveFinalizer_obj fl c TeleportOperatorFinalizer"

lemma wp_NewHelper: "wp (patch_NewHelper K c) (\<lambda>r w'. obs w' = obs w \<and> now w \<le> now w') w"
  by (rule wp_casesI) (auto dest: NewHelper_now NewHelper_obs)

lemma wp_GetCluster_any:
  "wp (Get (Clusters K) k)
     (\<lambda>r w'. obs w' = obs w \<and> now w \<le> now w' \<and> (\<forall>c. r = Inr c \<longrightarrow> cluster_meta c = k)) w"
  by (rule wp_casesI) (auto dest: GetC_now GetC_obs GetC_key)

text \<open>Whatever is stored: nothing happens, or its finalizers become those of the object.\<close>

lemma wp_patch_any:
  assumes d: "finalizers_differ c d"
  shows "wp (bindE (patch_NewHelper K c) (\<lambda>_. tryE (patch_Patch K c d) ignoreNotFound (\<lambda>_. returnE ())))
     (\<lambda>r w'. now w \<le> now w' \<and>
        (obs w' = obs w \<or> (\<exists>c0. sel (obs w) (cluster_meta c) = Some c0 \<and>
           obs w' = upd (set_key (cluster_meta c) (settle (c0\<lparr>Finalizers := Finalizers d\<rparr>))) (obs w)))) w"
proof -
  have patch: "wp (patch_Patch K c d)
     (\<lambda>r w'. now w1 \<le> now w' \<and>
        (obs w' = obs w1 \<or> (\<exists>c0. sel (obs w1) (cluster_meta c) = Some c0 \<and>
           obs w' = upd (set_key (cluster_meta c) (settle (c0\<lparr>Finalizers := Finalizers d\<rparr>))) (obs w1)))) w1" for w1
    by (rule wp_casesI) (auto simp: patched_def dest: Patch_now Patch_done [OF _ d] Patch_failed [OF _ d])
  show ?thesis
    by (rule wp_bindEI [OF wp_NewHelper])
      (auto simp: wp_tryE wp_simps ignoreNotFound_def intro!: wp_mono [OF patch] split: sum.splits)
qed

lemma with_finalizer_differs: "TeleportOperatorFinalizer \<notin> set (Finalizers c) \<Longrightarrow> finalizers_differ c (with_finalizer c)"
  by (simp add: with_finalizer_def Add finalizers_differ_def)

lemma without_finalizer_differs: "TeleportOperatorFinalizer \<in> set (Finalizers c) \<Longrightarrow> finalizers_differ c (without_finalizer c)"
  by (auto simp: without_finalizer_def Remove finalizers_differ_def filter_id_conv)

lemma with_finalizer_simps [simp]:
  "TeleportOperatorFinalizer \<in> set (Finalizers (with_finalizer c))"
  "DeletionTimestamp (with_finalizer c) = DeletionTimestamp c"
  "cluster_meta (with_finalizer c) = cluster_meta c"
  by (simp_all add: with_finalizer_def Add)

lemma settle_with_finalizer [simp]: "settle (with_finalizer c) = Some (with_finalizer c)"
proof -
  have "Finalizers (with_finalizer c) \<noteq> []"
    using with_finalizer_simps(1) [of c] by (metis empty_iff list.set(1))
  then show ?thesis by (simp add: settle_def)
qed

lemma without_finalizer_simps [simp]:
  "TeleportOperatorFinalizer \<notin> set (Finalizers (without_finalizer c))"
  "f \<noteq> TeleportOperatorFinalizer \<Longrightarrow> f \<in> set (Finalizers (without_finalizer c)) \<longleftrightarrow> f \<in> set (Finalizers c)"
  "DeletionTimestamp (without_finalizer c) = DeletionTimestamp c"
  by (auto simp: without_finalizer_def Remove)

end

text \<open>Current reads.\<close>

locale cluster_store = cached_clusters K obs sel upd now fl
  for K :: "'w ctrl_client" and obs :: "'w \<Rightarrow> 's"
    and sel :: "'s \<Rightarrow> NamespacedName \<rightharpoonup> Cluster"
    and upd :: "((NamespacedName \<rightharpoonup> Cluster) \<Rightarrow> (NamespacedName \<rightharpoonup> Cluster)) \<Rightarrow> 's \<Rightarrow> 's"
    and now :: "'w \<Rightarrow> time" and fl +
  assumes GetC_stored: "Get (Clusters K) k w = (Inr c, w') \<Longrightarrow> sel (obs w) k = Some c"
    and GetC_missing: "Get (Clusters K) k w = (Inl e, w') \<Longrightarrow> IsNotFound e \<Longrightarrow> sel (obs w) k = None"
begin

lemma wp_GetCluster:
  "wp (Get (Clusters K) k)
     (\<lambda>r w'. obs w' = obs w \<and> now w \<le> now w' \<and>
        (case r of Inr c \<Rightarrow> sel (obs w) k = Some c \<and> cluster_meta c = k
         | Inl e \<Rightarrow> IsNotFound e \<longrightarrow> sel (obs w) k = None)) w"
  by (rule wp_casesI) (auto dest: GetC_now GetC_obs GetC_key GetC_stored GetC_missing)

lemma wp_patch:
  assumes c: "sel (obs w) (cluster_meta c) = Some c" and d: "finalizers_differ c d \<or> d = c \<and> settle c = Some c"
  shows "wp (bindE (patch_NewHelper K c) (\<lambda>_. tryE (patch_Patch K c d) ignoreNotFound (\<lambda>_. returnE ())))
     (step_post obs now (upd (set_key (cluster_meta c) (settle d))) w) w"
proof -
  have patch: "wp (patch_Patch K c d)
     (\<lambda>r w'. now w1 \<le> now w' \<and>
        (case r of
           Inr _ \<Rightarrow> obs w' = upd (set_key (cluster_meta c) (settle d)) (obs w)
         | Inl e \<Rightarrow> \<not> IsNotFound e \<and>
             (obs w' = obs w \<or> obs w' = upd (set_key (cluster_meta c) (settle d)) (obs w)))) w1"
    if "obs w1 = obs w" for w1
  proof (cases "finalizers_differ c d")
    case True
    with c that show ?thesis
      by (intro wp_casesI)
        (auto simp: finalizers_differ_simps [OF True] dest: Patch_now Patch_done [OF _ True] Patch_failed [OF _ True] Patch_missing)
  next
    case False
    then have "d = c" "upd (set_key (cluster_meta c) (settle c)) (obs w) = obs w"
      using d c by (auto simp: set_key_same intro: upd_same)
    with c that show ?thesis
      by (intro wp_casesI) (auto dest: Patch_now Patch_same Patch_missing)
  qed
  show ?thesis
    by (rule wp_bindEI [OF wp_NewHelper])
      (auto simp: wp_tryE wp_simps ignoreNotFound_def step_post_def elim!: wp_mono [OF patch] split: sum.splits)
qed

lemma with_finalizer_patch: "finalizers_differ c (with_finalizer c) \<or> with_finalizer c = c \<and> settle c = Some c"
  using with_finalizer_differs [of c] settle_with_finalizer [of c]
  by (cases "TeleportOperatorFinalizer \<in> set (Finalizers c)") (simp_all add: with_finalizer_def Add)

lemma without_finalizer_patch:
  "settle c = Some c \<Longrightarrow> finalizers_differ c (without_finalizer c) \<or> without_finalizer c = c \<and> settle c = Some c"
proof (cases "TeleportOperatorFinalizer \<in> set (Finalizers c)")
  case False
  then have "filter (\<lambda>g. g \<noteq> TeleportOperatorFinalizer) (Finalizers c) = Finalizers c" by (intro filter_True) auto
  then show "settle c = Some c \<Longrightarrow> ?thesis" by (simp add: without_finalizer_def Remove)
qed (simp add: without_finalizer_differs)

lemma wp_AddFinalizer:
  "sel (obs w) (cluster_meta c) = Some c \<Longrightarrow>
   wp (AddFinalizer fl c K)
     (step_post obs now (upd (set_key (cluster_meta c) (settle (with_finalizer c)))) w) w"
  unfolding AddFinalizer_def with_finalizer_def [symmetric] by (rule wp_patch) (simp_all add: with_finalizer_patch)

lemma wp_RemoveFinalizer:
  "sel (obs w) (cluster_meta c) = Some c \<Longrightarrow> settle c = Some c \<Longrightarrow>
   wp (RemoveFinalizer fl c K)
     (step_post obs now (upd (set_key (cluster_meta c) (settle (without_finalizer c)))) w) w"
  unfolding RemoveFinalizer_def without_finalizer_def [symmetric] by (rule wp_patch [OF _ without_finalizer_patch])

end

end
