(* ===== verification/App_Manager.thy ===== *)
theory App_Manager
  imports Teleport
begin

text \<open>
  \<open>teleport/app_manager.go\<close>: the version of the deployed teleport-kube-agent, and the
  managers that inject a reference to a ConfigMap into a Flux HelmRelease
  (\<open>spec.valuesFrom\<close>) or a Giant Swarm App (\<open>spec.extraConfigs\<close>), or do nothing where
  there is neither.
\<close>

section \<open>The kind\<close>

definition helmReleaseGVK :: GroupVersionKind where
  "helmReleaseGVK = \<lparr>Group = ''helm.toolkit.fluxcd.io'', gvk_Version = ''v2'', gvk_Kind = ''HelmRelease''\<rparr>"

definition newHelmReleaseUnstructured :: HelmRelease where
  "newHelmReleaseUnstructured = \<lparr>hr_meta = \<lparr>Name = '''', Namespace = ''''\<rparr>, gvk = helmReleaseGVK, Object = fmempty\<rparr>"

text \<open>A call for an unstructured object goes to the kind the object carries; one that was read keeps it.\<close>

definition HelmReleases :: "'w ctrl_client \<Rightarrow> (HelmRelease, 'w) kind_client" where
  "HelmReleases ctrlClient = Unstructureds ctrlClient (gvk newHelmReleaseUnstructured)"

section \<open>The deployed chart version\<close>

definition helmReleaseInstalledChartVersion :: "HelmRelease \<Rightarrow> string" where
  "helmReleaseInstalledChartVersion hr =
     (case as_map (fmlookup (Object hr) ''status'') of
        None \<Rightarrow> ''''
      | Some status \<Rightarrow>
          (case as_slice (fmlookup status ''history'') of
             None \<Rightarrow> ''''
           | Some [] \<Rightarrow> ''''
           | Some (h # history) \<Rightarrow>
               (case as_map (Some h) of
                  None \<Rightarrow> ''''
                | Some entry \<Rightarrow>
                    (case as_string (fmlookup entry ''chartVersion'') of None \<Rightarrow> '''' | Some v \<Rightarrow> v))))"

definition helmReleaseSpecChartVersion :: "HelmRelease \<Rightarrow> string" where
  "helmReleaseSpecChartVersion hr =
     (case as_map (fmlookup (Object hr) ''spec'') of
        None \<Rightarrow> ''''
      | Some spec \<Rightarrow>
          (case as_map (fmlookup spec ''chart'') of
             None \<Rightarrow> ''''
           | Some chart \<Rightarrow>
               (case as_map (fmlookup chart ''spec'') of
                  None \<Rightarrow> ''''
                | Some chartSpec \<Rightarrow>
                    (case as_string (fmlookup chartSpec ''version'') of None \<Rightarrow> '''' | Some v \<Rightarrow> v))))"

definition GetTeleportKubeAgentVersion :: "'w ctrl_client \<Rightarrow> string \<Rightarrow> string \<Rightarrow> ('w, string) action" where
  "GetTeleportKubeAgentVersion ctrlClient resourceName namespace =
     tryE (Get (HelmReleases ctrlClient) \<lparr>Name = resourceName, Namespace = namespace\<rparr>)
       (\<lambda>err. if \<not> IsNotFound err then throwE err
              else tryE (Get (Apps ctrlClient) \<lparr>Name = resourceName, Namespace = namespace\<rparr>)
                     (\<lambda>err. if \<not> IsNotFound err then throwE err else returnE '''')
                     (\<lambda>app. returnE (Spec_Version app)))
       (\<lambda>hr. if helmReleaseInstalledChartVersion hr \<noteq> '''' then returnE (helmReleaseInstalledChartVersion hr)
             else if helmReleaseSpecChartVersion hr \<noteq> '''' then returnE (helmReleaseSpecChartVersion hr)
             else returnE '''')"

section \<open>References in a HelmRelease\<close>

text \<open>The elements of a slice that may be nil.\<close>

definition elems :: "'a list option \<Rightarrow> 'a list" where
  "elems xs = (case xs of None \<Rightarrow> [] | Some ys \<Rightarrow> ys)"

lemma elems_simps [simp]: "elems None = []" "elems (Some xs) = xs"
  by (simp_all add: elems_def)

definition getValuesFrom :: "HelmRelease \<Rightarrow> iface list option" where
  "getValuesFrom hr =
     (case as_map (fmlookup (Object hr) ''spec'') of
        None \<Rightarrow> None
      | Some spec \<Rightarrow>
          (case as_slice (fmlookup spec ''valuesFrom'') of
             None \<Rightarrow> None
           | Some valuesFrom \<Rightarrow> Some valuesFrom))"

definition setValuesFrom :: "HelmRelease \<Rightarrow> iface list option \<Rightarrow> HelmRelease" where
  "setValuesFrom hr valuesFrom =
     (let spec = (case as_map (fmlookup (Object hr) ''spec'') of None \<Rightarrow> fmempty | Some spec \<Rightarrow> spec)
      in hr\<lparr>Object := fmupd ''spec'' (Map (fmupd ''valuesFrom'' (Slice (elems valuesFrom)) spec)) (Object hr)\<rparr>)"

text \<open>\<open>reflect.DeepEqual\<close> is equality of the model's values; a nil slice differs from an empty one.\<close>

fun findRef :: "'a list \<Rightarrow> 'a \<Rightarrow> bool" where
  "findRef [] ref = False"
| "findRef (existing # refs) ref = (if existing = ref then True else findRef refs ref)"

definition appendValuesReference :: "iface list option \<Rightarrow> iface \<Rightarrow> iface list option" where
  "appendValuesReference refs ref = (if findRef (elems refs) ref then refs else Some (elems refs @ [ref]))"

fun withoutRef :: "'a list \<Rightarrow> 'a \<Rightarrow> 'a list \<Rightarrow> 'a list" where
  "withoutRef [] ref result = result"
| "withoutRef (existing # refs) ref result =
     withoutRef refs ref (if existing \<noteq> ref then result @ [existing] else result)"

definition removeValuesReference :: "iface list option \<Rightarrow> iface \<Rightarrow> iface list option" where
  "removeValuesReference refs ref = Some (withoutRef (elems refs) ref [])"

definition values_ref :: "string \<Rightarrow> iface" where
  "values_ref configMapName =
     Map (fmap_of_list [(''kind'', Str ''ConfigMap''), (''name'', Str configMapName), (''valuesKey'', Str ''values'')])"

lemma values_ref_inj: "values_ref cm = values_ref cm' \<longleftrightarrow> cm = cm'"
proof
  assume "values_ref cm = values_ref cm'"
  then have "fmlookup (fmap_of_list [(''kind'', Str ''ConfigMap''), (''name'', Str cm), (''valuesKey'', Str ''values'')]) ''name'' =
      fmlookup (fmap_of_list [(''kind'', Str ''ConfigMap''), (''name'', Str cm'), (''valuesKey'', Str ''values'')]) ''name''"
    by (simp add: values_ref_def)
  then show "cm = cm'" by (simp add: fmlookup_of_list)
qed simp

section \<open>The managers\<close>

record 'w helmReleaseTeleportAppConfigManager =
  hm_client :: "'w ctrl_client"
  hm_resourceName :: string
  hm_namespace :: string
  hm_configMapName :: string

record 'w appCRTeleportAppConfigManager =
  am_client :: "'w ctrl_client"
  am_resourceName :: string
  am_namespace :: string
  am_configMapName :: string

record noOpTeleportAppConfigManager =
  nm_resourceName :: string
  nm_namespace :: string

text \<open>The interface, by the types that implement it.\<close>

datatype 'w TeleportAppConfigManager =
    HelmReleaseManager "'w helmReleaseTeleportAppConfigManager"
  | AppCRManager "'w appCRTeleportAppConfigManager"
  | NoOpManager noOpTeleportAppConfigManager

definition NewTeleportAppConfigManager ::
    "'w ctrl_client \<Rightarrow> string \<Rightarrow> string \<Rightarrow> string \<Rightarrow> ('w, 'w TeleportAppConfigManager) action" where
  "NewTeleportAppConfigManager ctrlClient resourceName namespace configMapName =
     tryE (Get (HelmReleases ctrlClient) \<lparr>Name = resourceName, Namespace = namespace\<rparr>)
       (\<lambda>err. if \<not> IsNotFound err then throwE err
              else tryE (Get (Apps ctrlClient) \<lparr>Name = resourceName, Namespace = namespace\<rparr>)
                     (\<lambda>err. if \<not> IsNotFound err then throwE err
                            else returnE (NoOpManager \<lparr>nm_resourceName = resourceName, nm_namespace = namespace\<rparr>))
                     (\<lambda>app. returnE (AppCRManager
                        \<lparr>am_client = ctrlClient, am_resourceName = resourceName, am_namespace = namespace,
                         am_configMapName = configMapName\<rparr>)))
       (\<lambda>hr. returnE (HelmReleaseManager
          \<lparr>hm_client = ctrlClient, hm_resourceName = resourceName, hm_namespace = namespace,
           hm_configMapName = configMapName\<rparr>))"

definition helmRelease_EnsureConfig :: "'w helmReleaseTeleportAppConfigManager \<Rightarrow> ('w, unit) action" where
  "helmRelease_EnsureConfig m =
     bindE (Get (HelmReleases (hm_client m)) \<lparr>Name = hm_resourceName m, Namespace = hm_namespace m\<rparr>) (\<lambda>hr.
       let current = getValuesFrom hr;
           updated = appendValuesReference current (values_ref (hm_configMapName m))
       in if current = updated then returnE ()
          else bindE (Update (HelmReleases (hm_client m)) (setValuesFrom hr updated)) (\<lambda>_. returnE ()))"

definition helmRelease_DeleteConfig :: "'w helmReleaseTeleportAppConfigManager \<Rightarrow> ('w, unit) action" where
  "helmRelease_DeleteConfig m =
     tryE (Get (HelmReleases (hm_client m)) \<lparr>Name = hm_resourceName m, Namespace = hm_namespace m\<rparr>)
       (\<lambda>err. if IsNotFound err then returnE () else throwE err)
       (\<lambda>hr.
         let current = getValuesFrom hr;
             updated = removeValuesReference current (values_ref (hm_configMapName m))
         in if current = updated then returnE ()
            else bindE (Update (HelmReleases (hm_client m)) (setValuesFrom hr updated)) (\<lambda>_. returnE ()))"

definition extra_config :: "string \<Rightarrow> string \<Rightarrow> AppExtraConfig" where
  "extra_config configMapName namespace =
     \<lparr>Kind = ''configMap'', ec_Name = configMapName, ec_Namespace = namespace, Priority = 25\<rparr>"

definition appendExtraConfig :: "AppExtraConfig list option \<Rightarrow> AppExtraConfig \<Rightarrow> AppExtraConfig list option" where
  "appendExtraConfig configs config =
     (if findRef (elems configs) config then configs else Some (elems configs @ [config]))"

definition removeExtraConfig :: "AppExtraConfig list option \<Rightarrow> AppExtraConfig \<Rightarrow> AppExtraConfig list option" where
  "removeExtraConfig configs config = Some (withoutRef (elems configs) config [])"

definition appCR_EnsureConfig :: "'w appCRTeleportAppConfigManager \<Rightarrow> ('w, unit) action" where
  "appCR_EnsureConfig m =
     bindE (Get (Apps (am_client m)) \<lparr>Name = am_resourceName m, Namespace = am_namespace m\<rparr>) (\<lambda>app.
       let current = ExtraConfigs app;
           updated = appendExtraConfig current (extra_config (am_configMapName m) (am_namespace m))
       in if current = updated then returnE ()
          else bindE (Update (Apps (am_client m)) (app\<lparr>ExtraConfigs := updated\<rparr>)) (\<lambda>_. returnE ()))"

definition appCR_DeleteConfig :: "'w appCRTeleportAppConfigManager \<Rightarrow> ('w, unit) action" where
  "appCR_DeleteConfig m =
     tryE (Get (Apps (am_client m)) \<lparr>Name = am_resourceName m, Namespace = am_namespace m\<rparr>)
       (\<lambda>err. if IsNotFound err then returnE () else throwE err)
       (\<lambda>app.
         if ExtraConfigs app = None then returnE ()
         else let current = ExtraConfigs app;
                  updated = removeExtraConfig current (extra_config (am_configMapName m) (am_namespace m))
              in if current = updated then returnE ()
                 else bindE (Update (Apps (am_client m)) (app\<lparr>ExtraConfigs := updated\<rparr>)) (\<lambda>_. returnE ()))"

definition noOp_EnsureConfig :: "noOpTeleportAppConfigManager \<Rightarrow> ('w, unit) action" where
  "noOp_EnsureConfig n = returnE ()"

definition noOp_DeleteConfig :: "noOpTeleportAppConfigManager \<Rightarrow> ('w, unit) action" where
  "noOp_DeleteConfig n = returnE ()"

fun EnsureConfig :: "'w TeleportAppConfigManager \<Rightarrow> ('w, unit) action" where
  "EnsureConfig (HelmReleaseManager m) = helmRelease_EnsureConfig m"
| "EnsureConfig (AppCRManager m) = appCR_EnsureConfig m"
| "EnsureConfig (NoOpManager n) = noOp_EnsureConfig n"

fun DeleteConfig :: "'w TeleportAppConfigManager \<Rightarrow> ('w, unit) action" where
  "DeleteConfig (HelmReleaseManager m) = helmRelease_DeleteConfig m"
| "DeleteConfig (AppCRManager m) = appCR_DeleteConfig m"
| "DeleteConfig (NoOpManager n) = noOp_DeleteConfig n"

lemmas manager_simps = helmReleaseTeleportAppConfigManager.select_convs appCRTeleportAppConfigManager.select_convs

lemmas noOp_defs = noOp_EnsureConfig_def noOp_DeleteConfig_def

section \<open>Lists of references\<close>

lemma findRef_iff [simp]: "findRef refs ref \<longleftrightarrow> ref \<in> set refs"
  by (induction refs) auto

lemma withoutRef_eq: "withoutRef refs ref result = result @ filter (\<lambda>x. x \<noteq> ref) refs"
  by (induction refs arbitrary: result) auto

text \<open>Adding a reference once, removing it everywhere: what both managers do to their list.\<close>

definition insert_ref :: "'a \<Rightarrow> 'a list \<Rightarrow> 'a list" where
  "insert_ref ref refs = (if ref \<in> set refs then refs else refs @ [ref])"

definition remove_ref :: "'a \<Rightarrow> 'a list \<Rightarrow> 'a list" where
  "remove_ref ref refs = filter (\<lambda>x. x \<noteq> ref) refs"

lemma insert_ref_idem: "insert_ref ref (insert_ref ref refs) = insert_ref ref refs"
  by (simp add: insert_ref_def)

lemma remove_insert_ref: "ref \<notin> set refs \<Longrightarrow> remove_ref ref (insert_ref ref refs) = refs"
  by (auto simp: insert_ref_def remove_ref_def intro: filter_True)

lemma append_elems:
  "elems (appendValuesReference refs ref) = insert_ref ref (elems refs)"
  "elems (appendExtraConfig configs config) = insert_ref config (elems configs)"
  by (auto simp: appendValuesReference_def appendExtraConfig_def insert_ref_def)

lemma remove_elems:
  "elems (removeValuesReference refs ref) = remove_ref ref (elems refs)"
  "elems (removeExtraConfig configs config) = remove_ref config (elems configs)"
  by (simp_all add: removeValuesReference_def removeExtraConfig_def remove_ref_def withoutRef_eq)

lemma append_unchanged_iff:
  "refs = appendValuesReference refs ref \<longleftrightarrow> ref \<in> set (elems refs)"
  "configs = appendExtraConfig configs config \<longleftrightarrow> config \<in> set (elems configs)"
  by (auto simp: appendValuesReference_def appendExtraConfig_def elems_def split: option.splits)

lemma filter_neq_id: "xs = filter (\<lambda>x. x \<noteq> r) xs \<longleftrightarrow> r \<notin> set xs"
  by (subst eq_commute, unfold filter_id_conv) blast

lemma remove_unchanged_iff:
  "refs = removeValuesReference refs ref \<longleftrightarrow> refs \<noteq> None \<and> ref \<notin> set (elems refs)"
  "configs = removeExtraConfig configs config \<longleftrightarrow> configs \<noteq> None \<and> config \<notin> set (elems configs)"
  unfolding removeValuesReference_def removeExtraConfig_def withoutRef_eq append_Nil
  by (cases refs, simp, simp add: filter_neq_id) (cases configs, simp, simp add: filter_neq_id)

definition hr_refs :: "HelmRelease \<Rightarrow> iface list" where
  "hr_refs hr = elems (getValuesFrom hr)"

definition app_refs :: "App \<Rightarrow> AppExtraConfig list" where
  "app_refs app = elems (ExtraConfigs app)"

lemma app_refs_update [simp]: "app_refs (a\<lparr>ExtraConfigs := xs\<rparr>) = elems xs"
  by (simp add: app_refs_def)

lemma getValuesFrom_setValuesFrom [simp]: "getValuesFrom (setValuesFrom hr refs) = Some (elems refs)"
  by (simp add: getValuesFrom_def setValuesFrom_def Let_def)

lemma hr_meta_setValuesFrom [simp]: "hr_meta (setValuesFrom hr refs) = hr_meta hr"
  by (simp add: setValuesFrom_def Let_def)

lemma hr_refs_setValuesFrom [simp]: "hr_refs (setValuesFrom hr refs) = elems refs"
  by (simp add: hr_refs_def)

text \<open>Setting the references leaves every other part of the object alone.\<close>

lemma setValuesFrom_frame:
  "k \<noteq> ''spec'' \<Longrightarrow> fmlookup (Object (setValuesFrom hr refs)) k = fmlookup (Object hr) k"
  "fmlookup (Object hr) ''spec'' = Some (Map spec) \<Longrightarrow> k \<noteq> ''valuesFrom'' \<Longrightarrow>
     \<exists>spec'. fmlookup (Object (setValuesFrom hr refs)) ''spec'' = Some (Map spec') \<and> fmlookup spec' k = fmlookup spec k"
  by (simp_all add: setValuesFrom_def Let_def)

text \<open>
  Writing the references of a HelmRelease changes those and nothing else: the rest of
  the spec, the rest of the object and its key stay.
\<close>

lemma set_values_from_frame:
  "getValuesFrom (setValuesFrom hr refs) = Some (elems refs) \<and>
   hr_meta (setValuesFrom hr refs) = hr_meta hr \<and>
   fmdrop ''spec'' (Object (setValuesFrom hr refs)) = fmdrop ''spec'' (Object hr) \<and>
   (\<exists>spec. fmlookup (Object (setValuesFrom hr refs)) ''spec'' = Some (Map spec) \<and>
      fmdrop ''valuesFrom'' spec =
        fmdrop ''valuesFrom'' (case as_map (fmlookup (Object hr) ''spec'') of None \<Rightarrow> fmempty | Some s \<Rightarrow> s))"
proof (intro conjI)
  show "getValuesFrom (setValuesFrom hr refs) = Some (elems refs)" by simp
qed (auto simp: setValuesFrom_def Let_def intro!: fmap_ext)

section \<open>Contracts\<close>

text \<open>
  A write of one resource, or none: the HelmRelease or the App is replaced, by one whose
  references are as \<open>P\<close> or \<open>Q\<close> says. \<open>updh\<close> and \<open>upda\<close> change the objects of either kind.
\<close>

definition resource_put ::
    "(((NamespacedName \<rightharpoonup> HelmRelease) \<Rightarrow> (NamespacedName \<rightharpoonup> HelmRelease)) \<Rightarrow> 's \<Rightarrow> 's) \<Rightarrow>
     (((NamespacedName \<rightharpoonup> App) \<Rightarrow> (NamespacedName \<rightharpoonup> App)) \<Rightarrow> 's \<Rightarrow> 's) \<Rightarrow>
     (iface list \<Rightarrow> bool) \<Rightarrow> (AppExtraConfig list \<Rightarrow> bool) \<Rightarrow> NamespacedName \<Rightarrow> 's \<Rightarrow> 's \<Rightarrow> bool" where
  "resource_put updh upda P Q k s s' \<longleftrightarrow> s' = s \<or>
     (\<exists>hr. hr_meta hr = k \<and> P (hr_refs hr) \<and> s' = updh (set_key k (Some hr)) s) \<or>
     (\<exists>a. app_meta a = k \<and> Q (app_refs a) \<and> s' = upda (set_key k (Some a)) s)"

lemma resource_put_same [simp]: "resource_put updh upda P Q k s s"
  by (simp add: resource_put_def)

text \<open>
  Both kinds in one observation. What the server stores for an App keeps its version and
  its references (an empty list may come back as none).
\<close>

locale cached_managers =
  hr: cached_api "HelmReleases K" hr_meta "\<lambda>x. x" obs selh updh now +
  ap: cached_api "Apps K" app_meta app_admit obs sela upda now
  for K :: "'w ctrl_client" and obs :: "'w \<Rightarrow> 's" and selh updh app_admit sela upda now +
  assumes admit_meta: "app_meta (app_admit a) = app_meta a"
    and admit_version: "Spec_Version (app_admit a) = Spec_Version a"
    and admit_refs: "app_refs (app_admit a) = app_refs a"
begin

abbreviation hr_manager :: "NamespacedName \<Rightarrow> string \<Rightarrow> 'w helmReleaseTeleportAppConfigManager" where
  "hr_manager k cm \<equiv> \<lparr>hm_client = K, hm_resourceName = Name k, hm_namespace = Namespace k, hm_configMapName = cm\<rparr>"

abbreviation app_manager :: "NamespacedName \<Rightarrow> string \<Rightarrow> 'w appCRTeleportAppConfigManager" where
  "app_manager k cm \<equiv> \<lparr>am_client = K, am_resourceName = Name k, am_namespace = Namespace k, am_configMapName = cm\<rparr>"

text \<open>Whatever is read, the manager is one of three, and writes the resource or nothing.\<close>

definition a_manager_of :: "NamespacedName \<Rightarrow> string \<Rightarrow> 'w TeleportAppConfigManager \<Rightarrow> bool" where
  "a_manager_of k cm m \<longleftrightarrow> m = HelmReleaseManager (hr_manager k cm) \<or> m = AppCRManager (app_manager k cm) \<or>
     m = NoOpManager \<lparr>nm_resourceName = Name k, nm_namespace = Namespace k\<rparr>"

abbreviation refers :: "NamespacedName \<Rightarrow> string \<Rightarrow> 's \<Rightarrow> 's \<Rightarrow> bool" where
  "refers k cm \<equiv> resource_put updh upda (\<lambda>refs. values_ref cm \<in> set refs) (\<lambda>refs. extra_config cm (Namespace k) \<in> set refs) k"

abbreviation unrefers :: "NamespacedName \<Rightarrow> string \<Rightarrow> 's \<Rightarrow> 's \<Rightarrow> bool" where
  "unrefers k cm \<equiv> resource_put updh upda (\<lambda>refs. values_ref cm \<notin> set refs) (\<lambda>refs. extra_config cm (Namespace k) \<notin> set refs) k"

lemma wp_NewTeleportAppConfigManager_any:
  "wp (NewTeleportAppConfigManager K (Name k) (Namespace k) cm)
     (\<lambda>r w'. obs w' = obs w \<and> now w \<le> now w' \<and> (\<forall>m. r = Inr m \<longrightarrow> a_manager_of k cm m)) w"
  unfolding NewTeleportAppConfigManager_def wp_simps
  by (rule hr.wp_Get_any) (auto simp: wp_simps a_manager_of_def intro!: ap.wp_Get_any)

lemma wp_write_release:
  assumes "hr_meta hr = k" "P (hr_refs hr)"
  shows "wp (Update (HelmReleases K) hr) (\<lambda>r w'. now w \<le> now w' \<and> resource_put updh upda P Q k (obs w) (obs w')) w"
  by (rule hr.wp_Update) (use assms in \<open>auto simp: resource_put_def effect_or_none_def\<close>)

lemma wp_write_app:
  assumes "app_meta a = k" "Q (app_refs a)"
  shows "wp (Update (Apps K) a) (\<lambda>r w'. now w \<le> now w' \<and> resource_put updh upda P Q k (obs w) (obs w')) w"
  by (rule ap.wp_Update)
    (use assms in \<open>auto simp: resource_put_def effect_or_none_def admit_meta admit_refs intro!: exI [of _ "app_admit a"]\<close>)

lemma wp_EnsureConfig_any:
  assumes "a_manager_of k cm m"
  shows "wp (EnsureConfig m) (\<lambda>r w'. now w \<le> now w' \<and> refers k cm (obs w) (obs w')) w"
proof -
  note writes = wp_write_release [where P = "\<lambda>refs. values_ref cm \<in> set refs" and Q = "\<lambda>refs. extra_config cm (Namespace k) \<in> set refs"]
    wp_write_app [where P = "\<lambda>refs. values_ref cm \<in> set refs" and Q = "\<lambda>refs. extra_config cm (Namespace k) \<in> set refs"]
  have "wp (helmRelease_EnsureConfig (hr_manager k cm)) (\<lambda>r w'. now w \<le> now w' \<and> refers k cm (obs w) (obs w')) w"
    unfolding helmRelease_EnsureConfig_def manager_simps wp_simps Let_def key_eta
    by (rule hr.wp_Get_any)
      (auto simp: wp_simps append_elems insert_ref_def intro!: wp_mono [OF writes(1)])
  moreover have "wp (appCR_EnsureConfig (app_manager k cm)) (\<lambda>r w'. now w \<le> now w' \<and> refers k cm (obs w) (obs w')) w"
    unfolding appCR_EnsureConfig_def manager_simps wp_simps Let_def key_eta
    by (rule ap.wp_Get_any)
      (auto simp: wp_simps append_elems insert_ref_def intro!: wp_mono [OF writes(2)])
  ultimately show ?thesis
    using assms by (auto simp: a_manager_of_def noOp_defs wp_simps)
qed

lemma wp_DeleteConfig_any:
  assumes "a_manager_of k cm m"
  shows "wp (DeleteConfig m) (\<lambda>r w'. now w \<le> now w' \<and> unrefers k cm (obs w) (obs w')) w"
proof -
  note writes = wp_write_release [where P = "\<lambda>refs. values_ref cm \<notin> set refs" and Q = "\<lambda>refs. extra_config cm (Namespace k) \<notin> set refs"]
    wp_write_app [where P = "\<lambda>refs. values_ref cm \<notin> set refs" and Q = "\<lambda>refs. extra_config cm (Namespace k) \<notin> set refs"]
  have "wp (helmRelease_DeleteConfig (hr_manager k cm)) (\<lambda>r w'. now w \<le> now w' \<and> unrefers k cm (obs w) (obs w')) w"
    unfolding helmRelease_DeleteConfig_def manager_simps wp_simps Let_def key_eta
    by (rule hr.wp_Get_any)
      (auto simp: wp_simps remove_elems remove_ref_def intro!: wp_mono [OF writes(1)])
  moreover have "wp (appCR_DeleteConfig (app_manager k cm)) (\<lambda>r w'. now w \<le> now w' \<and> unrefers k cm (obs w) (obs w')) w"
    unfolding appCR_DeleteConfig_def manager_simps wp_simps Let_def key_eta
    by (rule ap.wp_Get_any)
      (auto simp: wp_simps remove_elems remove_ref_def intro!: wp_mono [OF writes(2)])
  ultimately show ?thesis
    using assms by (auto simp: a_manager_of_def noOp_defs wp_simps)
qed

text \<open>Detecting the manager and using it, as the controller does.\<close>

lemma wp_manager_any:
  shows "wp (bindE (NewTeleportAppConfigManager K (Name k) (Namespace k) cm) EnsureConfig)
      (\<lambda>r w'. now w \<le> now w' \<and> refers k cm (obs w) (obs w')) w"
    and "wp (bindE (NewTeleportAppConfigManager K (Name k) (Namespace k) cm) DeleteConfig)
      (\<lambda>r w'. now w \<le> now w' \<and> unrefers k cm (obs w) (obs w')) w"
  by (rule wp_bindEI [OF wp_NewTeleportAppConfigManager_any];
      auto intro!: wp_mono [OF wp_EnsureConfig_any] wp_mono [OF wp_DeleteConfig_any])+

end

text \<open>With current reads, the manager and what it writes are functions of what is stored.\<close>

locale manager_store = cached_managers K obs selh updh app_admit sela upda now +
  hr: resource_api "HelmReleases K" hr_meta "\<lambda>x. x" obs selh updh now +
  ap: resource_api "Apps K" app_meta app_admit obs sela upda now
  for K :: "'w ctrl_client" and obs :: "'w \<Rightarrow> 's" and selh updh app_admit sela upda now
begin

text \<open>The manager that is detected for a resource.\<close>

definition manager_of :: "NamespacedName \<Rightarrow> string \<Rightarrow> 's \<Rightarrow> 'w TeleportAppConfigManager" where
  "manager_of k cm s =
     (if selh s k \<noteq> None then HelmReleaseManager (hr_manager k cm)
      else if sela s k \<noteq> None then AppCRManager (app_manager k cm)
      else NoOpManager \<lparr>nm_resourceName = Name k, nm_namespace = Namespace k\<rparr>)"

definition ensure_hr :: "NamespacedName \<Rightarrow> string \<Rightarrow> HelmRelease \<Rightarrow> 's \<Rightarrow> 's" where
  "ensure_hr k cm hr s =
     (if values_ref cm \<in> set (hr_refs hr) then s
      else updh (set_key k (Some (setValuesFrom hr (Some (hr_refs hr @ [values_ref cm]))))) s)"

definition ensure_app :: "NamespacedName \<Rightarrow> string \<Rightarrow> App \<Rightarrow> 's \<Rightarrow> 's" where
  "ensure_app k cm a s =
     (if extra_config cm (Namespace k) \<in> set (app_refs a) then s
      else upda (set_key k (Some (app_admit (a\<lparr>ExtraConfigs := Some (app_refs a @ [extra_config cm (Namespace k)])\<rparr>)))) s)"

definition ensure_effect :: "NamespacedName \<Rightarrow> string \<Rightarrow> 's \<Rightarrow> 's" where
  "ensure_effect k cm s =
     (case selh s k of
        Some hr \<Rightarrow> ensure_hr k cm hr s
      | None \<Rightarrow> (case sela s k of Some a \<Rightarrow> ensure_app k cm a s | None \<Rightarrow> s))"

definition remove_hr :: "NamespacedName \<Rightarrow> string \<Rightarrow> HelmRelease \<Rightarrow> 's \<Rightarrow> 's" where
  "remove_hr k cm hr s =
     (if getValuesFrom hr \<noteq> None \<and> values_ref cm \<notin> set (hr_refs hr) then s
      else updh (set_key k (Some (setValuesFrom hr (Some (remove_ref (values_ref cm) (hr_refs hr)))))) s)"

definition remove_app :: "NamespacedName \<Rightarrow> string \<Rightarrow> App \<Rightarrow> 's \<Rightarrow> 's" where
  "remove_app k cm a s =
     (if extra_config cm (Namespace k) \<notin> set (app_refs a) then s
      else upda (set_key k (Some (app_admit
             (a\<lparr>ExtraConfigs := Some (remove_ref (extra_config cm (Namespace k)) (app_refs a))\<rparr>)))) s)"

definition remove_effect :: "NamespacedName \<Rightarrow> string \<Rightarrow> 's \<Rightarrow> 's" where
  "remove_effect k cm s =
     (case selh s k of
        Some hr \<Rightarrow> remove_hr k cm hr s
      | None \<Rightarrow> (case sela s k of Some a \<Rightarrow> remove_app k cm a s | None \<Rightarrow> s))"

lemma wp_NewTeleportAppConfigManager:
  "wp (NewTeleportAppConfigManager K (Name k) (Namespace k) cm)
     (\<lambda>r w'. obs w' = obs w \<and> now w \<le> now w' \<and> (\<forall>m. r = Inr m \<longrightarrow> m = manager_of k cm (obs w))) w"
  unfolding NewTeleportAppConfigManager_def wp_simps
  by (rule hr.wp_Get) (auto simp: wp_simps manager_of_def intro!: ap.wp_Get)

lemma wp_helmRelease_EnsureConfig:
  assumes "selh (obs w) k = Some hr"
  shows "wp (helmRelease_EnsureConfig (hr_manager k cm)) (step_post obs now (ensure_hr k cm hr) w) w"
  unfolding helmRelease_EnsureConfig_def manager_simps wp_simps Let_def append_unchanged_iff key_eta
  by (rule hr.wp_Get)
    (use assms in \<open>auto simp: wp_simps step_post_def ensure_hr_def hr_refs_def appendValuesReference_def
       effect_or_none_def intro!: hr.wp_Update\<close>)

lemma wp_appCR_EnsureConfig:
  assumes "sela (obs w) k = Some a"
  shows "wp (appCR_EnsureConfig (app_manager k cm)) (step_post obs now (ensure_app k cm a) w) w"
  unfolding appCR_EnsureConfig_def manager_simps wp_simps Let_def append_unchanged_iff key_eta
  by (rule ap.wp_Get)
    (use assms in \<open>auto simp: wp_simps step_post_def ensure_app_def app_refs_def appendExtraConfig_def
       effect_or_none_def intro!: ap.wp_Update\<close>)

lemma wp_helmRelease_DeleteConfig:
  assumes "selh (obs w) k = Some hr"
  shows "wp (helmRelease_DeleteConfig (hr_manager k cm)) (step_post obs now (remove_hr k cm hr) w) w"
  unfolding helmRelease_DeleteConfig_def manager_simps wp_simps Let_def remove_unchanged_iff key_eta
  by (rule hr.wp_Get)
    (use assms in \<open>auto simp: wp_simps step_post_def remove_hr_def hr_refs_def removeValuesReference_def
       remove_ref_def withoutRef_eq effect_or_none_def intro!: hr.wp_Update\<close>)

lemma wp_appCR_DeleteConfig:
  assumes "sela (obs w) k = Some a"
  shows "wp (appCR_DeleteConfig (app_manager k cm)) (step_post obs now (remove_app k cm a) w) w"
  unfolding appCR_DeleteConfig_def manager_simps wp_simps Let_def remove_unchanged_iff key_eta
  by (rule ap.wp_Get)
    (use assms in \<open>auto simp: wp_simps step_post_def remove_app_def app_refs_def removeExtraConfig_def
       remove_ref_def withoutRef_eq effect_or_none_def intro!: ap.wp_Update\<close>)

text \<open>Detecting the manager and using it, as the controller does.\<close>

lemma wp_manager_EnsureConfig:
  "wp (bindE (NewTeleportAppConfigManager K (Name k) (Namespace k) cm) EnsureConfig)
     (step_post obs now (ensure_effect k cm) w) w"
proof (rule wp_bindEI [OF wp_NewTeleportAppConfigManager])
  fix m w1
  assume w1: "obs w1 = obs w \<and> now w \<le> now w1 \<and> (\<forall>m'. Inr m = Inr m' \<longrightarrow> m' = manager_of k cm (obs w))"
  have "wp (EnsureConfig m) (step_post obs now (ensure_effect k cm) w1) w1"
  proof (cases "selh (obs w1) k")
    case (Some hr)
    with w1 show ?thesis
      by (auto simp: ensure_effect_def manager_of_def intro: step_post_at [OF wp_helmRelease_EnsureConfig])
  next
    case None
    with w1 show ?thesis
      by (cases "sela (obs w1) k")
        (auto simp: ensure_effect_def manager_of_def noOp_defs intro: step_post_at [OF wp_appCR_EnsureConfig] step_post_return)
  qed
  then show "wp (EnsureConfig m) (step_post obs now (ensure_effect k cm) w) w1"
    by (rule step_post_later) (use w1 in simp_all)
qed (simp add: step_post_def)

lemma wp_manager_DeleteConfig:
  "wp (bindE (NewTeleportAppConfigManager K (Name k) (Namespace k) cm) DeleteConfig)
     (step_post obs now (remove_effect k cm) w) w"
proof (rule wp_bindEI [OF wp_NewTeleportAppConfigManager])
  fix m w1
  assume w1: "obs w1 = obs w \<and> now w \<le> now w1 \<and> (\<forall>m'. Inr m = Inr m' \<longrightarrow> m' = manager_of k cm (obs w))"
  have "wp (DeleteConfig m) (step_post obs now (remove_effect k cm) w1) w1"
  proof (cases "selh (obs w1) k")
    case (Some hr)
    with w1 show ?thesis
      by (auto simp: remove_effect_def manager_of_def intro: step_post_at [OF wp_helmRelease_DeleteConfig])
  next
    case None
    with w1 show ?thesis
      by (cases "sela (obs w1) k")
        (auto simp: remove_effect_def manager_of_def noOp_defs intro: step_post_at [OF wp_appCR_DeleteConfig] step_post_return)
  qed
  then show "wp (DeleteConfig m) (step_post obs now (remove_effect k cm) w) w1"
    by (rule step_post_later) (use w1 in simp_all)
qed (simp add: step_post_def)

end

end
