(* ===== verification/Controller.thy ===== *)
theory Controller
  imports Token Secret_Ops ConfigMap_Ops Finalizer App_Manager
begin

text \<open>
  \<open>internal/controller/cluster_controller.go\<close>: the reconciler of Cluster objects. The
  method \<open>Reconcile\<close> is cut into the blocks its comments mark; \<open>Reconcile\<close> composes them in
  the order of the source. The fields of the reconciler that \<open>Reconcile\<close> assigns are
  passed and returned; an error return keeps what was assigned before it. Log lines are
  left out.
\<close>

section \<open>The reconciler\<close>

definition identityExpirationPeriod :: duration where
  "identityExpirationPeriod = 20 * minute"

record 'w ClusterReconciler =
  r_Client :: "'w ctrl_client"
  r_Teleport :: "'w Teleport"
  IsBotEnabled :: bool
  r_Namespace :: string
  lastAssignedRoles :: "string list"

record Result =
  RequeueAfter :: duration

abbreviation noRequeue :: Result where
  "noRequeue \<equiv> \<lparr>RequeueAfter = 0\<rparr>"

definition clusterName :: "Cluster \<Rightarrow> string" where
  "clusterName cluster = Name (cluster_meta cluster)"

definition clusterNamespace :: "Cluster \<Rightarrow> string" where
  "clusterNamespace cluster = Namespace (cluster_meta cluster)"

definition assignedRoles :: "bool \<Rightarrow> string list" where
  "assignedRoles appsEnabled = (if appsEnabled then [RoleKube] @ [RoleApp] else [RoleKube])"

definition registerNameOf :: "'w ClusterReconciler \<Rightarrow> Cluster \<Rightarrow> string" where
  "registerNameOf r cluster =
     (if clusterName cluster \<noteq> cfg_ManagementClusterName (t_Config (r_Teleport r))
      then GetRegisterName (cfg_ManagementClusterName (t_Config (r_Teleport r))) (clusterName cluster)
      else clusterName cluster)"

section \<open>The Teleport identity\<close>

definition identityStale :: "'w libs \<Rightarrow> 'w Teleport \<Rightarrow> 'w \<Rightarrow> bool" where
  "identityStale L t w =
     (case t_Identity t of
        None \<Rightarrow> True
      | Some i \<Rightarrow> time_Sub (Now L w) (LastRead i) > identityExpirationPeriod)"

definition refreshIdentity ::
    "'w libs \<Rightarrow> 'w ClusterReconciler \<Rightarrow> 'w \<Rightarrow> ((error + unit) \<times> 'w ClusterReconciler) \<times> 'w" where
  "refreshIdentity L r w =
     (if identityStale L (r_Teleport r) w
      then case GetIdentityConfigFromSecret (Now L) (r_Client r) (r_Namespace r) w of
             (Inl err, w1) \<Rightarrow> ((Inl err, r), w1)
           | (Inr newIdentityConfig, w1) \<Rightarrow>
               (case NewClient L (cfg_ProxyAddr (t_Config (r_Teleport r))) (id_IdentityFile newIdentityConfig) w1 of
                  (Inl err, w2) \<Rightarrow> ((Inl err, r\<lparr>r_Teleport := (r_Teleport r)\<lparr>TeleportClient := None\<rparr>\<rparr>), w2)
                | (Inr c, w2) \<Rightarrow>
                    ((Inr (), r\<lparr>r_Teleport := (r_Teleport r)\<lparr>TeleportClient := Some c,
                                                         t_Identity := Some newIdentityConfig\<rparr>\<rparr>), w2))
      else ((Inr (), r), w))"

section \<open>Deletion\<close>

definition reconcileDelete :: "'w libs \<Rightarrow> 'w ClusterReconciler \<Rightarrow> Cluster \<Rightarrow> string \<Rightarrow> ('w, Result) action" where
  "reconcileDelete L r cluster registerName =
     (let K = r_Client r; t = r_Teleport r;
          name = clusterName cluster; namespace = clusterNamespace cluster;
          appName = cfg_AppName (t_Config t)
      in bindE (Token.DeleteToken t registerName) (\<lambda>_.
         bindE (DeleteSecret K name namespace) (\<lambda>_.
         bindE (DeleteConfigMap t K name namespace) (\<lambda>_.
         bindE (if IsBotEnabled r
                then bindE (NewTeleportAppConfigManager K TeleportBotAppName TeleportBotNamespace
                              (GetTbotConfigmapName name)) (\<lambda>botMgr.
                     bindE (DeleteConfig botMgr) (\<lambda>_.
                     bindE (DeleteTbotConfigMap K name TeleportBotNamespace) (\<lambda>_.
                     DeleteKubeconfigSecret K name TeleportBotNamespace)))
                else returnE ()) (\<lambda>_.
         bindE (NewTeleportAppConfigManager K (GetAppName name appName) namespace
                  (GetConfigmapName name appName)) (\<lambda>kubeAgentMgr.
         bindE (DeleteConfig kubeAgentMgr) (\<lambda>_.
         bindE (if ContainsFinalizer (lib_finalizers L) cluster TeleportOperatorFinalizer
                then RemoveFinalizer (lib_finalizers L) cluster K
                else returnE ()) (\<lambda>_.
         returnE noRequeue))))))))"

section \<open>Creation and update\<close>

definition ensureFinalizer :: "'w libs \<Rightarrow> 'w ClusterReconciler \<Rightarrow> Cluster \<Rightarrow> ('w, unit) action" where
  "ensureFinalizer L r cluster =
     (if \<not> ContainsFinalizer (lib_finalizers L) cluster TeleportOperatorFinalizer
      then AddFinalizer (lib_finalizers L) cluster (r_Client r)
      else returnE ())"

definition reconcileSecret :: "'w libs \<Rightarrow> 'w ClusterReconciler \<Rightarrow> Cluster \<Rightarrow> string \<Rightarrow> ('w, unit) action" where
  "reconcileSecret L r cluster registerName =
     (let K = r_Client r; t = r_Teleport r;
          name = clusterName cluster; namespace = clusterNamespace cluster
      in bindE (GetSecret K name namespace) (\<lambda>secret.
           case secret of
             None \<Rightarrow>
               bindE (GenerateToken L t registerName [RoleNode]) (\<lambda>token.
               CreateSecret K name namespace token)
           | Some secret \<Rightarrow>
               bindE (liftE (GetTokenFromSecret secret)) (\<lambda>token.
               bindE (IsTokenValid L t registerName token RoleNode) (\<lambda>tokenValid.
               if \<not> tokenValid
               then bindE (GenerateToken L t registerName [RoleNode]) (\<lambda>token.
                    UpdateSecret K name namespace token)
               else returnE ()))))"

definition reconcileConfigMap ::
    "'w libs \<Rightarrow> 'w ClusterReconciler \<Rightarrow> Cluster \<Rightarrow> string \<Rightarrow> string list \<Rightarrow> string \<Rightarrow> ('w, unit) action" where
  "reconcileConfigMap L r cluster registerName roles tkaVersion =
     (let K = r_Client r; t = r_Teleport r;
          name = clusterName cluster; namespace = clusterNamespace cluster
      in bindE (GetConfigMap t K name namespace) (\<lambda>configMap.
           case configMap of
             None \<Rightarrow>
               bindE (GenerateToken L t registerName roles) (\<lambda>token.
               CreateConfigMap L t K name namespace registerName token roles tkaVersion)
           | Some configMap \<Rightarrow>
               bindE (liftE (GetTokenFromConfigMap L configMap)) (\<lambda>token.
               bindE (IsTokenValid L t registerName token (RolesToString roles)) (\<lambda>tokenValid.
               bindE (if \<not> tokenValid then GenerateToken L t registerName roles else returnE token) (\<lambda>writeToken.
               let desiredValues = RenderConfigMapValues L t registerName writeToken roles tkaVersion
               in if (case cm_Data configMap ''values'' of None \<Rightarrow> '''' | Some v \<Rightarrow> v) = desiredValues
                  then returnE ()
                  else UpdateConfigMap L t K configMap writeToken roles tkaVersion)))))"

definition reconcileKubeAgent :: "'w ClusterReconciler \<Rightarrow> Cluster \<Rightarrow> ('w, unit) action" where
  "reconcileKubeAgent r cluster =
     (let K = r_Client r; appName = cfg_AppName (t_Config (r_Teleport r));
          name = clusterName cluster; namespace = clusterNamespace cluster
      in bindE (NewTeleportAppConfigManager K (GetAppName name appName) namespace
                  (GetConfigmapName name appName)) EnsureConfig)"

definition reconcileBot :: "'w ClusterReconciler \<Rightarrow> Cluster \<Rightarrow> string \<Rightarrow> ('w, unit) action" where
  "reconcileBot r cluster registerName =
     (let K = r_Client r; name = clusterName cluster
      in if IsBotEnabled r
         then bindE (GetKubeconfigSecret K name TeleportBotNamespace) (\<lambda>secret.
                if secret = None
                then bindE (EnsureTbotConfigMap K name TeleportBotNamespace registerName) (\<lambda>_.
                     bindE (NewTeleportAppConfigManager K TeleportBotAppName TeleportBotNamespace
                              (GetTbotConfigmapName name)) EnsureConfig)
                else returnE ())
         else returnE ())"

definition reconcileNormal ::
    "'w libs \<Rightarrow> 'w ClusterReconciler \<Rightarrow> Cluster \<Rightarrow> string \<Rightarrow> string list \<Rightarrow> ('w, Result) action" where
  "reconcileNormal L r cluster registerName roles =
     bindE (ensureFinalizer L r cluster) (\<lambda>_.
     bindE (reconcileSecret L r cluster registerName) (\<lambda>_.
     bindE (GetTeleportKubeAgentVersion (r_Client r)
              (GetAppName (clusterName cluster) (cfg_AppName (t_Config (r_Teleport r))))
              (clusterNamespace cluster)) (\<lambda>tkaVersion.
     bindE (reconcileConfigMap L r cluster registerName roles tkaVersion) (\<lambda>_.
     bindE (reconcileKubeAgent r cluster) (\<lambda>_.
     bindE (reconcileBot r cluster registerName) (\<lambda>_.
     returnE \<lparr>RequeueAfter = 5 * minute\<rparr>))))))"

section \<open>Reconcile\<close>

definition Reconcile ::
    "'w libs \<Rightarrow> NamespacedName \<Rightarrow> 'w ClusterReconciler \<Rightarrow> 'w \<Rightarrow>
      ((error + Result) \<times> 'w ClusterReconciler) \<times> 'w" where
  "Reconcile L req r w =
     (case Get (Clusters (r_Client r)) req w of
        (Inl err, w1) \<Rightarrow> (if IsNotFound err then ((Inr noRequeue, r), w1) else ((Inl err, r), w1))
      | (Inr cluster, w1) \<Rightarrow>
          (case AreTeleportAppsEnabled L (r_Teleport r) (clusterName cluster) (clusterNamespace cluster) w1 of
             (Inl err, w2) \<Rightarrow> ((Inl err, r), w2)
           | (Inr appsEnabled, w2) \<Rightarrow>
               (let roles = assignedRoles appsEnabled;
                    r1 = r\<lparr>lastAssignedRoles := roles\<rparr>
                in case refreshIdentity L r1 w2 of
                     ((Inl err, r2), w3) \<Rightarrow> ((Inl err, r2), w3)
                   | ((Inr _, r2), w3) \<Rightarrow>
                       (let registerName = registerNameOf r2 cluster;
                            (res, w4) =
                              (if \<not> deletion_IsZero (DeletionTimestamp cluster)
                               then reconcileDelete L r2 cluster registerName w3
                               else reconcileNormal L r2 cluster registerName roles w3)
                        in ((res, r2), w4)))))"

end
