(* ===== verification/Yaml.thy ===== *)
theory Yaml
  imports ConfigMap_Ops
begin

text \<open>
  What the code relies on in the YAML library (\<open>gopkg.in/yaml.v3\<close>): a document of plain
  keys with double-quoted values, at the root or one level below, decodes to the map it
  spells out (\<open>yaml_lib\<close>). The values documents of package key are such documents, so
  what the operator writes it reads back.
\<close>

section \<open>Documents\<close>

datatype ynode = YStr string | YBlock "(string \<times> string) list"

type_synonym ydoc = "(string \<times> ynode) list"

definition emit_line :: "string \<Rightarrow> string \<times> string \<Rightarrow> string" where
  "emit_line indent e = indent @ fst e @ '': '' @ dquote @ snd e @ dquote @ newline"

fun emit_node :: "string \<times> ynode \<Rightarrow> string" where
  "emit_node (k, YStr v) = emit_line '''' (k, v)"
| "emit_node (k, YBlock es) = k @ '':'' @ newline @ concat (map (emit_line ''  '') es)"

definition emit :: "ydoc \<Rightarrow> string" where
  "emit d = concat (map emit_node d)"

definition block_map :: "(string \<times> string) list \<Rightarrow> (string, iface) fmap" where
  "block_map es = fmap_of_list (map (\<lambda>(k, v). (k, Str v)) es)"

fun node_value :: "ynode \<Rightarrow> iface" where
  "node_value (YStr v) = Str v"
| "node_value (YBlock es) = Map (block_map es)"

definition denote :: "ydoc \<Rightarrow> (string, iface) fmap" where
  "denote d = fmap_of_list (map (\<lambda>(k, n). (k, node_value n)) d)"

text \<open>
  A plain key starts with a letter, goes on with letters, digits and hyphens, is not longer
  than the decoder takes a key to be, and is not one of the words YAML reads as a boolean or
  null.
\<close>

definition letter :: "char \<Rightarrow> bool" where
  "letter c \<longleftrightarrow> (let n = (of_char c :: nat) in 65 \<le> n \<and> n \<le> 90 \<or> 97 \<le> n \<and> n \<le> 122)"

definition key_char :: "char \<Rightarrow> bool" where
  "key_char c \<longleftrightarrow> letter c \<or> (let n = (of_char c :: nat) in 48 \<le> n \<and> n \<le> 57 \<or> n = 45)"

definition reserved_words :: "string list" where
  "reserved_words = [''y'', ''n'', ''yes'', ''no'', ''on'', ''off'', ''true'', ''false'', ''null'']"

definition plain_key :: "string \<Rightarrow> bool" where
  "plain_key k \<longleftrightarrow>
     k \<noteq> [] \<and> length k \<le> 1024 \<and> letter (hd k) \<and>
     (\<forall>c \<in> set k. key_char c) \<and> ToLower k \<notin> set reserved_words"

definition plain_value :: "string \<Rightarrow> bool" where
  "plain_value v \<longleftrightarrow> (\<forall>c \<in> set v. plain_char c)"

fun safe_node :: "ynode \<Rightarrow> bool" where
  "safe_node (YStr v) = plain_value v"
| "safe_node (YBlock es) =
     (es \<noteq> [] \<and> distinct (map fst es) \<and> (\<forall>(k, v) \<in> set es. plain_key k \<and> plain_value v))"

definition safe_doc :: "ydoc \<Rightarrow> bool" where
  "safe_doc d \<longleftrightarrow> distinct (map fst d) \<and> (\<forall>(k, n) \<in> set d. plain_key k \<and> safe_node n)"

locale yaml_lib =
  fixes unmarshal :: "string \<Rightarrow> error + (string, iface) fmap"
  assumes unmarshal_emit: "safe_doc d \<Longrightarrow> unmarshal (emit d) = Inr (denote d)"

section \<open>The values document as a document\<close>

definition values_entries :: "string \<Rightarrow> string \<Rightarrow> string \<Rightarrow> string \<Rightarrow> string list \<Rightarrow> (string \<times> string) list" where
  "values_entries tok proxy reg ver roles =
     [(''roles'', RolesToString roles), (''authToken'', tok), (''proxyAddr'', proxy), (''kubeClusterName'', reg)] @
     (if ver \<noteq> '''' then [(''teleportVersionOverride'', ver)] else [])"

definition nested_doc :: "string \<Rightarrow> string \<Rightarrow> string \<Rightarrow> string \<Rightarrow> string list \<Rightarrow> ydoc" where
  "nested_doc tok proxy reg ver roles =
     [(TeleportKubeAgentValuesKey, YBlock (values_entries tok proxy reg ver roles))]"

definition flat_doc :: "string \<Rightarrow> string \<Rightarrow> string \<Rightarrow> string \<Rightarrow> string list \<Rightarrow> ydoc" where
  "flat_doc tok proxy reg ver roles = map (\<lambda>(k, v). (k, YStr v)) (values_entries tok proxy reg ver roles)"

definition values_doc :: "semver \<Rightarrow> string \<Rightarrow> string \<Rightarrow> string \<Rightarrow> string \<Rightarrow> string list \<Rightarrow> string \<Rightarrow> ydoc" where
  "values_doc sv tok proxy reg ver roles tkaVersion =
     (let nested = nested_doc tok proxy reg (ResolveNestedTeleportVersionOverride sv ver) roles
      in if UsesNestedKubeAgentValues sv tkaVersion then nested
         else flat_doc tok proxy reg ver roles @ nested)"

lemma renderNested_emit:
  assumes "plain_value ver"
  shows "renderNestedValuesBlock tok proxy reg ver roles = emit (nested_doc tok proxy reg ver roles)"
  using assms Quote_plain [of ver]
  by (simp add: renderNestedValuesBlock_def nested_doc_def emit_def values_entries_def emit_line_def plain_value_def Let_def)

lemma renderFlat_emit:
  assumes "plain_value ver"
  shows "renderFlatValuesBlock tok proxy reg ver roles = emit (flat_doc tok proxy reg ver roles)"
  using assms Quote_plain [of ver]
  by (simp add: renderFlatValuesBlock_def flat_doc_def emit_def values_entries_def emit_line_def plain_value_def Let_def)

lemma plain_override: "plain_value ver \<Longrightarrow> plain_value (ResolveNestedTeleportVersionOverride sv ver)"
  by (auto simp: ResolveNestedTeleportVersionOverride_def plain_value_def Let_def split: sum.splits)

lemma emit_append: "emit (d @ e) = emit d @ emit e"
  by (simp add: emit_def)

lemma GetConfigmapData_emit:
  assumes "plain_value ver"
  shows "GetConfigmapDataFromTemplate sv tok proxy reg ver roles tkaVersion =
     emit (values_doc sv tok proxy reg ver roles tkaVersion)"
  using assms plain_override [OF assms, of sv]
  by (simp add: GetConfigmapDataFromTemplate_def values_doc_def Let_def renderNested_emit renderFlat_emit emit_append)

subsection \<open>It is safe\<close>

lemma plain_value_append: "plain_value (s @ t) \<longleftrightarrow> plain_value s \<and> plain_value t"
  by (auto simp: plain_value_def)

lemma plain_value_Join:
  "\<forall>x \<in> set xs. plain_value x \<Longrightarrow> plain_value sep \<Longrightarrow> plain_value (Join xs sep)"
  by (induction xs sep rule: Join.induct) (simp_all add: plain_value_append, simp add: plain_value_def)

lemma plain_value_roles: "set roles \<subseteq> set known_roles \<Longrightarrow> plain_value (RolesToString roles)"
proof -
  have "plain_value RoleKube" "plain_value RoleApp" "plain_value RoleNode"
    by (auto simp: plain_value_def role_defs plain_char_def)
  moreover assume "set roles \<subseteq> set known_roles"
  ultimately have "\<forall>x \<in> set roles. plain_value x" by (auto simp: known_roles_def)
  moreover have "plain_value '',''" by (simp add: plain_value_def plain_char_def)
  ultimately show ?thesis unfolding RolesToString_def by (rule plain_value_Join)
qed

lemma plain_keys:
  "plain_key ''roles''" "plain_key ''authToken''" "plain_key ''proxyAddr''" "plain_key ''kubeClusterName''"
  "plain_key ''teleportVersionOverride''" "plain_key TeleportKubeAgentValuesKey" "plain_key ''outputs''"
  by code_simp+

definition plain_values :: "string \<Rightarrow> string \<Rightarrow> string \<Rightarrow> string \<Rightarrow> string list \<Rightarrow> bool" where
  "plain_values tok proxy reg ver roles \<longleftrightarrow>
     plain_value tok \<and> plain_value proxy \<and> plain_value reg \<and> plain_value ver \<and> set roles \<subseteq> set known_roles"

lemma values_entries_safe:
  assumes "plain_values tok proxy reg ver roles"
  shows "distinct (map fst (values_entries tok proxy reg ver roles))"
    and "\<forall>(k, v) \<in> set (values_entries tok proxy reg ver roles).
           plain_key k \<and> plain_value v \<and> k \<noteq> TeleportKubeAgentValuesKey"
  using assms plain_value_roles [of roles] plain_keys
  by (auto simp: values_entries_def plain_values_def TeleportKubeAgentValuesKey_def)

lemma values_doc_safe:
  assumes "plain_values tok proxy reg ver roles"
  shows "safe_doc (values_doc sv tok proxy reg ver roles tkaVersion)"
proof -
  let ?ov = "ResolveNestedTeleportVersionOverride sv ver"
  have ov: "plain_values tok proxy reg ?ov roles"
    using assms plain_override by (simp add: plain_values_def)
  have nested: "safe_node (YBlock (values_entries tok proxy reg ?ov roles))"
    using values_entries_safe [OF ov] by (auto simp: values_entries_def)
  have keys: "map fst (flat_doc tok proxy reg ver roles) = map fst (values_entries tok proxy reg ver roles)"
    by (simp add: flat_doc_def case_prod_beta comp_def)
  have "TeleportKubeAgentValuesKey \<notin> set (map fst (values_entries tok proxy reg ver roles))"
    using values_entries_safe(2) [OF assms] by auto
  moreover have "\<forall>(k, n) \<in> set (flat_doc tok proxy reg ver roles). plain_key k \<and> safe_node n"
    using values_entries_safe(2) [OF assms] by (auto simp: flat_doc_def)
  ultimately show ?thesis
    using nested plain_keys values_entries_safe(1) [OF assms]
    by (auto simp: safe_doc_def values_doc_def nested_doc_def Let_def keys simp del: safe_node.simps set_map
        simp flip: set_map)
qed

subsection \<open>What it says\<close>

lemma block_map_lookup:
  "distinct (map fst es) \<Longrightarrow> (k, v) \<in> set es \<Longrightarrow> fmlookup (block_map es) k = Some (Str v)"
  unfolding block_map_def fmlookup_of_list
  by (rule map_of_is_SomeI) (auto simp: case_prod_beta comp_def intro: image_eqI [of _ _ "(k, v)"])

lemma values_entries_lookup:
  "fmlookup (block_map (values_entries tok proxy reg ver roles)) ''authToken'' = Some (Str tok)"
  "fmlookup (block_map (values_entries tok proxy reg ver roles)) ''proxyAddr'' = Some (Str proxy)"
  "fmlookup (block_map (values_entries tok proxy reg ver roles)) ''kubeClusterName'' = Some (Str reg)"
  "fmlookup (block_map (values_entries tok proxy reg ver roles)) ''roles'' = Some (Str (RolesToString roles))"
  "fmlookup (block_map (values_entries tok proxy reg ver roles)) ''teleportVersionOverride'' =
     (if ver \<noteq> '''' then Some (Str ver) else None)"
  by (simp_all add: block_map_def values_entries_def fmlookup_of_list)

lemma denote_values_doc:
  "fmlookup (denote (values_doc sv tok proxy reg ver roles tka)) TeleportKubeAgentValuesKey =
     Some (Map (block_map (values_entries tok proxy reg (ResolveNestedTeleportVersionOverride sv ver) roles)))"
  "fmlookup (denote (values_doc sv tok proxy reg ver roles tka)) ''authToken'' =
     (if UsesNestedKubeAgentValues sv tka then None else Some (Str tok))"
  by (simp_all add: denote_def values_doc_def nested_doc_def flat_doc_def values_entries_def Let_def
      fmlookup_of_list TeleportKubeAgentValuesKey_def)

section \<open>Reading back what was written\<close>

text \<open>A ConfigMap whose values are the rendered document, for values that need no escaping.\<close>

definition rendered :: "'w libs \<Rightarrow> 'w Teleport \<Rightarrow> string \<Rightarrow> string \<Rightarrow> string list \<Rightarrow> string \<Rightarrow> ConfigMap \<Rightarrow> bool" where
  "rendered L t reg tok roles tka cm \<longleftrightarrow>
     cm_Data cm ''values'' = Some (getConfigMapData L t reg tok roles tka) \<and>
     plain_values tok (cfg_ProxyAddr (t_Config t)) reg (cfg_TeleportVersion (t_Config t)) roles"

locale yaml_values = yaml_lib "Unmarshal L" for L :: "'w libs"
begin

lemma Unmarshal_rendered:
  assumes "rendered L t reg tok roles tka cm"
  shows "\<exists>v. cm_Data cm ''values'' = Some v \<and>
     Unmarshal L v = Inr (denote (values_doc (lib_semver L) tok (cfg_ProxyAddr (t_Config t)) reg
       (cfg_TeleportVersion (t_Config t)) roles tka))"
proof -
  have "plain_values tok (cfg_ProxyAddr (t_Config t)) reg (cfg_TeleportVersion (t_Config t)) roles"
    and pv: "plain_value (cfg_TeleportVersion (t_Config t))"
    using assms by (simp_all add: rendered_def plain_values_def)
  then show ?thesis
    using assms unmarshal_emit [OF values_doc_safe]
    by (simp add: rendered_def getConfigMapData_def GetConfigmapData_emit [OF pv])
qed

lemma parse_rendered:
  assumes "rendered L t reg tok roles tka cm"
  shows "parseConfigMapValues L cm = Inr (block_map (values_entries tok (cfg_ProxyAddr (t_Config t)) reg
     (ResolveNestedTeleportVersionOverride (lib_semver L) (cfg_TeleportVersion (t_Config t))) roles))"
  using Unmarshal_rendered [OF assms] by (auto simp: parseConfigMapValues_def denote_values_doc)

lemma token_rendered: "rendered L t reg tok roles tka cm \<Longrightarrow> GetTokenFromConfigMap L cm = Inr tok"
  by (simp add: GetTokenFromConfigMap_def parse_rendered values_entries_lookup)

lemma version_rendered:
  "rendered L t reg tok roles tka cm \<Longrightarrow>
   GetTeleportVersionFromConfigMap L cm =
     Inr (ResolveNestedTeleportVersionOverride (lib_semver L) (cfg_TeleportVersion (t_Config t)))"
  by (simp add: GetTeleportVersionFromConfigMap_def parse_rendered values_entries_lookup)

lemma register_rendered:
  "rendered L t reg tok roles tka cm \<Longrightarrow> reg \<noteq> '''' \<Longrightarrow> registerNameFromConfigMap L cm = Inr reg"
  by (simp add: registerNameFromConfigMap_def parse_rendered values_entries_lookup)

lemma layout_rendered:
  "rendered L t reg tok roles tka cm \<Longrightarrow>
   IsConfigMapLayoutUpToDate L cm ver =
     Inr (UsesNestedKubeAgentValues (lib_semver L) ver \<longleftrightarrow> UsesNestedKubeAgentValues (lib_semver L) tka)"
  using Unmarshal_rendered [of t reg tok roles tka cm]
  by (auto simp: IsConfigMapLayoutUpToDate_def denote_values_doc Let_def)

end

end
