(* ===== verification/Operator.thy ===== *)
theory Operator
  imports Controller Yaml
begin

text \<open>
  The reconciler against its environment: the objects and tokens that a reconciliation
  reads and writes, observed as one record, and the contracts of the blocks of
  \<open>Reconcile\<close>. \<open>cached_env\<close> collects what the code relies on in Kubernetes, \<open>operator_env\<close>
  adds that reads are current, \<open>token_issuer\<close> is a connected Teleport client;
  \<open>cached_connected\<close> and \<open>connected_env\<close> have both.
\<close>

section \<open>Observations\<close>

record world_obs =
  clusters :: "NamespacedName \<rightharpoonup> Cluster"
  secrets :: "NamespacedName \<rightharpoonup> Secret"
  configmaps :: "NamespacedName \<rightharpoonup> ConfigMap"
  helmreleases :: "NamespacedName \<rightharpoonup> HelmRelease"
  apps :: "NamespacedName \<rightharpoonup> App"
  tokens :: "string \<rightharpoonup> ProvisionToken"

definition add_token :: "ProvisionToken \<Rightarrow> world_obs \<Rightarrow> world_obs" where
  "add_token p = tokens_update (set_key (GetName p) (Some p))"

definition put_secret :: "NamespacedName \<Rightarrow> Secret \<Rightarrow> world_obs \<Rightarrow> world_obs" where
  "put_secret k x = secrets_update (set_key k (Some x))"

definition put_configmap :: "NamespacedName \<Rightarrow> ConfigMap \<Rightarrow> world_obs \<Rightarrow> world_obs" where
  "put_configmap k x = configmaps_update (set_key k (Some x))"

lemmas put_defs = add_token_def put_secret_def put_configmap_def

text \<open>A join token under a name that was free, good for the cluster at an instant.\<close>

definition new_token :: "role_lib \<Rightarrow> time \<Rightarrow> string \<Rightarrow> string list \<Rightarrow> world_obs \<Rightarrow> ProvisionToken \<Rightarrow> bool" where
  "new_token rl u reg roles s p \<longleftrightarrow> tokens s (GetName p) = None \<and> serves rl u reg roles p"

section \<open>What a converged cluster looks like\<close>

definition finalizer_ready :: "NamespacedName \<Rightarrow> world_obs \<Rightarrow> bool" where
  "finalizer_ready k s \<longleftrightarrow>
     (\<exists>c. clusters s k = Some c \<and> TeleportOperatorFinalizer \<in> set (Finalizers c))"

definition secret_ready :: "role_lib \<Rightarrow> time \<Rightarrow> string \<Rightarrow> string \<Rightarrow> string \<Rightarrow> world_obs \<Rightarrow> bool" where
  "secret_ready rl u reg c ns s \<longleftrightarrow>
     (\<exists>sec tok p. secrets s (secret_key c ns) = Some sec \<and> GetTokenFromSecret sec = Inr tok \<and>
        tokens s tok = Some p \<and> GetName p = tok \<and> serves rl u reg [RoleNode] p)"

definition configmap_ready ::
    "'w libs \<Rightarrow> 'w Teleport \<Rightarrow> time \<Rightarrow> string \<Rightarrow> string list \<Rightarrow> string \<Rightarrow> string \<Rightarrow> string \<Rightarrow> world_obs \<Rightarrow> bool" where
  "configmap_ready L t u reg roles tka c ns s \<longleftrightarrow>
     (\<exists>cm tok p. configmaps s (configmap_key t c ns) = Some cm \<and>
        cm_Data cm ''values'' = Some (getConfigMapData L t reg tok roles tka) \<and>
        tokens s tok = Some p \<and> GetName p = tok \<and> serves (lib_roles L) u reg roles p)"

definition ref_ready :: "NamespacedName \<Rightarrow> string \<Rightarrow> world_obs \<Rightarrow> bool" where
  "ref_ready k cm s \<longleftrightarrow>
     (case helmreleases s k of
        Some hr \<Rightarrow> values_ref cm \<in> set (hr_refs hr)
      | None \<Rightarrow> (case apps s k of Some a \<Rightarrow> extra_config cm (Namespace k) \<in> set (app_refs a) | None \<Rightarrow> True))"

text \<open>
  No reference in the resource that the operator takes for the agent. Where there are a
  HelmRelease and an App of the name that is the HelmRelease, and nothing is said of the App.
\<close>

definition ref_absent :: "NamespacedName \<Rightarrow> string \<Rightarrow> world_obs \<Rightarrow> bool" where
  "ref_absent k cm s \<longleftrightarrow>
     (case helmreleases s k of
        Some hr \<Rightarrow> values_ref cm \<notin> set (hr_refs hr)
      | None \<Rightarrow> (case apps s k of Some a \<Rightarrow> extra_config cm (Namespace k) \<notin> set (app_refs a) | None \<Rightarrow> True))"

text \<open>The version of the deployed agent: a HelmRelease wins over an App, the installed chart over the requested one.\<close>

definition deployed_version :: "NamespacedName \<Rightarrow> world_obs \<Rightarrow> string" where
  "deployed_version k s =
     (case helmreleases s k of
        Some hr \<Rightarrow> if helmReleaseInstalledChartVersion hr \<noteq> '''' then helmReleaseInstalledChartVersion hr
                   else helmReleaseSpecChartVersion hr
      | None \<Rightarrow> (case apps s k of Some a \<Rightarrow> Spec_Version a | None \<Rightarrow> ''''))"

definition agent_key :: "'w Teleport \<Rightarrow> string \<Rightarrow> string \<Rightarrow> NamespacedName" where
  "agent_key t c ns = \<lparr>Name = GetAppName c (cfg_AppName (t_Config t)), Namespace = ns\<rparr>"

definition bot_key :: NamespacedName where
  "bot_key = \<lparr>Name = TeleportBotAppName, Namespace = TeleportBotNamespace\<rparr>"

text \<open>The bot has produced a kubeconfig, or it has been told about the cluster.\<close>

definition bot_ready :: "string \<Rightarrow> world_obs \<Rightarrow> bool" where
  "bot_ready c s \<longleftrightarrow>
     secrets s (kubeconfig_key c TeleportBotNamespace) \<noteq> None \<or>
     configmaps s (tbot_key c TeleportBotNamespace) \<noteq> None \<and> ref_ready bot_key (GetTbotConfigmapName c) s"

definition converged ::
    "'w libs \<Rightarrow> 'w ClusterReconciler \<Rightarrow> time \<Rightarrow> Cluster \<Rightarrow> string \<Rightarrow> string list \<Rightarrow> world_obs \<Rightarrow> bool" where
  "converged L r u cl reg roles s \<longleftrightarrow>
     (let t = r_Teleport r; c = clusterName cl; ns = clusterNamespace cl
      in finalizer_ready (cluster_meta cl) s \<and>
         secret_ready (lib_roles L) u reg c ns s \<and>
         configmap_ready L t u reg roles (deployed_version (agent_key t c ns) s) c ns s \<and>
         ref_ready (agent_key t c ns) (GetConfigmapName c (cfg_AppName (t_Config t))) s \<and>
         (IsBotEnabled r \<longrightarrow> bot_ready c s))"

text \<open>
  The register name that a stored ConfigMap gives, if it gives one, is the cluster's:
  updating a ConfigMap keeps the name found in it.
\<close>

definition register_kept :: "'w libs \<Rightarrow> 'w Teleport \<Rightarrow> string \<Rightarrow> string \<Rightarrow> string \<Rightarrow> world_obs \<Rightarrow> bool" where
  "register_kept L t reg c ns s \<longleftrightarrow>
     (\<forall>cm reg'. configmaps s (configmap_key t c ns) = Some cm \<longrightarrow>
        registerNameFromConfigMap L cm = Inr reg' \<longrightarrow> reg' = reg)"

section \<open>What a block may change\<close>

definition secret_moves :: "role_lib \<Rightarrow> time \<Rightarrow> string \<Rightarrow> string \<Rightarrow> string \<Rightarrow> world_obs \<Rightarrow> world_obs \<Rightarrow> bool" where
  "secret_moves rl u reg c ns s s' \<longleftrightarrow>
     s' = s \<or>
     (\<exists>p. new_token rl u reg [RoleNode] s p \<and>
        (s' = add_token p s \<or>
         s' = put_secret (secret_key c ns) (stored_token_secret c ns (GetName p)) (add_token p s)))"

text \<open>
  Writing the values: with a token that is on the server and good for the cluster, under the
  cluster's register name where there is no ConfigMap yet, under the stored one otherwise.
\<close>

definition values_written ::
    "'w libs \<Rightarrow> 'w Teleport \<Rightarrow> time \<Rightarrow> string \<Rightarrow> string list \<Rightarrow> string \<Rightarrow> NamespacedName \<Rightarrow> world_obs \<Rightarrow> world_obs \<Rightarrow> bool" where
  "values_written L t u reg roles tka k s s' \<longleftrightarrow>
     (\<exists>tok p. tokens s tok = Some p \<and> GetName p = tok \<and> serves (lib_roles L) u reg roles p \<and>
        (case configmaps s k of
           None \<Rightarrow> s' = put_configmap k (values_configmap (Name k) (Namespace k) (getConfigMapData L t reg tok roles tka)) s
         | Some cm \<Rightarrow> (\<exists>reg'. registerNameFromConfigMap L cm = Inr reg' \<and>
             s' = put_configmap k (rewritten L t cm reg' tok roles tka) s)))"

definition configmap_moves ::
    "'w libs \<Rightarrow> 'w Teleport \<Rightarrow> time \<Rightarrow> string \<Rightarrow> string list \<Rightarrow> string \<Rightarrow> NamespacedName \<Rightarrow> world_obs \<Rightarrow> world_obs \<Rightarrow> bool" where
  "configmap_moves L t u reg roles tka k s s' \<longleftrightarrow>
     (\<exists>s1. (s1 = s \<or> (\<exists>p. new_token (lib_roles L) u reg roles s p \<and> s1 = add_token p s)) \<and>
        (s' = s1 \<or> values_written L t u reg roles tka k s1 s'))"

lemma configmap_moves_same: "configmap_moves L t u reg roles tka k s s"
  by (auto simp: configmap_moves_def)

lemma configmap_moves_write:
  assumes "s1 = s \<or> new_token (lib_roles L) u reg roles s p \<and> s1 = add_token p s"
    and "s' = s1 \<or> values_written L t u reg roles tka k s1 s'"
  shows "configmap_moves L t u reg roles tka k s s'"
  using assms unfolding configmap_moves_def by blast

lemma values_written_put: "values_written L t u reg roles tka k s s' \<Longrightarrow> \<exists>cm. s' = put_configmap k cm s"
  by (auto simp: values_written_def split: option.splits)

lemma deployed_version_cong:
  "helmreleases s' k = helmreleases s k \<Longrightarrow> apps s' k = apps s k \<Longrightarrow> deployed_version k s' = deployed_version k s"
  by (simp add: deployed_version_def split: option.split)

lemma ref_ready_cong:
  "helmreleases s' k = helmreleases s k \<Longrightarrow> apps s' k = apps s k \<Longrightarrow> ref_ready k cm s' = ref_ready k cm s"
  by (simp add: ref_ready_def split: option.split)

lemma ref_absent_cong:
  "helmreleases s' k = helmreleases s k \<Longrightarrow> apps s' k = apps s k \<Longrightarrow> ref_absent k cm s' = ref_absent k cm s"
  by (simp add: ref_absent_def split: option.split)

lemma map_le_set_key: "m k = None \<Longrightarrow> m \<subseteq>\<^sub>m set_key k v m"
  by (simp add: map_le_def set_key_def dom_def)

lemma secret_moves_frame:
  assumes "secret_moves rl u reg c ns s s'"
  shows "clusters s' = clusters s" "configmaps s' = configmaps s" "helmreleases s' = helmreleases s"
    "apps s' = apps s" "tokens s \<subseteq>\<^sub>m tokens s'"
  using assms by (auto simp: secret_moves_def put_defs new_token_def map_le_set_key)

lemma configmap_moves_frame:
  assumes "configmap_moves L t u reg roles tka k s s'"
  shows "clusters s' = clusters s" "secrets s' = secrets s" "helmreleases s' = helmreleases s"
    "apps s' = apps s" "tokens s \<subseteq>\<^sub>m tokens s'"
  using assms by (auto simp: configmap_moves_def put_defs new_token_def map_le_set_key dest!: values_written_put)

lemma map_leD: "m \<subseteq>\<^sub>m m' \<Longrightarrow> m k = Some v \<Longrightarrow> m' k = Some v"
  by (auto simp: map_le_def dom_def)

lemma secret_ready_mono:
  "secret_ready rl u reg c ns s \<Longrightarrow> secrets s' = secrets s \<Longrightarrow> tokens s \<subseteq>\<^sub>m tokens s' \<Longrightarrow>
   secret_ready rl u reg c ns s'"
  unfolding secret_ready_def by (auto dest: map_leD)

lemma configmap_ready_mono:
  "configmap_ready L t u reg roles tka c ns s \<Longrightarrow>
   configmaps s' (configmap_key t c ns) = configmaps s (configmap_key t c ns) \<Longrightarrow> tokens s \<subseteq>\<^sub>m tokens s' \<Longrightarrow>
   configmap_ready L t u reg roles tka c ns s'"
  unfolding configmap_ready_def by (auto dest: map_leD)

section \<open>The footprint of a reconciliation\<close>

text \<open>
  The objects and tokens of one cluster: everything else is the same before and after.
  New tokens carry the cluster's register name, and tokens of other clusters stay.
\<close>

definition tokens_kept :: "string \<Rightarrow> (string \<rightharpoonup> ProvisionToken) \<Rightarrow> (string \<rightharpoonup> ProvisionToken) \<Rightarrow> bool" where
  "tokens_kept reg m m' \<longleftrightarrow>
     (\<forall>n p. m n = Some p \<longrightarrow> label p ''cluster'' \<noteq> reg \<longrightarrow> m' n = Some p) \<and>
     (\<forall>n p. m' n = Some p \<longrightarrow> m n = Some p \<or> label p ''cluster'' = reg)"

lemma tokens_kept_refl [simp]: "tokens_kept reg m m"
  by (simp add: tokens_kept_def)

lemma tokens_kept_trans: "tokens_kept reg m m1 \<Longrightarrow> tokens_kept reg m1 m2 \<Longrightarrow> tokens_kept reg m m2"
  unfolding tokens_kept_def by blast

lemma tokens_kept_add: "new_token rl u reg roles s p \<Longrightarrow> tokens_kept reg (tokens s) (tokens (add_token p s))"
  by (auto simp: tokens_kept_def new_token_def add_token_def set_key_apply serves_def)

lemma tokens_kept_drop: "m (GetName p) = Some p \<Longrightarrow> label p ''cluster'' = reg \<Longrightarrow> tokens_kept reg m (set_key (GetName p) None m)"
  by (auto simp: tokens_kept_def set_key_apply)

text \<open>References to other ConfigMaps than the cluster's neither come nor go, in any resource.\<close>

definition refs_kept :: "string set \<Rightarrow> world_obs \<Rightarrow> world_obs \<Rightarrow> bool" where
  "refs_kept own s s' \<longleftrightarrow> (\<forall>k cm. cm \<notin> own \<longrightarrow> ref_ready k cm s' = ref_ready k cm s \<and> ref_absent k cm s' = ref_absent k cm s)"

lemma refs_kept_refl [simp]: "refs_kept own s s"
  by (simp add: refs_kept_def)

lemma refs_kept_trans: "refs_kept own s s1 \<Longrightarrow> refs_kept own s1 s2 \<Longrightarrow> refs_kept own s s2"
  by (simp add: refs_kept_def)

lemma refs_kept_cong:
  "helmreleases s' = helmreleases s1 \<Longrightarrow> apps s' = apps s1 \<Longrightarrow> refs_kept own s s' = refs_kept own s s1"
  using ref_ready_cong [of s' _ s1] ref_absent_cong [of s' _ s1] by (simp add: refs_kept_def)

lemma refs_kept_frame [simp]:
  "refs_kept own s (clusters_update f1 s')  = refs_kept own s s'" "refs_kept own s (secrets_update f2 s') = refs_kept own s s'"
  "refs_kept own s (configmaps_update f3 s') = refs_kept own s s'" "refs_kept own s (tokens_update f4 s') = refs_kept own s s'"
  by (rule refs_kept_cong; simp)+

definition footprint :: "'w Teleport \<Rightarrow> Cluster \<Rightarrow> string \<Rightarrow> world_obs \<Rightarrow> world_obs \<Rightarrow> bool" where
  "footprint t cl reg s s' \<longleftrightarrow>
     (let c = clusterName cl; ns = clusterNamespace cl; b = TeleportBotNamespace
      in agree_off {cluster_meta cl} (clusters s) (clusters s') \<and>
         agree_off {secret_key c ns, kubeconfig_key c b} (secrets s) (secrets s') \<and>
         agree_off {configmap_key t c ns, tbot_key c b} (configmaps s) (configmaps s') \<and>
         agree_off {agent_key t c ns, bot_key} (helmreleases s) (helmreleases s') \<and>
         agree_off {agent_key t c ns, bot_key} (apps s) (apps s') \<and>
         refs_kept {GetConfigmapName c (cfg_AppName (t_Config t)), GetTbotConfigmapName c} s s' \<and>
         tokens_kept reg (tokens s) (tokens s'))"

lemma footprint_refl [simp]: "footprint t cl reg s s"
  by (simp add: footprint_def Let_def)

lemma footprint_trans: "footprint t cl reg s s1 \<Longrightarrow> footprint t cl reg s1 s2 \<Longrightarrow> footprint t cl reg s s2"
  unfolding footprint_def Let_def by (blast intro: agree_off_trans tokens_kept_trans refs_kept_trans)

lemma secret_moves_footprint:
  "secret_moves rl u reg (clusterName cl) (clusterNamespace cl) s s' \<Longrightarrow> footprint t cl reg s s'"
  using tokens_kept_add
  by (fastforce simp: secret_moves_def footprint_def Let_def put_secret_def agree_off_set_key add_token_def)

lemma configmap_moves_footprint:
  assumes "configmap_moves L t u reg roles tka (configmap_key t (clusterName cl) (clusterNamespace cl)) s s'"
  shows "footprint t cl reg s s'"
proof -
  have put: "footprint t cl reg s1 (put_configmap (configmap_key t (clusterName cl) (clusterNamespace cl)) cm s1)" for s1 cm
    by (simp add: footprint_def Let_def put_configmap_def agree_off_set_key)
  have fresh: "footprint t cl reg s (add_token p s)" if "new_token (lib_roles L) u reg roles s p" for p
    using tokens_kept_add [OF that] by (simp add: footprint_def Let_def add_token_def)
  show ?thesis
    using assms unfolding configmap_moves_def
    by (auto dest!: values_written_put intro: put fresh footprint_trans [OF fresh put])
qed

lemma transp_footprint: "transp (footprint t cl reg)"
  by (rule transpI) (rule footprint_trans)

section \<open>Sequences of calls\<close>

text \<open>
  The postcondition of a part of \<open>Reconcile\<close>: in every outcome the observation moved as
  \<open>R\<close> allows and the clock did not go back; on success \<open>G\<close> holds at the end.
\<close>

definition moved :: "('w \<Rightarrow> 's) \<Rightarrow> ('w \<Rightarrow> time) \<Rightarrow> ('s \<Rightarrow> 's \<Rightarrow> bool) \<Rightarrow> 'w \<Rightarrow> 'w \<Rightarrow> bool" where
  "moved obs now R w w' \<longleftrightarrow> R (obs w) (obs w') \<and> now w \<le> now w'"

definition run_post ::
    "('w \<Rightarrow> 's) \<Rightarrow> ('w \<Rightarrow> time) \<Rightarrow> ('s \<Rightarrow> 's \<Rightarrow> bool) \<Rightarrow> ('a \<Rightarrow> 's \<Rightarrow> bool) \<Rightarrow> 'w \<Rightarrow> error + 'a \<Rightarrow> 'w \<Rightarrow> bool" where
  "run_post obs now R G w r w' \<longleftrightarrow> moved obs now R w w' \<and> (\<forall>x. r = Inr x \<longrightarrow> G x (obs w'))"

lemma moved_trans: "transp R \<Longrightarrow> moved obs now R w w1 \<Longrightarrow> moved obs now R w1 w2 \<Longrightarrow> moved obs now R w w2"
  unfolding moved_def by (auto dest: transpD)

lemma run_post_seq:
  assumes m: "wp m P w1" and R: "transp R" and start: "moved obs now R w w1"
    and P: "\<And>r w'. P r w' \<Longrightarrow> moved obs now R w1 w'"
    and f: "\<And>x w'. P (Inr x) w' \<Longrightarrow> moved obs now R w w' \<Longrightarrow> wp (f x) (run_post obs now R G w) w'"
  shows "wp (bindE m f) (run_post obs now R G w) w1"
  by (rule wp_bindEI [OF m]) (auto intro: f moved_trans [OF R start P] simp: run_post_def)

lemma step_post_moved:
  "step_post obs now f w r w' \<Longrightarrow> R (obs w) (obs w) \<Longrightarrow> R (obs w) (f (obs w)) \<Longrightarrow> moved obs now R w w'"
  by (auto simp: step_post_def moved_def split: sum.splits)

section \<open>The environment\<close>

text \<open>The client may read from a cache; the operator's other reads and all its writes are live.\<close>

locale cached_env =
  cs: cached_clusters K obs clusters clusters_update "Now L" "lib_finalizers L" +
  se: secret_writes K obs secrets secrets_update "Now L" +
  cm: configmap_writes K obs configmaps configmaps_update "Now L" +
  mg: cached_managers K obs helmreleases helmreleases_update app_admit apps apps_update "Now L"
  for K :: "'w ctrl_client" and obs :: "'w \<Rightarrow> world_obs" and L :: "'w libs" and app_admit

locale operator_env = cached_env K obs L app_admit +
  cs: cluster_store K obs clusters clusters_update "Now L" "lib_finalizers L" +
  se: secret_store K obs secrets secrets_update "Now L" +
  cm: configmap_store K obs configmaps configmaps_update "Now L" +
  mg: manager_store K obs helmreleases helmreleases_update app_admit apps apps_update "Now L"
  for K :: "'w ctrl_client" and obs :: "'w \<Rightarrow> world_obs" and L :: "'w libs" and app_admit
begin

lemma deployed_setValuesFrom [simp]:
  "helmReleaseInstalledChartVersion (setValuesFrom hr refs) = helmReleaseInstalledChartVersion hr"
  "helmReleaseSpecChartVersion (setValuesFrom hr refs) = helmReleaseSpecChartVersion hr"
  by (auto simp: helmReleaseInstalledChartVersion_def helmReleaseSpecChartVersion_def setValuesFrom_def Let_def
      split: option.split)

lemma ensure_effect_frame [simp]:
  "clusters (mg.ensure_effect k cm s) = clusters s" "secrets (mg.ensure_effect k cm s) = secrets s"
  "configmaps (mg.ensure_effect k cm s) = configmaps s" "tokens (mg.ensure_effect k cm s) = tokens s"
  by (auto simp: mg.ensure_effect_def mg.ensure_hr_def mg.ensure_app_def split: option.split)

lemma ensure_effect_version [simp]: "deployed_version k' (mg.ensure_effect k cm s) = deployed_version k' s"
  by (auto simp: mg.ensure_effect_def mg.ensure_hr_def mg.ensure_app_def deployed_version_def set_key_apply
      mg.admit_version split: option.split)

lemma ensure_effect_ref: "ref_ready k cm (mg.ensure_effect k cm s)"
  by (auto simp: mg.ensure_effect_def mg.ensure_hr_def mg.ensure_app_def ref_ready_def set_key_apply
      mg.admit_refs split: option.split)

lemma ensure_effect_ref_mono: "ref_ready k' cm' s \<Longrightarrow> ref_ready k' cm' (mg.ensure_effect k cm s)"
  by (auto simp: mg.ensure_effect_def mg.ensure_hr_def mg.ensure_app_def ref_ready_def set_key_apply
      mg.admit_refs split: option.splits)

lemma create_effect_frame [simp]:
  "clusters (cm.create_effect k d s) = clusters s" "secrets (cm.create_effect k d s) = secrets s"
  "helmreleases (cm.create_effect k d s) = helmreleases s" "apps (cm.create_effect k d s) = apps s"
  "tokens (cm.create_effect k d s) = tokens s"
  by (auto simp: cm.create_effect_def)

lemma create_effect_keeps: "configmaps s k' = Some x \<Longrightarrow> configmaps (cm.create_effect k d s) k' = Some x"
  by (auto simp: cm.create_effect_def set_key_apply)

lemma create_effect_present: "configmaps (cm.create_effect k d s) k \<noteq> None"
  by (auto simp: cm.create_effect_def set_key_apply)

lemma wp_GetTeleportKubeAgentVersion:
  "wp (GetTeleportKubeAgentVersion K (Name k) (Namespace k))
     (\<lambda>r w'. obs w' = obs w \<and> Now L w \<le> Now L w' \<and> (\<forall>v. r = Inr v \<longrightarrow> v = deployed_version k (obs w))) w"
  unfolding GetTeleportKubeAgentVersion_def wp_simps key_eta
  by (rule mg.hr.wp_Get) (auto simp: wp_simps deployed_version_def intro!: mg.ap.wp_Get)

text \<open>The finalizer block.\<close>

definition finalizer_effect :: "Cluster \<Rightarrow> world_obs \<Rightarrow> world_obs" where
  "finalizer_effect cl =
     (if TeleportOperatorFinalizer \<in> set (Finalizers cl) then (\<lambda>s. s)
      else clusters_update (set_key (cluster_meta cl) (Some (cs.with_finalizer cl))))"

lemma wp_ensureFinalizer:
  assumes "r_Client r = K" "clusters (obs w) (cluster_meta cl) = Some cl"
  shows "wp (ensureFinalizer L r cl) (step_post obs (Now L) (finalizer_effect cl) w) w"
  unfolding ensureFinalizer_def finalizer_effect_def assms(1) cs.Contains
  using cs.wp_AddFinalizer [OF assms(2)] by (auto intro: step_post_return)

lemma finalizer_effect_frame [simp]:
  "secrets (finalizer_effect cl s) = secrets s" "configmaps (finalizer_effect cl s) = configmaps s"
  "helmreleases (finalizer_effect cl s) = helmreleases s" "apps (finalizer_effect cl s) = apps s"
  "tokens (finalizer_effect cl s) = tokens s"
  by (auto simp: finalizer_effect_def)

lemma finalizer_effect_ready:
  "clusters s (cluster_meta cl) = Some cl \<Longrightarrow> finalizer_ready (cluster_meta cl) (finalizer_effect cl s)"
  by (auto simp: finalizer_effect_def finalizer_ready_def set_key_apply)

text \<open>The two blocks that inject references.\<close>

lemma wp_reconcileKubeAgent:
  assumes "r_Client r = K" "r_Teleport r = t"
  shows "wp (reconcileKubeAgent r cl)
     (step_post obs (Now L) (mg.ensure_effect (agent_key t (clusterName cl) (clusterNamespace cl))
        (GetConfigmapName (clusterName cl) (cfg_AppName (t_Config t)))) w) w"
  using mg.wp_manager_EnsureConfig [of "agent_key t (clusterName cl) (clusterNamespace cl)"]
  by (simp add: reconcileKubeAgent_def Let_def assms agent_key_def)

definition bot_moves :: "string \<Rightarrow> string \<Rightarrow> world_obs \<Rightarrow> world_obs \<Rightarrow> bool" where
  "bot_moves c reg s s' \<longleftrightarrow>
     (let s1 = cm.create_effect (tbot_key c TeleportBotNamespace) (getTbotConfigMapData reg c) s
      in s' = s \<or> s' = s1 \<or> s' = mg.ensure_effect bot_key (GetTbotConfigmapName c) s1)"

definition bot_post :: "bool \<Rightarrow> string \<Rightarrow> string \<Rightarrow> 'w \<Rightarrow> error + unit \<Rightarrow> 'w \<Rightarrow> bool" where
  "bot_post enabled c reg w res w' \<longleftrightarrow> Now L w \<le> Now L w' \<and> bot_moves c reg (obs w) (obs w') \<and>
     (res = Inr () \<longrightarrow> enabled \<longrightarrow> bot_ready c (obs w')) \<and>
     (\<not> enabled \<or> secrets (obs w) (kubeconfig_key c TeleportBotNamespace) \<noteq> None \<longrightarrow> obs w' = obs w)"

lemma wp_tell_bot:
  assumes "secrets (obs w) (kubeconfig_key c TeleportBotNamespace) = None"
  shows "wp (bindE (EnsureTbotConfigMap K c TeleportBotNamespace reg) (\<lambda>_.
      bindE (NewTeleportAppConfigManager K TeleportBotAppName TeleportBotNamespace (GetTbotConfigmapName c)) EnsureConfig))
    (bot_post True c reg w) w"
proof -
  let ?f = "cm.create_effect (tbot_key c TeleportBotNamespace) (getTbotConfigMapData reg c)"
    and ?g = "mg.ensure_effect bot_key (GetTbotConfigmapName c)"
  have bot: "wp (bindE (NewTeleportAppConfigManager K TeleportBotAppName TeleportBotNamespace
      (GetTbotConfigmapName c)) EnsureConfig) (step_post obs (Now L) ?g w1) w1" for w1
    using mg.wp_manager_EnsureConfig [of bot_key] by (simp add: bot_key_def)
  have ready: "bot_ready c (?g (?f s))" for s
    by (simp add: bot_ready_def ensure_effect_ref create_effect_present)
  show ?thesis
  proof (rule wp_bindEI [OF cm.wp_EnsureTbotConfigMap])
    fix u w1
    assume "step_post obs (Now L) ?f w (Inr u) w1"
    then show "wp (bindE (NewTeleportAppConfigManager K TeleportBotAppName TeleportBotNamespace
        (GetTbotConfigmapName c)) EnsureConfig) (bot_post True c reg w) w1"
      by (intro wp_mono [OF bot])
        (use assms ready in \<open>auto simp: bot_post_def bot_moves_def step_post_def Let_def split: sum.splits\<close>)
  qed (use assms in \<open>auto simp: bot_post_def bot_moves_def step_post_def Let_def\<close>)
qed

lemma bot_post_later:
  assumes "wp m (bot_post en c reg w1) w1" "obs w1 = obs w" "Now L w \<le> Now L w1"
  shows "wp m (bot_post en c reg w) w1"
  by (rule wp_mono [OF assms(1)]) (use assms in \<open>auto simp: bot_post_def\<close>)

lemma wp_reconcileBot:
  assumes r: "r_Client r = K"
  shows "wp (reconcileBot r cl reg) (bot_post (IsBotEnabled r) (clusterName cl) reg w) w"
proof (cases "IsBotEnabled r")
  case False
  then show ?thesis by (simp add: reconcileBot_def Let_def wp_simps bot_post_def bot_moves_def)
next
  case True
  have "wp (bindE (GetKubeconfigSecret K (clusterName cl) TeleportBotNamespace) (\<lambda>secret.
      if secret = None
      then bindE (EnsureTbotConfigMap K (clusterName cl) TeleportBotNamespace reg) (\<lambda>_.
           bindE (NewTeleportAppConfigManager K TeleportBotAppName TeleportBotNamespace
                    (GetTbotConfigmapName (clusterName cl))) EnsureConfig)
      else returnE ())) (bot_post True (clusterName cl) reg w) w"
  proof (rule wp_bindEI [OF se.wp_GetKubeconfigSecret])
    fix x w1
    assume w1: "obs w1 = obs w \<and> Now L w \<le> Now L w1 \<and>
      (\<forall>y. Inr x = Inr y \<longrightarrow> secrets (obs w) (kubeconfig_key (clusterName cl) TeleportBotNamespace) = y)"
    show "wp (if x = None
      then bindE (EnsureTbotConfigMap K (clusterName cl) TeleportBotNamespace reg) (\<lambda>_.
           bindE (NewTeleportAppConfigManager K TeleportBotAppName TeleportBotNamespace
                    (GetTbotConfigmapName (clusterName cl))) EnsureConfig)
      else returnE ()) (bot_post True (clusterName cl) reg w) w1"
    proof (cases x)
      case None
      with w1 show ?thesis by (simp add: bot_post_later [OF wp_tell_bot])
    next
      case (Some y)
      with w1 show ?thesis by (simp add: wp_simps bot_post_def bot_moves_def bot_ready_def)
    qed
  qed (auto simp: bot_post_def bot_moves_def)
  then show ?thesis using True by (simp add: reconcileBot_def Let_def r)
qed

lemma bot_moves_keeps:
  assumes "bot_moves c reg s s'"
  shows "clusters s' = clusters s" "secrets s' = secrets s" "tokens s' = tokens s"
    "deployed_version k s' = deployed_version k s"
    "configmaps s k' = Some x \<Longrightarrow> configmaps s' k' = Some x" "ref_ready k'' cm s \<Longrightarrow> ref_ready k'' cm s'"
proof -
  have v: "deployed_version k (cm.create_effect k1 d s) = deployed_version k s" for k1 d
    by (rule deployed_version_cong) simp_all
  have r: "ref_ready k'' cm s \<Longrightarrow> ref_ready k'' cm (cm.create_effect k1 d s)" for k1 d
    using ref_ready_cong [of "cm.create_effect k1 d s" k'' s] by simp
  show "clusters s' = clusters s" "secrets s' = secrets s" "tokens s' = tokens s"
    "deployed_version k s' = deployed_version k s"
    "configmaps s k' = Some x \<Longrightarrow> configmaps s' k' = Some x" "ref_ready k'' cm s \<Longrightarrow> ref_ready k'' cm s'"
    using assms by (auto simp: bot_moves_def Let_def v r create_effect_keeps ensure_effect_ref_mono)
qed

lemma ensure_effect_refs: "cm \<in> own \<Longrightarrow> refs_kept own s (mg.ensure_effect k cm s)"
  by (auto simp: refs_kept_def ref_ready_def ref_absent_def mg.ensure_effect_def mg.ensure_hr_def mg.ensure_app_def
      set_key_apply mg.admit_refs insert_ref_def values_ref_inj extra_config_def split: option.splits)

lemma ensure_effect_footprint:
  assumes "k \<in> {agent_key t (clusterName cl) (clusterNamespace cl), bot_key}"
    and "cm \<in> {GetConfigmapName (clusterName cl) (cfg_AppName (t_Config t)), GetTbotConfigmapName (clusterName cl)}"
  shows "footprint t cl reg s (mg.ensure_effect k cm s)"
proof -
  have "agree_off {agent_key t (clusterName cl) (clusterNamespace cl), bot_key} (helmreleases s) (helmreleases (mg.ensure_effect k cm s))"
    "agree_off {agent_key t (clusterName cl) (clusterNamespace cl), bot_key} (apps s) (apps (mg.ensure_effect k cm s))"
    using assms(1)
    by (auto simp: mg.ensure_effect_def mg.ensure_hr_def mg.ensure_app_def agree_off_set_key split: option.split)
  then show ?thesis using ensure_effect_refs [OF assms(2)] by (simp add: footprint_def Let_def)
qed

lemma create_effect_footprint:
  "footprint t cl reg s (cm.create_effect (tbot_key (clusterName cl) TeleportBotNamespace) d s)"
  by (auto simp: cm.create_effect_def footprint_def Let_def agree_off_set_key)

lemma finalizer_effect_footprint: "footprint t cl reg s (finalizer_effect cl s)"
  by (auto simp: finalizer_effect_def footprint_def Let_def agree_off_set_key)

lemma bot_moves_footprint: "bot_moves (clusterName cl) reg s s' \<Longrightarrow> footprint t cl reg s s'"
  by (auto simp: bot_moves_def Let_def
      intro: create_effect_footprint footprint_trans [OF create_effect_footprint ensure_effect_footprint])

end

text \<open>Issuing tokens under the cluster's name, with a Teleport client at hand.\<close>

locale token_issuer = ts: token_service C obs tokens tokens_update L t
  for C :: "'w Client" and obs :: "'w \<Rightarrow> world_obs" and L :: "'w libs" and t :: "'w Teleport"
begin

lemma wp_generate_then:
  assumes roles: "set roles \<subseteq> set known_roles" and u: "u \<le> Now L w"
    and cont: "\<And>p w1. new_token (lib_roles L) u reg roles (obs w) p \<Longrightarrow> obs w1 = add_token p (obs w) \<Longrightarrow>
      Now L w \<le> Now L w1 \<Longrightarrow> wp (f (GetName p)) Q w1"
    and fail: "\<And>e w1. Now L w \<le> Now L w1 \<Longrightarrow>
      obs w1 = obs w \<or> (\<exists>p. new_token (lib_roles L) u reg roles (obs w) p \<and> obs w1 = add_token p (obs w)) \<Longrightarrow>
      Q (Inl e) w1"
  shows "wp (bindE (GenerateToken L t reg roles) f) Q w"
proof -
  have new: "new_token (lib_roles L) u reg roles (obs w) p" if "ts.fresh_token w reg roles p" for p
  proof -
    have "u < Now L w + TeleportKubeTokenValidity"
      using u by (simp add: TeleportKubeTokenValidity_def hour_def minute_def second_def)
    then show ?thesis
      using that ts.fresh_token_serves [OF that roles] by (simp add: new_token_def ts.fresh_token_def)
  qed
  show ?thesis
  proof (rule wp_bindEI [OF ts.wp_GenerateToken], unfold sum.case)
    fix n w1
    assume "Now L w \<le> Now L w1 \<and> (\<exists>p. n = GetName p \<and> ts.fresh_token w reg roles p \<and>
      obs w1 = tokens_update (set_key n (Some p)) (obs w))"
    then show "wp (f n) Q w1" using cont new by (auto simp: add_token_def)
  next
    fix e w1
    assume "Now L w \<le> Now L w1 \<and> (obs w1 = obs w \<or> (\<exists>p. ts.fresh_token w reg roles p \<and>
      obs w1 = tokens_update (set_key (GetName p) (Some p)) (obs w)))"
    then show "Q (Inl e) w1" using new by (intro fail) (auto simp: add_token_def)
  qed
qed

end

locale cached_connected = cached_env K obs L app_admit + token_issuer C obs L t
  for K :: "'w ctrl_client" and obs :: "'w \<Rightarrow> world_obs" and L :: "'w libs" and app_admit
    and C :: "'w Client" and t :: "'w Teleport"

locale connected_env = operator_env K obs L app_admit + token_issuer C obs L t
  for K :: "'w ctrl_client" and obs :: "'w \<Rightarrow> world_obs" and L :: "'w libs" and app_admit
    and C :: "'w Client" and t :: "'w Teleport"
begin

subsection \<open>The join-token Secret\<close>

definition secret_post :: "time \<Rightarrow> string \<Rightarrow> string \<Rightarrow> string \<Rightarrow> 'w \<Rightarrow> error + unit \<Rightarrow> 'w \<Rightarrow> bool" where
  "secret_post u reg c ns w res w' \<longleftrightarrow> Now L w \<le> Now L w' \<and>
     secret_moves (lib_roles L) u reg c ns (obs w) (obs w') \<and>
     (res = Inr () \<longrightarrow> secret_ready (lib_roles L) u reg c ns (obs w'))"

lemma wp_generate_secret:
  assumes "\<And>tok w1. wp (m tok) (step_post obs (Now L) (put_secret (secret_key c ns) (stored_token_secret c ns tok)) w1) w1"
    and "u \<le> Now L w"
  shows "wp (bindE (GenerateToken L t reg [RoleNode]) m) (secret_post u reg c ns w) w"
proof (rule wp_generate_then [where u = u])
  fix p w1
  assume p: "new_token (lib_roles L) u reg [RoleNode] (obs w) p" "obs w1 = add_token p (obs w)" "Now L w \<le> Now L w1"
  have "secret_ready (lib_roles L) u reg c ns
      (put_secret (secret_key c ns) (stored_token_secret c ns (GetName p)) (add_token p (obs w)))"
    using p(1) by (auto simp: secret_ready_def new_token_def put_defs set_key_apply GetTokenFromSecret_stored)
  then show "wp (m (GetName p)) (secret_post u reg c ns w) w1"
    by (intro wp_mono [OF assms(1)])
      (use p in \<open>auto simp: step_post_def secret_post_def secret_moves_def split: sum.splits\<close>)
qed (use assms(2) in \<open>auto simp: known_roles_def secret_post_def secret_moves_def\<close>)

lemma secret_post_later:
  assumes "wp m (secret_post u reg c ns w1) w1" "obs w1 = obs w" "Now L w \<le> Now L w1"
  shows "wp m (secret_post u reg c ns w) w1"
  by (rule wp_mono [OF assms(1)]) (use assms in \<open>auto simp: secret_post_def\<close>)

lemma wp_write_secret:
  assumes "m = CreateSecret K c ns \<or> m = UpdateSecret K c ns" "u \<le> Now L w"
  shows "wp (bindE (GenerateToken L t reg [RoleNode]) m) (secret_post u reg c ns w) w"
  using assms se.wp_CreateSecret se.wp_UpdateSecret
  by (intro wp_generate_secret) (auto simp: put_secret_def)

lemma wp_check_secret:
  assumes sec: "secrets (obs w) (secret_key c ns) = Some sec" "GetTokenFromSecret sec = Inr tok"
    and u: "u \<le> Now L w"
  shows "wp (bindE (IsTokenValid L t reg tok RoleNode) (\<lambda>tokenValid.
      if \<not> tokenValid then bindE (GenerateToken L t reg [RoleNode]) (UpdateSecret K c ns) else returnE ()))
    (secret_post u reg c ns w) w"
proof (rule wp_bindEI [OF ts.wp_IsTokenValid])
  fix valid w1
  assume w1: "ts.unchanged w w1 \<and> (\<forall>b. Inr valid = Inr b \<longrightarrow> (\<exists>roles. ParseRoles RoleNode = Inr roles \<and>
    (b \<longleftrightarrow> (\<exists>p. tokens (obs w) tok = Some p \<and> GetName p = tok \<and> serves (lib_roles L) (Now L w1) reg roles p))))"
  have now1: "u \<le> Now L w1" using u w1 by (auto simp: ts.unchanged_def)
  show "wp (if \<not> valid then bindE (GenerateToken L t reg [RoleNode]) (UpdateSecret K c ns) else returnE ())
      (secret_post u reg c ns w) w1"
  proof (cases valid)
    case True
    then have "secret_ready (lib_roles L) u reg c ns (obs w)"
      using w1 sec ParseRoles_role [of RoleNode] serves_mono [OF _ now1]
      by (auto simp: secret_ready_def known_roles_def)
    with True w1 show ?thesis by (simp add: wp_simps secret_post_def secret_moves_def ts.unchanged_def)
  next
    case False
    have "wp (bindE (GenerateToken L t reg [RoleNode]) (UpdateSecret K c ns)) (secret_post u reg c ns w) w1"
      by (rule secret_post_later [OF wp_write_secret]) (use now1 w1 in \<open>auto simp: ts.unchanged_def\<close>)
    with False show ?thesis by simp
  qed
qed (auto simp: ts.unchanged_def secret_post_def secret_moves_def)

lemma wp_reconcileSecret:
  assumes r: "r_Client r = K" "r_Teleport r = t" and u: "u \<le> Now L w"
  shows "wp (reconcileSecret L r cl reg) (secret_post u reg (clusterName cl) (clusterNamespace cl) w) w"
    (is "wp _ (secret_post u reg ?c ?ns w) w")
  unfolding reconcileSecret_def Let_def r
proof (rule wp_bindEI [OF se.wp_GetSecret])
  fix x w1
  assume w1: "obs w1 = obs w \<and> Now L w \<le> Now L w1 \<and> (\<forall>y. Inr x = Inr y \<longrightarrow> secrets (obs w) (secret_key ?c ?ns) = y)"
  have "wp (case x of None \<Rightarrow> bindE (GenerateToken L t reg [RoleNode]) (CreateSecret K ?c ?ns)
      | Some secret \<Rightarrow> bindE (liftE (GetTokenFromSecret secret)) (\<lambda>token.
          bindE (IsTokenValid L t reg token RoleNode) (\<lambda>tokenValid.
            if \<not> tokenValid then bindE (GenerateToken L t reg [RoleNode]) (UpdateSecret K ?c ?ns)
            else returnE ()))) (secret_post u reg ?c ?ns w1) w1"
  proof (cases x)
    case None
    with u w1 show ?thesis by (auto intro: wp_write_secret)
  next
    case (Some sec)
    with u w1 show ?thesis
      by (cases "GetTokenFromSecret sec")
        (auto simp: wp_throwE secret_post_def [of _ _ _ _ _ "Inl _"] secret_moves_def intro: wp_check_secret)
  qed
  then show "wp (case x of None \<Rightarrow> bindE (GenerateToken L t reg [RoleNode]) (CreateSecret K ?c ?ns)
      | Some secret \<Rightarrow> bindE (liftE (GetTokenFromSecret secret)) (\<lambda>token.
          bindE (IsTokenValid L t reg token RoleNode) (\<lambda>tokenValid.
            if \<not> tokenValid then bindE (GenerateToken L t reg [RoleNode]) (UpdateSecret K ?c ?ns)
            else returnE ()))) (secret_post u reg ?c ?ns w) w1"
    by (rule secret_post_later) (use w1 in auto)
qed (auto simp: secret_post_def secret_moves_def)

subsection \<open>The values ConfigMap\<close>

definition configmap_post ::
    "time \<Rightarrow> string \<Rightarrow> string list \<Rightarrow> string \<Rightarrow> string \<Rightarrow> string \<Rightarrow> 'w \<Rightarrow> error + unit \<Rightarrow> 'w \<Rightarrow> bool" where
  "configmap_post u reg roles tka c ns w res w' \<longleftrightarrow> Now L w \<le> Now L w' \<and>
     configmap_moves L t u reg roles tka (configmap_key t c ns) (obs w) (obs w') \<and>
     (res = Inr () \<longrightarrow> register_kept L t reg c ns (obs w) \<longrightarrow> configmap_ready L t u reg roles tka c ns (obs w'))"

lemma configmap_post_later:
  assumes "wp m (configmap_post u reg roles tka c ns w1) w1" "obs w1 = obs w" "Now L w \<le> Now L w1"
  shows "wp m (configmap_post u reg roles tka c ns w) w1"
  by (rule wp_mono [OF assms(1)]) (use assms in \<open>auto simp: configmap_post_def\<close>)

lemma wp_create_configmap:
  assumes "set roles \<subseteq> set known_roles" "u \<le> Now L w" "configmaps (obs w) (configmap_key t c ns) = None"
  shows "wp (bindE (GenerateToken L t reg roles) (\<lambda>token. CreateConfigMap L t K c ns reg token roles tka))
    (configmap_post u reg roles tka c ns w) w"
proof (rule wp_generate_then [where u = u])
  fix p w1
  assume p: "new_token (lib_roles L) u reg roles (obs w) p" "obs w1 = add_token p (obs w)" "Now L w \<le> Now L w1"
  let ?k = "configmap_key t c ns" and ?d = "getConfigMapData L t reg (GetName p) roles tka"
  have eff: "cm.create_effect ?k ?d (obs w1) =
      put_configmap ?k (values_configmap (Name ?k) (Namespace ?k) ?d) (add_token p (obs w))"
    using p(2) assms(3) by (simp add: cm.create_effect_def put_defs)
  have "values_written L t u reg roles tka ?k (obs w1) (cm.create_effect ?k ?d (obs w1))"
    unfolding eff using p(1) assms(3)
    by (auto simp: values_written_def p(2) new_token_def put_defs set_key_apply intro!: exI [of _ "GetName p"])
  then have moves: "configmap_moves L t u reg roles tka ?k (obs w) (cm.create_effect ?k ?d (obs w1))"
    "configmap_moves L t u reg roles tka ?k (obs w) (obs w1)"
    using p by (blast intro: configmap_moves_write)+
  have "configmap_ready L t u reg roles tka c ns (cm.create_effect ?k ?d (obs w1))"
    unfolding eff using p(1) by (auto simp: configmap_ready_def new_token_def put_defs set_key_apply)
  then show "wp (CreateConfigMap L t K c ns reg (GetName p) roles tka) (configmap_post u reg roles tka c ns w) w1"
    by (intro wp_mono [OF cm.wp_CreateConfigMap])
      (use p moves in \<open>auto simp: step_post_def configmap_post_def split: sum.splits\<close>)
qed (use assms in \<open>auto simp: configmap_post_def configmap_moves_def\<close>)

text \<open>Writing a token that is good: rewrite the document unless it is there already.\<close>

lemma wp_write_configmap:
  assumes cmap: "configmaps (obs w) (configmap_key t c ns) = Some cm" "cm_meta cm = configmap_key t c ns"
      "cm_Data cm ''values'' = Some v"
    and tok: "tokens (obs w) tok = Some p" "GetName p = tok" "serves (lib_roles L) u reg roles p"
  shows "wp (if v = RenderConfigMapValues L t reg tok roles tka then returnE ()
      else UpdateConfigMap L t K cm tok roles tka)
    (\<lambda>res w'. Now L w \<le> Now L w' \<and>
       (obs w' = obs w \<or> values_written L t u reg roles tka (configmap_key t c ns) (obs w) (obs w')) \<and>
       (res = Inr () \<longrightarrow> register_kept L t reg c ns (obs w) \<longrightarrow> configmap_ready L t u reg roles tka c ns (obs w'))) w"
proof (cases "v = RenderConfigMapValues L t reg tok roles tka")
  case True
  then have "configmap_ready L t u reg roles tka c ns (obs w)"
    using cmap tok by (auto simp: configmap_ready_def RenderConfigMapValues_def)
  with True show ?thesis by (simp add: wp_simps)
next
  case False
  show ?thesis
  proof (cases "registerNameFromConfigMap L cm")
    case (Inl e)
    with False show ?thesis by (simp add: cm.wp_UpdateConfigMap_malformed wp_simps)
  next
    case (Inr reg')
    then have "register_kept L t reg c ns (obs w) \<Longrightarrow> reg' = reg" using cmap(1) by (auto simp: register_kept_def)
    then have "register_kept L t reg c ns (obs w) \<Longrightarrow> configmap_ready L t u reg roles tka c ns
        (put_configmap (configmap_key t c ns) (rewritten L t cm reg' tok roles tka) (obs w))"
      using tok by (auto simp: configmap_ready_def put_defs set_key_apply rewritten_def)
    moreover have "values_written L t u reg roles tka (configmap_key t c ns) (obs w)
        (put_configmap (configmap_key t c ns) (rewritten L t cm reg' tok roles tka) (obs w))"
      using tok cmap(1) Inr by (auto simp: values_written_def)
    ultimately show ?thesis
      using False by (auto intro!: wp_mono [OF cm.wp_UpdateConfigMap [OF Inr]]
          simp: step_post_def cmap(2) put_configmap_def split: sum.splits)
  qed
qed

lemma wp_check_configmap:
  assumes roles: "roles \<noteq> []" "set roles \<subseteq> set known_roles" and u: "u \<le> Now L w"
    and cmap: "configmaps (obs w) (configmap_key t c ns) = Some cm" "cm_meta cm = configmap_key t c ns"
      "cm_Data cm ''values'' = Some v"
  shows "wp (bindE (IsTokenValid L t reg tok (RolesToString roles)) (\<lambda>tokenValid.
      bindE (if \<not> tokenValid then GenerateToken L t reg roles else returnE tok) (\<lambda>writeToken.
        if v = RenderConfigMapValues L t reg writeToken roles tka then returnE ()
        else UpdateConfigMap L t K cm writeToken roles tka)))
    (configmap_post u reg roles tka c ns w) w"
proof (rule wp_bindEI [OF ts.wp_IsTokenValid])
  fix valid w1
  assume w1: "ts.unchanged w w1 \<and> (\<forall>b. Inr valid = Inr b \<longrightarrow> (\<exists>rs. ParseRoles (RolesToString roles) = Inr rs \<and>
    (b \<longleftrightarrow> (\<exists>p. tokens (obs w) tok = Some p \<and> GetName p = tok \<and> serves (lib_roles L) (Now L w1) reg rs p))))"
  then have eq: "obs w1 = obs w" and now1: "u \<le> Now L w1" and le: "Now L w \<le> Now L w1"
    using u by (auto simp: ts.unchanged_def)
  have wr: "wp (if v = RenderConfigMapValues L t reg tk roles tka then returnE ()
        else UpdateConfigMap L t K cm tk roles tka) (configmap_post u reg roles tka c ns w) w2"
    if "obs w2 = obs w \<or> new_token (lib_roles L) u reg roles (obs w) p \<and> obs w2 = add_token p (obs w)"
      "tokens (obs w2) tk = Some p" "GetName p = tk" "serves (lib_roles L) u reg roles p" "Now L w \<le> Now L w2"
    for tk p w2
  proof (rule wp_mono [OF wp_write_configmap [OF _ cmap(2,3)]])
    show "configmaps (obs w2) (configmap_key t c ns) = Some cm"
      using that(1) cmap(1) by (auto simp: add_token_def)
    have "register_kept L t reg c ns (obs w2) = register_kept L t reg c ns (obs w)"
      using that(1) by (auto simp: register_kept_def add_token_def)
    then show "configmap_post u reg roles tka c ns w r w'" if "Now L w2 \<le> Now L w' \<and>
       (obs w' = obs w2 \<or> values_written L t u reg roles tka (configmap_key t c ns) (obs w2) (obs w')) \<and>
       (r = Inr () \<longrightarrow> register_kept L t reg c ns (obs w2) \<longrightarrow> configmap_ready L t u reg roles tka c ns (obs w'))" for r w'
      using that \<open>Now L w \<le> Now L w2\<close> configmap_moves_write [OF \<open>obs w2 = obs w \<or> _\<close>]
      by (auto simp: configmap_post_def)
  qed (use that in auto)
  show "wp (bindE (if \<not> valid then GenerateToken L t reg roles else returnE tok) (\<lambda>writeToken.
        if v = RenderConfigMapValues L t reg writeToken roles tka then returnE ()
        else UpdateConfigMap L t K cm writeToken roles tka)) (configmap_post u reg roles tka c ns w) w1"
  proof (cases valid)
    case True
    then obtain p where "tokens (obs w) tok = Some p" "GetName p = tok" "serves (lib_roles L) u reg roles p"
      using w1 ParseRoles_Join [OF roles] serves_mono [OF _ now1] by auto
    with True wr [of w1 p tok] eq le show ?thesis by simp
  next
    case False
    have "wp (bindE (GenerateToken L t reg roles) (\<lambda>writeToken.
        if v = RenderConfigMapValues L t reg writeToken roles tka then returnE ()
        else UpdateConfigMap L t K cm writeToken roles tka)) (configmap_post u reg roles tka c ns w) w1"
      by (rule wp_generate_then [OF roles(2) now1], rule wr)
        (use eq le in \<open>auto simp: new_token_def add_token_def set_key_apply configmap_post_def configmap_moves_def\<close>)
    with False show ?thesis by simp
  qed
qed (auto simp: ts.unchanged_def configmap_post_def configmap_moves_def)

lemma wp_reconcileConfigMap:
  assumes r: "r_Client r = K" "r_Teleport r = t" and u: "u \<le> Now L w"
    and roles: "roles \<noteq> []" "set roles \<subseteq> set known_roles"
  shows "wp (reconcileConfigMap L r cl reg roles tka)
    (configmap_post u reg roles tka (clusterName cl) (clusterNamespace cl) w) w"
    (is "wp _ (configmap_post u reg roles tka ?c ?ns w) w")
  unfolding reconcileConfigMap_def Let_def r
proof (rule wp_bindEI [OF cm.wp_GetConfigMap])
  fix x w1
  assume "obs w1 = obs w \<and> Now L w \<le> Now L w1 \<and>
      (\<forall>y. Inr x = Inr y \<longrightarrow> configmaps (obs w) (configmap_key t ?c ?ns) = y) \<and>
      (\<forall>cm. Inr x = Inr (Some cm) \<longrightarrow> cm_meta cm = configmap_key t ?c ?ns)"
  then have w1: "obs w1 = obs w" "Now L w \<le> Now L w1" "u \<le> Now L w1"
    and x: "configmaps (obs w1) (configmap_key t ?c ?ns) = x" "\<And>cm. x = Some cm \<Longrightarrow> cm_meta cm = configmap_key t ?c ?ns"
    using u by auto
  show "wp (case x of None \<Rightarrow> bindE (GenerateToken L t reg roles)
          (\<lambda>token. CreateConfigMap L t K ?c ?ns reg token roles tka)
      | Some configMap \<Rightarrow> bindE (liftE (GetTokenFromConfigMap L configMap)) (\<lambda>token.
          bindE (IsTokenValid L t reg token (RolesToString roles)) (\<lambda>tokenValid.
          bindE (if \<not> tokenValid then GenerateToken L t reg roles else returnE token) (\<lambda>writeToken.
            if (case cm_Data configMap ''values'' of None \<Rightarrow> [] | Some v \<Rightarrow> v) =
               RenderConfigMapValues L t reg writeToken roles tka then returnE ()
            else UpdateConfigMap L t K configMap writeToken roles tka))))
      (configmap_post u reg roles tka ?c ?ns w) w1"
  proof (cases x)
    case None
    with w1 x roles show ?thesis by (auto intro!: configmap_post_later [OF wp_create_configmap])
  next
    case (Some cmap)
    show ?thesis
    proof (cases "GetTokenFromConfigMap L cmap")
      case (Inl e)
      with Some w1 show ?thesis by (simp add: wp_throwE configmap_post_def configmap_moves_same)
    next
      case (Inr tok)
      then obtain v where "cm_Data cmap ''values'' = Some v"
        by (auto simp: GetTokenFromConfigMap_def parseConfigMapValues_def split: option.splits sum.splits)
      then show ?thesis
        using Some Inr w1 x roles
        by (auto intro!: configmap_post_later [OF wp_check_configmap])
    qed
  qed
qed (auto simp: configmap_post_def configmap_moves_def)

subsection \<open>Creation and update\<close>

definition normal_post ::
    "time \<Rightarrow> 'w ClusterReconciler \<Rightarrow> Cluster \<Rightarrow> string \<Rightarrow> string list \<Rightarrow> 'w \<Rightarrow> error + Result \<Rightarrow> 'w \<Rightarrow> bool" where
  "normal_post u r cl reg roles w = run_post obs (Now L) (footprint t cl reg)
     (\<lambda>x s'. x = \<lparr>RequeueAfter = 5 * minute\<rparr> \<and>
        (register_kept L t reg (clusterName cl) (clusterNamespace cl) (obs w) \<longrightarrow> converged L r u cl reg roles s')) w"

abbreviation since :: "Cluster \<Rightarrow> string \<Rightarrow> 'w \<Rightarrow> 'w \<Rightarrow> bool" where
  "since cl reg \<equiv> moved obs (Now L) (footprint t cl reg)"

lemma normal_seq:
  assumes "wp m P w1" "since cl reg w w1" "\<And>r w'. P r w' \<Longrightarrow> since cl reg w1 w'"
    and "\<And>x w'. P (Inr x) w' \<Longrightarrow> since cl reg w w' \<Longrightarrow> wp (f x) (normal_post u r cl reg roles w) w'"
  shows "wp (bindE m f) (normal_post u r cl reg roles w) w1"
  unfolding normal_post_def
  by (rule run_post_seq [OF assms(1) transp_footprint assms(2,3)]) (auto intro: assms(4) [unfolded normal_post_def])

text \<open>The last blocks: the references, once the Secret and the ConfigMap are in order.\<close>

lemma wp_references:
  assumes r: "r_Client r = K" "r_Teleport r = t" and start: "since cl reg w w1"
    and ready: "finalizer_ready (cluster_meta cl) (obs w1)"
      "secret_ready (lib_roles L) u reg (clusterName cl) (clusterNamespace cl) (obs w1)"
      "register_kept L t reg (clusterName cl) (clusterNamespace cl) (obs w) \<Longrightarrow>
       configmap_ready L t u reg roles (deployed_version (agent_key t (clusterName cl) (clusterNamespace cl)) (obs w1))
         (clusterName cl) (clusterNamespace cl) (obs w1)"
  shows "wp (bindE (reconcileKubeAgent r cl) (\<lambda>_. bindE (reconcileBot r cl reg) (\<lambda>_.
      returnE \<lparr>RequeueAfter = 5 * minute\<rparr>))) (normal_post u r cl reg roles w) w1"
proof (rule normal_seq [OF wp_reconcileKubeAgent [OF r] start], goal_cases)
  case (1 res w')
  then show ?case by (rule step_post_moved) (simp_all add: ensure_effect_footprint)
next
  case w2: (2 x w2)
  let ?k = "agent_key t (clusterName cl) (clusterNamespace cl)"
  let ?g = "mg.ensure_effect ?k (GetConfigmapName (clusterName cl) (cfg_AppName (t_Config t)))"
  have s2: "obs w2 = ?g (obs w1)" using w2(1) by (simp add: step_post_def)
  show ?case
  proof (rule normal_seq [OF wp_reconcileBot [OF r(1)] w2(2)], goal_cases)
    case (1 res w')
    then show ?case by (simp add: bot_post_def moved_def bot_moves_footprint)
  next
    case w3: (2 y w3)
    have moves: "bot_moves (clusterName cl) reg (obs w2) (obs w3)" using w3(1) by (simp add: bot_post_def)
    note keeps = bot_moves_keeps [OF moves]
    have "configmap_ready L t u reg roles (deployed_version ?k (obs w1)) (clusterName cl) (clusterNamespace cl) (obs w3)"
      if "register_kept L t reg (clusterName cl) (clusterNamespace cl) (obs w)"
      using ready(3) [OF that] keeps(3,5) by (auto simp: configmap_ready_def s2)
    moreover have "ref_ready ?k (GetConfigmapName (clusterName cl) (cfg_AppName (t_Config t))) (obs w3)"
      using keeps(6) ensure_effect_ref s2 by metis
    ultimately have "register_kept L t reg (clusterName cl) (clusterNamespace cl) (obs w) \<longrightarrow> converged L r u cl reg roles (obs w3)"
      using ready keeps(1-4) w3(1)
      by (simp add: converged_def Let_def r s2 finalizer_ready_def secret_ready_def bot_post_def)
    then show ?case using w3(2) by (simp add: wp_simps normal_post_def run_post_def)
  qed
qed

text \<open>From the version lookup on, once the Secret is in order.\<close>

lemma wp_values:
  assumes r: "r_Client r = K" "r_Teleport r = t" and start: "since cl reg w w2" and u: "u \<le> Now L w2"
    and roles: "roles \<noteq> []" "set roles \<subseteq> set known_roles"
    and reg: "register_kept L t reg (clusterName cl) (clusterNamespace cl) (obs w2) =
      register_kept L t reg (clusterName cl) (clusterNamespace cl) (obs w)"
    and ready: "finalizer_ready (cluster_meta cl) (obs w2)"
      "secret_ready (lib_roles L) u reg (clusterName cl) (clusterNamespace cl) (obs w2)"
  shows "wp (bindE (GetTeleportKubeAgentVersion K (GetAppName (clusterName cl) (cfg_AppName (t_Config t)))
        (clusterNamespace cl)) (\<lambda>tka.
      bindE (reconcileConfigMap L r cl reg roles tka) (\<lambda>_. bindE (reconcileKubeAgent r cl) (\<lambda>_.
      bindE (reconcileBot r cl reg) (\<lambda>_. returnE \<lparr>RequeueAfter = 5 * minute\<rparr>)))))
    (normal_post u r cl reg roles w) w2"
proof -
  let ?c = "clusterName cl" and ?ns = "clusterNamespace cl"
  let ?k = "agent_key t ?c ?ns"
  have ver: "wp (GetTeleportKubeAgentVersion K (GetAppName ?c (cfg_AppName (t_Config t))) ?ns)
       (\<lambda>r w'. obs w' = obs w2 \<and> Now L w2 \<le> Now L w' \<and> (\<forall>v. r = Inr v \<longrightarrow> v = deployed_version ?k (obs w2))) w2"
    using wp_GetTeleportKubeAgentVersion [of ?k w2] by (simp add: agent_key_def)
  show ?thesis
  proof (rule normal_seq [OF ver start], goal_cases)
    case (1 res w')
    then show ?case by (simp add: moved_def)
  next
    case w3: (2 tka w3)
    then have s3: "obs w3 = obs w2" "tka = deployed_version ?k (obs w2)" and u3: "u \<le> Now L w3"
      using u by auto
    show ?case
    proof (rule normal_seq [OF wp_reconcileConfigMap [OF r u3 roles] w3(2)], goal_cases)
      case (1 res w')
      then show ?case by (auto simp: configmap_post_def moved_def intro: configmap_moves_footprint)
    next
      case w4: (2 x w4)
      then have mv: "configmap_moves L t u reg roles tka (configmap_key t ?c ?ns) (obs w2) (obs w4)"
        and cm4: "register_kept L t reg ?c ?ns (obs w) \<Longrightarrow> configmap_ready L t u reg roles tka ?c ?ns (obs w4)"
        using reg by (auto simp: configmap_post_def s3)
      note fr = configmap_moves_frame [OF mv]
      have "finalizer_ready (cluster_meta cl) (obs w4)" using ready(1) fr by (simp add: finalizer_ready_def)
      moreover have "secret_ready (lib_roles L) u reg ?c ?ns (obs w4)"
        using secret_ready_mono [OF ready(2)] fr by blast
      moreover have "deployed_version ?k (obs w4) = tka" using fr s3 deployed_version_cong [of "obs w4" ?k "obs w2"] by simp
      ultimately show ?case using cm4 by (intro wp_references [OF r w4(2)]) simp_all
    qed
  qed
qed

lemma wp_reconcileNormal:
  assumes r: "r_Client r = K" "r_Teleport r = t" and u: "u \<le> Now L w"
    and roles: "roles \<noteq> []" "set roles \<subseteq> set known_roles"
    and cl: "clusters (obs w) (cluster_meta cl) = Some cl"
  shows "wp (reconcileNormal L r cl reg roles) (normal_post u r cl reg roles w) w"
  unfolding reconcileNormal_def
proof (rule normal_seq [OF wp_ensureFinalizer [OF r(1) cl]], goal_cases)
  case 1
  show ?case by (simp add: moved_def)
next
  case (2 res w')
  then show ?case by (rule step_post_moved) (simp_all add: finalizer_effect_footprint)
next
  case w1: (3 x w1)
  then have s1: "obs w1 = finalizer_effect cl (obs w)" by (simp add: step_post_def)
  then have fin1: "finalizer_ready (cluster_meta cl) (obs w1)" using finalizer_effect_ready [OF cl] by simp
  have u1: "u \<le> Now L w1" using u w1(2) by (simp add: moved_def)
  show ?case
  proof (rule normal_seq [OF wp_reconcileSecret [OF r u1] w1(2)], goal_cases)
    case (1 res w')
    then show ?case by (auto simp: secret_post_def moved_def intro: secret_moves_footprint)
  next
    case w2: (2 x2 w2)
    then have mv: "secret_moves (lib_roles L) u reg (clusterName cl) (clusterNamespace cl) (obs w1) (obs w2)"
      by (simp add: secret_post_def)
    note fr = secret_moves_frame [OF mv]
    have "register_kept L t reg (clusterName cl) (clusterNamespace cl) (obs w2) =
        register_kept L t reg (clusterName cl) (clusterNamespace cl) (obs w)"
      using fr s1 by (simp add: register_kept_def)
    moreover have "finalizer_ready (cluster_meta cl) (obs w2)" using fin1 fr by (simp add: finalizer_ready_def)
    ultimately show ?case
      using w2 u by (simp add: r secret_post_def moved_def wp_values [OF r w2(2) _ roles])
  qed
qed

end

end
