(* ===== verification/Deletion.thy ===== *)
theory Deletion
  imports Operator
begin

text \<open>
  The deletion branch of \<open>Reconcile\<close>: the sequence of effects it has, in order, how far a
  failure lets it get, and that the finalizer goes only after everything else is gone.
\<close>

section \<open>Sequences of effects\<close>

definition apply_steps :: "('s \<Rightarrow> 's) list \<Rightarrow> 's \<Rightarrow> 's" where
  "apply_steps fs s = foldl (\<lambda>s f. f s) s fs"

lemma apply_steps_simps [simp]:
  "apply_steps [] s = s" "apply_steps (f # fs) s = apply_steps fs (f s)"
  "apply_steps (fs @ gs) s = apply_steps gs (apply_steps fs s)"
  by (simp_all add: apply_steps_def)

text \<open>Effects in order: all of them on success, an initial part of them on failure.\<close>

definition steps_post :: "('w \<Rightarrow> 's) \<Rightarrow> ('w \<Rightarrow> time) \<Rightarrow> ('s \<Rightarrow> 's) list \<Rightarrow> 'w \<Rightarrow> error + 'a \<Rightarrow> 'w \<Rightarrow> bool" where
  "steps_post obs now fs w r w' \<longleftrightarrow> now w \<le> now w' \<and>
     (case r of
        Inr _ \<Rightarrow> obs w' = apply_steps fs (obs w)
      | Inl _ \<Rightarrow> \<exists>n \<le> length fs. obs w' = apply_steps (take n fs) (obs w))"

lemma steps_post_one: "wp m (step_post obs now f w) w \<Longrightarrow> wp m (steps_post obs now [f] w) w"
proof (erule wp_mono)
  fix r w' assume "step_post obs now f w r w'"
  then show "steps_post obs now [f] w r w'"
    by (cases r) (auto simp: step_post_def steps_post_def intro: exI [of _ "0 :: nat"] exI [of _ "1 :: nat"])
qed

lemma steps_post_return: "wp (returnE x) (steps_post obs now [] w) w"
  by (simp add: wp_returnE steps_post_def)

lemma steps_post_seq:
  assumes "wp m (steps_post obs now fs w) w"
    and "\<And>x w1. obs w1 = apply_steps fs (obs w) \<Longrightarrow> wp (f x) (steps_post obs now gs w1) w1"
  shows "wp (bindE m f) (steps_post obs now (fs @ gs) w) w"
proof (rule wp_bindEI [OF assms(1)], goal_cases)
  case (1 x w1)
  then have s1: "obs w1 = apply_steps fs (obs w)" "now w \<le> now w1" by (simp_all add: steps_post_def)
  show ?case
  proof (rule wp_mono [OF assms(2) [OF s1(1)]], goal_cases)
    case r: (1 r w')
    show ?case
    proof (cases r)
      case (Inl e)
      with r obtain n where "n \<le> length gs" "obs w' = apply_steps (take n gs) (obs w1)"
        by (auto simp: steps_post_def)
      with Inl r s1 show ?thesis
        by (auto simp: steps_post_def intro!: exI [of _ "length fs + n"])
    qed (use r s1 in \<open>auto simp: steps_post_def\<close>)
  qed
next
  case (2 e w1)
  then obtain n where "n \<le> length fs" "obs w1 = apply_steps (take n fs) (obs w)" "now w \<le> now w1"
    by (auto simp: steps_post_def)
  then show ?case
    by (auto simp: steps_post_def intro!: exI [of _ n])
qed

lemma apply_steps_invariant:
  assumes "\<And>f s. f \<in> set fs \<Longrightarrow> I s \<Longrightarrow> I (f s)" "I s"
  shows "I (apply_steps fs s)"
  using assms by (induction fs arbitrary: s) auto

lemma apply_steps_prefix:
  assumes "\<And>f s. f \<in> set fs \<Longrightarrow> I s \<Longrightarrow> I (f s)" "I s"
  shows "I (apply_steps (take n fs) s)"
  by (rule apply_steps_invariant) (use assms in \<open>auto dest: in_set_takeD\<close>)

section \<open>What deletion leaves behind\<close>

definition cleaned :: "'w ClusterReconciler \<Rightarrow> Cluster \<Rightarrow> world_obs \<Rightarrow> bool" where
  "cleaned r cl s \<longleftrightarrow>
     (let t = r_Teleport r; c = clusterName cl; ns = clusterNamespace cl; b = TeleportBotNamespace
      in secrets s (secret_key c ns) = None \<and>
         configmaps s (configmap_key t c ns) = None \<and>
         ref_absent (agent_key t c ns) (GetConfigmapName c (cfg_AppName (t_Config t))) s \<and>
         (IsBotEnabled r \<longrightarrow>
            configmaps s (tbot_key c b) = None \<and> secrets s (kubeconfig_key c b) = None \<and>
            ref_absent bot_key (GetTbotConfigmapName c) s))"

definition finalizer_gone :: "NamespacedName \<Rightarrow> world_obs \<Rightarrow> bool" where
  "finalizer_gone k s \<longleftrightarrow>
     (case clusters s k of None \<Rightarrow> True | Some c \<Rightarrow> TeleportOperatorFinalizer \<notin> set (Finalizers c))"

text \<open>
  What a deletion does not look at: an App beside a HelmRelease of the same name, and without
  the bot everything but the Secret, the ConfigMap and the agent of the cluster, whatever the
  bot had been given while it was on.
\<close>

definition passed_over :: "'w ClusterReconciler \<Rightarrow> Cluster \<Rightarrow> world_obs \<Rightarrow> world_obs \<Rightarrow> bool" where
  "passed_over r cl s s' \<longleftrightarrow>
     (let t = r_Teleport r; c = clusterName cl; ns = clusterNamespace cl
      in (\<forall>k. helmreleases s k \<noteq> None \<longrightarrow> helmreleases s' k \<noteq> None \<and> apps s' k = apps s k) \<and>
         (\<not> IsBotEnabled r \<longrightarrow>
            agree_off {secret_key c ns} (secrets s) (secrets s') \<and>
            agree_off {configmap_key t c ns} (configmaps s) (configmaps s') \<and>
            agree_off {agent_key t c ns} (helmreleases s) (helmreleases s') \<and>
            agree_off {agent_key t c ns} (apps s) (apps s')))"

lemma passed_over_refl [simp]: "passed_over r cl s s"
  by (simp add: passed_over_def Let_def)

lemma passed_over_trans: "passed_over r cl s s1 \<Longrightarrow> passed_over r cl s1 s2 \<Longrightarrow> passed_over r cl s s2"
  unfolding passed_over_def Let_def using agree_off_trans by (metis (no_types, lifting))

text \<open>One of the cluster's tokens goes, if there is any.\<close>

definition drops_one :: "string \<Rightarrow> world_obs \<Rightarrow> (world_obs \<Rightarrow> world_obs) \<Rightarrow> bool" where
  "drops_one reg s f \<longleftrightarrow>
     (\<exists>p. tokens s (GetName p) = Some p \<and> label p ''cluster'' = reg \<and>
        f = tokens_update (set_key (GetName p) None)) \<or>
     (\<forall>p. tokens s (GetName p) = Some p \<longrightarrow> label p ''cluster'' \<noteq> reg) \<and> f = id"

lemma drops_one_exists: "\<exists>f. drops_one reg s f"
  unfolding drops_one_def by blast

lemma ref_absent_frame [simp]:
  "ref_absent k cm (clusters_update f s) = ref_absent k cm s"
  "ref_absent k cm (secrets_update g s) = ref_absent k cm s"
  "ref_absent k cm (configmaps_update h s) = ref_absent k cm s"
  by (rule ref_absent_cong, simp_all)+

section \<open>The deletion branch\<close>

context token_issuer
begin

lemma wp_drop_token:
  "wp (Token.DeleteToken t reg) (\<lambda>res w'. \<exists>f. drops_one reg (obs w) f \<and> step_post obs (Now L) f w res w') w"
proof (rule wp_mono [OF ts.wp_DeleteToken_service])
  fix res :: "error + unit" and w'
  assume a: "Now L w \<le> Now L w' \<and> (case res of
      Inr _ \<Rightarrow> (\<forall>p. \<not> ts.token_of (obs w) reg p) \<and> obs w' = obs w \<or>
        (\<exists>p. ts.token_of (obs w) reg p \<and> obs w' = tokens_update (set_key (GetName p) None) (obs w))
    | Inl e \<Rightarrow> obs w' = obs w \<or>
        (\<exists>p. ts.token_of (obs w) reg p \<and> obs w' = tokens_update (set_key (GetName p) None) (obs w)))"
  obtain g where g: "drops_one reg (obs w) g" using drops_one_exists by blast
  show "\<exists>f. drops_one reg (obs w) f \<and> step_post obs (Now L) f w res w'"
  proof (cases "\<exists>p. ts.token_of (obs w) reg p \<and> obs w' = tokens_update (set_key (GetName p) None) (obs w)")
    case True
    then obtain p where p: "ts.token_of (obs w) reg p" "obs w' = tokens_update (set_key (GetName p) None) (obs w)"
      by blast
    then have "drops_one reg (obs w) (tokens_update (set_key (GetName p) None))"
      by (auto simp: drops_one_def ts.token_of_def)
    moreover have "step_post obs (Now L) (tokens_update (set_key (GetName p) None)) w res w'"
      using a p(2) by (simp add: step_post_def split: sum.split)
    ultimately show ?thesis by blast
  next
    case False
    with a have same: "obs w' = obs w" and none: "\<And>u. res = Inr u \<Longrightarrow> (\<forall>p. \<not> ts.token_of (obs w) reg p)"
      by (auto split: sum.splits)
    show ?thesis
    proof (cases res)
      case (Inl e)
      with a same g show ?thesis by (auto simp: step_post_def)
    next
      case (Inr u)
      then have "drops_one reg (obs w) id" using none by (simp add: drops_one_def ts.token_of_def)
      with a same Inr show ?thesis by (auto simp: step_post_def intro!: exI [of _ id])
    qed
  qed
qed

end

context connected_env
begin

lemma remove_effect_frame [simp]:
  "clusters (mg.remove_effect k cm s) = clusters s" "secrets (mg.remove_effect k cm s) = secrets s"
  "configmaps (mg.remove_effect k cm s) = configmaps s" "tokens (mg.remove_effect k cm s) = tokens s"
  by (auto simp: mg.remove_effect_def mg.remove_hr_def mg.remove_app_def split: option.split)

lemma remove_effect_absent: "ref_absent k cm (mg.remove_effect k cm s)"
  by (auto simp: mg.remove_effect_def mg.remove_hr_def mg.remove_app_def ref_absent_def set_key_apply
      mg.admit_refs remove_ref_def split: option.split)

lemma remove_effect_absent_mono: "ref_absent k' cm' s \<Longrightarrow> ref_absent k' cm' (mg.remove_effect k cm s)"
  by (auto simp: mg.remove_effect_def mg.remove_hr_def mg.remove_app_def ref_absent_def set_key_apply
      mg.admit_refs remove_ref_def split: option.splits)

lemma remove_effect_refs: "cm \<in> own \<Longrightarrow> refs_kept own s (mg.remove_effect k cm s)"
  by (auto simp: refs_kept_def ref_ready_def ref_absent_def mg.remove_effect_def mg.remove_hr_def mg.remove_app_def set_key_apply
      mg.admit_refs remove_ref_def values_ref_inj extra_config_def split: option.splits)

lemma remove_effect_footprint:
  assumes "k \<in> {agent_key t (clusterName cl) (clusterNamespace cl), bot_key}"
    and "cm \<in> {GetConfigmapName (clusterName cl) (cfg_AppName (t_Config t)), GetTbotConfigmapName (clusterName cl)}"
  shows "footprint t cl reg s (mg.remove_effect k cm s)"
proof -
  have "agree_off {agent_key t (clusterName cl) (clusterNamespace cl), bot_key} (helmreleases s) (helmreleases (mg.remove_effect k cm s))"
    "agree_off {agent_key t (clusterName cl) (clusterNamespace cl), bot_key} (apps s) (apps (mg.remove_effect k cm s))"
    using assms(1)
    by (auto simp: mg.remove_effect_def mg.remove_hr_def mg.remove_app_def agree_off_set_key split: option.split)
  then show ?thesis using remove_effect_refs [OF assms(2)] by (simp add: footprint_def Let_def)
qed

definition forget_cluster :: "Cluster \<Rightarrow> world_obs \<Rightarrow> world_obs" where
  "forget_cluster cl =
     (if TeleportOperatorFinalizer \<in> set (Finalizers cl)
      then clusters_update (set_key (cluster_meta cl) (settle (cs.without_finalizer cl))) else id)"

definition bot_steps :: "string \<Rightarrow> (world_obs \<Rightarrow> world_obs) list" where
  "bot_steps c =
     [mg.remove_effect bot_key (GetTbotConfigmapName c),
      configmaps_update (set_key (tbot_key c TeleportBotNamespace) None),
      secrets_update (set_key (kubeconfig_key c TeleportBotNamespace) None)]"

definition cleanup_steps :: "bool \<Rightarrow> Cluster \<Rightarrow> (world_obs \<Rightarrow> world_obs) list" where
  "cleanup_steps tbot cl =
     (let c = clusterName cl; ns = clusterNamespace cl
      in [secrets_update (set_key (secret_key c ns) None),
          configmaps_update (set_key (configmap_key t c ns) None)] @
         (if tbot then bot_steps c else []) @
         [mg.remove_effect (agent_key t c ns) (GetConfigmapName c (cfg_AppName (t_Config t)))])"

definition delete_steps :: "(world_obs \<Rightarrow> world_obs) \<Rightarrow> bool \<Rightarrow> Cluster \<Rightarrow> (world_obs \<Rightarrow> world_obs) list" where
  "delete_steps dropT tbot cl = [dropT] @ cleanup_steps tbot cl @ [forget_cluster cl]"

subsection \<open>The calls have these effects\<close>

lemma wp_bot_cleanup:
  "wp (bindE (NewTeleportAppConfigManager K TeleportBotAppName TeleportBotNamespace (GetTbotConfigmapName c)) (\<lambda>botMgr.
       bindE (DeleteConfig botMgr) (\<lambda>_. bindE (DeleteTbotConfigMap K c TeleportBotNamespace) (\<lambda>_.
       DeleteKubeconfigSecret K c TeleportBotNamespace)))) (steps_post obs (Now L) (bot_steps c) w) w"
proof -
  have mgr: "wp (bindE (NewTeleportAppConfigManager K TeleportBotAppName TeleportBotNamespace (GetTbotConfigmapName c))
      DeleteConfig) (steps_post obs (Now L) [mg.remove_effect bot_key (GetTbotConfigmapName c)] w) w"
    using mg.wp_manager_DeleteConfig [of bot_key] by (intro steps_post_one) (simp add: bot_key_def)
  show ?thesis
    unfolding bindE_assoc [symmetric] bot_steps_def
    using steps_post_seq [OF mgr steps_post_seq [OF steps_post_one [OF cm.wp_DeleteTbotConfigMap]
        steps_post_one [OF se.wp_DeleteKubeconfigSecret]]]
    by (simp add: bindE_assoc)
qed

lemma wp_agent_cleanup:
  "wp (bindE (NewTeleportAppConfigManager K (GetAppName c (cfg_AppName (t_Config t))) ns cmap) DeleteConfig)
     (steps_post obs (Now L) [mg.remove_effect (agent_key t c ns) cmap] w) w"
  using mg.wp_manager_DeleteConfig [of "agent_key t c ns"] by (intro steps_post_one) (simp add: agent_key_def)

lemma cleanup_keeps:
  assumes "f \<in> set (cleanup_steps tbot cl)"
  shows "clusters (f s) = clusters s" "tokens (f s) = tokens s" "footprint t cl reg s (f s)"
  using assms
  by (auto simp: cleanup_steps_def bot_steps_def Let_def footprint_def agree_off_set_key
      remove_effect_footprint [unfolded footprint_def Let_def] split: if_splits)

lemma wp_forget_cluster:
  assumes "r_Client r = K" "clusters (obs w) (cluster_meta cl) = Some cl"
  shows "wp (if ContainsFinalizer (lib_finalizers L) cl TeleportOperatorFinalizer
      then RemoveFinalizer (lib_finalizers L) cl (r_Client r) else returnE ())
    (steps_post obs (Now L) [forget_cluster cl] w) w"
proof (rule steps_post_one)
  have "settle cl = Some cl" if "TeleportOperatorFinalizer \<in> set (Finalizers cl)"
    using that by (auto simp: settle_def)
  with cs.wp_RemoveFinalizer [OF assms(2)] assms(1)
  show "wp (if ContainsFinalizer (lib_finalizers L) cl TeleportOperatorFinalizer
      then RemoveFinalizer (lib_finalizers L) cl (r_Client r) else returnE ())
    (step_post obs (Now L) (forget_cluster cl) w) w"
    by (auto simp: cs.Contains forget_cluster_def intro: step_post_return)
qed

text \<open>Everything between the token and the finalizer.\<close>

definition cleanup :: "bool \<Rightarrow> Cluster \<Rightarrow> ('w, unit) action" where
  "cleanup tbot cl =
     (let c = clusterName cl; ns = clusterNamespace cl
      in bindE (DeleteSecret K c ns) (\<lambda>_.
         bindE (DeleteConfigMap t K c ns) (\<lambda>_.
         bindE (if tbot
                then bindE (NewTeleportAppConfigManager K TeleportBotAppName TeleportBotNamespace
                              (GetTbotConfigmapName c)) (\<lambda>botMgr.
                     bindE (DeleteConfig botMgr) (\<lambda>_.
                     bindE (DeleteTbotConfigMap K c TeleportBotNamespace) (\<lambda>_.
                     DeleteKubeconfigSecret K c TeleportBotNamespace)))
                else returnE ()) (\<lambda>_.
         bindE (NewTeleportAppConfigManager K (GetAppName c (cfg_AppName (t_Config t))) ns
                  (GetConfigmapName c (cfg_AppName (t_Config t)))) DeleteConfig))))"

lemma wp_cleanup: "wp (cleanup tbot cl) (steps_post obs (Now L) (cleanup_steps tbot cl) w) w"
proof -
  have "wp (if tbot
      then bindE (NewTeleportAppConfigManager K TeleportBotAppName TeleportBotNamespace (GetTbotConfigmapName c)) (\<lambda>botMgr.
        bindE (DeleteConfig botMgr) (\<lambda>_. bindE (DeleteTbotConfigMap K c TeleportBotNamespace) (\<lambda>_.
        DeleteKubeconfigSecret K c TeleportBotNamespace)))
      else returnE ()) (steps_post obs (Now L) (if tbot then bot_steps c else []) w1) w1" for c w1
    using wp_bot_cleanup steps_post_return by auto
  then show ?thesis
    unfolding cleanup_def cleanup_steps_def Let_def append_Cons append_Nil
    by (intro steps_post_seq [where fs = "[f]" for f, unfolded append_Cons append_Nil] steps_post_seq steps_post_one
        se.wp_DeleteSecret cm.wp_DeleteConfigMap wp_agent_cleanup)
qed

lemma reconcileDelete_eq:
  assumes "r_Client r = K" "r_Teleport r = t"
  shows "reconcileDelete L r cl reg =
    bindE (Token.DeleteToken t reg) (\<lambda>_. bindE (cleanup (IsBotEnabled r) cl) (\<lambda>_.
    bindE (if ContainsFinalizer (lib_finalizers L) cl TeleportOperatorFinalizer
      then RemoveFinalizer (lib_finalizers L) cl (r_Client r) else returnE ()) (\<lambda>_. returnE noRequeue)))"
  by (simp add: reconcileDelete_def cleanup_def Let_def assms bindE_assoc)

text \<open>Success means all the steps, failure an initial part of them.\<close>

definition delete_post :: "'w ClusterReconciler \<Rightarrow> Cluster \<Rightarrow> string \<Rightarrow> 'w \<Rightarrow> error + Result \<Rightarrow> 'w \<Rightarrow> bool" where
  "delete_post r cl reg w res w' \<longleftrightarrow>
     (\<exists>f. drops_one reg (obs w) f \<and> steps_post obs (Now L) (delete_steps f (IsBotEnabled r) cl) w res w') \<and>
     (\<forall>x. res = Inr x \<longrightarrow> x = noRequeue)"

lemma wp_finish:
  assumes r: "r_Client r = K" and cl: "clusters (obs w) (cluster_meta cl) = Some cl"
  shows "wp (bindE (cleanup (IsBotEnabled r) cl) (\<lambda>_.
    bindE (if ContainsFinalizer (lib_finalizers L) cl TeleportOperatorFinalizer
      then RemoveFinalizer (lib_finalizers L) cl (r_Client r) else returnE ()) (\<lambda>_. returnE noRequeue)))
    (\<lambda>res w'. steps_post obs (Now L) (cleanup_steps (IsBotEnabled r) cl @ [forget_cluster cl]) w res w' \<and>
       (\<forall>x. res = Inr x \<longrightarrow> x = noRequeue)) w"
proof (rule wp_conj)
  have "clusters (apply_steps (cleanup_steps (IsBotEnabled r) cl) (obs w)) = clusters (obs w)"
    by (rule apply_steps_invariant) (simp_all add: cleanup_keeps)
  then have fin: "wp (bindE (if ContainsFinalizer (lib_finalizers L) cl TeleportOperatorFinalizer
      then RemoveFinalizer (lib_finalizers L) cl (r_Client r) else returnE ()) (\<lambda>_. returnE noRequeue))
      (steps_post obs (Now L) ([forget_cluster cl] @ []) w1) w1"
    if "obs w1 = apply_steps (cleanup_steps (IsBotEnabled r) cl) (obs w)" for w1
    using that cl by (intro steps_post_seq [OF wp_forget_cluster [OF r]] steps_post_return) simp
  then show "wp (bindE (cleanup (IsBotEnabled r) cl) (\<lambda>_.
    bindE (if ContainsFinalizer (lib_finalizers L) cl TeleportOperatorFinalizer
      then RemoveFinalizer (lib_finalizers L) cl (r_Client r) else returnE ()) (\<lambda>_. returnE noRequeue)))
    (steps_post obs (Now L) (cleanup_steps (IsBotEnabled r) cl @ [forget_cluster cl]) w) w"
    by (intro steps_post_seq [OF wp_cleanup] fin [unfolded append_Nil2])
qed (simp add: wp_def bindE_def returnE_def split: prod.split sum.split)

lemma wp_reconcileDelete:
  assumes r: "r_Client r = K" "r_Teleport r = t" and cl: "clusters (obs w) (cluster_meta cl) = Some cl"
  shows "wp (reconcileDelete L r cl reg) (delete_post r cl reg w) w"
  unfolding reconcileDelete_eq [OF r]
proof (rule wp_bindEI [OF wp_drop_token], goal_cases)
  case (1 x w1)
  then obtain f where f: "drops_one reg (obs w) f" "obs w1 = f (obs w)" "Now L w \<le> Now L w1"
    by (auto simp: step_post_def)
  then have cl1: "clusters (obs w1) (cluster_meta cl) = Some cl" using cl by (auto simp: drops_one_def)
  show ?case
  proof (rule wp_mono [OF wp_finish [OF r(1) cl1]], goal_cases)
    case (1 res w')
    then have "steps_post obs (Now L) (delete_steps f (IsBotEnabled r) cl) w res w'"
      using f(2,3) unfolding delete_steps_def steps_post_def
      by (auto intro: exI [of _ "Suc n" for n] split: sum.splits)
    with 1 f(1) show ?case by (auto simp: delete_post_def)
  qed
next
  case (2 e w1)
  then obtain f where "drops_one reg (obs w) f" "obs w1 = obs w \<or> obs w1 = f (obs w)" "Now L w \<le> Now L w1"
    by (auto simp: step_post_def)
  then show ?case
    unfolding delete_post_def steps_post_def delete_steps_def
    by (auto intro!: exI [of _ f] intro: exI [of _ "0 :: nat"] exI [of _ "1 :: nat"])
qed

subsection \<open>What they amount to\<close>

lemma cleanup_cleans: "r_Teleport r = t \<Longrightarrow> cleaned r cl (apply_steps (cleanup_steps (IsBotEnabled r) cl) s)"
  by (auto simp: cleaned_def cleanup_steps_def bot_steps_def Let_def set_key_apply remove_effect_absent
      remove_effect_absent_mono)

lemma forget_keeps_cleaned: "cleaned r cl (forget_cluster cl s) = cleaned r cl s"
  by (simp add: cleaned_def forget_cluster_def Let_def)

lemma forget_finalizer:
  "clusters s (cluster_meta cl) = Some cl \<Longrightarrow> finalizer_gone (cluster_meta cl) (forget_cluster cl s)"
  by (auto simp: finalizer_gone_def forget_cluster_def set_key_apply settle_def)

lemma delete_footprint:
  assumes "drops_one reg s f"
  shows "footprint t cl reg s (apply_steps (take n (delete_steps f tbot cl)) s)"
proof (cases n)
  case (Suc m)
  have "footprint t cl reg s (f s)"
    using assms tokens_kept_drop [of "tokens s"] by (auto simp: drops_one_def footprint_def Let_def)
  moreover have "footprint t cl reg s' (g s')" if "g \<in> set (cleanup_steps tbot cl @ [forget_cluster cl])" for g s'
    using that cleanup_keeps(3) by (auto simp: forget_cluster_def footprint_def [of _ _ _ _ "clusters_update _ _"]
        Let_def agree_off_set_key)
  ultimately have "footprint t cl reg s (apply_steps (take m (cleanup_steps tbot cl @ [forget_cluster cl])) (f s))"
    by (intro apply_steps_prefix [where I = "footprint t cl reg s"]) (blast intro: footprint_trans)
  with Suc show ?thesis by (simp add: delete_steps_def)
qed simp

lemma remove_effect_passes:
  "helmreleases s k' = Some hr \<Longrightarrow> \<exists>hr'. helmreleases (mg.remove_effect k cm s) k' = Some hr'"
  "helmreleases s k' = Some hr \<Longrightarrow> apps (mg.remove_effect k cm s) k' = apps s k'"
  "agree_off {k} (helmreleases s) (helmreleases (mg.remove_effect k cm s))"
  "agree_off {k} (apps s) (apps (mg.remove_effect k cm s))"
  by (auto simp: mg.remove_effect_def mg.remove_hr_def mg.remove_app_def set_key_apply agree_off_set_key split: option.split)

lemma delete_passes_over:
  assumes "drops_one reg s f" "r_Teleport r = t"
  shows "passed_over r cl s (apply_steps (take n (delete_steps f (IsBotEnabled r) cl)) s)"
proof (rule apply_steps_prefix [where I = "passed_over r cl s"])
  fix g s1
  assume g: "g \<in> set (delete_steps f (IsBotEnabled r) cl)" and "passed_over r cl s s1"
  moreover have "passed_over r cl s1 (g s1)"
    using g assms
    by (auto simp: delete_steps_def cleanup_steps_def bot_steps_def forget_cluster_def drops_one_def passed_over_def Let_def
        agree_off_set_key remove_effect_passes split: if_splits)
  ultimately show "passed_over r cl s (g s1)" by (blast intro: passed_over_trans)
qed simp

text \<open>Before its last step the sequence has not touched the Cluster object.\<close>

lemma delete_clusters:
  assumes "drops_one reg s f" "n < length (delete_steps f tbot cl)"
  shows "clusters (apply_steps (take n (delete_steps f tbot cl)) s) = clusters s"
proof (cases n)
  case (Suc m)
  have "clusters (f s) = clusters s" using assms(1) by (auto simp: drops_one_def)
  then have "clusters (apply_steps (take m (cleanup_steps tbot cl)) (f s)) = clusters s"
    by (intro apply_steps_prefix [where I = "\<lambda>x. clusters x = clusters s"]) (simp_all add: cleanup_keeps)
  with Suc assms(2) show ?thesis by (simp add: delete_steps_def)
qed simp

lemma delete_all:
  assumes "drops_one reg s f" "clusters s (cluster_meta cl) = Some cl" "r_Teleport r = t"
  shows "cleaned r cl (apply_steps (delete_steps f (IsBotEnabled r) cl) s)"
    and "finalizer_gone (cluster_meta cl) (apply_steps (delete_steps f (IsBotEnabled r) cl) s)"
    and "tokens (apply_steps (delete_steps f (IsBotEnabled r) cl) s) = tokens (f s)"
proof -
  let ?s = "apply_steps (cleanup_steps (IsBotEnabled r) cl) (f s)"
  have all: "apply_steps (delete_steps f (IsBotEnabled r) cl) s = forget_cluster cl ?s"
    by (simp add: delete_steps_def)
  have "clusters (f s) = clusters s" using assms(1) by (auto simp: drops_one_def)
  then have "clusters ?s = clusters s"
    by (intro apply_steps_invariant [where I = "\<lambda>x. clusters x = clusters s"]) (simp_all add: cleanup_keeps)
  then show "finalizer_gone (cluster_meta cl) (apply_steps (delete_steps f (IsBotEnabled r) cl) s)"
    unfolding all using assms(2) by (intro forget_finalizer) simp
  show "cleaned r cl (apply_steps (delete_steps f (IsBotEnabled r) cl) s)"
    unfolding all forget_keeps_cleaned by (rule cleanup_cleans [OF assms(3)])
  have "tokens ?s = tokens (f s)"
    by (rule apply_steps_invariant) (simp_all add: cleanup_keeps)
  then show "tokens (apply_steps (delete_steps f (IsBotEnabled r) cl) s) = tokens (f s)"
    unfolding all by (simp add: forget_cluster_def)
qed

lemma delete_outcome:
  assumes post: "delete_post r cl reg w res w'" and cl: "clusters (obs w) (cluster_meta cl) = Some cl"
    and t: "r_Teleport r = t"
  shows "footprint t cl reg (obs w) (obs w')"
    and "passed_over r cl (obs w) (obs w')"
    and "clusters (obs w') = clusters (obs w) \<or>
      cleaned r cl (obs w') \<and> (\<exists>f. drops_one reg (obs w) f \<and> tokens (obs w') = tokens (f (obs w)))"
    and "res = Inr x \<Longrightarrow> x = noRequeue \<and> cleaned r cl (obs w') \<and> finalizer_gone (cluster_meta cl) (obs w') \<and>
      (\<exists>f. drops_one reg (obs w) f \<and> tokens (obs w') = tokens (f (obs w)))"
proof -
  obtain f where f: "drops_one reg (obs w) f"
    and st: "steps_post obs (Now L) (delete_steps f (IsBotEnabled r) cl) w res w'"
    using post by (auto simp: delete_post_def)
  let ?fs = "delete_steps f (IsBotEnabled r) cl"
  note all = delete_all [OF f cl t]
  obtain n where n: "n \<le> length ?fs" "obs w' = apply_steps (take n ?fs) (obs w)" "res = Inr x \<Longrightarrow> n = length ?fs" for x
    using st by (cases res) (auto simp: steps_post_def)
  show "footprint t cl reg (obs w) (obs w')" using delete_footprint [OF f] n(2) by simp
  show "passed_over r cl (obs w) (obs w')" using delete_passes_over [OF f t] n(2) by simp
  show "clusters (obs w') = clusters (obs w) \<or>
      cleaned r cl (obs w') \<and> (\<exists>f. drops_one reg (obs w) f \<and> tokens (obs w') = tokens (f (obs w)))"
    using delete_clusters [OF f, of n] all(1,3) f n(1,2) by (cases "n < length ?fs") auto
  show "x = noRequeue \<and> cleaned r cl (obs w') \<and> finalizer_gone (cluster_meta cl) (obs w') \<and>
      (\<exists>f. drops_one reg (obs w) f \<and> tokens (obs w') = tokens (f (obs w)))" if "res = Inr x"
    using that n all f post by (auto simp: delete_post_def)
qed

end

end
