(* ===== verification/Reconciler.thy ===== *)
theory Reconciler
  imports Deletion
begin

text \<open>
  \<open>Reconcile\<close> as a whole: refreshing the Teleport identity, choosing the branch, and what
  a call amounts to in the observed world, for every outcome. Where reads may be stale
  (\<open>cached_world\<close>) the choice of the branch is all that is said here.
\<close>

section \<open>The environment of a reconciler\<close>

text \<open>The client the Teleport package hands out is one that \<open>teleport_client\<close> describes.\<close>

locale connecting = types: teleport_types "lib_roles L" "NewProvisionToken L"
  for obs :: "'w \<Rightarrow> world_obs" and L :: "'w libs" +
  assumes clock_started: "0 < Now L w"
    and New_now: "tc_New L as f n w = (c, w') \<Longrightarrow> Now L w \<le> Now L w'"
    and New_obs: "tc_New L as f n w = (c, w') \<Longrightarrow> obs w' = obs w"
    and New_client: "tc_New L as f n w = (Inr C, w') \<Longrightarrow> teleport_client C obs tokens tokens_update (Now L)"

locale cached_world = cached_env K obs L app_admit + connecting obs L
  for K :: "'w ctrl_client" and obs :: "'w \<Rightarrow> world_obs" and L :: "'w libs" and app_admit

locale operator_world = operator_env K obs L app_admit + connecting obs L
  for K :: "'w ctrl_client" and obs :: "'w \<Rightarrow> world_obs" and L :: "'w libs" and app_admit

sublocale operator_world \<subseteq> cached_world
  by unfold_locales

context operator_world
begin

lemma cached: "cached_world K obs L app_admit"
  by (rule cached_world_axioms)

end

text \<open>
  A reconciler as \<open>main\<close> sets it up and \<open>Reconcile\<close> leaves it: one Kubernetes client, a
  generator of fresh names, and a Teleport client, if any, that came from the package.
\<close>

definition reconciler_ok ::
    "'w ctrl_client \<Rightarrow> ('w \<Rightarrow> world_obs) \<Rightarrow> 'w libs \<Rightarrow> 'w ClusterReconciler \<Rightarrow> bool" where
  "reconciler_ok K obs L r \<longleftrightarrow>
     r_Client r = K \<and> t_Client (r_Teleport r) = Some K \<and>
     token_generator (TokenGenerator (r_Teleport r)) obs tokens (Now L) \<and>
     (\<forall>C. TeleportClient (r_Teleport r) = Some C \<longrightarrow> teleport_client C obs tokens tokens_update (Now L))"

text \<open>A reconciler without a Teleport client will read the identity anew before it uses one.\<close>

definition client_or_stale :: "'w libs \<Rightarrow> 'w ClusterReconciler \<Rightarrow> 'w \<Rightarrow> bool" where
  "client_or_stale L r w \<longleftrightarrow> (TeleportClient (r_Teleport r) = None \<longrightarrow> identityStale L (r_Teleport r) w)"

text \<open>The identity that the tbot Secret holds.\<close>

definition identity_secret :: "string \<Rightarrow> string \<Rightarrow> world_obs \<Rightarrow> bool" where
  "identity_secret ns idf s \<longleftrightarrow>
     (\<exists>x. secrets s \<lparr>Name = TeleportBotSecretName, Namespace = ns\<rparr> = Some x \<and> Data x Identity = Some idf)"

text \<open>The ConfigMap with a user's values asks for Teleport apps.\<close>

definition apps_wanted :: "'w libs \<Rightarrow> string \<Rightarrow> string \<Rightarrow> world_obs \<Rightarrow> bool" where
  "apps_wanted L c ns s \<longleftrightarrow>
     (\<exists>cm v vals x xs. configmaps s \<lparr>Name = user_values_name c, Namespace = ns\<rparr> = Some cm \<and>
        cm_Data cm ''values'' = Some v \<and> Unmarshal L v = Inr vals \<and>
        fmlookup vals ''apps'' = Some (Slice (x # xs)))"

definition rolesFor :: "'w libs \<Rightarrow> Cluster \<Rightarrow> world_obs \<Rightarrow> string list" where
  "rolesFor L cl s = assignedRoles (apps_wanted L (clusterName cl) (clusterNamespace cl) s)"

text \<open>What refreshing may change of a reconciler.\<close>

definition reconnected :: "'w ClusterReconciler \<Rightarrow> 'w ClusterReconciler \<Rightarrow> bool" where
  "reconnected r r' \<longleftrightarrow>
     (\<exists>c i. r' = r\<lparr>r_Teleport := (r_Teleport r)\<lparr>TeleportClient := c, t_Identity := i\<rparr>\<rparr>)"

text \<open>What a call may change of the reconciler: the connection and the roles it remembers.\<close>

definition rewired :: "'w ClusterReconciler \<Rightarrow> 'w ClusterReconciler \<Rightarrow> bool" where
  "rewired r r' \<longleftrightarrow>
     reconnected r r' \<or> (\<exists>appsEnabled. reconnected (r\<lparr>lastAssignedRoles := assignedRoles appsEnabled\<rparr>) r')"

lemma reconnected_refl [simp]: "reconnected r r"
  unfolding reconnected_def by (intro exI [of _ "TeleportClient (r_Teleport r)"] exI [of _ "t_Identity (r_Teleport r)"]) simp

lemma reconnected_fields:
  assumes "reconnected r r'"
  shows "r_Client r' = r_Client r" "IsBotEnabled r' = IsBotEnabled r" "r_Namespace r' = r_Namespace r"
    "lastAssignedRoles r' = lastAssignedRoles r" "t_Config (r_Teleport r') = t_Config (r_Teleport r)"
    "t_Client (r_Teleport r') = t_Client (r_Teleport r)"
    "TokenGenerator (r_Teleport r') = TokenGenerator (r_Teleport r)"
    "registerNameOf r' cl = registerNameOf r cl"
  using assms by (auto simp: reconnected_def registerNameOf_def)

lemma identityStale_later: "identityStale L t w \<Longrightarrow> Now L w \<le> Now L w' \<Longrightarrow> identityStale L t w'"
  by (auto simp: identityStale_def time_Sub_def identityExpirationPeriod_def split: option.splits)

lemma rewired_fields:
  assumes "rewired r r'"
  shows "r_Client r' = r_Client r" "IsBotEnabled r' = IsBotEnabled r"
    "t_Config (r_Teleport r') = t_Config (r_Teleport r)"
    "footprint (r_Teleport r') = footprint (r_Teleport r)"
    "register_kept L (r_Teleport r') = register_kept L (r_Teleport r)"
    "converged L r' = converged L r" "cleaned r' = cleaned r" "registerNameOf r' = registerNameOf r"
    "passed_over r' = passed_over r"
proof -
  obtain roles where "reconnected (r\<lparr>lastAssignedRoles := roles\<rparr>) r'"
  proof (cases "reconnected r r'")
    case True
    then have "reconnected (r\<lparr>lastAssignedRoles := lastAssignedRoles r\<rparr>) r'" by simp
    then show ?thesis by (rule that)
  qed (use assms that in \<open>auto simp: rewired_def\<close>)
  note f = reconnected_fields [OF this]
  then show c: "r_Client r' = r_Client r" and b: "IsBotEnabled r' = IsBotEnabled r"
    and g: "t_Config (r_Teleport r') = t_Config (r_Teleport r)" by simp_all
  have k: "configmap_key (r_Teleport r') = configmap_key (r_Teleport r)"
    "agent_key (r_Teleport r') = agent_key (r_Teleport r)"
    by (simp_all add: configmap_key_def agent_key_def g fun_eq_iff)
  have d: "getConfigMapData L (r_Teleport r') = getConfigMapData L (r_Teleport r)"
    by (simp add: getConfigMapData_def g fun_eq_iff)
  show "registerNameOf r' = registerNameOf r" by (simp add: registerNameOf_def g fun_eq_iff)
  show "footprint (r_Teleport r') = footprint (r_Teleport r)"
    "register_kept L (r_Teleport r') = register_kept L (r_Teleport r)"
    "converged L r' = converged L r" "cleaned r' = cleaned r" "passed_over r' = passed_over r"
    by (simp_all add: footprint_def register_kept_def converged_def configmap_ready_def cleaned_def passed_over_def
        Let_def k d b g fun_eq_iff)
qed

lemma rewired_refl: "rewired r r"
  by (simp add: rewired_def)

text \<open>What a call has left to do once it has the Cluster, the roles and the refreshed identity.\<close>

definition act_on :: "'w libs \<Rightarrow> Cluster \<Rightarrow> string list \<Rightarrow> ((error + unit) \<times> 'w ClusterReconciler) \<times> 'w \<Rightarrow>
    ((error + Result) \<times> 'w ClusterReconciler) \<times> 'w" where
  "act_on L cl roles x =
     (case x of
        ((Inl e, r2), w3) \<Rightarrow> ((Inl e, r2), w3)
      | ((Inr _, r2), w3) \<Rightarrow>
          (let (res, w4) =
             (if \<not> deletion_IsZero (DeletionTimestamp cl)
              then reconcileDelete L r2 cl (registerNameOf r2 cl) w3
              else reconcileNormal L r2 cl (registerNameOf r2 cl) roles w3)
           in ((res, r2), w4)))"

section \<open>Refreshing the identity\<close>

context connecting
begin

lemma wp_NewClient:
  "wp (NewClient L addr idf)
     (\<lambda>r w'. obs w' = obs w \<and> Now L w \<le> Now L w' \<and>
        (\<forall>C. r = Inr C \<longrightarrow> teleport_client C obs tokens tokens_update (Now L))) w"
proof -
  have new: "wp (tc_New L as f n)
     (\<lambda>r w'. obs w' = obs w \<and> Now L w \<le> Now L w' \<and>
        (\<forall>C. r = Inr C \<longrightarrow> teleport_client C obs tokens tokens_update (Now L))) w" for as f n
    by (auto simp: wp_iff_run dest: New_now New_obs New_client)
  have ping: "wp (Ping C) (\<lambda>r w'. obs w' = obs w1 \<and> Now L w1 \<le> Now L w') w1"
    if "teleport_client C obs tokens tokens_update (Now L)" for C w1
    using teleport_client.Ping_now [OF that] teleport_client.Ping_obs [OF that] by (auto simp: wp_iff_run)
  show ?thesis
    unfolding NewClient_def
  proof (rule wp_bindEI [OF new], goal_cases)
    case (1 C w1)
    then show ?case by (intro wp_bindEI [OF ping]) (auto simp: wp_simps)
  qed auto
qed

lemma token_issuerI:
  assumes "reconciler_ok K obs L r" "TeleportClient (r_Teleport r) = Some C"
  shows "token_issuer C obs L (r_Teleport r)"
proof -
  have "teleport_client C obs tokens tokens_update (Now L)"
    "token_generator (TokenGenerator (r_Teleport r)) obs tokens (Now L)"
    using assms by (simp_all add: reconciler_ok_def)
  then show ?thesis
    using types.teleport_types_axioms assms(2) clock_started
    by (auto simp: token_issuer_def token_service_def token_service_axioms_def)
qed

end

context cached_world
begin

lemma wp_GetIdentityConfigFromSecret_any:
  "wp (GetIdentityConfigFromSecret (Now L) K ns)
     (\<lambda>r w'. obs w' = obs w \<and> Now L w \<le> Now L w' \<and> (\<forall>i. r = Inr i \<longrightarrow> LastRead i = Now L w')) w"
  unfolding GetIdentityConfigFromSecret_def wp_bindE
  by (rule se.wp_Get_any)
    (auto simp: wp_simps wp_def getSecretString_def liftE_def split: sum.split option.splits)

lemma wp_AreTeleportAppsEnabled_any:
  assumes "t_Client t = Some K"
  shows "wp (AreTeleportAppsEnabled L t c ns) (\<lambda>r w'. obs w' = obs w \<and> Now L w \<le> Now L w') w"
  unfolding AreTeleportAppsEnabled_def assms option.case wp_tryE
  by (rule cm.wp_Get_any) (auto simp: wp_simps split: option.split sum.split)

lemma refreshIdentity_cases_any [consumes 2, case_names fresh unread unconnected connected]:
  assumes run: "refreshIdentity L r w = ((res, r'), w')" and ok: "reconciler_ok K obs L r"
  obtains "\<not> identityStale L (r_Teleport r) w" "res = Inr ()" "r' = r" "w' = w"
  | e where "identityStale L (r_Teleport r) w" "res = Inl e" "r' = r" "obs w' = obs w" "Now L w \<le> Now L w'"
  | e where "identityStale L (r_Teleport r) w" "res = Inl e" "obs w' = obs w" "Now L w \<le> Now L w'"
      "r' = r\<lparr>r_Teleport := (r_Teleport r)\<lparr>TeleportClient := None\<rparr>\<rparr>"
  | C i w1 where "res = Inr ()" "obs w' = obs w" "Now L w \<le> Now L w'"
      "r' = r\<lparr>r_Teleport := (r_Teleport r)\<lparr>TeleportClient := Some C, t_Identity := Some i\<rparr>\<rparr>"
      "teleport_client C obs tokens tokens_update (Now L)" "Now L w \<le> LastRead i"
      "GetIdentityConfigFromSecret (Now L) K (r_Namespace r) w = (Inr i, w1)"
proof (cases "identityStale L (r_Teleport r) w")
  case False
  with run show thesis by (intro that(1)) (simp_all add: refreshIdentity_def)
next
  case True
  obtain gi w1 where gi: "GetIdentityConfigFromSecret (Now L) K (r_Namespace r) w = (gi, w1)"
    by (cases "GetIdentityConfigFromSecret (Now L) K (r_Namespace r) w")
  note gi' = wp_run [OF wp_GetIdentityConfigFromSecret_any gi]
  have K: "r_Client r = K" using ok by (simp add: reconciler_ok_def)
  show thesis
  proof (cases gi)
    case (Inl e)
    with True run gi have "res = Inl e" "r' = r" "w' = w1" by (simp_all add: refreshIdentity_def K)
    with True gi' show thesis by (intro that(2) [of e]) simp_all
  next
    case (Inr i)
    obtain nc w2 where nc: "NewClient L (cfg_ProxyAddr (t_Config (r_Teleport r))) (id_IdentityFile i) w1 = (nc, w2)"
      by (cases "NewClient L (cfg_ProxyAddr (t_Config (r_Teleport r))) (id_IdentityFile i) w1")
    note nc' = wp_run [OF wp_NewClient nc]
    show thesis
    proof (cases nc)
      case (Inl e)
      with True run gi \<open>gi = Inr i\<close> nc have "res = Inl e" "w' = w2"
        "r' = r\<lparr>r_Teleport := (r_Teleport r)\<lparr>TeleportClient := None\<rparr>\<rparr>" by (simp_all add: refreshIdentity_def K)
      with True gi' nc' show thesis by (intro that(3) [of e]) simp_all
    next
      case (Inr C)
      with True run gi \<open>gi = Inr i\<close> nc have "res = Inr ()" "w' = w2"
        "r' = r\<lparr>r_Teleport := (r_Teleport r)\<lparr>TeleportClient := Some C, t_Identity := Some i\<rparr>\<rparr>"
        by (simp_all add: refreshIdentity_def K)
      with gi' nc' Inr \<open>gi = Inr i\<close> show thesis by (intro that(4) [of i C w1]) (auto simp: gi)
    qed
  qed
qed

lemma cached_connectedI:
  assumes "reconciler_ok K obs L r" "TeleportClient (r_Teleport r) = Some C"
  shows "cached_connected K obs L app_admit C (r_Teleport r)"
  using cached_env_axioms token_issuerI [OF assms] by (rule cached_connected.intro)

text \<open>
  Refreshing keeps the world and everything of the reconciler but the connection. Once
  it succeeds there is a client.
\<close>

lemma refreshIdentity_run:
  assumes run: "refreshIdentity L r w = ((res, r'), w')" and ok: "reconciler_ok K obs L r"
  shows "obs w' = obs w \<and> Now L w \<le> Now L w' \<and> reconnected r r' \<and> reconciler_ok K obs L r' \<and>
    (client_or_stale L r w \<longrightarrow> client_or_stale L r' w') \<and>
    (client_or_stale L r w \<longrightarrow> res = Inr u \<longrightarrow> (\<exists>C. TeleportClient (r_Teleport r') = Some C))" (is ?P)
  using run ok
proof (cases rule: refreshIdentity_cases_any)
  case fresh
  then show ?P
    using ok by (auto simp: client_or_stale_def)
next
  case (unread e)
  then show ?P
    using ok by (auto simp: client_or_stale_def intro: identityStale_later)
next
  case (unconnected e)
  then have "identityStale L (r_Teleport r') w'"
    using identityStale_later [of L "r_Teleport r'" w w'] by (simp add: identityStale_def)
  moreover have "reconnected r r'" unfolding reconnected_def unconnected
    by (intro exI [of _ None] exI [of _ "t_Identity (r_Teleport r)"]) simp
  ultimately show ?P
    using ok unconnected by (auto simp: client_or_stale_def reconciler_ok_def)
next
  case (connected C i w1)
  then show ?P
    using ok by (auto simp: client_or_stale_def reconciler_ok_def reconnected_def)
qed

end

text \<open>With current reads, what they say of the world.\<close>

context operator_world
begin

lemma wp_GetIdentityConfigFromSecret:
  "wp (GetIdentityConfigFromSecret (Now L) K ns)
     (\<lambda>r w'. obs w' = obs w \<and> Now L w \<le> Now L w' \<and>
        (\<forall>i. r = Inr i \<longrightarrow> LastRead i = Now L w' \<and>
          (\<exists>s. secrets (obs w) \<lparr>Name = TeleportBotSecretName, Namespace = ns\<rparr> = Some s \<and>
             Data s Identity = Some (id_IdentityFile i)))) w"
  unfolding GetIdentityConfigFromSecret_def wp_bindE
  by (rule se.wp_Get)
    (auto simp: wp_simps wp_def getSecretString_def liftE_def split: sum.split option.splits)

lemma wp_AreTeleportAppsEnabled:
  assumes "t_Client t = Some K"
  shows "wp (AreTeleportAppsEnabled L t c ns)
     (\<lambda>r w'. obs w' = obs w \<and> Now L w \<le> Now L w' \<and> (\<forall>b. r = Inr b \<longrightarrow> b = apps_wanted L c ns (obs w))) w"
  unfolding AreTeleportAppsEnabled_def assms option.case wp_tryE
  by (rule cm.wp_Get)
    (auto simp: wp_simps apps_wanted_def neq_Nil_conv split: option.split sum.split)

lemma refreshIdentity_cases [consumes 2, case_names fresh unread unconnected connected]:
  assumes run: "refreshIdentity L r w = ((res, r'), w')" and ok: "reconciler_ok K obs L r"
  obtains "\<not> identityStale L (r_Teleport r) w" "res = Inr ()" "r' = r" "w' = w"
  | e where "identityStale L (r_Teleport r) w" "res = Inl e" "r' = r" "obs w' = obs w" "Now L w \<le> Now L w'"
  | e where "identityStale L (r_Teleport r) w" "res = Inl e" "obs w' = obs w" "Now L w \<le> Now L w'"
      "r' = r\<lparr>r_Teleport := (r_Teleport r)\<lparr>TeleportClient := None\<rparr>\<rparr>"
  | C i where "res = Inr ()" "obs w' = obs w" "Now L w \<le> Now L w'"
      "r' = r\<lparr>r_Teleport := (r_Teleport r)\<lparr>TeleportClient := Some C, t_Identity := Some i\<rparr>\<rparr>"
      "teleport_client C obs tokens tokens_update (Now L)" "Now L w \<le> LastRead i"
      "identity_secret (r_Namespace r) (id_IdentityFile i) (obs w)"
  using run ok
proof (cases rule: refreshIdentity_cases_any)
  case (connected C i w1)
  then show thesis
    using wp_run [OF wp_GetIdentityConfigFromSecret connected(7)]
    by (intro that(4) [of i C]) (auto simp: identity_secret_def)
qed (blast intro: that)+

lemma connectedI:
  assumes "reconciler_ok K obs L r" "TeleportClient (r_Teleport r) = Some C"
  shows "connected_env K obs L app_admit C (r_Teleport r)"
  using operator_env_axioms token_issuerI [OF assms] by (rule connected_env.intro)

section \<open>Reconcile\<close>

lemma rolesFor_known: "rolesFor L cl s \<noteq> []" "set (rolesFor L cl s) \<subseteq> set known_roles"
  by (auto simp: rolesFor_def assignedRoles_def known_roles_def)

end

text \<open>Whatever is read: a call stops, or it goes on with some Cluster of the name and some roles.\<close>

context cached_world
begin

lemma Reconcile_cases_any [consumes 2, case_names stopped branch]:
  assumes run: "Reconcile L req r w = ((res, r'), w')" and ok: "reconciler_ok K obs L r"
  obtains "rewired r r'" "obs w' = obs w" "Now L w \<le> Now L w'" "reconciler_ok K obs L r'"
      "client_or_stale L r w \<longrightarrow> client_or_stale L r' w'"
  | cl b w3 where "cluster_meta cl = req" "obs w3 = obs w" "Now L w \<le> Now L w3"
      "rewired r r'" "reconciler_ok K obs L r'"
      "client_or_stale L r w \<longrightarrow> (\<exists>C. TeleportClient (r_Teleport r') = Some C)"
      "(if \<not> deletion_IsZero (DeletionTimestamp cl)
        then reconcileDelete L r' cl (registerNameOf r' cl) w3
        else reconcileNormal L r' cl (registerNameOf r' cl) (assignedRoles b) w3) = (res, w')"
proof -
  have K: "r_Client r = K" "t_Client (r_Teleport r) = Some K" using ok by (simp_all add: reconciler_ok_def)
  have later: "client_or_stale L r w \<longrightarrow> client_or_stale L r w1" if "Now L w \<le> Now L w1" for w1
    using that by (auto simp: client_or_stale_def intro: identityStale_later)
  obtain g w1 where g: "Get (Clusters K) req w = (g, w1)" by (cases "Get (Clusters K) req w")
  note g' = wp_run [OF cs.wp_GetCluster_any g]
  show thesis
  proof (cases g)
    case (Inl e)
    with g run have "w' = w1" "r' = r" by (simp_all add: Reconcile_def K split: if_splits)
    with g' ok later show thesis by (intro that(1)) (simp_all add: rewired_refl)
  next
    case cl: (Inr cl)
    obtain a w2 where a: "AreTeleportAppsEnabled L (r_Teleport r) (clusterName cl) (clusterNamespace cl) w1 = (a, w2)"
      by (cases "AreTeleportAppsEnabled L (r_Teleport r) (clusterName cl) (clusterNamespace cl) w1")
    note a' = wp_run [OF wp_AreTeleportAppsEnabled_any [OF K(2)] a]
    show thesis
    proof (cases a)
      case (Inl e)
      with cl g a run have "w' = w2" "r' = r" by (simp_all add: Reconcile_def K)
      with g' a' ok later show thesis by (intro that(1)) (simp_all add: rewired_refl)
    next
      case (Inr b)
      let ?r1 = "r\<lparr>lastAssignedRoles := assignedRoles b\<rparr>"
      obtain v r2 w3 where v: "refreshIdentity L ?r1 w2 = ((v, r2), w3)" by (metis prod.exhaust_sel)
      have "Reconcile L req r w = act_on L cl (assignedRoles b) (refreshIdentity L ?r1 w2)"
        using cl g a Inr by (simp add: Reconcile_def act_on_def K Let_def split: prod.split sum.split)
      then have act: "act_on L cl (assignedRoles b) ((v, r2), w3) = ((res, r'), w')" using run v by simp
      have ok1: "reconciler_ok K obs L ?r1" and pre: "client_or_stale L r w \<longrightarrow> client_or_stale L ?r1 w2"
        using ok g' a' by (auto simp: reconciler_ok_def client_or_stale_def intro: identityStale_later)
      note ref = refreshIdentity_run [OF v ok1]
      have rew: "rewired r r2" using ref by (auto simp: rewired_def)
      show thesis
      proof (cases v)
        case (Inl e)
        with act have "r' = r2" "w' = w3" by (simp_all add: act_on_def)
        with ref g' a' pre rew show thesis by (intro that(1)) auto
      next
        case (Inr x)
        with act have "r' = r2"
          "(if \<not> deletion_IsZero (DeletionTimestamp cl)
            then reconcileDelete L r2 cl (registerNameOf r2 cl) w3
            else reconcileNormal L r2 cl (registerNameOf r2 cl) (assignedRoles b) w3) = (res, w')"
          by (auto simp: act_on_def Let_def split: prod.splits if_splits)
        with Inr ref cl g' a' pre rew show thesis by (intro that(2) [of cl w3 b]) auto
      qed
    qed
  qed
qed

lemma Reconcile_reconciler:
  assumes run: "Reconcile L req r w = ((res, r'), w')" and ok: "reconciler_ok K obs L r"
  shows "reconciler_ok K obs L r'" "rewired r r'"
    and "client_or_stale L r w \<Longrightarrow> client_or_stale L r' w'"
proof -
  have "reconciler_ok K obs L r' \<and> rewired r r' \<and> (client_or_stale L r w \<longrightarrow> client_or_stale L r' w')"
    using run ok by (cases rule: Reconcile_cases_any) (auto simp: client_or_stale_def)
  then show "reconciler_ok K obs L r'" "rewired r r'" "client_or_stale L r w \<Longrightarrow> client_or_stale L r' w'" by blast+
qed

end

context operator_world
begin

text \<open>The two reads with which a call begins.\<close>

lemma Reconcile_reads [consumes 1, case_names missing failed found]:
  assumes ok: "reconciler_ok K obs L r"
  obtains w1 where "clusters (obs w) req = None" "Reconcile L req r w = ((Inr noRequeue, r), w1)"
      "obs w1 = obs w" "Now L w \<le> Now L w1"
  | e w1 where "Reconcile L req r w = ((Inl e, r), w1)" "obs w1 = obs w" "Now L w \<le> Now L w1"
  | cl w2 where "clusters (obs w) req = Some cl" "cluster_meta cl = req" "obs w2 = obs w" "Now L w \<le> Now L w2"
      "Reconcile L req r w = act_on L cl (rolesFor L cl (obs w))
         (refreshIdentity L (r\<lparr>lastAssignedRoles := rolesFor L cl (obs w)\<rparr>) w2)"
proof -
  have K: "r_Client r = K" "t_Client (r_Teleport r) = Some K" using ok by (simp_all add: reconciler_ok_def)
  obtain g w1 where g: "Get (Clusters K) req w = (g, w1)" by (cases "Get (Clusters K) req w")
  note g' = wp_run [OF cs.wp_GetCluster g]
  show thesis
  proof (cases g)
    case (Inl e)
    with g have "Reconcile L req r w = (if IsNotFound e then ((Inr noRequeue, r), w1) else ((Inl e, r), w1))"
      by (simp add: Reconcile_def K)
    with Inl g' show thesis by (cases "IsNotFound e") (auto intro: that(1) [of w1] that(2) [of e w1])
  next
    case cl: (Inr cl)
    let ?c = "clusterName cl" and ?ns = "clusterNamespace cl"
    obtain a w2 where a: "AreTeleportAppsEnabled L (r_Teleport r) ?c ?ns w1 = (a, w2)"
      by (cases "AreTeleportAppsEnabled L (r_Teleport r) ?c ?ns w1")
    note a' = wp_run [OF wp_AreTeleportAppsEnabled [OF K(2)] a]
    show thesis
    proof (cases a)
      case (Inl e)
      with cl g a have "Reconcile L req r w = ((Inl e, r), w2)" by (simp add: Reconcile_def K)
      with cl g' a' show thesis by (intro that(2) [of e w2]) auto
    next
      case (Inr b)
      then have "assignedRoles b = rolesFor L cl (obs w)" using a' cl g' by (simp add: rolesFor_def)
      with cl g a Inr have "Reconcile L req r w = act_on L cl (rolesFor L cl (obs w))
          (refreshIdentity L (r\<lparr>lastAssignedRoles := rolesFor L cl (obs w)\<rparr>) w2)"
        by (simp add: Reconcile_def act_on_def K Let_def split: prod.split sum.split)
      with cl g' a' show thesis by (intro that(3) [of cl w2]) auto
    qed
  qed
qed

lemma Reconcile_cases [consumes 2, case_names missing stopped branch]:
  assumes run: "Reconcile L req r w = ((res, r'), w')" and ok: "reconciler_ok K obs L r"
  obtains "clusters (obs w) req = None" "res = Inr noRequeue" "r' = r" "obs w' = obs w" "Now L w \<le> Now L w'"
  | e where "res = Inl e" "rewired r r'" "obs w' = obs w" "Now L w \<le> Now L w'"
      "reconciler_ok K obs L r'" "client_or_stale L r w \<longrightarrow> client_or_stale L r' w'"
  | cl w3 where "clusters (obs w) req = Some cl" "cluster_meta cl = req" "obs w3 = obs w" "Now L w \<le> Now L w3"
      "rewired r r'" "reconciler_ok K obs L r'"
      "client_or_stale L r w \<longrightarrow> (\<exists>C. TeleportClient (r_Teleport r') = Some C)"
      "(if \<not> deletion_IsZero (DeletionTimestamp cl)
        then reconcileDelete L r' cl (registerNameOf r cl) w3
        else reconcileNormal L r' cl (registerNameOf r cl) (rolesFor L cl (obs w)) w3) = (res, w')"
  using ok
proof (cases rule: Reconcile_reads [of r w req])
  case (missing w1)
  with run show thesis by (intro that(1)) simp_all
next
  case (failed e w1)
  with run ok show thesis
    by (intro that(2) [of e]) (auto simp: rewired_refl client_or_stale_def intro: identityStale_later)
next
  case (found cl w2)
  let ?r1 = "r\<lparr>lastAssignedRoles := rolesFor L cl (obs w)\<rparr>"
  have ok1: "reconciler_ok K obs L ?r1" using ok by (simp add: reconciler_ok_def)
  obtain v r2 w3 where v: "refreshIdentity L ?r1 w2 = ((v, r2), w3)" by (metis prod.exhaust_sel)
  note ref = refreshIdentity_run [OF v ok1]
  have pre: "client_or_stale L r w \<longrightarrow> client_or_stale L ?r1 w2"
    using found(4) by (auto simp: client_or_stale_def intro: identityStale_later)
  have rew: "rewired r r2" using ref by (auto simp: rewired_def rolesFor_def)
  have reg: "registerNameOf r2 cl = registerNameOf r cl"
    using reconnected_fields(8) [of ?r1 r2 cl] ref by (simp add: registerNameOf_def)
  show thesis
  proof (cases v)
    case (Inl e)
    with found(5) v run have "res = Inl e" "r' = r2" "w' = w3" by (simp_all add: act_on_def)
    with found ref pre rew show thesis by (intro that(2) [of e]) auto
  next
    case (Inr u)
    with found(5) v run have "r' = r2"
      "(if \<not> deletion_IsZero (DeletionTimestamp cl)
        then reconcileDelete L r2 cl (registerNameOf r cl) w3
        else reconcileNormal L r2 cl (registerNameOf r cl) (rolesFor L cl (obs w)) w3) = (res, w')"
      unfolding reg [symmetric] by (auto simp: act_on_def Let_def split: prod.splits if_splits)
    with Inr found ref pre rew show thesis by (intro that(3) [of cl w3]) auto
  qed
qed

text \<open>The outcome of a call, branch by branch.\<close>

lemma Reconcile_now:
  assumes run: "Reconcile L req r w = ((res, r'), w')" and ok: "reconciler_ok K obs L r" "client_or_stale L r w"
  shows "Now L w \<le> Now L w'"
  using run ok(1)
proof (cases rule: Reconcile_cases)
  case (branch cl w3)
  obtain C where "TeleportClient (r_Teleport r') = Some C" using branch ok(2) by blast
  then have env: "connected_env K obs L app_admit C (r_Teleport r')" using branch connectedI by blast
  have r: "r_Client r' = K" using branch by (simp add: reconciler_ok_def)
  have cl3: "clusters (obs w3) (cluster_meta cl) = Some cl" using branch by simp
  note normal = wp_run [OF connected_env.wp_reconcileNormal [OF env r refl order.refl rolesFor_known cl3]]
  note delete = wp_run [OF connected_env.wp_reconcileDelete [OF env r refl cl3]]
  have "Now L w3 \<le> Now L w'"
    using branch(8) normal delete
    by (fastforce simp: connected_env.normal_post_def [OF env] connected_env.delete_post_def [OF env]
        run_post_def moved_def steps_post_def split: if_splits)
  with branch(4) show ?thesis by simp
qed simp_all

lemma Reconcile_normal_outcome:
  assumes run: "Reconcile L req r w = ((res, r'), w')" and ok: "reconciler_ok K obs L r" "client_or_stale L r w"
    and cl: "clusters (obs w) req = Some cl" "cluster_meta cl = req" "deletion_IsZero (DeletionTimestamp cl)"
  shows "footprint (r_Teleport r) cl (registerNameOf r cl) (obs w) (obs w') \<and>
    (\<forall>x. res = Inr x \<longrightarrow> x = \<lparr>RequeueAfter = 5 * minute\<rparr> \<and>
      (register_kept L (r_Teleport r) (registerNameOf r cl) (clusterName cl) (clusterNamespace cl) (obs w) \<longrightarrow>
       converged L r (Now L w) cl (registerNameOf r cl) (rolesFor L cl (obs w)) (obs w')))"
  using run ok(1)
proof (cases rule: Reconcile_cases)
  case (branch cl' w3)
  then have [simp]: "cl' = cl" using cl by simp
  obtain C where "TeleportClient (r_Teleport r') = Some C" using branch ok(2) by blast
  then have env: "connected_env K obs L app_admit C (r_Teleport r')" using branch connectedI by blast
  have r: "r_Client r' = K" using branch by (simp add: reconciler_ok_def)
  have run': "reconcileNormal L r' cl (registerNameOf r cl) (rolesFor L cl (obs w)) w3 = (res, w')"
    using branch cl(3) by simp
  note post = wp_run [OF connected_env.wp_reconcileNormal [OF env r refl branch(4) rolesFor_known] run']
  show ?thesis
    using post branch cl
    by (simp add: connected_env.normal_post_def [OF env] run_post_def moved_def rewired_fields)
qed (use cl in simp_all)

lemma Reconcile_delete_outcome:
  assumes run: "Reconcile L req r w = ((res, r'), w')" and ok: "reconciler_ok K obs L r" "client_or_stale L r w"
    and cl: "clusters (obs w) req = Some cl" "cluster_meta cl = req" "\<not> deletion_IsZero (DeletionTimestamp cl)"
  shows "footprint (r_Teleport r) cl (registerNameOf r cl) (obs w) (obs w')"
    and "passed_over r cl (obs w) (obs w')"
    and "clusters (obs w') = clusters (obs w) \<or> cleaned r cl (obs w') \<and>
      (\<exists>f. drops_one (registerNameOf r cl) (obs w) f \<and> tokens (obs w') = tokens (f (obs w)))"
    and "res = Inr x \<Longrightarrow> x = noRequeue \<and> cleaned r cl (obs w') \<and> finalizer_gone req (obs w') \<and>
      (\<exists>f. drops_one (registerNameOf r cl) (obs w) f \<and> tokens (obs w') = tokens (f (obs w)))"
proof -
  have "footprint (r_Teleport r) cl (registerNameOf r cl) (obs w) (obs w') \<and>
    passed_over r cl (obs w) (obs w') \<and>
    (clusters (obs w') = clusters (obs w) \<or> cleaned r cl (obs w') \<and>
      (\<exists>f. drops_one (registerNameOf r cl) (obs w) f \<and> tokens (obs w') = tokens (f (obs w)))) \<and>
    (\<forall>x. res = Inr x \<longrightarrow> x = noRequeue \<and> cleaned r cl (obs w') \<and> finalizer_gone req (obs w') \<and>
      (\<exists>f. drops_one (registerNameOf r cl) (obs w) f \<and> tokens (obs w') = tokens (f (obs w))))"
    using run ok(1)
  proof (cases rule: Reconcile_cases)
    case (branch cl' w3)
    then have [simp]: "cl' = cl" using cl by simp
    obtain C where "TeleportClient (r_Teleport r') = Some C" using branch ok(2) by blast
    then have env: "connected_env K obs L app_admit C (r_Teleport r')" using branch connectedI by blast
    have r: "r_Client r' = K" using branch by (simp add: reconciler_ok_def)
    have cl3: "clusters (obs w3) (cluster_meta cl) = Some cl" using branch cl by simp
    have "reconcileDelete L r' cl (registerNameOf r cl) w3 = (res, w')" using branch cl(3) by simp
    then have post: "connected_env.delete_post obs L app_admit (r_Teleport r') r' cl (registerNameOf r cl) w3 res w'"
      using connected_env.wp_reconcileDelete [OF env r refl cl3] by (rule wp_run [rotated])
    note out = connected_env.delete_outcome [OF env post cl3 refl]
    show ?thesis
      using out branch cl(2) by (simp add: rewired_fields)
  qed (use cl in simp_all)
  then show "footprint (r_Teleport r) cl (registerNameOf r cl) (obs w) (obs w')"
    "passed_over r cl (obs w) (obs w')"
    "clusters (obs w') = clusters (obs w) \<or> cleaned r cl (obs w') \<and>
      (\<exists>f. drops_one (registerNameOf r cl) (obs w) f \<and> tokens (obs w') = tokens (f (obs w)))"
    "res = Inr x \<Longrightarrow> x = noRequeue \<and> cleaned r cl (obs w') \<and> finalizer_gone req (obs w') \<and>
      (\<exists>f. drops_one (registerNameOf r cl) (obs w) f \<and> tokens (obs w') = tokens (f (obs w)))"
    by auto
qed

end

end
