(* ===== verification/Startup.thy ===== *)
theory Startup
  imports Controller
begin

text \<open>
  \<open>main.go\<close>: the flags, the configuration read before anything is started, and the
  reconciler it hands to the manager. The manager and the clients of
  \<open>controller-runtime\<close> are parameters. An error anywhere ends the process with exit code
  1; here the error is the result. Log set-up is left out, and the flags are taken as parsed.
  The configuration of the connection (\<open>'c\<close>) and the scheme (\<open>'s\<close>) are opaque: the code only
  passes them on. What is registered in the scheme, a pointer, is part of the world.
\<close>

section \<open>Flags\<close>

record flags =
  metricsAddr :: string
  probeAddr :: string
  enableLeaderElection :: bool
  enableTeleportBot :: bool
  namespace_flag :: string

definition default_flags :: flags where
  "default_flags =
     \<lparr>metricsAddr = '':8080'', probeAddr = '':8081'', enableLeaderElection = False,
      enableTeleportBot = False, namespace_flag = ''''\<rparr>"

section \<open>main\<close>

text \<open>
  \<open>NewScheme\<close> is the value of the package's variable \<open>scheme\<close>. \<open>AddToScheme\<close> registers the
  types of an API package, named as \<open>main.go\<close> imports it, in it; \<open>Must\<close> is told the error, if
  any, and panics on one. \<open>GetConfigOrDie\<close> ends the process where it finds no configuration.
  \<open>NewManager\<close> gives the manager's client; \<open>client_New\<close> the direct one, with which only the
  operator's configuration is read. \<open>Complete\<close> is the last call of \<open>SetupWithManager\<close>.
\<close>

record ('w, 'c, 's) runtime =
  NewScheme :: 's
  AddToScheme :: "string \<Rightarrow> 's \<Rightarrow> ('w, unit) action"
  Must :: "error option \<Rightarrow> ('w, unit) action"
  GetConfigOrDie :: "('w, 'c) action"
  NewManager :: "'c \<Rightarrow> 's \<Rightarrow> string \<Rightarrow> nat \<Rightarrow> string \<Rightarrow> bool \<Rightarrow> string \<Rightarrow> ('w, 'w ctrl_client) action"
  client_New :: "'c \<Rightarrow> ('w, 'w ctrl_client) action"
  Complete :: "'w ClusterReconciler \<Rightarrow> ('w, unit) action"
  AddHealthzCheck :: "string \<Rightarrow> ('w, unit) action"
  AddReadyzCheck :: "string \<Rightarrow> ('w, unit) action"
  Start :: "('w, unit) action"

text \<open>What runs before \<open>main\<close>: the scheme, which the manager's client uses, is filled.\<close>

definition addOrPanic :: "('w, 'c, 's) runtime \<Rightarrow> string \<Rightarrow> ('w, unit) action" where
  "addOrPanic R pkg = tryE (AddToScheme R pkg (NewScheme R)) (\<lambda>err. Must R (Some err)) (\<lambda>_. Must R None)"

definition init :: "('w, 'c, 's) runtime \<Rightarrow> ('w, unit) action" where
  "init R =
     bindE (addOrPanic R ''clientgoscheme'') (\<lambda>_.
     bindE (addOrPanic R ''capi'') (\<lambda>_.
     bindE (addOrPanic R ''appv1alpha1'') (\<lambda>_.
     addOrPanic R ''corev1'')))"

definition SetupWithManager :: "('w, 'c, 's) runtime \<Rightarrow> 'w ClusterReconciler \<Rightarrow> ('w, unit) action" where
  "SetupWithManager R r = Complete R r"

definition newReconciler :: "'w libs \<Rightarrow> 'w ctrl_client \<Rightarrow> Config \<Rightarrow> bool \<Rightarrow> string \<Rightarrow> 'w ClusterReconciler" where
  "newReconciler L mgrClient cfg tbot namespace =
     (let tele = New namespace cfg (NewGenerator L);
          tele = tele\<lparr>t_Client := Some mgrClient\<rparr>
      in \<lparr>r_Client = mgrClient, r_Teleport = tele, IsBotEnabled = tbot,
          r_Namespace = namespace, lastAssignedRoles = []\<rparr>)"

definition main_run :: "('w, 'c, 's) runtime \<Rightarrow> 'w libs \<Rightarrow> flags \<Rightarrow> ('w, unit) action" where
  "main_run R L fl =
     bindE (GetConfigOrDie R) (\<lambda>restConfig.
     bindE (NewManager R restConfig (NewScheme R) (metricsAddr fl) 9443 (probeAddr fl) (enableLeaderElection fl) ''765979b4.giantswarm.io'') (\<lambda>mgrClient.
     bindE (client_New R restConfig) (\<lambda>ctrlClient.
     bindE (GetConfigFromConfigMap ctrlClient (namespace_flag fl)) (\<lambda>cfg.
     bindE (SetupWithManager R (newReconciler L mgrClient cfg (enableTeleportBot fl) (namespace_flag fl))) (\<lambda>_.
     bindE (AddHealthzCheck R ''healthz'') (\<lambda>_.
     bindE (AddReadyzCheck R ''readyz'') (\<lambda>_.
     Start R)))))))"

definition program :: "('w, 'c, 's) runtime \<Rightarrow> 'w libs \<Rightarrow> flags \<Rightarrow> ('w, unit) action" where
  "program R L fl = bindE (init R) (\<lambda>_. main_run R L fl)"

section \<open>Facts\<close>

lemma newReconciler_simps [simp]:
  "r_Client (newReconciler L K cfg tbot ns) = K"
  "t_Client (r_Teleport (newReconciler L K cfg tbot ns)) = Some K"
  "t_Config (r_Teleport (newReconciler L K cfg tbot ns)) = cfg"
  "t_Identity (r_Teleport (newReconciler L K cfg tbot ns)) = None"
  "TeleportClient (r_Teleport (newReconciler L K cfg tbot ns)) = None"
  "TokenGenerator (r_Teleport (newReconciler L K cfg tbot ns)) = NewGenerator L"
  "IsBotEnabled (newReconciler L K cfg tbot ns) = tbot"
  "r_Namespace (newReconciler L K cfg tbot ns) = ns"
  "lastAssignedRoles (newReconciler L K cfg tbot ns) = []"
  by (simp_all add: newReconciler_def New_def Let_def)

end
