(* ===== verification/Fake_Client.thy ===== *)
theory Fake_Client
  imports Token "HOL-Library.AList" "HOL-Library.Multiset"
begin

text \<open>
  \<open>test/teleport_client.go\<close> and the mock generator of \<open>test/resources.go\<close>: the Teleport
  client with which the repository tests itself. The struct keeps its tokens in a map
  under their names; Go ranges over a map in no particular order, so the order is a
  parameter. The last section shows that the fake keeps the contract \<open>teleport_client\<close>
  that the development states of the real client.
\<close>

section \<open>The struct\<close>

record FakeTeleportClientConfig =
  FailsPing :: bool
  FailsGet :: bool
  FailsList :: bool
  FailsCreate :: bool
  FailsUpsert :: bool
  FailsDelete :: bool
  cfg_Tokens :: "ProvisionToken list"

text \<open>
  The map of tokens: names to tokens, every token under its own name. All operations of
  the struct keep it so.
\<close>

definition names_ok :: "(string \<times> ProvisionToken) list \<Rightarrow> bool" where
  "names_ok m \<longleftrightarrow> distinct (map fst m) \<and> list_all (\<lambda>(n, t). GetName t = n) m"

typedef token_map = "{m. names_ok m}"
  morphisms entries Token_Map
  by (rule exI [of _ "[]"]) (simp add: names_ok_def)

setup_lifting type_definition_token_map

lemma names_ok_update: "names_ok m \<Longrightarrow> names_ok (AList.update (GetName t) t m)"
proof -
  assume ok: "names_ok m"
  have "list_all (\<lambda>(n, t). GetName t = n) m \<Longrightarrow> list_all (\<lambda>(n, t). GetName t = n) (AList.update (GetName t) t m)"
    by (induction m) auto
  with ok show ?thesis by (simp add: names_ok_def distinct_update)
qed

lemma names_ok_delete: "names_ok m \<Longrightarrow> names_ok (AList.delete n m)"
  by (simp add: names_ok_def distinct_delete) (auto simp: AList.delete_eq list_all_iff)

lift_definition no_tokens :: token_map is "[]"
  by (simp add: names_ok_def)

lift_definition put_token :: "ProvisionToken \<Rightarrow> token_map \<Rightarrow> token_map" is "\<lambda>t. AList.update (GetName t) t"
  by (rule names_ok_update)

lift_definition delete_token :: "string \<Rightarrow> token_map \<Rightarrow> token_map" is AList.delete
  by (rule names_ok_delete)

lift_definition find_token :: "token_map \<Rightarrow> string \<Rightarrow> ProvisionToken option" is map_of .

record FakeTeleportClient =
  failsPing :: bool
  failsGet :: bool
  failsList :: bool
  failsCreate :: bool
  failsUpsert :: bool
  failsDelete :: bool
  fake_tokens :: token_map

definition NewTeleportClient :: "FakeTeleportClientConfig \<Rightarrow> FakeTeleportClient" where
  "NewTeleportClient config =
     \<lparr>failsPing = FailsPing config, failsGet = FailsGet config, failsList = FailsList config,
      failsCreate = FailsCreate config, failsUpsert = FailsDelete config, failsDelete = FailsDelete config,
      fake_tokens = fold put_token (cfg_Tokens config) no_tokens\<rparr>"

section \<open>The methods\<close>

text \<open>A method runs on the struct and returns it as it leaves it.\<close>

definition fake_Ping :: "(FakeTeleportClient, unit) action" where
  "fake_Ping c = (if failsPing c then Inl (OtherError ''mock teleport client failed ping'') else Inr (), c)"

definition fake_GetToken :: "string \<Rightarrow> (FakeTeleportClient, ProvisionToken) action" where
  "fake_GetToken name c =
     (if failsGet c then Inl (OtherError ''mock teleport client failed to get token'')
      else case find_token (fake_tokens c) name of
        Some token \<Rightarrow> Inr token
      | None \<Rightarrow> Inl (Errorf (''mock teleport client: token with name '' @ name @ '' does not exist'')), c)"

definition fake_GetTokens ::
    "((string \<times> ProvisionToken) list \<Rightarrow> (string \<times> ProvisionToken) list) \<Rightarrow> (FakeTeleportClient, ProvisionToken list) action" where
  "fake_GetTokens shuffle c =
     (if failsList c then Inl (OtherError ''mock teleport client failed to get tokens'')
      else Inr (foldl (\<lambda>tokens (_, token). tokens @ [token]) [] (shuffle (entries (fake_tokens c)))), c)"

definition fake_CreateToken :: "ProvisionToken \<Rightarrow> (FakeTeleportClient, unit) action" where
  "fake_CreateToken token c =
     (if failsCreate c then (Inl (OtherError ''mock teleport client failed to create token''), c)
      else (Inr (), c\<lparr>fake_tokens := put_token token (fake_tokens c)\<rparr>))"

definition fake_UpsertToken :: "ProvisionToken \<Rightarrow> (FakeTeleportClient, unit) action" where
  "fake_UpsertToken token c =
     (if failsUpsert c then (Inl (OtherError ''mock teleport client failed to upsert token''), c)
      else (Inr (), c\<lparr>fake_tokens := put_token token (fake_tokens c)\<rparr>))"

definition fake_DeleteToken :: "string \<Rightarrow> (FakeTeleportClient, unit) action" where
  "fake_DeleteToken name c =
     (if failsDelete c then (Inl (OtherError ''mock teleport client failed to delete token''), c)
      else (Inr (), c\<lparr>fake_tokens := delete_token name (fake_tokens c)\<rparr>))"

text \<open>The methods of a struct that lives somewhere in the world.\<close>

definition on_part :: "('w \<Rightarrow> 's) \<Rightarrow> (('s \<Rightarrow> 's) \<Rightarrow> 'w \<Rightarrow> 'w) \<Rightarrow> ('s, 'a) action \<Rightarrow> ('w, 'a) action" where
  "on_part get upd m w = (case m (get w) of (r, s) \<Rightarrow> (r, upd (\<lambda>_. s) w))"

definition FakeClient ::
    "((string \<times> ProvisionToken) list \<Rightarrow> (string \<times> ProvisionToken) list) \<Rightarrow>
     ('w \<Rightarrow> FakeTeleportClient) \<Rightarrow> ((FakeTeleportClient \<Rightarrow> FakeTeleportClient) \<Rightarrow> 'w \<Rightarrow> 'w) \<Rightarrow> 'w Client" where
  "FakeClient shuffle get upd =
     \<lparr>Ping = on_part get upd fake_Ping,
      GetToken = (\<lambda>name. on_part get upd (fake_GetToken name)),
      GetTokens = on_part get upd (fake_GetTokens shuffle),
      CreateToken = (\<lambda>token. on_part get upd (fake_CreateToken token)),
      UpsertToken = (\<lambda>token. on_part get upd (fake_UpsertToken token)),
      DeleteToken = (\<lambda>name. on_part get upd (fake_DeleteToken name))\<rparr>"

section \<open>The mock generator\<close>

definition MockTokenGenerator :: "string \<Rightarrow> 'w Generator" where
  "MockTokenGenerator token = \<lparr>Generate = (\<lambda>w. (token, w))\<rparr>"

definition NewMockTokenGenerator :: "string \<Rightarrow> 'w Generator" where
  "NewMockTokenGenerator token = MockTokenGenerator token"

section \<open>Facts\<close>

lemma find_put [simp]: "find_token (put_token t m) = (find_token m)(GetName t \<mapsto> t)"
  by transfer (rule update_conv')

lemma find_delete [simp]: "find_token (delete_token n m) = (find_token m)(n := None)"
  by transfer (rule delete_conv')

lemma find_none [simp]: "find_token no_tokens n = None"
  by transfer simp

lemma find_token_name: "find_token m n = Some t \<Longrightarrow> GetName t = n"
  by transfer (auto simp: names_ok_def list_all_iff dest: map_of_SomeD)

lemma find_token_entries: "find_token m n = Some t \<longleftrightarrow> (n, t) \<in> set (entries m)"
  by transfer (simp add: names_ok_def)

lemma listing_tokens: "foldl (\<lambda>tokens (_, token). tokens @ [token]) acc es = acc @ map snd es"
  by (induction es arbitrary: acc) auto

lemma entries_names: "map fst (entries m) = map (GetName \<circ> snd) (entries m)"
  by transfer (auto simp: names_ok_def list_all_iff)

lemma entries_distinct: "distinct (map fst (entries m))"
  by transfer (simp add: names_ok_def)

text \<open>Whatever the order, the listing has every token once.\<close>

lemma listed_tokens:
  assumes "mset (shuffle (entries m)) = mset (entries m)"
  shows "distinct (map GetName (map snd (shuffle (entries m))))"
    and "t \<in> set (map snd (shuffle (entries m))) \<longleftrightarrow> find_token m (GetName t) = Some t"
proof -
  let ?n = "GetName \<circ> snd"
  have "mset (map ?n (shuffle (entries m))) = mset (map ?n (entries m))"
    using assms by simp
  then have "distinct (map ?n (shuffle (entries m))) = distinct (map ?n (entries m))"
    by (rule mset_eq_imp_distinct_iff)
  then show "distinct (map GetName (map snd (shuffle (entries m))))"
    using entries_distinct [of m] by (simp add: entries_names)
  have "set (shuffle (entries m)) = set (entries m)" using assms by (rule mset_eq_setD)
  then have "t \<in> set (map snd (shuffle (entries m))) \<longleftrightarrow> (\<exists>n. (n, t) \<in> set (entries m))"
    by force
  also have "\<dots> \<longleftrightarrow> (\<exists>n. find_token m n = Some t)" by (simp only: find_token_entries)
  also have "\<dots> \<longleftrightarrow> find_token m (GetName t) = Some t"
    using find_token_name by metis
  finally show "t \<in> set (map snd (shuffle (entries m))) \<longleftrightarrow> find_token m (GetName t) = Some t" .
qed

section \<open>The fake keeps the contract\<close>

text \<open>
  A world with a fake client in it: \<open>get\<close> and \<open>upd\<close> reach the struct, and the observation
  and the clock do not mind the rest.
\<close>

locale fake_world =
  fixes shuffle :: "(string \<times> ProvisionToken) list \<Rightarrow> (string \<times> ProvisionToken) list"
    and get :: "'w \<Rightarrow> FakeTeleportClient"
    and upd_part :: "(FakeTeleportClient \<Rightarrow> FakeTeleportClient) \<Rightarrow> 'w \<Rightarrow> 'w"
    and obs :: "'w \<Rightarrow> 's" and sel :: "'s \<Rightarrow> string \<rightharpoonup> ProvisionToken"
    and upd :: "((string \<rightharpoonup> ProvisionToken) \<Rightarrow> (string \<rightharpoonup> ProvisionToken)) \<Rightarrow> 's \<Rightarrow> 's"
    and now :: "'w \<Rightarrow> time"
  assumes shuffle_perm: "mset (shuffle xs) = mset xs"
    and part_sel_upd: "sel (upd f s) = f (sel s)"
    and upd_const: "upd f s = upd (\<lambda>_. f (sel s)) s"
    and upd_same: "upd (\<lambda>_. sel s) s = s"
    and sel_obs: "sel (obs w) = find_token (fake_tokens (get w))"
    and upd_obs: "obs (upd_part (\<lambda>_. c) w) = upd (\<lambda>_. find_token (fake_tokens c)) (obs w)"
    and upd_now: "now (upd_part h w) = now w"
begin

lemma obs_same [simp]: "obs (upd_part (\<lambda>_. get w) w) = obs w"
  using upd_same [of "obs w"] by (simp add: upd_obs sel_obs)

lemma obs_set:
  "find_token (fake_tokens c) = set_key n v (find_token (fake_tokens (get w))) \<Longrightarrow>
   obs (upd_part (\<lambda>_. c) w) = upd (set_key n v) (obs w)"
  using upd_const [of "set_key n v" "obs w"] by (simp add: upd_obs sel_obs)

lemmas fake_method_defs = FakeClient_def on_part_def fake_Ping_def fake_GetTokens_def fake_UpsertToken_def
  fake_DeleteToken_def

sublocale teleport_client "FakeClient shuffle get upd_part" obs sel upd now
proof
  show "sel (upd f s) = f (sel s)" for f s by (rule part_sel_upd)
next
  fix w ts w' t
  assume "GetTokens (FakeClient shuffle get upd_part) w = (Inr ts, w')"
  then have ts: "ts = map snd (shuffle (entries (fake_tokens (get w))))"
    by (simp add: fake_method_defs listing_tokens split: if_splits)
  show "distinct (map GetName ts)" "t \<in> set ts \<longleftrightarrow> sel (obs w) (GetName t) = Some t"
    unfolding ts sel_obs using listed_tokens shuffle_perm by blast+
qed (auto simp: fake_method_defs upd_now set_key_def intro!: obs_set split: if_splits)

end

section \<open>Property\<close>

text \<open>
  A new fake client fails to upsert a token exactly when its configuration says that
  deleting fails: the switch for upserting is not used.
\<close>

theorem fake_upsert_switch:
  "(fst (fake_UpsertToken token (NewTeleportClient config)) = Inr () \<longleftrightarrow> \<not> FailsDelete config) \<and>
   NewTeleportClient (config\<lparr>FailsUpsert := b\<rparr>) = NewTeleportClient config"
  by (simp add: fake_UpsertToken_def NewTeleportClient_def)

end
