(* ===== verification/Reference_Libs.thy ===== *)
theory Reference_Libs
  imports Yaml Finalizer
begin

text \<open>
  Executable instances of the library contracts: versions of the form
  \<open>X.Y.Z-pre+meta\<close>, a reader for the documents of theory Yaml, Teleport's roles and
  tokens, and the finalizer functions. They show that the contracts can be met and let
  the properties be run on concrete inputs; nothing is proved of the operator from them.
\<close>

section \<open>Versions\<close>

definition digit :: "char \<Rightarrow> bool" where
  "digit c \<longleftrightarrow> 48 \<le> (of_char c :: nat) \<and> (of_char c :: nat) \<le> 57"

definition numeral_string :: "string \<Rightarrow> bool" where
  "numeral_string s \<longleftrightarrow> s \<noteq> [] \<and> list_all digit s"

definition read_nat :: "string \<Rightarrow> nat" where
  "read_nat s = foldl (\<lambda>a c. 10 * a + (of_char c - 48)) 0 s"

definition core_char :: "char \<Rightarrow> bool" where
  "core_char c \<longleftrightarrow> c \<noteq> CHR ''-'' \<and> c \<noteq> CHR ''+''"

fun ref_parse :: "string list \<Rightarrow> string + Version" where
  "ref_parse (a # b # c # tail) =
     (let s = Join (c # tail) ''.''; core = takeWhile core_char s; rest = dropWhile core_char s
      in if numeral_string a \<and> numeral_string b \<and> numeral_string core
         then Inr \<lparr>Major = read_nat a, Minor = read_nat b, PatchNo = read_nat core,
                   Prerelease = (if take 1 rest = ''-'' then takeWhile (\<lambda>x. x \<noteq> CHR ''+'') (drop 1 rest) else ''''),
                   VersionMetadata = drop 1 (dropWhile (\<lambda>x. x \<noteq> CHR ''+'') rest)\<rparr>
         else Inl ''Invalid Semantic Version'')"
| "ref_parse _ = Inl ''Invalid Semantic Version''"

definition ref_NewVersion :: "string \<Rightarrow> string + Version" where
  "ref_NewVersion s = ref_parse (Split s (CHR ''.''))"

definition ref_Compare :: "Version \<Rightarrow> Version \<Rightarrow> int" where
  "ref_Compare v w =
     (if core_less v w then - 1 else if core_less w v then 1
      else if Prerelease v = Prerelease w then 0
      else if Prerelease v = '''' then 1 else if Prerelease w = '''' then - 1 else 0)"

definition ref_semver :: semver where
  "ref_semver =
     \<lparr>NewVersion = ref_NewVersion,
      MustParse = (\<lambda>s. case ref_NewVersion s of Inr v \<Rightarrow> v | Inl _ \<Rightarrow> release 0 0 0),
      Compare = ref_Compare\<rparr>"

lemma digit_char: "n < 10 \<Longrightarrow> digit (char_of (48 + n :: nat))"
  by (simp add: digit_def of_char_of)

lemma show_nat_digits: "numeral_string (show_nat n)"
proof (induction n rule: show_nat.induct)
  case (1 n)
  then show ?case
    by (cases "n < 10") (auto simp: show_nat.simps [of n] numeral_string_def digit_char)
qed

lemma read_nat_snoc: "read_nat (s @ [c]) = 10 * read_nat s + (of_char c - 48)"
  by (simp add: read_nat_def)

lemma read_show_nat: "read_nat (show_nat n) = n"
proof (induction n rule: show_nat.induct)
  case (1 n)
  show ?case
  proof (cases "n < 10")
    case True
    then show ?thesis by (simp add: show_nat.simps [of n] read_nat_def of_char_of)
  next
    case False
    have "n mod 10 < 10" by simp
    then have "of_char (char_of (48 + n mod 10)) = (48 + n mod 10 :: nat)" by (simp add: of_char_of)
    with False 1 show ?thesis by (simp add: show_nat.simps [of n] read_nat_snoc)
  qed
qed

lemma numeral_core: "numeral_string s \<Longrightarrow> takeWhile core_char s = s \<and> dropWhile core_char s = []"
  by (auto simp: numeral_string_def list_all_iff digit_def core_char_def)

lemma numeral_no_dot: "numeral_string s \<Longrightarrow> CHR ''.'' \<notin> set s"
  by (auto simp: numeral_string_def list_all_iff digit_def)

lemma ref_NewVersion_dotted: "ref_NewVersion (dotted a b c) = Inr (release a b c)"
proof -
  have "dotted a b c = Join [show_nat a, show_nat b, show_nat c] [CHR ''.'']"
    by (simp add: dotted_def)
  then have "Split (dotted a b c) (CHR ''.'') = [show_nat a, show_nat b, show_nat c]"
    using show_nat_digits numeral_no_dot Split_Join [of "[show_nat a, show_nat b, show_nat c]" "CHR ''.''"] by simp
  then show ?thesis
    using show_nat_digits
    by (simp add: numeral_core [OF show_nat_digits, THEN conjunct1] numeral_core [OF show_nat_digits, THEN conjunct2]
        ref_NewVersion_def read_show_nat release_def Let_def)
qed

interpretation ref_semver: semver_lib ref_semver
  by unfold_locales
    (auto simp: ref_semver_def ref_NewVersion_dotted ref_Compare_def core_less_def core_eq_def)

section \<open>Documents\<close>

definition node_line :: "string \<Rightarrow> string \<times> string \<Rightarrow> string" where
  "node_line indent e = indent @ fst e @ '': '' @ dquote @ snd e @ dquote"

fun node_lines :: "string \<times> ynode \<Rightarrow> string list" where
  "node_lines (k, YStr v) = [node_line '''' (k, v)]"
| "node_lines (k, YBlock es) = (k @ '':'') # map (node_line ''  '') es"

definition doc_lines :: "ydoc \<Rightarrow> string list" where
  "doc_lines d = concat (map node_lines d)"

definition indented :: "string \<Rightarrow> bool" where
  "indented l \<longleftrightarrow> take 2 l = ''  ''"

definition line_key :: "string \<Rightarrow> string" where
  "line_key l = takeWhile (\<lambda>c. c \<noteq> CHR '':'') l"

definition line_value :: "string \<Rightarrow> string" where
  "line_value l = butlast (drop (length (line_key l) + 3) l)"

definition line_entry :: "string \<Rightarrow> string \<times> string" where
  "line_entry l = (line_key l, line_value l)"

function read_lines :: "string list \<Rightarrow> ydoc" where
  "read_lines [] = []"
| "read_lines (l # ls) =
     (if l = [] then read_lines ls
      else if length l = length (line_key l) + 1
      then (line_key l, YBlock (map (line_entry \<circ> drop 2) (takeWhile indented ls))) # read_lines (dropWhile indented ls)
      else (line_key l, YStr (line_value l)) # read_lines ls)"
  by pat_completeness auto
termination
  by (relation "measure length") (auto simp: less_Suc_eq_le length_dropWhile_le)

text \<open>A text is accepted when it is the safe document that was read from it.\<close>

definition ref_Unmarshal :: "string \<Rightarrow> error + (string, iface) fmap" where
  "ref_Unmarshal s =
     (let d = read_lines (Split s (char_of (10 :: nat)))
      in if safe_doc d \<and> emit d = s then Inr (denote d) else Inl (OtherError ''yaml: unsupported document''))"

lemma key_char_safe:
  "key_char c \<Longrightarrow> c \<noteq> CHR '':'' \<and> c \<noteq> CHR '' '' \<and> c \<noteq> char_of (10 :: nat)"
  by (auto simp: key_char_def letter_def Let_def)

lemma plain_key_safe:
  assumes "plain_key k"
  shows "CHR '':'' \<notin> set k" "char_of (10 :: nat) \<notin> set k" "k \<noteq> []" "hd k \<noteq> CHR '' ''"
  using assms key_char_safe by (auto simp: plain_key_def letter_def Let_def)

lemma plain_value_safe: "plain_value v \<Longrightarrow> char_of (10 :: nat) \<notin> set v"
  by (auto simp: plain_value_def plain_char_def)

lemma line_key_node: "CHR '':'' \<notin> set k \<Longrightarrow> line_key (k @ CHR '':'' # r) = k"
  unfolding line_key_def by (subst takeWhile_append2) auto

lemma line_entry_node: "plain_key (fst e) \<Longrightarrow> line_entry (node_line '''' e) = e"
  using plain_key_safe(1) [of "fst e"]
  by (cases e) (simp add: line_entry_def line_value_def node_line_def line_key_node dquote_def)

lemma emit_lines: "emit d = concat (map (\<lambda>l. l @ newline) (doc_lines d))"
proof -
  have *: "emit_node n = concat (map (\<lambda>l. l @ newline) (node_lines n))" for n
    by (cases n rule: node_lines.cases) (simp_all add: emit_line_def [abs_def] node_line_def comp_def)
  show ?thesis by (induction d) (simp_all add: emit_def doc_lines_def * del: emit_node.simps)
qed

lemma Split_lines:
  "\<forall>l \<in> set ls. char_of (10 :: nat) \<notin> set l \<Longrightarrow>
   Split (concat (map (\<lambda>l. l @ newline) ls)) (char_of (10 :: nat)) = ls @ [[]]"
  by (induction ls) (simp_all add: newline_def Split_append_sep)

text \<open>Reading back the lines of a safe document gives the document.\<close>

lemma node_line_indent: "drop 2 (node_line ''  '' e) = node_line '''' e" "indented (node_line ''  '' e)"
  by (simp_all add: node_line_def indented_def)

lemma not_indented:
  assumes "plain_key k"
  shows "\<not> indented (k @ r)"
  using plain_key_safe(3,4) [OF assms] by (cases k) (auto simp: indented_def numeral_2_eq_2)

lemma doc_lines_not_indented:
  "safe_doc d \<Longrightarrow> takeWhile indented (doc_lines d @ [[]]) = [] \<and> dropWhile indented (doc_lines d @ [[]]) = doc_lines d @ [[]]"
proof (cases d)
  case (Cons n d')
  moreover assume "safe_doc d"
  ultimately obtain k m where n: "n = (k, m)" "plain_key k" by (cases n) (auto simp: safe_doc_def)
  then obtain r ls where "node_lines n = (k @ r) # ls"
    by (cases m) (auto simp: node_line_def)
  with Cons n not_indented [of k r] show ?thesis by (simp add: doc_lines_def)
qed (simp add: doc_lines_def indented_def)

lemma read_doc_lines: "safe_doc d \<Longrightarrow> read_lines (doc_lines d @ [[]]) = d"
proof (induction d)
  case Nil
  then show ?case by (simp add: doc_lines_def)
next
  case (Cons n d)
  then obtain k m where n: "n = (k, m)" "plain_key k" "safe_node m" by (cases n) (auto simp: safe_doc_def)
  have d: "safe_doc d" using Cons.prems by (auto simp: safe_doc_def)
  note key = plain_key_safe [OF n(2)]
  note rest = doc_lines_not_indented [OF d]
  show ?case
  proof (cases m)
    case (YStr v)
    have "length (node_line '''' (k, v)) \<noteq> length (line_key (node_line '''' (k, v))) + 1"
      using key(1) by (simp add: node_line_def line_key_node dquote_def)
    moreover have "line_key (node_line '''' (k, v)) = k \<and> line_value (node_line '''' (k, v)) = v"
      using line_entry_node [of "(k, v)"] n(2) by (simp add: line_entry_def)
    moreover have "node_line '''' (k, v) \<noteq> []" by (simp add: node_line_def)
    ultimately show ?thesis
      using Cons.IH [OF d] n(1) YStr by (simp add: doc_lines_def)
  next
    case (YBlock es)
    let ?ls = "map (node_line ''  '') es"
    have ind: "\<forall>l \<in> set ?ls. indented l" by (simp add: node_line_indent)
    have tw: "takeWhile indented (?ls @ doc_lines d @ [[]]) = ?ls"
      "dropWhile indented (?ls @ doc_lines d @ [[]]) = doc_lines d @ [[]]"
      by (subst takeWhile_append2 dropWhile_append2; use ind rest in auto)+
    have keys: "\<forall>e \<in> set es. plain_key (fst e)" using n(3) YBlock by auto
    have es: "map (line_entry \<circ> drop 2) ?ls = es"
      using keys by (simp add: comp_def node_line_indent line_entry_node map_idI)
    have "node_lines n = (k @ '':'') # ?ls" using n(1) YBlock by simp
    then have "doc_lines (n # d) @ [[]] = (k @ '':'') # (?ls @ doc_lines d @ [[]])"
      by (simp add: doc_lines_def)
    then show ?thesis
      using Cons.IH [OF d] n(1) YBlock tw es line_key_node [OF key(1), of "''''"] by simp
  qed
qed

lemma newline_neq [simp]: "char_of (10 :: nat) \<noteq> CHR '':''" "char_of (10 :: nat) \<noteq> CHR '' ''"
    "char_of (10 :: nat) \<noteq> char_of (34 :: nat)"
  by code_simp+

lemma safe_doc_lines: "safe_doc d \<Longrightarrow> \<forall>l \<in> set (doc_lines d). char_of (10 :: nat) \<notin> set l"
proof
  fix l assume d: "safe_doc d" and "l \<in> set (doc_lines d)"
  then obtain k m where n: "(k, m) \<in> set d" "l \<in> set (node_lines (k, m))" by (auto simp: doc_lines_def)
  with d have safe: "plain_key k" "safe_node m" by (auto simp: safe_doc_def)
  have ok: "char_of (10 :: nat) \<notin> set (node_line i (x, v))"
    if "plain_key x" "plain_value v" "i = '''' \<or> i = ''  ''" for i x v
    using that plain_key_safe(2) plain_value_safe by (auto simp: node_line_def dquote_def)
  show "char_of (10 :: nat) \<notin> set l"
    using n safe ok plain_key_safe(2) by (cases m) auto
qed

interpretation ref_yaml: yaml_lib ref_Unmarshal
proof
  fix d assume d: "safe_doc d"
  have "read_lines (Split (emit d) (char_of (10 :: nat))) = d"
    unfolding emit_lines using Split_lines [OF safe_doc_lines [OF d]] read_doc_lines [OF d] by simp
  with d show "ref_Unmarshal (emit d) = Inr (denote d)" by (simp add: ref_Unmarshal_def Let_def)
qed

section \<open>Teleport's roles and tokens\<close>

definition ref_roles :: role_lib where
  "ref_roles = \<lparr>types_RoleKube = ''Kube'', types_RoleApp = ''App'', types_RoleNode = ''Node'', role_String = id\<rparr>"

definition ref_NewProvisionToken :: "string \<Rightarrow> SystemRole list \<Rightarrow> time \<Rightarrow> error + ProvisionToken" where
  "ref_NewProvisionToken name roles expiry =
     (if name = '''' then Inl (OtherError ''missing name'')
      else if roles = [] then Inl (OtherError ''missing roles'')
      else Inr \<lparr>GetName = name, GetRoles = roles, Expiry = expiry, Labels = Map.empty\<rparr>)"

interpretation ref_types: teleport_types ref_roles ref_NewProvisionToken
proof
  show "ToLower (role_String ref_roles (types_RoleKube ref_roles)) = ''kube''"
    "ToLower (role_String ref_roles (types_RoleApp ref_roles)) = ''app''"
    "ToLower (role_String ref_roles (types_RoleNode ref_roles)) = ''node''"
    by code_simp+
qed (auto simp: ref_NewProvisionToken_def split: if_splits)

section \<open>Finalizers\<close>

definition ref_finalizers :: finalizer_lib where
  "ref_finalizers =
     \<lparr>ContainsFinalizer = (\<lambda>c f. f \<in> set (Finalizers c)),
      AddFinalizer_obj = (\<lambda>c f. if f \<in> set (Finalizers c) then c else c\<lparr>Finalizers := Finalizers c @ [f]\<rparr>),
      RemoveFinalizer_obj = (\<lambda>c f. c\<lparr>Finalizers := filter (\<lambda>g. g \<noteq> f) (Finalizers c)\<rparr>)\<rparr>"

interpretation ref_finalizers: finalizer_laws ref_finalizers
  by unfold_locales (simp_all add: ref_finalizers_def)

end
