(* ===== verification/Memory.thy ===== *)
theory Memory
  imports Reconciler Startup Fake_Client Reference_Libs
begin

text \<open>
  An executable environment: Kubernetes objects in lists, the repository's fake Teleport
  client, a clock that moves with every call, and a script of faults that says how the
  next calls answer. The environment meets every contract of the development, faults and
  all, so the contracts are consistent and the operator can be run in it.
\<close>

section \<open>Stores\<close>

definition lookup :: "('o \<Rightarrow> 'k) \<Rightarrow> 'o list \<Rightarrow> 'k \<rightharpoonup> 'o" where
  "lookup key_of xs k = find (\<lambda>x. key_of x = k) xs"

definition remove :: "('o \<Rightarrow> 'k) \<Rightarrow> 'k \<Rightarrow> 'o list \<Rightarrow> 'o list" where
  "remove key_of k xs = filter (\<lambda>x. key_of x \<noteq> k) xs"

definition store :: "('o \<Rightarrow> 'k) \<Rightarrow> 'o \<Rightarrow> 'o list \<Rightarrow> 'o list" where
  "store key_of x xs = x # remove key_of (key_of x) xs"

lemma lookup_remove: "lookup key_of (remove key_of k xs) = set_key k None (lookup key_of xs)"
proof (rule ext)
  fix k'
  show "lookup key_of (remove key_of k xs) k' = set_key k None (lookup key_of xs) k'"
    by (induction xs) (auto simp: lookup_def remove_def set_key_apply)
qed

lemma lookup_store: "lookup key_of (store key_of x xs) = set_key (key_of x) (Some x) (lookup key_of xs)"
proof (rule ext)
  fix k
  show "lookup key_of (store key_of x xs) k = set_key (key_of x) (Some x) (lookup key_of xs) k"
    using fun_cong [OF lookup_remove [of key_of "key_of x" xs], of k]
    by (auto simp: store_def lookup_def set_key_apply)
qed

lemma lookup_key: "lookup key_of xs k = Some x \<Longrightarrow> key_of x = k"
  by (auto simp: lookup_def find_Some_iff)

section \<open>The world\<close>

text \<open>
  A call is answered, refused before it had an effect, loses its answer after it had it,
  or meets a conflict.
\<close>

datatype fault = Answer | Refuse | Lose | Clash

record mem =
  m_clusters :: "Cluster list"
  m_secrets :: "Secret list"
  m_configmaps :: "ConfigMap list"
  m_helmreleases :: "HelmRelease list"
  m_apps :: "App list"
  m_fake :: FakeTeleportClient
  m_clock :: nat
  m_faults :: "fault list"

definition mem_now :: "mem \<Rightarrow> time" where
  "mem_now w = second * (1 + int (m_clock w))"

definition mem_obs :: "mem \<Rightarrow> world_obs" where
  "mem_obs w =
     \<lparr>clusters = lookup cluster_meta (m_clusters w), secrets = lookup secret_meta (m_secrets w),
      configmaps = lookup cm_meta (m_configmaps w), helmreleases = lookup hr_meta (m_helmreleases w),
      apps = lookup app_meta (m_apps w), tokens = find_token (fake_tokens (m_fake w))\<rparr>"

text \<open>What the next call does: the head of the script, or an answer; a call takes a second.\<close>

definition scripted :: "mem \<Rightarrow> fault \<times> mem" where
  "scripted w =
     (case m_faults w of [] \<Rightarrow> Answer | f # _ \<Rightarrow> f,
      w\<lparr>m_clock := Suc (m_clock w), m_faults := tl (m_faults w)\<rparr>)"

definition steady :: "mem \<Rightarrow> fault \<times> mem" where
  "steady w = (Answer, w\<lparr>m_clock := Suc (m_clock w)\<rparr>)"

definition failure :: "fault \<Rightarrow> error" where
  "failure f = (if f = Clash then Conflict else OtherError ''the server did not answer'')"

section \<open>The client\<close>

definition mem_write ::
    "(mem \<Rightarrow> fault \<times> mem) \<Rightarrow> (mem \<Rightarrow> error option) \<Rightarrow> (mem \<Rightarrow> mem) \<Rightarrow> (mem, unit) action" where
  "mem_write nx check effect w =
     (case nx w of (f, w1) \<Rightarrow>
        (case check w1 of
           Some e \<Rightarrow> (Inl e, w1)
         | None \<Rightarrow>
             (case f of
                Answer \<Rightarrow> (Inr (), effect w1)
              | Lose \<Rightarrow> (Inl (failure f), effect w1)
              | _ \<Rightarrow> (Inl (failure f), w1))))"

definition mem_read :: "(mem \<Rightarrow> fault \<times> mem) \<Rightarrow> (mem \<Rightarrow> 'o option) \<Rightarrow> (mem, 'o) action" where
  "mem_read nx find_it w =
     (case nx w of (f, w1) \<Rightarrow>
        (if f \<noteq> Answer then Inl (failure f)
         else case find_it w1 of None \<Rightarrow> Inl NotFound | Some x \<Rightarrow> Inr x, w1))"

definition mem_kind ::
    "(mem \<Rightarrow> fault \<times> mem) \<Rightarrow> ('o \<Rightarrow> NamespacedName) \<Rightarrow> ('o \<Rightarrow> 'o) \<Rightarrow> (mem \<Rightarrow> 'o list) \<Rightarrow>
     (('o list \<Rightarrow> 'o list) \<Rightarrow> mem \<Rightarrow> mem) \<Rightarrow> ('o, mem) kind_client" where
  "mem_kind nx key_of admit get upd =
     \<lparr>Get = (\<lambda>k. mem_read nx (\<lambda>w. lookup key_of (get w) k)),
      Create = (\<lambda>x. mem_write nx
        (\<lambda>w. if lookup key_of (get w) (key_of x) = None then None else Some (OtherError ''already exists''))
        (upd (store key_of (admit x)))),
      Update = (\<lambda>x. mem_write nx
        (\<lambda>w. if lookup key_of (get w) (key_of x) = None then Some NotFound else None)
        (upd (store key_of (admit x)))),
      Delete = (\<lambda>x. mem_write nx
        (\<lambda>w. if lookup key_of (get w) (key_of x) = None then Some NotFound else None)
        (upd (remove key_of (key_of x))))\<rparr>"

definition settle_in :: "NamespacedName \<Rightarrow> Cluster option \<Rightarrow> Cluster list \<Rightarrow> Cluster list" where
  "settle_in k d xs = (case d of None \<Rightarrow> remove cluster_meta k xs | Some c \<Rightarrow> store cluster_meta c xs)"

definition patch_in :: "NamespacedName \<Rightarrow> Cluster \<Rightarrow> Cluster list \<Rightarrow> Cluster list" where
  "patch_in k d xs = settle_in k (patched d (lookup cluster_meta xs k)) xs"

definition patch_diff :: "Cluster \<Rightarrow> Cluster \<Rightarrow> Cluster list \<Rightarrow> Cluster list" where
  "patch_diff c d xs = (if d = c then xs else patch_in (cluster_meta c) d xs)"

definition mem_client :: "(mem \<Rightarrow> fault \<times> mem) \<Rightarrow> mem ctrl_client" where
  "mem_client nx =
     \<lparr>Clusters = mem_kind nx cluster_meta (\<lambda>x. x) m_clusters m_clusters_update,
      Secrets = mem_kind nx secret_meta secret_admit m_secrets m_secrets_update,
      ConfigMaps = mem_kind nx cm_meta (\<lambda>x. x) m_configmaps m_configmaps_update,
      Unstructureds = (\<lambda>_. mem_kind nx hr_meta (\<lambda>x. x) m_helmreleases m_helmreleases_update),
      Apps = mem_kind nx app_meta (\<lambda>x. x) m_apps m_apps_update,
      patch_NewHelper = (\<lambda>c. mem_read nx (\<lambda>w. Some ())),
      patch_Patch = (\<lambda>c d. mem_write nx
        (\<lambda>w. if lookup cluster_meta (m_clusters w) (cluster_meta c) = None then Some NotFound else None)
        (m_clusters_update (patch_diff c d)))\<rparr>"

section \<open>It keeps the contracts of the Kubernetes client\<close>

text \<open>How calls answer and how one kind of object sits in the world.\<close>

locale mem_calls =
  fixes nx :: "mem \<Rightarrow> fault \<times> mem"
  assumes nx_obs: "nx w = (f, w') \<Longrightarrow> mem_obs w' = mem_obs w"
    and nx_now: "nx w = (f, w') \<Longrightarrow> mem_now w \<le> mem_now w'"
begin

lemma mem_write_done:
  assumes "mem_write nx check effect w = (Inr u, w')"
  shows "\<exists>w1. mem_obs w1 = mem_obs w \<and> mem_now w \<le> mem_now w1 \<and> check w1 = None \<and> w' = effect w1"
  using assms nx_obs nx_now
  by (auto simp: mem_write_def split: prod.splits option.splits fault.splits) blast

lemma mem_write_failed:
  assumes "mem_write nx check effect w = (Inl e, w')"
  shows "\<exists>w1. mem_obs w1 = mem_obs w \<and> mem_now w \<le> mem_now w1 \<and>
    (check w1 = Some e \<and> w' = w1 \<or>
     check w1 = None \<and> (w' = w1 \<or> w' = effect w1 \<and> e = failure Lose) \<and> e \<in> range failure)"
  using assms nx_obs nx_now
  by (auto simp: mem_write_def split: prod.splits option.splits fault.splits) blast+

lemma mem_write_post:
  assumes run: "mem_write nx check effect w = (r, w')"
    and eff: "\<And>v. mem_obs (effect v) = F (mem_obs v)" "\<And>v. mem_now (effect v) = mem_now v"
  shows "mem_now w \<le> mem_now w'"
    and "r = Inr u \<Longrightarrow> mem_obs w' = F (mem_obs w) \<and> (\<exists>v. mem_obs v = mem_obs w \<and> check v = None)"
    and "r = Inl e \<Longrightarrow> effect_or_none F (mem_obs w) (mem_obs w') e"
    and "r = Inl e \<Longrightarrow> IsNotFound e \<Longrightarrow> \<exists>v. mem_obs v = mem_obs w \<and> check v = Some e"
proof -
  have good: "mem_now w \<le> mem_now w' \<and> mem_obs w' = F (mem_obs w) \<and> (\<exists>v. mem_obs v = mem_obs w \<and> check v = None)"
    if "r = Inr u" for u
    using mem_write_done [of check effect w u w'] run that eff by auto
  have failed: "mem_now w \<le> mem_now w' \<and> effect_or_none F (mem_obs w) (mem_obs w') e \<and>
      (IsNotFound e \<longrightarrow> (\<exists>v. mem_obs v = mem_obs w \<and> check v = Some e))" if "r = Inl e" for e
    using mem_write_failed [of check effect w e w'] run that eff
    by (auto simp: effect_or_none_def failure_def split: if_splits)
  show "mem_now w \<le> mem_now w'" using good failed by (cases r) auto
  show "r = Inr u \<Longrightarrow> mem_obs w' = F (mem_obs w) \<and> (\<exists>v. mem_obs v = mem_obs w \<and> check v = None)"
    using good by blast
  show "r = Inl e \<Longrightarrow> effect_or_none F (mem_obs w) (mem_obs w') e" using failed by blast
  show "r = Inl e \<Longrightarrow> IsNotFound e \<Longrightarrow> \<exists>v. mem_obs v = mem_obs w \<and> check v = Some e" using failed by blast
qed

lemma mem_read_post:
  assumes "mem_read nx find_it w = (r, w')"
  shows "mem_obs w' = mem_obs w" "mem_now w \<le> mem_now w'"
    "r = Inr x \<Longrightarrow> find_it w' = Some x"
    "r = Inl e \<Longrightarrow> e \<in> range failure \<or> e = NotFound \<and> find_it w' = None"
  using assms nx_obs nx_now
  by (auto simp: mem_read_def split: prod.splits option.splits if_splits)

end

lemma failure_not_NotFound [simp]: "IsNotFound (failure f) = False"
  by (simp add: failure_def)

locale mem_part = mem_calls +
  fixes key_of :: "'o \<Rightarrow> NamespacedName" and admit :: "'o \<Rightarrow> 'o"
    and get :: "mem \<Rightarrow> 'o list" and upd :: "('o list \<Rightarrow> 'o list) \<Rightarrow> mem \<Rightarrow> mem"
    and sel :: "world_obs \<Rightarrow> NamespacedName \<rightharpoonup> 'o"
    and put :: "((NamespacedName \<rightharpoonup> 'o) \<Rightarrow> (NamespacedName \<rightharpoonup> 'o)) \<Rightarrow> world_obs \<Rightarrow> world_obs"
  assumes admit_key: "key_of (admit x) = key_of x"
    and sel_obs: "sel (mem_obs w) = lookup key_of (get w)"
    and upd_obs: "lookup key_of (g (get w)) = h (lookup key_of (get w)) \<Longrightarrow> mem_obs (upd g w) = put h (mem_obs w)"
    and upd_now: "mem_now (upd g w) = mem_now w"
    and sel_put: "sel (put h s) = h (sel s)"
    and put_same: "h (sel s) = sel s \<Longrightarrow> put h s = s"
begin

lemma store_obs: "mem_obs (upd (store key_of (admit x)) w) = put (set_key (key_of x) (Some (admit x))) (mem_obs w)"
  by (rule upd_obs) (simp add: lookup_store admit_key)

lemma remove_obs: "mem_obs (upd (remove key_of k) w) = put (set_key k None) (mem_obs w)"
  by (rule upd_obs) (rule lookup_remove)

abbreviation part :: "('o, mem) kind_client" where
  "part \<equiv> mem_kind nx key_of admit get upd"

lemma part_runs:
  "Get part k = mem_read nx (\<lambda>w. sel (mem_obs w) k)"
  "Create part x = mem_write nx
     (\<lambda>w. if sel (mem_obs w) (key_of x) = None then None else Some (OtherError ''already exists''))
     (upd (store key_of (admit x)))"
  "Update part x = mem_write nx
     (\<lambda>w. if sel (mem_obs w) (key_of x) = None then Some NotFound else None) (upd (store key_of (admit x)))"
  "Delete part x = mem_write nx
     (\<lambda>w. if sel (mem_obs w) (key_of x) = None then Some NotFound else None) (upd (remove key_of (key_of x)))"
  by (simp_all add: mem_kind_def sel_obs)

sublocale cached_api part key_of admit mem_obs sel put mem_now
proof (unfold_locales, unfold part_runs, goal_cases)
  case (1 f s) show ?case by (rule sel_put)
next
  case (2 f s) then show ?case by (rule put_same)
next
  case 3 then show ?case by (rule mem_read_post(2))
next
  case 4 then show ?case by (rule mem_read_post(1))
next
  case (5 k w x w')
  have "sel (mem_obs w) k = Some x" using mem_read_post(1) [OF 5] mem_read_post(3) [OF 5 refl] by simp
  then show ?case unfolding sel_obs by (rule lookup_key)
next
  case 6 then show ?case by (rule mem_write_post(1) [OF _ store_obs upd_now])
next
  case (7 x w u w')
  then show ?case using mem_write_post(2) [OF 7 store_obs upd_now refl] by (auto split: if_splits)
next
  case 8 then show ?case by (rule mem_write_post(3) [OF _ store_obs upd_now refl])
next
  case 9 then show ?case by (rule mem_write_post(1) [OF _ store_obs upd_now])
next
  case (10 x w u w')
  then show ?case using mem_write_post(2) [OF 10 store_obs upd_now refl] by (auto split: if_splits)
next
  case 11 then show ?case by (rule mem_write_post(3) [OF _ store_obs upd_now refl])
next
  case 12 then show ?case by (rule mem_write_post(1) [OF _ remove_obs upd_now])
next
  case (13 x w u w')
  then show ?case using mem_write_post(2) [OF 13 remove_obs upd_now refl] by auto
next
  case 14 then show ?case by (rule mem_write_post(3) [OF _ remove_obs upd_now refl])
next
  case (15 x w e w')
  then show ?case using mem_write_post(4) [OF 15(1) remove_obs upd_now refl] by (auto split: if_splits)
qed

sublocale resource_api part key_of admit mem_obs sel put mem_now
proof (unfold_locales, unfold part_runs, goal_cases)
  case (1 k w x w')
  then show ?case using mem_read_post(1) [OF 1] mem_read_post(3) [OF 1 refl] by simp
next
  case (2 k w e w')
  then show ?case using mem_read_post(1) [OF 2(1)] mem_read_post(4) [OF 2(1) refl] by auto
qed

end

section \<open>Libraries and a reconciler in this world\<close>

definition fresh_name :: "token_map \<Rightarrow> string" where
  "fresh_name m = replicate (Suc (sum_list (map (length \<circ> fst) (entries m)))) (CHR ''a'')"

definition mem_teleport :: "mem Client" where
  "mem_teleport = FakeClient (\<lambda>es. es) m_fake m_fake_update"

definition mem_libs :: "(mem \<Rightarrow> fault \<times> mem) \<Rightarrow> mem libs" where
  "mem_libs nx =
     \<lparr>Now = mem_now, sha512 = (\<lambda>s. s), Unmarshal = ref_Unmarshal, lib_semver = ref_semver,
      lib_roles = ref_roles, lib_finalizers = ref_finalizers, NewProvisionToken = ref_NewProvisionToken,
      tc_New = (\<lambda>addrs identity n. mem_read nx (\<lambda>w. Some mem_teleport)),
      uuid_NewString = (\<lambda>w. (fresh_name (fake_tokens (m_fake w)), w))\<rparr>"

lemma mem_libs_simps [simp]:
  "Now (mem_libs nx) = mem_now" "Unmarshal (mem_libs nx) = ref_Unmarshal" "lib_semver (mem_libs nx) = ref_semver"
  "lib_roles (mem_libs nx) = ref_roles" "lib_finalizers (mem_libs nx) = ref_finalizers"
  "NewProvisionToken (mem_libs nx) = ref_NewProvisionToken"
  by (simp_all add: mem_libs_def)

lemma fresh_name_unused: "find_token m (fresh_name m) = None"
proof (rule ccontr)
  assume "find_token m (fresh_name m) \<noteq> None"
  then obtain t where "(fresh_name m, t) \<in> set (entries m)" by (auto simp: find_token_entries)
  then have "length (fresh_name m) \<in> set (map (length \<circ> fst) (entries m))" by force
  then have "length (fresh_name m) \<le> sum_list (map (length \<circ> fst) (entries m))" by (intro member_le_sum_list) simp_all
  then show False by (simp add: fresh_name_def)
qed

interpretation mem_fake: fake_world "\<lambda>es. es" m_fake m_fake_update mem_obs tokens tokens_update mem_now
  by unfold_locales (simp_all add: mem_obs_def mem_now_def)

lemma mem_teleport_client: "teleport_client mem_teleport mem_obs tokens tokens_update mem_now"
  unfolding mem_teleport_def by (rule mem_fake.teleport_client_axioms)

interpretation mem_generator: token_generator "NewGenerator (mem_libs nx)" mem_obs tokens mem_now for nx
  by unfold_locales
    (auto simp: NewGenerator_def RandomGenerator_def mem_libs_def mem_obs_def fresh_name_unused,
     simp add: fresh_name_def)

context mem_calls
begin

sublocale mem_secrets: mem_part nx secret_meta secret_admit m_secrets m_secrets_update secrets secrets_update
  by unfold_locales (simp_all add: secret_admit_def mem_obs_def mem_now_def)

sublocale mem_configmaps: mem_part nx cm_meta "\<lambda>x. x" m_configmaps m_configmaps_update configmaps configmaps_update
  by unfold_locales (simp_all add: mem_obs_def mem_now_def)

sublocale mem_helmreleases: mem_part nx hr_meta "\<lambda>x. x" m_helmreleases m_helmreleases_update helmreleases helmreleases_update
  by unfold_locales (simp_all add: mem_obs_def mem_now_def)

sublocale mem_apps: mem_part nx app_meta "\<lambda>x. x" m_apps m_apps_update apps apps_update
  by unfold_locales (simp_all add: mem_obs_def mem_now_def)

sublocale mem_clusters: mem_part nx cluster_meta "\<lambda>x. x" m_clusters m_clusters_update clusters clusters_update
  by unfold_locales (simp_all add: mem_obs_def mem_now_def)

lemma patch_obs:
  assumes "cluster_meta d = k"
  shows "mem_obs (m_clusters_update (patch_in k d) w) =
    clusters_update (\<lambda>m. set_key k (patched d (m k)) m) (mem_obs w)"
proof (rule mem_clusters.upd_obs)
  have "cluster_meta c = k" if "patched d (lookup cluster_meta (m_clusters w) k) = Some c" for c
    using that by (auto simp: patched_def settle_def split: option.splits if_splits dest: lookup_key)
  then show "lookup cluster_meta (patch_in k d (m_clusters w)) =
      set_key k (patched d (lookup cluster_meta (m_clusters w) k)) (lookup cluster_meta (m_clusters w))"
    by (auto simp: patch_in_def settle_in_def lookup_store lookup_remove split: option.split)
qed

lemma patch_diff_obs:
  assumes "finalizers_differ c d"
  shows "mem_obs (m_clusters_update (patch_diff c d) w) =
    clusters_update (\<lambda>m. set_key (cluster_meta c) (patched d (m (cluster_meta c))) m) (mem_obs w)"
proof -
  have "patch_diff c d = patch_in (cluster_meta c) d"
    using assms by (auto simp: patch_diff_def finalizers_differ_def fun_eq_iff)
  then show ?thesis using patch_obs [OF finalizers_differ_simps(1) [OF assms]] by simp
qed

lemma settle_now: "mem_now (m_clusters_update g w) = mem_now w"
  by (simp add: mem_now_def)

lemma mem_client_kinds [simp]:
  "Secrets (mem_client nx) = mem_secrets.part" "ConfigMaps (mem_client nx) = mem_configmaps.part"
  "HelmReleases (mem_client nx) = mem_helmreleases.part" "Apps (mem_client nx) = mem_apps.part"
  "Clusters (mem_client nx) = mem_clusters.part"
  by (simp_all add: mem_client_def HelmReleases_def)

lemma mem_patch:
  "patch_Patch (mem_client nx) c d = mem_write nx
     (\<lambda>w. if clusters (mem_obs w) (cluster_meta c) = None then Some NotFound else None)
     (m_clusters_update (patch_diff c d))"
  by (simp add: mem_client_def mem_obs_def)

lemma mem_cached_clusters:
  "cached_clusters (mem_client nx) mem_obs clusters clusters_update mem_now ref_finalizers"
proof (unfold_locales, goal_cases)
  case (1 f s) show ?case by simp
next
  case (2 f s) then show ?case by (rule mem_clusters.put_same)
next
  case (8 c d w r w')
  then show ?case unfolding mem_patch
    by (auto simp: mem_write_def settle_now split: prod.splits option.splits if_splits fault.splits dest: nx_now)
next
  case (9 c d w u w')
  show ?case using mem_write_post(2) [OF 9(1) [unfolded mem_patch] patch_diff_obs [OF 9(2)] settle_now refl] by (auto split: if_splits)
next
  case (10 c d w e w')
  show ?case
    using mem_write_post(3) [OF 10(1) [unfolded mem_patch] patch_diff_obs [OF 10(2)] settle_now refl]
    by (auto simp: effect_or_none_def patched_def set_key_same split: option.splits)
next
  case (11 c w r w')
  then show ?case unfolding mem_patch
    by (auto simp: mem_write_def patch_diff_def mem_obs_def split: prod.splits option.splits if_splits fault.splits dest!: nx_obs)
next
  case (12 c d w e w')
  then show ?case using mem_write_failed [OF 12(1) [unfolded mem_patch]] by (auto simp: failure_def split: if_splits)
qed (auto simp: mem_client_def mem_read_def dest: nx_obs nx_now intro: mem_clusters.Get_obs mem_clusters.Get_now
    mem_clusters.Get_key split: prod.splits if_splits)

lemma mem_cluster_store:
  "cluster_store (mem_client nx) mem_obs clusters clusters_update mem_now ref_finalizers"
  using mem_cached_clusters mem_clusters.Get_stored mem_clusters.Get_missing
  unfolding cluster_store_def cluster_store_axioms_def mem_client_kinds by blast

lemma mem_secret_store: "secret_store (mem_client nx) mem_obs secrets secrets_update mem_now"
  unfolding secret_store_def secret_writes_def mem_client_kinds
  using mem_secrets.cached_api_axioms mem_secrets.resource_api_axioms by simp

lemma mem_configmap_store: "configmap_store (mem_client nx) mem_obs configmaps configmaps_update mem_now"
  unfolding configmap_store_def configmap_writes_def mem_client_kinds
  using mem_configmaps.cached_api_axioms mem_configmaps.resource_api_axioms by simp

lemma mem_manager_store:
  "manager_store (mem_client nx) mem_obs helmreleases helmreleases_update (\<lambda>x. x) apps apps_update mem_now"
  unfolding manager_store_def cached_managers_def cached_managers_axioms_def mem_client_kinds
  using mem_helmreleases.cached_api_axioms mem_apps.cached_api_axioms
    mem_helmreleases.resource_api_axioms mem_apps.resource_api_axioms by simp

lemma mem_New:
  assumes "tc_New (mem_libs nx) addrs identity n w = (r, w')"
  shows "mem_obs w' = mem_obs w" "mem_now w \<le> mem_now w'" "r = Inr C \<Longrightarrow> C = mem_teleport"
  using assms mem_read_post [of "\<lambda>w. Some mem_teleport" w r w'] by (auto simp: mem_libs_def)

lemma mem_connecting: "connecting mem_obs (mem_libs nx)"
proof (intro connecting.intro connecting_axioms.intro, goal_cases)
  case 1 show ?case using ref_types.teleport_types_axioms by simp
next
  case (2 w) show ?case by (simp add: mem_now_def second_def)
next
  case (3 as f n w c w') then show ?case using mem_New(2) by simp
next
  case (4 as f n w c w') then show ?case using mem_New(1) by simp
next
  case 5 show ?case using mem_New(3) [OF 5 refl] mem_teleport_client by simp
qed

lemma mem_operator_env: "operator_env (mem_client nx) mem_obs (mem_libs nx) (\<lambda>x. x)"
  using mem_cluster_store mem_secret_store mem_configmap_store mem_manager_store
  by (simp add: operator_env_def cached_env_def cluster_store_def secret_store_def configmap_store_def manager_store_def)

sublocale mem: operator_world "mem_client nx" mem_obs "mem_libs nx" "\<lambda>x. x"
  using mem_operator_env mem_connecting by (rule operator_world.intro)

end

interpretation scripted: mem_calls scripted
  by unfold_locales (auto simp: scripted_def mem_obs_def mem_now_def second_def)

interpretation steady: mem_calls steady
  by unfold_locales (auto simp: steady_def mem_obs_def mem_now_def second_def)

text \<open>The reconciler as \<open>main\<close> sets it up, in this world.\<close>

definition mem_reconciler :: "(mem \<Rightarrow> fault \<times> mem) \<Rightarrow> Config \<Rightarrow> bool \<Rightarrow> string \<Rightarrow> mem ClusterReconciler" where
  "mem_reconciler nx cfg tbot ns = newReconciler (mem_libs nx) (mem_client nx) cfg tbot ns"

lemma mem_reconciler_ok:
  "reconciler_ok (mem_client nx) mem_obs (mem_libs nx) (mem_reconciler nx cfg tbot ns)"
  "client_or_stale (mem_libs nx) (mem_reconciler nx cfg tbot ns) w"
  using mem_generator.token_generator_axioms
  by (simp_all add: reconciler_ok_def mem_reconciler_def client_or_stale_def identityStale_def)

end
