(* ===== verification/Steady.thy ===== *)
theory Steady
  imports Reconciler
begin

text \<open>
  The steady state: a reconciliation of a cluster that is in order changes nothing, in
  any outcome, as long as its tokens stay valid until it ends.
\<close>

text \<open>The values rendered with any token of the cluster need no escaping in YAML.\<close>

definition plain_tokens :: "'w Teleport \<Rightarrow> string \<Rightarrow> string list \<Rightarrow> world_obs \<Rightarrow> bool" where
  "plain_tokens t reg roles s \<longleftrightarrow>
     (\<forall>tok p. tokens s tok = Some p \<longrightarrow> label p ''cluster'' = reg \<longrightarrow>
        plain_values tok (cfg_ProxyAddr (t_Config t)) reg (cfg_TeleportVersion (t_Config t)) roles)"

section \<open>Calls that let time pass\<close>

named_theorems advances_rules \<open>calls after which the clock is not behind\<close>

definition advances :: "('w \<Rightarrow> time) \<Rightarrow> ('w, 'a) action \<Rightarrow> bool" where
  "advances now m \<longleftrightarrow> (\<forall>w. wp m (\<lambda>_ w'. now w \<le> now w') w)"

lemma advancesI: "(\<And>w. wp m (P w) w) \<Longrightarrow> (\<And>w r w'. P w r w' \<Longrightarrow> now w \<le> now w') \<Longrightarrow> advances now m"
  unfolding advances_def by (blast intro: wp_mono)

lemma advances_return [advances_rules]: "advances now (returnE x)"
  by (simp add: advances_def wp_simps)

lemma advances_throw [advances_rules]: "advances now (throwE e)"
  by (simp add: advances_def wp_simps)

lemma advances_liftE [advances_rules]: "advances now (liftE r)"
  by (simp add: advances_def wp_simps)

lemma advances_bind [advances_rules]:
  assumes "advances now m" "\<And>x. advances now (f x)"
  shows "advances now (bindE m f)"
  unfolding advances_def
proof
  fix w
  show "wp (bindE m f) (\<lambda>_ w'. now w \<le> now w') w"
  proof (rule wp_bindEI [OF assms(1) [unfolded advances_def, rule_format]], goal_cases)
    case (1 x w1)
    from assms(2) [of x] have "wp (f x) (\<lambda>_ w'. now w1 \<le> now w') w1" by (simp add: advances_def)
    then show ?case by (rule wp_mono) (use 1 in simp)
  qed
qed

text \<open>
  Quiet until \<open>u\<close>: nothing has changed if the call ends by then.
\<close>

definition quiet :: "('w \<Rightarrow> 's) \<Rightarrow> ('w \<Rightarrow> time) \<Rightarrow> time \<Rightarrow> 'w \<Rightarrow> error + 'a \<Rightarrow> 'w \<Rightarrow> bool" where
  "quiet obs now u w r w' \<longleftrightarrow> now w \<le> now w' \<and> (now w' \<le> u \<longrightarrow> obs w' = obs w)"

lemma quiet_later: "quiet obs now u w1 r w' \<Longrightarrow> obs w1 = obs w \<Longrightarrow> now w \<le> now w1 \<Longrightarrow> quiet obs now u w r w'"
  by (auto simp: quiet_def)

lemma quiet_bind:
  assumes m: "wp m P w" and P: "\<And>r w1. P r w1 \<Longrightarrow> quiet obs now u w r w1"
    and f: "\<And>x. advances now (f x)"
    and cont: "\<And>x w1. P (Inr x) w1 \<Longrightarrow> obs w1 = obs w \<Longrightarrow> now w1 \<le> u \<Longrightarrow> wp (f x) (quiet obs now u w1) w1"
  shows "wp (bindE m f) (quiet obs now u w) w"
proof (rule wp_bindEI [OF m], goal_cases)
  case (1 x w1)
  then have q: "now w \<le> now w1" "now w1 \<le> u \<Longrightarrow> obs w1 = obs w" using P by (auto simp: quiet_def)
  show ?case
  proof (cases "now w1 \<le> u")
    case True
    with cont [OF 1] q show ?thesis by (auto elim!: wp_mono intro: quiet_later)
  next
    case False
    have "wp (f x) (\<lambda>_ w'. now w1 \<le> now w') w1" using f [of x] by (simp add: advances_def)
    then show ?thesis by (rule wp_mono) (use False q in \<open>auto simp: quiet_def\<close>)
  qed
next
  case (2 e w1)
  from P [OF 2] show ?case by (simp add: quiet_def)
qed

lemma quiet_return: "wp (returnE x) (quiet obs now u w) w"
  by (simp add: wp_simps quiet_def)

lemma quiet_step: "step_post obs now f w r w' \<Longrightarrow> f (obs w) = obs w \<Longrightarrow> quiet obs now u w r w'"
  by (auto simp: step_post_def quiet_def split: sum.splits)

section \<open>The blocks of Reconcile\<close>

context connected_env
begin

lemma advances_IsTokenValid [advances_rules]: "advances (Now L) (IsTokenValid L t reg tok tt)"
  by (rule advancesI [OF ts.wp_IsTokenValid]) (simp add: ts.unchanged_def)

lemma advances_GenerateToken [advances_rules]: "advances (Now L) (GenerateToken L t reg roles)"
  by (rule advancesI [OF ts.wp_GenerateToken]) simp

lemma advances_secret_writes [advances_rules]:
  "advances (Now L) (CreateSecret K c ns tok)" "advances (Now L) (UpdateSecret K c ns tok)"
  by (rule advancesI [OF se.wp_CreateSecret] advancesI [OF se.wp_UpdateSecret], simp add: step_post_def)+

lemma advances_UpdateConfigMap [advances_rules]: "advances (Now L) (UpdateConfigMap L t K cmap tok roles tka)"
proof (cases "registerNameFromConfigMap L cmap")
  case (Inl e)
  then show ?thesis by (simp add: cm.wp_UpdateConfigMap_malformed advances_throw)
next
  case (Inr reg)
  show ?thesis by (rule advancesI [OF cm.wp_UpdateConfigMap [OF Inr]]) (simp add: step_post_def)
qed

lemma advances_CreateConfigMap [advances_rules]: "advances (Now L) (CreateConfigMap L t K c ns reg tok roles tka)"
  by (rule advancesI [OF cm.wp_CreateConfigMap]) (simp add: step_post_def)

lemma advances_blocks [advances_rules]:
  assumes "r_Client r = K" "r_Teleport r = t"
  shows "advances (Now L) (reconcileSecret L r cl reg)" "advances (Now L) (reconcileKubeAgent r cl)"
    "advances (Now L) (reconcileBot r cl reg)"
    and "roles \<noteq> [] \<Longrightarrow> set roles \<subseteq> set known_roles \<Longrightarrow> advances (Now L) (reconcileConfigMap L r cl reg roles tka)"
  by (rule advancesI [OF wp_reconcileSecret [OF assms order_refl]], simp add: secret_post_def)
    (rule advancesI [OF wp_reconcileKubeAgent [OF assms]], simp add: step_post_def,
     rule advancesI [OF wp_reconcileBot [OF assms(1)]], simp add: bot_post_def,
     rule advancesI [OF wp_reconcileConfigMap [OF assms order_refl]], simp_all add: configmap_post_def)

lemma advances_version [advances_rules]:
  "advances (Now L) (GetTeleportKubeAgentVersion K (GetAppName c (cfg_AppName (t_Config t))) ns)"
  using wp_GetTeleportKubeAgentVersion [of "agent_key t c ns"]
  by (intro advancesI [where P = "\<lambda>w r w'. obs w' = obs w \<and> Now L w \<le> Now L w' \<and> (\<forall>v. r = Inr v \<longrightarrow>
    v = deployed_version (agent_key t c ns) (obs w))"]) (simp_all add: agent_key_def)

text \<open>The Secret is in order: its token is found valid and nothing is written.\<close>

lemma quiet_reconcileSecret:
  assumes r: "r_Client r = K" "r_Teleport r = t"
    and ready: "secret_ready (lib_roles L) u reg (clusterName cl) (clusterNamespace cl) (obs w)"
  shows "wp (reconcileSecret L r cl reg) (quiet obs (Now L) u w) w"
proof -
  obtain sec tok p where sec: "secrets (obs w) (secret_key (clusterName cl) (clusterNamespace cl)) = Some sec"
      "GetTokenFromSecret sec = Inr tok"
    and p: "tokens (obs w) tok = Some p" "GetName p = tok" "serves (lib_roles L) u reg [RoleNode] p"
    using ready by (auto simp: secret_ready_def)
  have parse: "ParseRoles RoleNode = Inr [RoleNode]" by (rule ParseRoles_role) (simp add: known_roles_def)
  have valid: "wp (bindE (IsTokenValid L t reg tok RoleNode) (\<lambda>v.
      if \<not> v then bindE (GenerateToken L t reg [RoleNode]) (UpdateSecret K (clusterName cl) (clusterNamespace cl))
      else returnE ())) (quiet obs (Now L) u w1) w1" if w1: "obs w1 = obs w" for w1
  proof (rule quiet_bind [OF ts.wp_IsTokenValid], goal_cases)
    case (1 r w') then show ?case by (simp add: quiet_def ts.unchanged_def)
  next
    case (2 x) show ?case by (cases x) (auto intro!: advances_rules)
  next
    case (3 x w2)
    have "serves (lib_roles L) (Now L w2) reg [RoleNode] p" using p(3) serves_mono 3(3) by blast
    moreover have "x \<longleftrightarrow> (\<exists>p. tokens (obs w) tok = Some p \<and> GetName p = tok \<and>
        serves (lib_roles L) (Now L w2) reg [RoleNode] p)"
      using 3(1) w1 parse by simp
    ultimately have "x" using p by blast
    then show ?case by (simp add: quiet_return)
  qed
  show ?thesis
    unfolding reconcileSecret_def Let_def r
  proof (rule quiet_bind [OF se.wp_GetSecret], goal_cases)
    case (1 r w') then show ?case by (simp add: quiet_def)
  next
    case (2 x) show ?case
      by (cases x) (auto intro!: advances_rules)
  next
    case (3 x w1)
    then have "x = Some sec" using sec by simp
    with valid 3 sec show ?case by simp
  qed
qed

text \<open>The ConfigMap is in order: it reads back as it was rendered.\<close>

lemma quiet_reconcileConfigMap:
  assumes r: "r_Client r = K" "r_Teleport r = t" and roles: "roles \<noteq> []" "set roles \<subseteq> set known_roles"
    and yaml: "yaml_values L"
    and plain: "plain_tokens t reg roles (obs w)"
    and ready: "configmap_ready L t u reg roles tka (clusterName cl) (clusterNamespace cl) (obs w)"
  shows "wp (reconcileConfigMap L r cl reg roles tka) (quiet obs (Now L) u w) w"
proof -
  obtain cmap tok p where cmap: "configmaps (obs w) (configmap_key t (clusterName cl) (clusterNamespace cl)) = Some cmap"
      "cm_Data cmap ''values'' = Some (getConfigMapData L t reg tok roles tka)"
    and p: "tokens (obs w) tok = Some p" "GetName p = tok" "serves (lib_roles L) u reg roles p"
    using ready by (auto simp: configmap_ready_def)
  have "rendered L t reg tok roles tka cmap" using cmap(2) plain p
    by (auto simp: rendered_def plain_tokens_def serves_def)
  then have tok: "GetTokenFromConfigMap L cmap = Inr tok" by (rule yaml_values.token_rendered [OF yaml])
  have valid: "wp (bindE (IsTokenValid L t reg tok (RolesToString roles)) (\<lambda>v.
      bindE (if \<not> v then GenerateToken L t reg roles else returnE tok) (\<lambda>wtok.
      if getConfigMapData L t reg tok roles tka = RenderConfigMapValues L t reg wtok roles tka then returnE ()
      else UpdateConfigMap L t K cmap wtok roles tka))) (quiet obs (Now L) u w1) w1" if w1: "obs w1 = obs w" for w1
  proof (rule quiet_bind [OF ts.wp_IsTokenValid], goal_cases)
    case (1 r w') then show ?case by (simp add: quiet_def ts.unchanged_def)
  next
    case (2 x) show ?case by (cases x) (auto intro!: advances_rules)
  next
    case (3 x w2)
    have "serves (lib_roles L) (Now L w2) reg roles p" using p(3) serves_mono 3(3) by blast
    moreover have "x \<longleftrightarrow> (\<exists>p. tokens (obs w) tok = Some p \<and> GetName p = tok \<and>
        serves (lib_roles L) (Now L w2) reg roles p)"
      using 3(1) w1 ParseRoles_Join [OF roles] by simp
    ultimately have "x" using p by blast
    then show ?case by (simp add: quiet_return RenderConfigMapValues_def)
  qed
  show ?thesis
    unfolding reconcileConfigMap_def Let_def r
  proof (rule quiet_bind [OF cm.wp_GetConfigMap], goal_cases)
    case (1 r w') then show ?case by (simp add: quiet_def)
  next
    case (2 x) show ?case
      by (cases x) (auto intro!: advances_rules)
  next
    case (3 x w1)
    then have "x = Some cmap" using cmap by simp
    with valid 3 tok cmap(2) show ?case by simp
  qed
qed

text \<open>The references are in place.\<close>

lemma ensure_effect_id: "ref_ready k c s \<Longrightarrow> mg.ensure_effect k c s = s"
  by (auto simp: ref_ready_def mg.ensure_effect_def mg.ensure_hr_def mg.ensure_app_def split: option.splits)

lemma create_effect_id: "configmaps s k \<noteq> None \<Longrightarrow> cm.create_effect k d s = s"
  by (auto simp: cm.create_effect_def)

lemma quiet_reconcileKubeAgent:
  assumes "r_Client r = K" "r_Teleport r = t"
    and "ref_ready (agent_key t (clusterName cl) (clusterNamespace cl))
      (GetConfigmapName (clusterName cl) (cfg_AppName (t_Config t))) (obs w)"
  shows "wp (reconcileKubeAgent r cl) (quiet obs (Now L) u w) w"
  by (rule wp_mono [OF wp_reconcileKubeAgent [OF assms(1,2)]])
    (rule quiet_step, assumption, rule ensure_effect_id [OF assms(3)])

lemma quiet_reconcileBot:
  assumes r: "r_Client r = K" and ready: "IsBotEnabled r \<Longrightarrow> bot_ready (clusterName cl) (obs w)"
  shows "wp (reconcileBot r cl reg) (quiet obs (Now L) u w) w"
proof (rule wp_mono [OF wp_reconcileBot [OF r]])
  fix res w'
  assume post: "bot_post (IsBotEnabled r) (clusterName cl) reg w res w'"
  show "quiet obs (Now L) u w res w'"
  proof (cases "IsBotEnabled r \<and> secrets (obs w) (kubeconfig_key (clusterName cl) TeleportBotNamespace) = None")
    case True
    then have "cm.create_effect (tbot_key (clusterName cl) TeleportBotNamespace) d (obs w) = obs w"
      "mg.ensure_effect bot_key (GetTbotConfigmapName (clusterName cl)) (obs w) = obs w" for d
      using ready by (auto simp: bot_ready_def intro: create_effect_id ensure_effect_id)
    with post show ?thesis by (simp add: bot_post_def bot_moves_def Let_def quiet_def)
  qed (use post in \<open>auto simp: bot_post_def quiet_def\<close>)
qed

lemma quiet_references:
  assumes r: "r_Client r = K" "r_Teleport r = t"
    and ready: "ref_ready (agent_key t (clusterName cl) (clusterNamespace cl))
       (GetConfigmapName (clusterName cl) (cfg_AppName (t_Config t))) (obs w)"
      "IsBotEnabled r \<Longrightarrow> bot_ready (clusterName cl) (obs w)"
  shows "wp (bindE (reconcileKubeAgent r cl) (\<lambda>_. bindE (reconcileBot r cl reg) (\<lambda>_. returnE x))) (quiet obs (Now L) u w) w"
proof (rule quiet_bind [OF quiet_reconcileKubeAgent [OF r ready(1), where u = u]], goal_cases)
  case 2 show ?case by (intro advances_rules advances_blocks [OF r])
next
  case w1: (3 y w1)
  show ?case
    by (rule quiet_bind [OF quiet_reconcileBot [OF r(1), where u = u]])
      (use ready(2) w1(2) in \<open>auto intro: advances_rules quiet_return\<close>)
qed

text \<open>From the version lookup on.\<close>

lemma quiet_values:
  assumes r: "r_Client r = K" "r_Teleport r = t" and roles: "roles \<noteq> []" "set roles \<subseteq> set known_roles"
    and yaml: "yaml_values L"
    and plain: "plain_tokens t reg roles (obs w)"
    and conv: "converged L r u cl reg roles (obs w)"
  shows "wp (bindE (GetTeleportKubeAgentVersion K (GetAppName (clusterName cl) (cfg_AppName (t_Config t)))
        (clusterNamespace cl)) (\<lambda>tka.
      bindE (reconcileConfigMap L r cl reg roles tka) (\<lambda>_. bindE (reconcileKubeAgent r cl) (\<lambda>_.
      bindE (reconcileBot r cl reg) (\<lambda>_. returnE x))))) (quiet obs (Now L) u w) w"
proof -
  let ?k = "agent_key t (clusterName cl) (clusterNamespace cl)"
  note adv = advances_rules advances_blocks [OF r] advances_blocks(4) [OF r roles]
  have ready: "configmap_ready L t u reg roles (deployed_version ?k (obs w)) (clusterName cl) (clusterNamespace cl) (obs w)"
    "ref_ready ?k (GetConfigmapName (clusterName cl) (cfg_AppName (t_Config t))) (obs w)"
    "IsBotEnabled r \<Longrightarrow> bot_ready (clusterName cl) (obs w)"
    using conv by (simp_all add: converged_def Let_def r)
  have ver: "wp (GetTeleportKubeAgentVersion K (GetAppName (clusterName cl) (cfg_AppName (t_Config t))) (clusterNamespace cl))
     (\<lambda>r w'. obs w' = obs w \<and> Now L w \<le> Now L w' \<and> (\<forall>v. r = Inr v \<longrightarrow> v = deployed_version ?k (obs w))) w"
    using wp_GetTeleportKubeAgentVersion [of ?k w] by (simp add: agent_key_def)
  show ?thesis
  proof (rule quiet_bind [OF ver], goal_cases)
    case (1 res w') then show ?case by (simp add: quiet_def)
  next
    case 2 show ?case by (intro adv)
  next
    case w1: (3 tka w1)
    then have cmr: "configmap_ready L t u reg roles tka (clusterName cl) (clusterNamespace cl) (obs w1)"
      using ready(1) by simp
    have plain1: "plain_tokens t reg roles (obs w1)" using plain w1(2) by simp
    show ?case
    proof (rule quiet_bind [OF quiet_reconcileConfigMap [OF r roles yaml plain1 cmr]], goal_cases)
      case 2 show ?case by (intro adv)
    next
      case w2: (3 z w2)
      show ?case by (rule quiet_references [OF r]) (use ready(2,3) w1(2) w2(2) in simp_all)
    qed
  qed
qed

lemma quiet_reconcileNormal:
  assumes r: "r_Client r = K" "r_Teleport r = t" and roles: "roles \<noteq> []" "set roles \<subseteq> set known_roles"
    and yaml: "yaml_values L"
    and plain: "plain_tokens t reg roles (obs w)"
    and cl: "clusters (obs w) (cluster_meta cl) = Some cl"
    and conv: "converged L r u cl reg roles (obs w)"
  shows "wp (reconcileNormal L r cl reg roles) (quiet obs (Now L) u w) w"
proof -
  note adv = advances_rules advances_blocks [OF r] advances_blocks(4) [OF r roles]
  have ready: "finalizer_ready (cluster_meta cl) (obs w)"
    "secret_ready (lib_roles L) u reg (clusterName cl) (clusterNamespace cl) (obs w)"
    using conv by (simp_all add: converged_def Let_def r)
  have fin: "finalizer_effect cl (obs w) = obs w"
    using ready(1) cl by (auto simp: finalizer_ready_def finalizer_effect_def)
  show ?thesis
    unfolding reconcileNormal_def r
  proof (rule quiet_bind [OF wp_ensureFinalizer [OF r(1) cl]], goal_cases)
    case (1 res w') then show ?case using fin by (rule quiet_step)
  next
    case 2 show ?case by (intro adv)
  next
    case w1: (3 x w1)
    show ?case
    proof (rule quiet_bind [OF quiet_reconcileSecret [OF r, where u = u and reg = reg and cl = cl]], goal_cases)
      case 1 show ?case using ready(2) w1(2) by simp
    next
      case 3 show ?case by (intro adv)
    next
      case w2: (4 y w2)
      show ?case by (rule quiet_values [OF r roles yaml]) (use plain conv w1(2) w2(2) in simp_all)
    qed
  qed
qed

end

section \<open>Reconcile in the steady state\<close>

context operator_world
begin

lemma Reconcile_quiet:
  assumes run: "Reconcile L req r w = ((res, r'), w')" and ok: "reconciler_ok K obs L r" "client_or_stale L r w"
    and yaml: "yaml_values L"
    and plain: "plain_tokens (r_Teleport r) (registerNameOf r cl) (rolesFor L cl (obs w)) (obs w)"
    and cl: "clusters (obs w) req = Some cl" "cluster_meta cl = req" "deletion_IsZero (DeletionTimestamp cl)"
    and conv: "converged L r u cl (registerNameOf r cl) (rolesFor L cl (obs w)) (obs w)"
    and time: "Now L w' \<le> u"
  shows "obs w' = obs w"
  using run ok(1)
proof (cases rule: Reconcile_cases)
  case (branch cl' w3)
  then have [simp]: "cl' = cl" using cl by simp
  obtain C where "TeleportClient (r_Teleport r') = Some C" using branch ok(2) by blast
  then have env: "connected_env K obs L app_admit C (r_Teleport r')" using branch connectedI by blast
  have r: "r_Client r' = K" using branch by (simp add: reconciler_ok_def)
  note same = rewired_fields [OF branch(5)]
  have plain3: "plain_tokens (r_Teleport r') (registerNameOf r cl) (rolesFor L cl (obs w)) (obs w3)"
    using plain branch(3) same by (simp add: plain_tokens_def)
  have "wp (reconcileNormal L r' cl (registerNameOf r cl) (rolesFor L cl (obs w))) (quiet obs (Now L) u w3) w3"
    using branch(1,3) cl conv same plain3
    by (intro connected_env.quiet_reconcileNormal [OF env r refl rolesFor_known yaml]) auto
  moreover have "reconcileNormal L r' cl (registerNameOf r cl) (rolesFor L cl (obs w)) w3 = (res, w')"
    using branch(8) cl(3) by simp
  ultimately have "quiet obs (Now L) u w3 res w'" by (rule wp_run)
  with time branch(3) show ?thesis by (simp add: quiet_def)
qed simp_all

end

end
