(* ===== verification/History.thy ===== *)
theory History
  imports Reconciler Startup
begin

text \<open>
  The reconciler over time: calls of \<open>Reconcile\<close>, for any request and with any outcome,
  interleaved with whatever others do to the world. The invariant is that the reconciler
  keeps its configuration and never uses a Teleport client that is not there.
\<close>

section \<open>Steps\<close>

type_synonym 'w state = "'w ClusterReconciler \<times> 'w"

text \<open>
  Others may change the world in any way; only the clock does not go back. The process may
  start in any world: so it does after a crash, wherever in a call that was.
\<close>

inductive operator_step :: "'w libs \<Rightarrow> 'w state \<Rightarrow> 'w state \<Rightarrow> bool" for L where
  reconcile: "Reconcile L req r w = ((res, r'), w') \<Longrightarrow> operator_step L (r, w) (r', w')"
| environment: "Now L w \<le> Now L w' \<Longrightarrow> operator_step L (r, w) (r, w')"

inductive reachable ::
    "'w libs \<Rightarrow> 'w ctrl_client \<Rightarrow> Config \<Rightarrow> bool \<Rightarrow> string \<Rightarrow> 'w state \<Rightarrow> bool" for L K cfg tbot ns where
  start: "reachable L K cfg tbot ns (newReconciler L K cfg tbot ns, w)"
| step: "reachable L K cfg tbot ns s \<Longrightarrow> operator_step L s s' \<Longrightarrow> reachable L K cfg tbot ns s'"

inductive_cases operator_stepE: "operator_step L (r, w) s"

inductive_simps operator_step_iff: "operator_step L (r, w) (r', w')"

section \<open>The invariant\<close>

definition state_ok ::
    "'w libs \<Rightarrow> ('w \<Rightarrow> world_obs) \<Rightarrow> 'w ctrl_client \<Rightarrow> Config \<Rightarrow> bool \<Rightarrow> string \<Rightarrow> 'w state \<Rightarrow> bool" where
  "state_ok L obs K cfg tbot ns s \<longleftrightarrow>
     (case s of (r, w) \<Rightarrow>
        reconciler_ok K obs L r \<and> client_or_stale L r w \<and>
        t_Config (r_Teleport r) = cfg \<and> IsBotEnabled r = tbot \<and> r_Namespace r = ns \<and>
        lastAssignedRoles r \<in> {[], [RoleKube], [RoleKube, RoleApp]})"

lemma rewired_roles:
  "rewired r r' \<Longrightarrow> lastAssignedRoles r' = lastAssignedRoles r \<or> (\<exists>b. lastAssignedRoles r' = assignedRoles b)"
  unfolding rewired_def by (elim disjE exE) (auto dest!: reconnected_fields(4))

lemma rewired_namespace: "rewired r r' \<Longrightarrow> r_Namespace r' = r_Namespace r"
  by (auto simp: rewired_def dest: reconnected_fields(3))

context cached_world
begin

lemma state_ok_step:
  assumes "operator_step L (r, w) s'" "state_ok L obs K cfg tbot ns (r, w)"
  shows "state_ok L obs K cfg tbot ns s'"
  using assms(1)
proof (elim operator_stepE)
  fix req res r' w'
  assume s': "s' = (r', w')" and run: "Reconcile L req r w = ((res, r'), w')"
  have r: "reconciler_ok K obs L r" "client_or_stale L r w" using assms(2) by (simp_all add: state_ok_def)
  note keeps = Reconcile_reconciler [OF run r(1)]
  then show ?thesis
    using assms(2) rewired_fields [OF keeps(2)] rewired_roles [OF keeps(2)] rewired_namespace [OF keeps(2)]
    by (auto simp: s' state_ok_def assignedRoles_def)
next
  fix w'
  assume "s' = (r, w')" "Now L w \<le> Now L w'"
  with assms(2) show ?thesis by (auto simp: state_ok_def client_or_stale_def intro: identityStale_later)
qed

lemma reachable_ok:
  assumes "token_generator (NewGenerator L) obs tokens (Now L)" "reachable L K cfg tbot ns s"
  shows "state_ok L obs K cfg tbot ns s"
  using assms(2)
proof (induction rule: reachable.induct)
  case (start w)
  show ?case using assms(1) by (simp add: state_ok_def reconciler_ok_def client_or_stale_def identityStale_def)
next
  case (step s s')
  then show ?case using state_ok_step by (cases s) blast
qed

end

end
