(* ===== verification/Runs.thy ===== *)
theory Runs
  imports Memory Steady History
begin

text \<open>
  Running the operator: rewrite rules that execute an action step by step in the
  in-memory environment, and the worlds in which the properties are exercised.
\<close>

section \<open>Symbolic execution\<close>

named_theorems run \<open>rules that execute an action\<close>

text \<open>The first call is executed before the rest is looked at.\<close>

lemma run_bind [run]:
  "m w = (Inr x, w1) \<Longrightarrow> bindE m f w = f x w1"
  "m w = (Inl e, w1) \<Longrightarrow> bindE m f w = (Inl e, w1)"
  by (simp_all add: bindE_def)

lemma run_try [run]:
  "m w = (Inr x, w1) \<Longrightarrow> tryE m h f w = f x w1"
  "m w = (Inl e, w1) \<Longrightarrow> tryE m h f w = h e w1"
  by (simp_all add: tryE_def)

lemma bind_cong: "bindE m f w = bindE m f w" by (rule refl)
lemma try_cong: "tryE m h f w = tryE m h f w" by (rule refl)

lemmas run_cong = bind_cong try_cong

lemma run_kind [run]:
  "Get (mem_kind nx key_of admit get upd) k w = mem_read nx (\<lambda>w. lookup key_of (get w) k) w"
  "Create (mem_kind nx key_of admit get upd) x w = mem_write nx
     (\<lambda>w. if lookup key_of (get w) (key_of x) = None then None else Some (OtherError ''already exists''))
     (upd (store key_of (admit x))) w"
  "Update (mem_kind nx key_of admit get upd) x w = mem_write nx
     (\<lambda>w. if lookup key_of (get w) (key_of x) = None then Some NotFound else None)
     (upd (store key_of (admit x))) w"
  "Delete (mem_kind nx key_of admit get upd) x w = mem_write nx
     (\<lambda>w. if lookup key_of (get w) (key_of x) = None then Some NotFound else None)
     (upd (remove key_of (key_of x))) w"
  by (simp_all add: mem_kind_def)

lemma run_client [run]:
  "Clusters (mem_client nx) = mem_kind nx cluster_meta (\<lambda>x. x) m_clusters m_clusters_update"
  "Secrets (mem_client nx) = mem_kind nx secret_meta secret_admit m_secrets m_secrets_update"
  "ConfigMaps (mem_client nx) = mem_kind nx cm_meta (\<lambda>x. x) m_configmaps m_configmaps_update"
  "HelmReleases (mem_client nx) = mem_kind nx hr_meta (\<lambda>x. x) m_helmreleases m_helmreleases_update"
  "Apps (mem_client nx) = mem_kind nx app_meta (\<lambda>x. x) m_apps m_apps_update"
  "patch_NewHelper (mem_client nx) c w = mem_read nx (\<lambda>w. Some ()) w"
  "patch_Patch (mem_client nx) c d w = mem_write nx
     (\<lambda>w. if lookup cluster_meta (m_clusters w) (cluster_meta c) = None then Some NotFound else None)
     (m_clusters_update (patch_diff c d)) w"
  by (simp_all add: mem_client_def HelmReleases_def)

lemma run_teleport [run]:
  "Ping mem_teleport w = on_part m_fake m_fake_update fake_Ping w"
  "GetTokens mem_teleport w = on_part m_fake m_fake_update (fake_GetTokens (\<lambda>es. es)) w"
  "UpsertToken mem_teleport p w = on_part m_fake m_fake_update (fake_UpsertToken p) w"
  "Client.DeleteToken mem_teleport n w = on_part m_fake m_fake_update (fake_DeleteToken n) w"
  by (simp_all add: mem_teleport_def FakeClient_def)

lemma run_libs [run]:
  "tc_New (mem_libs nx) a i n w = mem_read nx (\<lambda>w. Some mem_teleport) w"
  "uuid_NewString (mem_libs nx) w = (fresh_name (fake_tokens (m_fake w)), w)"
  "Generate (NewGenerator L) w = uuid_NewString L w"
  by (simp_all add: mem_libs_def NewGenerator_def RandomGenerator_def)

lemmas run_environment [run] = mem_read_def mem_write_def scripted_def steady_def lookup_def store_def remove_def
  patch_diff_def patch_in_def patched_def settle_in_def settle_def deletion_IsZero_def failure_def on_part_def fake_Ping_def fake_GetTokens_def
  fake_UpsertToken_def fake_DeleteToken_def NewTeleportClient_def mem_reconciler_def fresh_name_def
  put_token.rep_eq no_tokens.rep_eq delete_token.rep_eq secret_admit_def ref_finalizers_def
  ref_NewProvisionToken_def ref_roles_def

lemmas run_names [run] = TeleportBotSecretName_def Identity_def user_values_name_def GetSecretName_def
  GetConfigmapName_def GetKubeconfigSecretName_def GetTbotConfigmapName_def GetAppName_def GetRegisterName_def
  TeleportBotNamespace_def TeleportBotAppName_def TeleportOperatorFinalizer_def role_defs

lemmas run_code [run] = returnE_def throwE_def liftE_def Let_def Reconcile_def AreTeleportAppsEnabled_def
  refreshIdentity_def identityStale_def NewClient_def GetIdentityConfigFromSecret_def getSecretString_def
  reconcileNormal_def ensureFinalizer_def AddFinalizer_def ignoreNotFound_def reconcileSecret_def GetSecret_def
  GenerateToken_def with_client_def CreateSecret_def UpdateSecret_def GetTeleportKubeAgentVersion_def
  reconcileConfigMap_def GetConfigMap_def CreateConfigMap_def reconcileKubeAgent_def
  NewTeleportAppConfigManager_def helmRelease_EnsureConfig_def appCR_EnsureConfig_def noOp_defs reconcileBot_def
  GetKubeconfigSecret_def EnsureTbotConfigMap_def GetTbotConfigMap_def CreateTbotConfigMap_def
  values_configmap_def token_secret_def bare_secret_def clusterName_def clusterNamespace_def registerNameOf_def
  assignedRoles_def appendExtraConfig_def removeExtraConfig_def extra_config_def time_Add_def
  reconcileDelete_def Token.DeleteToken_def DeleteSecret_def DeleteConfigMap_def DeleteTbotConfigMap_def
  DeleteKubeconfigSecret_def helmRelease_DeleteConfig_def appCR_DeleteConfig_def RemoveFinalizer_def label_def IsZero_def

section \<open>Worlds\<close>

definition demo_config :: Config where
  "demo_config =
     \<lparr>cfg_ProxyAddr = ''127.0.0.1'', cfg_TeleportVersion = ''18.7.6'', cfg_ManagementClusterName = ''mc'',
      cfg_AppName = ''agent'', cfg_AppVersion = ''0.12.0'', cfg_AppCatalog = ''catalog''\<rparr>"

definition demo_key :: NamespacedName where
  "demo_key = \<lparr>Name = ''wc'', Namespace = ''org''\<rparr>"

definition demo_fake :: FakeTeleportClient where
  "demo_fake = NewTeleportClient
     \<lparr>FailsPing = False, FailsGet = False, FailsList = False, FailsCreate = False, FailsUpsert = False,
      FailsDelete = False, cfg_Tokens = []\<rparr>"

definition identity_object :: Secret where
  "identity_object =
     \<lparr>secret_meta = \<lparr>Name = ''identity-output'', Namespace = ''ns''\<rparr>, Data = [''identity'' \<mapsto> ''key''],
      StringData = Map.empty\<rparr>"

definition agent_app :: App where
  "agent_app =
     \<lparr>app_meta = \<lparr>Name = ''wc-agent'', Namespace = ''org''\<rparr>, Spec_Version = ''0.12.0'', ExtraConfigs = None\<rparr>"

text \<open>A new cluster with an agent App.\<close>

definition new_cluster :: Cluster where
  "new_cluster = \<lparr>cluster_meta = demo_key, Finalizers = [], DeletionTimestamp = None\<rparr>"

definition demo_world :: "fault list \<Rightarrow> mem" where
  "demo_world faults =
     \<lparr>m_clusters = [new_cluster], m_secrets = [identity_object], m_configmaps = [], m_helmreleases = [],
      m_apps = [agent_app], m_fake = demo_fake, m_clock = 0, m_faults = faults\<rparr>"

text \<open>A cluster that is being deleted, with what the operator had made for it.\<close>

definition old_cluster :: Cluster where
  "old_cluster = \<lparr>cluster_meta = demo_key, Finalizers = [TeleportOperatorFinalizer], DeletionTimestamp = Some 1\<rparr>"

definition gone_world :: "fault list \<Rightarrow> mem" where
  "gone_world faults =
     \<lparr>m_clusters = [old_cluster],
      m_secrets = [identity_object, stored_token_secret ''wc'' ''org'' ''tok''],
      m_configmaps = [values_configmap ''wc-agent-config'' ''org'' ''values''], m_helmreleases = [],
      m_apps = [agent_app\<lparr>ExtraConfigs := Some [extra_config ''wc-agent-config'' ''org'']\<rparr>],
      m_fake = demo_fake\<lparr>fake_tokens := put_token
        \<lparr>GetName = ''tok'', GetRoles = [''Node''], Expiry = 1, Labels = [''cluster'' \<mapsto> ''mc-wc'']\<rparr> no_tokens\<rparr>,
      m_clock = 0, m_faults = faults\<rparr>"

lemmas run_worlds [run] = demo_config_def demo_key_def demo_fake_def identity_object_def agent_app_def
  new_cluster_def demo_world_def old_cluster_def gone_world_def stored_token_secret_def

definition demo_run :: "(mem \<Rightarrow> fault \<times> mem) \<Rightarrow> mem \<Rightarrow> ((error + Result) \<times> mem ClusterReconciler) \<times> mem" where
  "demo_run nx w = Reconcile (mem_libs nx) demo_key (mem_reconciler nx demo_config True ''ns'') w"

lemma demo_creates: "fst (fst (demo_run scripted (demo_world []))) = Inr \<lparr>RequeueAfter = 5 * minute\<rparr>"
  unfolding demo_run_def by (simp add: run cong: run_cong)

lemma demo_deletes: "fst (fst (demo_run scripted (gone_world []))) = Inr noRequeue"
  unfolding demo_run_def by (simp add: run cong: run_cong)

lemma demo_released: "clusters (mem_obs (snd (demo_run scripted (gone_world [])))) demo_key = None"
  unfolding demo_run_def by (simp add: run mem_obs_def cong: run_cong)

text \<open>The server refuses the call that deletes the Secret.\<close>

lemma demo_refused:
  "fst (fst (demo_run scripted (gone_world [Answer, Answer, Answer, Answer, Refuse]))) \<noteq> Inr noRequeue"
  unfolding demo_run_def by (simp add: run cong: run_cong)

lemma demo_config_simps [simp]:
  "t_Config (r_Teleport (mem_reconciler nx cfg tbot ns)) = cfg"
  "cfg_AppName demo_config = ''agent''" "cfg_ProxyAddr demo_config = ''127.0.0.1''"
  "cfg_TeleportVersion demo_config = ''18.7.6''" "cfg_ManagementClusterName demo_config = ''mc''"
  by (simp_all add: mem_reconciler_def demo_config_def)

text \<open>A run, taken apart the way the properties mention it.\<close>

lemma demo_split:
  "fst (fst (demo_run nx w)) = res \<Longrightarrow>
   Reconcile (mem_libs nx) demo_key (mem_reconciler nx demo_config True ''ns'') w =
     ((res, snd (fst (demo_run nx w))), snd (demo_run nx w))"
  unfolding demo_run_def by (metis prod.collapse)

lemma demo_clusters:
  "clusters (mem_obs (demo_world faults)) demo_key = Some new_cluster"
  "clusters (mem_obs (gone_world faults)) demo_key = Some old_cluster"
  by (simp_all add: mem_obs_def lookup_def demo_world_def gone_world_def new_cluster_def old_cluster_def)

lemma demo_deletion [simp]:
  "cluster_meta new_cluster = demo_key" "cluster_meta old_cluster = demo_key"
  "deletion_IsZero (DeletionTimestamp new_cluster)" "\<not> deletion_IsZero (DeletionTimestamp old_cluster)"
  by (simp_all add: new_cluster_def old_cluster_def deletion_IsZero_def IsZero_def)

lemma demo_register:
  "registerNameOf (mem_reconciler nx demo_config tbot ns) cl = ''mc-wc''" if "cluster_meta cl = demo_key"
  using that by (simp add: registerNameOf_def mem_reconciler_def demo_config_def clusterName_def GetRegisterName_def demo_key_def)

lemma demo_roles: "rolesFor L new_cluster (mem_obs (demo_world faults)) = [''kube'']"
  by (simp add: rolesFor_def apps_wanted_def assignedRoles_def mem_obs_def demo_world_def lookup_def RoleKube_def)

lemma demo_register_kept: "register_kept L t reg c ns (mem_obs (demo_world faults))"
  by (simp add: register_kept_def mem_obs_def demo_world_def lookup_def)

lemmas demo_env = scripted.mem.operator_world_axioms mem_reconciler_ok

lemma demo_clock [simp]: "mem_now (demo_world faults) = second" "mem_now (gone_world faults) = second"
  by (simp_all add: mem_now_def demo_world_def gone_world_def)

section \<open>A cluster in order\<close>

definition demo_values :: string where
  "demo_values = GetConfigmapDataFromTemplate ref_semver ''aa'' ''127.0.0.1'' ''mc-wc'' ''18.7.6'' [''kube''] ''0.12.0''"

definition demo_token :: "string \<Rightarrow> string \<Rightarrow> ProvisionToken" where
  "demo_token name role =
     \<lparr>GetName = name, GetRoles = [role], Expiry = 720 * hour, Labels = [''cluster'' \<mapsto> ''mc-wc'']\<rparr>"

definition made_cluster :: Cluster where
  "made_cluster = \<lparr>cluster_meta = demo_key, Finalizers = [TeleportOperatorFinalizer], DeletionTimestamp = None\<rparr>"

definition made_world :: mem where
  "made_world =
     \<lparr>m_clusters = [made_cluster],
      m_secrets = [identity_object, stored_token_secret ''wc'' ''org'' ''a''],
      m_configmaps = [values_configmap ''wc-agent-config'' ''org'' demo_values,
                      values_configmap ''teleport-tbot-wc-config'' ''giantswarm'' ''outputs''],
      m_helmreleases = [],
      m_apps = [agent_app\<lparr>ExtraConfigs := Some [extra_config ''wc-agent-config'' ''org'']\<rparr>],
      m_fake = demo_fake\<lparr>fake_tokens := put_token (demo_token ''aa'' ''Kube'') (put_token (demo_token ''a'' ''Node'') no_tokens)\<rparr>,
      m_clock = 0, m_faults = []\<rparr>"

lemma made_values:
  "RenderConfigMapValues (mem_libs nx) t ''mc-wc'' ''aa'' [''kube''] ''0.12.0'' = demo_values"
  "getConfigMapData (mem_libs nx) t ''mc-wc'' ''aa'' [''kube''] ''0.12.0'' = demo_values"
  if "t_Config t = demo_config"
  using that by (simp_all add: RenderConfigMapValues_def getConfigMapData_def demo_values_def demo_config_def)

lemma demo_plain:
  "plain_values ''aa'' ''127.0.0.1'' ''mc-wc'' ''18.7.6'' [''kube'']" "plain_values ''a'' ''127.0.0.1'' ''mc-wc'' ''18.7.6'' [''kube'']"
  by code_simp+

lemma demo_yaml: "yaml_values (mem_libs nx)"
  using ref_yaml.yaml_lib_axioms by (simp add: yaml_values_def)

lemma made_token: "GetTokenFromConfigMap (mem_libs nx) (values_configmap n ns demo_values) = Inr ''aa''"
proof (rule yaml_values.token_rendered [OF demo_yaml])
  let ?t = "r_Teleport (mem_reconciler nx demo_config True ''ns'')"
  show "rendered (mem_libs nx) ?t ''mc-wc'' ''aa'' [''kube''] ''0.12.0'' (values_configmap n ns demo_values)"
    using demo_plain made_values(2) [of ?t]
    by (simp add: rendered_def)
qed

lemma demo_leaves [run]:
  "ParseRoles ''node'' = Inr [''node'']" "ParseRoles ''kube'' = Inr [''kube'']"
  "ToLower ''Node'' = ''node''" "ToLower ''Kube'' = ''kube''" "RolesToString [''kube''] = ''kube''"
  by code_simp+

lemma made_run: "fst (fst (demo_run scripted made_world)) = Inr \<lparr>RequeueAfter = 5 * minute\<rparr> \<and>
   mem_now (snd (demo_run scripted made_world)) \<le> hour"
  unfolding demo_run_def
  using made_token [of scripted "''wc-agent-config''" "''org''", unfolded values_configmap_def]
    made_values(1) [where nx = scripted]
  by (simp add: run made_world_def demo_token_def made_cluster_def IsTokenValid_def After_def GetTokenFromSecret_def
      mem_now_def hour_def minute_def second_def cong: run_cong)

lemma made_tokens:
  "tokens (mem_obs made_world) n =
     (if n = ''a'' then Some (demo_token ''a'' ''Node'') else if n = ''aa'' then Some (demo_token ''aa'' ''Kube'') else None)"
  by (simp add: mem_obs_def made_world_def demo_token_def demo_fake_def NewTeleportClient_def)

lemma made_clusters: "clusters (mem_obs made_world) demo_key = Some made_cluster"
  by (simp add: mem_obs_def lookup_def made_world_def made_cluster_def)

lemma made_deletion [simp]: "cluster_meta made_cluster = demo_key" "deletion_IsZero (DeletionTimestamp made_cluster)"
  by (simp_all add: made_cluster_def deletion_IsZero_def)

lemma made_roles: "rolesFor L made_cluster (mem_obs made_world) = [''kube'']"
  by (simp add: rolesFor_def apps_wanted_def assignedRoles_def mem_obs_def made_world_def lookup_def RoleKube_def
      made_cluster_def demo_key_def clusterName_def clusterNamespace_def user_values_name_def values_configmap_def)

lemma made_serves:
  "serves ref_roles hour ''mc-wc'' [RoleNode] (demo_token ''a'' ''Node'')"
  "serves ref_roles hour ''mc-wc'' [''kube''] (demo_token ''aa'' ''Kube'')"
  by (simp_all add: serves_def demo_token_def label_def RoleNode_def ref_roles_def demo_leaves hour_def minute_def second_def)

lemma made_converged:
  "converged (mem_libs nx) (mem_reconciler nx demo_config tbot ''ns'') hour made_cluster ''mc-wc'' [''kube''] (mem_obs made_world)"
proof -
  let ?s = "mem_obs made_world" and ?t = "r_Teleport (mem_reconciler nx demo_config tbot ''ns'')"
  have t: "t_Config ?t = demo_config" by simp
  have keys: "configmap_key ?t ''wc'' ''org'' = \<lparr>Name = ''wc-agent-config'', Namespace = ''org''\<rparr>"
    "agent_key ?t ''wc'' ''org'' = \<lparr>Name = ''wc-agent'', Namespace = ''org''\<rparr>"
    "GetConfigmapName ''wc'' ''agent'' = ''wc-agent-config''"
    by (simp_all add: configmap_key_def agent_key_def GetConfigmapName_def GetAppName_def)
  have ver: "deployed_version \<lparr>Name = ''wc-agent'', Namespace = ''org''\<rparr> ?s = ''0.12.0''"
    by (simp add: deployed_version_def mem_obs_def made_world_def lookup_def agent_app_def)
  have "finalizer_ready demo_key ?s"
    using made_clusters by (simp add: finalizer_ready_def made_cluster_def)
  moreover have "secret_ready ref_roles hour ''mc-wc'' ''wc'' ''org'' ?s"
  proof -
    have "secrets ?s (secret_key ''wc'' ''org'') = Some (stored_token_secret ''wc'' ''org'' ''a'')"
      by (simp add: mem_obs_def made_world_def lookup_def identity_object_def secret_key_def GetSecretName_def
          stored_token_secret_def secret_admit_def token_secret_def)
    then show ?thesis
      using GetTokenFromSecret_stored made_serves(1) by (auto simp: secret_ready_def made_tokens demo_token_def)
  qed
  moreover have "configmap_ready (mem_libs nx) ?t hour ''mc-wc'' [''kube''] ''0.12.0'' ''wc'' ''org'' ?s"
  proof -
    have "configmaps ?s (configmap_key ?t ''wc'' ''org'') = Some (values_configmap ''wc-agent-config'' ''org'' demo_values)"
      unfolding keys by (simp add: mem_obs_def made_world_def lookup_def)
    moreover have "tokens ?s ''aa'' = Some (demo_token ''aa'' ''Kube'')" "GetName (demo_token ''aa'' ''Kube'') = ''aa''"
      by (simp_all add: made_tokens demo_token_def)
    ultimately show ?thesis
      using made_serves(2) made_values(2) [OF t, of nx, symmetric] by (auto simp: configmap_ready_def)
  qed
  moreover have "ref_ready \<lparr>Name = ''wc-agent'', Namespace = ''org''\<rparr> ''wc-agent-config'' ?s"
    by (simp add: ref_ready_def mem_obs_def made_world_def lookup_def agent_app_def app_refs_def)
  moreover have "bot_ready ''wc'' ?s"
    by (simp add: bot_ready_def ref_ready_def bot_key_def mem_obs_def made_world_def lookup_def agent_app_def tbot_key_def
        GetTbotConfigmapName_def TeleportBotNamespace_def TeleportBotAppName_def values_configmap_def)
  ultimately show ?thesis
    by (simp add: converged_def Let_def made_cluster_def demo_key_def clusterName_def clusterNamespace_def keys ver)
qed

section \<open>Tokens\<close>

definition demo_teleport :: "mem Teleport" where
  "demo_teleport = (New ''ns'' demo_config (NewGenerator (mem_libs scripted)))\<lparr>TeleportClient := Some mem_teleport\<rparr>"

lemma run_demo_teleport [run]:
  "TeleportClient demo_teleport = Some mem_teleport"
  "TokenGenerator demo_teleport = NewGenerator (mem_libs scripted)" "t_Config demo_teleport = demo_config"
  by (simp_all add: demo_teleport_def New_def)

interpretation demo_service: token_service mem_teleport mem_obs tokens tokens_update "mem_libs scripted" demo_teleport
  using mem_teleport_client mem_generator.token_generator_axioms [of scripted] ref_types.teleport_types_axioms
  by (auto simp: token_service_def token_service_axioms_def run_demo_teleport mem_now_def second_def)

lemmas run_tokens [run] = IsTokenValid_def After_def GetTokenFromSecret_def demo_token_def made_world_def made_cluster_def

lemma demo_valid: "fst (IsTokenValid (mem_libs scripted) demo_teleport ''mc-wc'' ''aa'' ''kube'' made_world) = Inr True"
  by (simp add: run mem_now_def hour_def minute_def second_def cong: run_cong)

definition demo_made :: "(error + string) \<times> mem" where
  "demo_made = GenerateToken (mem_libs scripted) demo_teleport ''mc-wc'' [''kube''] (demo_world [])"

definition demo_checked :: "(error + bool) \<times> mem" where
  "demo_checked = IsTokenValid (mem_libs scripted) demo_teleport ''mc-wc'' ''a'' (RolesToString [''kube'']) (snd demo_made)"

lemma demo_generated: "fst demo_made = Inr ''a''" "fst demo_checked = Inr True" "mem_now (snd demo_checked) < second + hour"
  unfolding demo_made_def demo_checked_def
  by (simp_all add: run mem_now_def hour_def minute_def second_def TeleportKubeTokenValidity_def cong: run_cong)

lemma demo_deleted:
  "fst (Token.DeleteToken demo_teleport ''mc-wc'' made_world) = Inr ()"
  by (simp add: run cong: run_cong)

end
