(* ===== verification/References.thy ===== *)
theory References
  imports Operator
begin

text \<open>
  The abstract view of the app managers: a managed resource is its list of references, and
  ensuring and deleting the configuration insert into it and remove from it.
\<close>

section \<open>References to the ConfigMap\<close>

text \<open>
  The abstract state of a managed resource: its list of references, of the one kind or the
  other; a HelmRelease wins over an App.
\<close>

definition references :: "NamespacedName \<Rightarrow> world_obs \<Rightarrow> (iface list + AppExtraConfig list) option" where
  "references k s =
     (case helmreleases s k of
        Some hr \<Rightarrow> Some (Inl (hr_refs hr))
      | None \<Rightarrow> map_option (Inr \<circ> app_refs) (apps s k))"

text \<open>Apart from the resource itself nothing is different.\<close>

definition only_resource :: "NamespacedName \<Rightarrow> world_obs \<Rightarrow> world_obs \<Rightarrow> bool" where
  "only_resource k s s' \<longleftrightarrow>
     (\<exists>hrs as. s' = s\<lparr>helmreleases := hrs, apps := as\<rparr> \<and> agree_off {k} (helmreleases s) hrs \<and> agree_off {k} (apps s) as)"

lemma only_resource_refl [simp]: "only_resource k s s"
  unfolding only_resource_def by (intro exI [of _ "helmreleases s"] exI [of _ "apps s"]) simp

lemma only_resourceI:
  "only_resource k s (helmreleases_update (set_key k v) s)" "only_resource k s (apps_update (set_key k v') s)"
  unfolding only_resource_def
  by (intro exI [of _ "set_key k v (helmreleases s)"] exI [of _ "apps s"], simp add: agree_off_set_key)
    (intro exI [of _ "helmreleases s"] exI [of _ "set_key k v' (apps s)"], simp add: agree_off_set_key)

context operator_env
begin

lemma ensure_references:
  "references k (mg.ensure_effect k cm s) =
     map_option (map_sum (insert_ref (values_ref cm)) (insert_ref (extra_config cm (Namespace k)))) (references k s)"
  by (auto simp: references_def mg.ensure_effect_def mg.ensure_hr_def mg.ensure_app_def set_key_apply insert_ref_def
      mg.admit_refs split: option.split)

lemma remove_references:
  "references k (mg.remove_effect k cm s) =
     map_option (map_sum (remove_ref (values_ref cm)) (remove_ref (extra_config cm (Namespace k)))) (references k s)"
  by (auto simp: references_def mg.remove_effect_def mg.remove_hr_def mg.remove_app_def set_key_apply remove_ref_def
      mg.admit_refs filter_neq_id [symmetric] split: option.split)

lemma manager_only_resource:
  "only_resource k s (mg.ensure_effect k cm s)" "only_resource k s (mg.remove_effect k cm s)"
  by (auto simp: mg.ensure_effect_def mg.ensure_hr_def mg.ensure_app_def mg.remove_effect_def mg.remove_hr_def
      mg.remove_app_def only_resourceI split: option.split)

end


end
