(* ===== verification/Component_Properties.thy ===== *)
theory Component_Properties
  imports Runs References
begin

text \<open>
  The properties of the single components that depend on the environment, each with a run
  in the environment of theory \<open>Memory\<close> where its hypotheses hold.
\<close>

section \<open>Versions and values documents\<close>

text \<open>
  C36. The nested layout is chosen exactly for the chart versions from 0.11.0 on, with or
  without a leading v; what does not parse and pre-releases of 0.11.0 get the old layout too.
\<close>

theorem nested_layout_iff:
  assumes "semver_lib sv"
  shows "UsesNestedKubeAgentValues sv ver \<longleftrightarrow>
    (\<exists>v. NewVersion sv (TrimPrefix ver ''v'') = Inr v \<and> at_least v (release 0 11 0))"
  by (rule semver_lib.uses_nested_iff [OF assms])

lemma demo_version: "NewVersion ref_semver (TrimPrefix ''v0.12.3'' ''v'') = Inr (release 0 12 3)"
  by code_simp

theorem nested_layout_iff_witness: "UsesNestedKubeAgentValues ref_semver ''v0.12.3''"
  unfolding nested_layout_iff [OF ref_semver.semver_lib_axioms] using demo_version
  by (auto simp: at_least_def core_less_def release_def)

text \<open>
  C37. The version override of the nested block is the configured version or nothing, and
  nothing whenever the configured version is older than the one the chart bundles.
\<close>

theorem override_never_downgrades:
  assumes "semver_lib sv"
  shows "ResolveNestedTeleportVersionOverride sv ver =
    (if \<exists>v. NewVersion sv (TrimPrefix ver ''v'') = Inr v \<and> at_least v (release 18 7 6) then ver else '''')"
  using semver_lib.resolve_nested_eq [OF assms, of ver] by auto

theorem override_never_downgrades_witness:
  "ResolveNestedTeleportVersionOverride ref_semver ''v0.12.3'' = ''''"
  unfolding override_never_downgrades [OF ref_semver.semver_lib_axioms] using demo_version
  by (auto simp: at_least_def core_less_def core_eq_def release_def)

text \<open>
  C25. What the operator writes into a values ConfigMap it reads back: the token, the
  register name and the version override, and the layout is up to date for another chart
  version exactly when that version has the same layout.
\<close>

theorem values_roundtrip:
  assumes "yaml_values L" "rendered L t reg tok roles tka cm" "reg \<noteq> ''''"
  shows "GetTokenFromConfigMap L cm = Inr tok \<and> registerNameFromConfigMap L cm = Inr reg \<and>
    GetTeleportVersionFromConfigMap L cm =
      Inr (ResolveNestedTeleportVersionOverride (lib_semver L) (cfg_TeleportVersion (t_Config t))) \<and>
    IsConfigMapLayoutUpToDate L cm ver =
      Inr (UsesNestedKubeAgentValues (lib_semver L) ver \<longleftrightarrow> UsesNestedKubeAgentValues (lib_semver L) tka)"
  using yaml_values.token_rendered [OF assms(1,2)] yaml_values.register_rendered [OF assms]
    yaml_values.version_rendered [OF assms(1,2)] yaml_values.layout_rendered [OF assms(1,2)]
  by simp

lemma demo_rendered: "rendered (mem_libs nx) demo_teleport ''mc-wc'' ''aa'' [''kube''] ''0.12.0'' (values_configmap n ns demo_values)"
  using demo_plain made_values(2) [of demo_teleport] by (simp add: rendered_def run_demo_teleport)

theorem values_roundtrip_witness:
  "GetTokenFromConfigMap (mem_libs scripted) (values_configmap ''n'' ''ns'' demo_values) = Inr ''aa''"
  using values_roundtrip [OF demo_yaml demo_rendered] by simp

section \<open>Configuration and start-up\<close>

text \<open>
  C38. The configuration loads exactly when the ConfigMap has all six keys, in its data or
  its binary data, and then has their values; otherwise loading is an error.
\<close>

theorem config_loads_iff:
  assumes "Get (ConfigMaps K) \<lparr>Name = ''teleport-operator'', Namespace = ns\<rparr> w = (Inr cm, w')"
  shows "(GetConfigFromConfigMap K ns w = (Inr cfg, w') \<longleftrightarrow>
      (\<exists>f. cfg = config_of f \<and> (\<forall>k \<in> set config_keys. getConfigMapString cm k = Inr (f k)))) \<and>
    ((\<exists>e. GetConfigFromConfigMap K ns w = (Inl e, w')) \<longleftrightarrow>
      (\<exists>k \<in> set config_keys. cm_Data cm k = None \<and> BinaryData cm k = None))"
proof -
  note load = GetConfigFromConfigMap_run [where K = K and ns = ns, unfolded TeleportOperatorConfigName_def, OF assms]
  show ?thesis
  proof (cases "\<exists>k \<in> set config_keys. cm_Data cm k = None \<and> BinaryData cm k = None")
    case True
    then obtain k e where k: "k \<in> set config_keys" "getConfigMapString cm k = Inl e"
      using getConfigMapString_Inl_iff by metis
    from load(2) [OF this] obtain e' where e': "GetConfigFromConfigMap K ns w = (Inl e', w')" ..
    have no: "\<nexists>f. cfg = config_of f \<and> (\<forall>k \<in> set config_keys. getConfigMapString cm k = Inr (f k))"
      using k by force
    show ?thesis unfolding e' using True no by simp
  next
    case False
    then have "\<forall>k \<in> set config_keys. \<exists>v. getConfigMapString cm k = Inr v"
      using getConfigMapString_Inl_iff by (metis sum.exhaust_sel)
    then obtain f where f: "\<forall>k \<in> set config_keys. getConfigMapString cm k = Inr (f k)" by metis
    have "(\<exists>g. cfg = config_of g \<and> (\<forall>k \<in> set config_keys. getConfigMapString cm k = Inr (g k))) \<longleftrightarrow>
        cfg = config_of f"
      using f by (auto simp: config_of_def config_keys_def)
    with False show ?thesis unfolding load(1) [OF f] by simp blast
  qed
qed

definition config_world :: mem where
  "config_world = (demo_world [])\<lparr>m_configmaps := [\<lparr>cm_meta = \<lparr>Name = ''teleport-operator'', Namespace = ''ns''\<rparr>,
     cm_Data = [''proxyAddr'' \<mapsto> ''127.0.0.1'', ''teleportVersion'' \<mapsto> ''18.7.6''], BinaryData = Map.empty\<rparr>]\<rparr>"

theorem config_loads_iff_witness:
  "\<exists>e. GetConfigFromConfigMap (mem_client steady) ''ns'' config_world = (Inl e, snd (steady config_world))"
proof -
  have "Get (ConfigMaps (mem_client steady)) \<lparr>Name = ''teleport-operator'', Namespace = ''ns''\<rparr> config_world =
      (Inr (hd (m_configmaps config_world)), snd (steady config_world))"
    by (simp add: mem_client_def mem_kind_def mem_read_def steady_def config_world_def lookup_def)
  from config_loads_iff [OF this] show ?thesis
    by (simp add: config_world_def config_keys_def ManagementClusterName_def ProxyAddr_def)
qed

section \<open>Secrets\<close>

text \<open>
  The join token written into a Secret, new or updated, is the one read back from it,
  and no other Secret is touched.
\<close>

theorem secret_roundtrip:
  assumes "secret_store K obs sel upd now"
    and "CreateSecret K c ns tok w = (Inr u, w1) \<or> UpdateSecret K c ns tok w = (Inr u, w1)"
    and "GetSecret K c ns w1 = (Inr x, w2)"
  shows "(\<exists>s. x = Some s \<and> GetTokenFromSecret s = Inr tok) \<and> agree_off {secret_key c ns} (sel (obs w)) (sel (obs w2))"
proof -
  have "obs w1 = upd (set_key (secret_key c ns) (Some (stored_token_secret c ns tok))) (obs w)"
    using assms(2)
    by (auto simp: step_post_def dest: wp_run [OF secret_writes.wp_CreateSecret [OF secret_store.axioms(1) [OF assms(1)]]]
        wp_run [OF secret_writes.wp_UpdateSecret [OF secret_store.axioms(1) [OF assms(1)]]])
  moreover from assms(1) have "sel (upd f s) = f (sel s)" for f s
    unfolding secret_store_def secret_writes_def by (blast intro: cached_api.sel_upd)
  ultimately show ?thesis
    using wp_run [OF secret_store.wp_GetSecret [OF assms(1)] assms(3)] GetTokenFromSecret_stored
    by (auto simp: set_key_apply agree_off_def)
qed

lemma demo_secret: "CreateSecret (mem_client steady) ''wc'' ''org'' ''tok'' (demo_world []) =
    (Inr (), snd (CreateSecret (mem_client steady) ''wc'' ''org'' ''tok'' (demo_world [])))"
  "GetSecret (mem_client steady) ''wc'' ''org'' (snd (CreateSecret (mem_client steady) ''wc'' ''org'' ''tok'' (demo_world []))) =
    (Inr (Some (stored_token_secret ''wc'' ''org'' ''tok'')), 
     snd (GetSecret (mem_client steady) ''wc'' ''org'' (snd (CreateSecret (mem_client steady) ''wc'' ''org'' ''tok'' (demo_world [])))))"
  by (simp_all add: run steady_def cong: run_cong)

theorem secret_roundtrip_witness: "GetTokenFromSecret (stored_token_secret ''wc'' ''org'' ''tok'') = Inr ''tok''"
  using secret_roundtrip [OF steady.mem.se.secret_store_axioms disjI1 [OF demo_secret(1)] demo_secret(2)] by simp

section \<open>ConfigMaps\<close>

text \<open>
  C28. Creating the values ConfigMap never overwrites one: after success there is the one
  that was there before or, where there was none, one with the rendered values; nothing
  else is touched.
\<close>

theorem configmap_created:
  assumes "configmap_store K obs sel upd now" "CreateConfigMap L t K c ns reg tok roles tka w = (Inr u, w')"
  shows "agree_off {configmap_key t c ns} (sel (obs w)) (sel (obs w')) \<and>
    (\<exists>cm. sel (obs w') (configmap_key t c ns) = Some cm \<and>
       (sel (obs w) (configmap_key t c ns) = Some cm \<or>
        sel (obs w) (configmap_key t c ns) = None \<and>
        cm_Data cm = [''values'' \<mapsto> RenderConfigMapValues L t reg tok roles tka]))"
proof -
  from assms(1) have su: "sel (upd f s) = f (sel s)" for f s
    unfolding configmap_store_def configmap_writes_def by (blast intro: cached_api.sel_upd)
  let ?k = "configmap_key t c ns"
  have "obs w' = configmap_store.create_effect sel upd ?k (getConfigMapData L t reg tok roles tka) (obs w)"
    using wp_run [OF configmap_store.wp_CreateConfigMap [OF assms(1)] assms(2)] by (simp add: step_post_def)
  then show ?thesis
    by (cases "sel (obs w) ?k")
      (simp_all add: configmap_store.create_effect_def [OF assms(1)] su set_key_apply agree_off_def
        values_configmap_def RenderConfigMapValues_def)
qed

theorem configmap_created_witness:
  "\<exists>cm. configmaps (mem_obs (snd (CreateConfigMap (mem_libs steady) demo_teleport (mem_client steady) ''wc'' ''org'' ''mc-wc''
     ''aa'' [''kube''] ''0.12.0'' (demo_world [])))) (configmap_key demo_teleport ''wc'' ''org'') = Some cm"
proof -
  have "CreateConfigMap (mem_libs steady) demo_teleport (mem_client steady) ''wc'' ''org'' ''mc-wc'' ''aa'' [''kube''] ''0.12.0''
      (demo_world []) = (Inr (), snd (CreateConfigMap (mem_libs steady) demo_teleport (mem_client steady) ''wc'' ''org''
        ''mc-wc'' ''aa'' [''kube''] ''0.12.0'' (demo_world [])))"
    by (simp add: run steady_def cong: run_cong)
  from configmap_created [OF steady.mem.cm.configmap_store_axioms this] show ?thesis by blast
qed

lemma update_configmap_stored:
  assumes "configmap_store K obs sel upd now" "registerNameFromConfigMap L cm = Inr reg"
    and "UpdateConfigMap L t K cm tok roles tka w = (Inr u, w')"
  shows "sel (obs w') = (sel (obs w))(cm_meta cm \<mapsto>
    cm\<lparr>cm_Data := (cm_Data cm)(''values'' \<mapsto> getConfigMapData L t reg tok roles tka)\<rparr>)"
proof -
  from assms(1) have su: "sel (upd f s) = f (sel s)" for f s
    unfolding configmap_store_def configmap_writes_def by (blast intro: cached_api.sel_upd)
  show ?thesis
    using wp_run [OF configmap_writes.wp_UpdateConfigMap [OF configmap_store.axioms(1) [OF assms(1)] assms(2)] assms(3)]
    by (auto simp: step_post_def su set_key_def rewritten_def)
qed


definition demo_updated :: "(error + unit) \<times> mem" where
  "demo_updated = UpdateConfigMap (mem_libs steady) demo_teleport (mem_client steady)
     (values_configmap ''wc-agent-config'' ''org'' demo_values) ''a'' [''kube''] ''0.12.0'' made_world"

lemma demo_register_stored: "registerNameFromConfigMap (mem_libs nx) (values_configmap n ns demo_values) = Inr ''mc-wc''"
  by (rule yaml_values.register_rendered [OF demo_yaml demo_rendered]) simp

lemma demo_update: "demo_updated = (Inr (), snd demo_updated)"
  unfolding demo_updated_def UpdateConfigMap_def demo_register_stored liftE_Inr
  by (simp add: run made_world_def steady_def cong: run_cong)


text \<open>
  C27. A values ConfigMap written for another register name is never put right: after a
  successful update its values still differ from the rendered ones for the cluster's own
  name, whatever the token, roles and chart version. The next reconciliation updates again.
\<close>

theorem register_drift_persists:
  assumes "configmap_store K obs sel upd now" "yaml_values L"
    and "registerNameFromConfigMap L cm = Inr reg'" "reg' \<noteq> reg"
    and "plain_values tok (cfg_ProxyAddr (t_Config t)) reg' (cfg_TeleportVersion (t_Config t)) roles"
    and "UpdateConfigMap L t K cm tok roles tka w = (Inr u, w')"
    and "plain_values tok' (cfg_ProxyAddr (t_Config t)) reg (cfg_TeleportVersion (t_Config t)) roles'"
  shows "\<exists>cm'. sel (obs w') (cm_meta cm) = Some cm' \<and>
    cm_Data cm' ''values'' \<noteq> Some (RenderConfigMapValues L t reg tok' roles' tka')"
proof -
  let ?cm = "cm\<lparr>cm_Data := (cm_Data cm)(''values'' \<mapsto> getConfigMapData L t reg' tok roles tka)\<rparr>"
  have nonempty: "reg' \<noteq> ''''" using assms(3) by (auto simp: registerNameFromConfigMap_def split: sum.splits option.splits if_splits)
  have "rendered L t reg' tok roles tka ?cm" using assms(5) by (simp add: rendered_def)
  note stored = yaml_values.parse_rendered [OF assms(2) this]
  have "\<not> rendered L t reg tok' roles' tka' ?cm"
  proof
    assume "rendered L t reg tok' roles' tka' ?cm"
    note yaml_values.parse_rendered [OF assms(2) this]
    with stored have "block_map (values_entries tok (cfg_ProxyAddr (t_Config t)) reg'
        (ResolveNestedTeleportVersionOverride (lib_semver L) (cfg_TeleportVersion (t_Config t))) roles) =
      block_map (values_entries tok' (cfg_ProxyAddr (t_Config t)) reg
        (ResolveNestedTeleportVersionOverride (lib_semver L) (cfg_TeleportVersion (t_Config t))) roles')" by simp
    from arg_cong [OF this, of "\<lambda>m. fmlookup m ''kubeClusterName''"] assms(4) show False
      by (simp add: values_entries_lookup)
  qed
  then have "cm_Data ?cm ''values'' \<noteq> Some (RenderConfigMapValues L t reg tok' roles' tka')"
    using assms(7) by (simp add: rendered_def RenderConfigMapValues_def)
  with update_configmap_stored [OF assms(1,3,6)] show ?thesis by simp
qed

lemma demo_plain_other: "plain_values ''a'' ''127.0.0.1'' ''other'' ''18.7.6'' [''kube'']"
  by code_simp

theorem register_drift_persists_witness:
  "\<exists>cm. configmaps (mem_obs (snd demo_updated)) \<lparr>Name = ''wc-agent-config'', Namespace = ''org''\<rparr> = Some cm \<and>
     cm_Data cm ''values'' \<noteq> Some (RenderConfigMapValues (mem_libs steady) demo_teleport ''other'' ''a'' [''kube''] ''0.12.0'')"
  using register_drift_persists [OF steady.mem.cm.configmap_store_axioms demo_yaml demo_register_stored _ _
      demo_update [unfolded demo_updated_def], of "''other''" "''a''" "[''kube'']" "''0.12.0''"]
    demo_plain(2) demo_plain_other
  unfolding demo_updated_def by (simp add: run_demo_teleport)

section \<open>References to a ConfigMap\<close>

text \<open>
  C29. Detecting the manager of a resource and ensuring its configuration refines adding a
  reference to a set kept as a list: after success the references are the ones before with
  the new one at the end, unless it was there; with no resource there is nothing to do, and
  nothing else changes.
\<close>

theorem ensure_refines:
  assumes "operator_env K obs L app_admit"
    and "bindE (NewTeleportAppConfigManager K (Name k) (Namespace k) cm) EnsureConfig w = (Inr u, w')"
  shows "references k (obs w') =
      map_option (map_sum (insert_ref (values_ref cm)) (insert_ref (extra_config cm (Namespace k)))) (references k (obs w)) \<and>
    only_resource k (obs w) (obs w')"
proof -
  have "manager_store K obs helmreleases helmreleases_update app_admit apps apps_update (Now L)"
    using assms(1) by (simp add: operator_env_def)
  from wp_run [OF manager_store.wp_manager_EnsureConfig [OF this] assms(2)] show ?thesis
    using operator_env.ensure_references [OF assms(1)] operator_env.manager_only_resource(1) [OF assms(1)]
    by (simp add: step_post_def)
qed

lemma demo_ensure:
  "bindE (NewTeleportAppConfigManager (mem_client steady) (Name \<lparr>Name = ''wc-agent'', Namespace = ''org''\<rparr>)
      (Namespace \<lparr>Name = ''wc-agent'', Namespace = ''org''\<rparr>) ''x'') EnsureConfig (demo_world []) =
   (Inr (), snd (bindE (NewTeleportAppConfigManager (mem_client steady) ''wc-agent'' ''org'' ''x'') EnsureConfig (demo_world [])))"
  by (simp add: run steady_def cong: run_cong)

theorem ensure_refines_witness:
  "references \<lparr>Name = ''wc-agent'', Namespace = ''org''\<rparr> (mem_obs (snd (bindE (NewTeleportAppConfigManager (mem_client steady)
     ''wc-agent'' ''org'' ''x'') EnsureConfig (demo_world [])))) = Some (Inr [extra_config ''x'' ''org''])"
  using ensure_refines [OF steady.mem.operator_env_axioms demo_ensure]
  by (simp add: references_def insert_ref_def mem_obs_def demo_world_def lookup_def agent_app_def app_refs_def)

text \<open>
  C30. Deleting the configuration refines removing the reference, every copy of it: what
  remains keeps its order, and nothing else changes.
\<close>

theorem delete_refines:
  assumes "operator_env K obs L app_admit"
    and "bindE (NewTeleportAppConfigManager K (Name k) (Namespace k) cm) DeleteConfig w = (Inr u, w')"
  shows "references k (obs w') =
      map_option (map_sum (remove_ref (values_ref cm)) (remove_ref (extra_config cm (Namespace k)))) (references k (obs w)) \<and>
    only_resource k (obs w) (obs w')"
proof -
  have "manager_store K obs helmreleases helmreleases_update app_admit apps apps_update (Now L)"
    using assms(1) by (simp add: operator_env_def)
  from wp_run [OF manager_store.wp_manager_DeleteConfig [OF this] assms(2)] show ?thesis
    using operator_env.remove_references [OF assms(1)] operator_env.manager_only_resource(2) [OF assms(1)]
    by (simp add: step_post_def)
qed

theorem delete_refines_witness:
  "references \<lparr>Name = ''wc-agent'', Namespace = ''org''\<rparr> (mem_obs (snd (bindE (NewTeleportAppConfigManager (mem_client steady)
     ''wc-agent'' ''org'' ''wc-agent-config'') DeleteConfig (gone_world [])))) = Some (Inr [])"
proof -
  have "bindE (NewTeleportAppConfigManager (mem_client steady) (Name \<lparr>Name = ''wc-agent'', Namespace = ''org''\<rparr>)
      (Namespace \<lparr>Name = ''wc-agent'', Namespace = ''org''\<rparr>) ''wc-agent-config'') DeleteConfig (gone_world []) =
    (Inr (), snd (bindE (NewTeleportAppConfigManager (mem_client steady) ''wc-agent'' ''org'' ''wc-agent-config'') DeleteConfig
      (gone_world [])))"
    by (simp add: run steady_def cong: run_cong)
  from delete_refines [OF steady.mem.operator_env_axioms this] show ?thesis
    by (simp add: references_def remove_ref_def mem_obs_def gone_world_def lookup_def agent_app_def app_refs_def)
qed

text \<open>
  C31. Ensuring a reference that was not there and then deleting it gives back the list of
  references as it was.
\<close>

theorem ensure_delete_restores:
  assumes "operator_env K obs L app_admit"
    and "bindE (NewTeleportAppConfigManager K (Name k) (Namespace k) cm) EnsureConfig w = (Inr u, w1)"
    and "bindE (NewTeleportAppConfigManager K (Name k) (Namespace k) cm) DeleteConfig w1 = (Inr u', w2)"
    and "ref_absent k cm (obs w)"
  shows "references k (obs w2) = references k (obs w)"
proof -
  have "manager_store K obs helmreleases helmreleases_update app_admit apps apps_update (Now L)"
    using assms(1) by (simp add: operator_env_def)
  from wp_run [OF manager_store.wp_manager_EnsureConfig [OF this] assms(2)]
    wp_run [OF manager_store.wp_manager_DeleteConfig [OF this] assms(3)] show ?thesis
    using operator_env.ensure_references [OF assms(1)] operator_env.remove_references [OF assms(1)] assms(4)
    by (auto simp: step_post_def references_def ref_absent_def remove_insert_ref split: option.splits)
qed

lemma demo_ensured:
  "bindE (NewTeleportAppConfigManager (mem_client steady) (Name \<lparr>Name = ''wc-agent'', Namespace = ''org''\<rparr>)
      (Namespace \<lparr>Name = ''wc-agent'', Namespace = ''org''\<rparr>) ''x'') DeleteConfig
      (snd (bindE (NewTeleportAppConfigManager (mem_client steady) ''wc-agent'' ''org'' ''x'') EnsureConfig (demo_world []))) =
   (Inr (), snd (bindE (NewTeleportAppConfigManager (mem_client steady) ''wc-agent'' ''org'' ''x'') DeleteConfig
      (snd (bindE (NewTeleportAppConfigManager (mem_client steady) ''wc-agent'' ''org'' ''x'') EnsureConfig (demo_world [])))))"
  by (simp add: run steady_def cong: run_cong)

theorem ensure_delete_restores_witness:
  "references \<lparr>Name = ''wc-agent'', Namespace = ''org''\<rparr> (mem_obs (snd (bindE (NewTeleportAppConfigManager (mem_client steady)
     ''wc-agent'' ''org'' ''x'') DeleteConfig (snd (bindE (NewTeleportAppConfigManager (mem_client steady) ''wc-agent'' ''org''
     ''x'') EnsureConfig (demo_world [])))))) = references \<lparr>Name = ''wc-agent'', Namespace = ''org''\<rparr> (mem_obs (demo_world []))"
  by (rule ensure_delete_restores [OF steady.mem.operator_env_axioms demo_ensure demo_ensured])
    (simp add: ref_absent_def mem_obs_def demo_world_def lookup_def agent_app_def app_refs_def)

section \<open>The finalizer and the chart version\<close>

text \<open>
  C35. Adding the finalizer keeps what the Cluster has and adds the operator's at the end,
  once; removing it removes every copy and nothing else, and the Cluster itself goes when
  it was being deleted and this was the last finalizer. No other Cluster changes.
\<close>

theorem finalizer_updates:
  assumes "cluster_store K obs sel upd now fl" "sel (obs w) (cluster_meta c) = Some c" "settle c = Some c"
    and "AddFinalizer fl c K w = (Inr u, w1)" "RemoveFinalizer fl c K w = (Inr v, w2)"
  shows "sel (obs w1) = (sel (obs w))(cluster_meta c \<mapsto>
      c\<lparr>Finalizers := insert_ref TeleportOperatorFinalizer (Finalizers c)\<rparr>) \<and>
    sel (obs w2) = (sel (obs w))(cluster_meta c :=
      (let rest = remove_ref TeleportOperatorFinalizer (Finalizers c)
       in if \<not> deletion_IsZero (DeletionTimestamp c) \<and> rest = [] then None else Some (c\<lparr>Finalizers := rest\<rparr>)))"
proof
  note cached = cluster_store.axioms(1) [OF assms(1)]
  note laws = cached_clusters.axioms(1) [OF cached]
  have su: "sel (upd f s) = f (sel s)" for f s by (rule cached_clusters.sel_upd [OF cached])
  have add: "cached_clusters.with_finalizer fl c = c\<lparr>Finalizers := insert_ref TeleportOperatorFinalizer (Finalizers c)\<rparr>"
    by (simp add: cached_clusters.with_finalizer_def [OF cached] finalizer_laws.Add [OF laws] insert_ref_def)
  show "sel (obs w1) = (sel (obs w))(cluster_meta c \<mapsto>
      c\<lparr>Finalizers := insert_ref TeleportOperatorFinalizer (Finalizers c)\<rparr>)"
    using wp_run [OF cluster_store.wp_AddFinalizer [OF assms(1,2)] assms(4)]
      cached_clusters.settle_with_finalizer [OF cached, of c]
    unfolding add by (auto simp: step_post_def su set_key_def)
  show "sel (obs w2) = (sel (obs w))(cluster_meta c :=
      (let rest = remove_ref TeleportOperatorFinalizer (Finalizers c)
       in if \<not> deletion_IsZero (DeletionTimestamp c) \<and> rest = [] then None else Some (c\<lparr>Finalizers := rest\<rparr>)))"
    using wp_run [OF cluster_store.wp_RemoveFinalizer [OF assms(1,2,3)] assms(5)]
    by (auto simp: step_post_def su set_key_def settle_def cached_clusters.without_finalizer_def [OF cached]
        finalizer_laws.Remove [OF laws] remove_ref_def)
qed

theorem finalizer_updates_witness:
  "clusters (mem_obs (snd (RemoveFinalizer ref_finalizers old_cluster (mem_client steady) (gone_world [])))) demo_key = None"
proof -
  have "AddFinalizer ref_finalizers old_cluster (mem_client steady) (gone_world []) =
      (Inr (), snd (AddFinalizer ref_finalizers old_cluster (mem_client steady) (gone_world [])))"
    "RemoveFinalizer ref_finalizers old_cluster (mem_client steady) (gone_world []) =
      (Inr (), snd (RemoveFinalizer ref_finalizers old_cluster (mem_client steady) (gone_world [])))"
    by (simp_all add: run AddFinalizer_def cong: run_cong)
  moreover have "settle old_cluster = Some old_cluster" by (simp add: settle_def old_cluster_def)
  ultimately show ?thesis
    using finalizer_updates [OF steady.mem_cluster_store, of "gone_world []" old_cluster] demo_clusters(2) [of "[]"]
    by (simp add: old_cluster_def Let_def remove_ref_def deletion_IsZero_def IsZero_def)
qed

text \<open>
  C40. Deleting the reference from a HelmRelease that has no references, successfully, has
  changed it: it now has an empty list of them.
\<close>

theorem delete_without_references:
  assumes "operator_env K obs L app_admit"
    and "bindE (NewTeleportAppConfigManager K (Name k) (Namespace k) cm) DeleteConfig w = (Inr u, w')"
    and "helmreleases (obs w) k = Some hr" "getValuesFrom hr = None"
  shows "\<exists>hr'. helmreleases (obs w') k = Some hr' \<and> getValuesFrom hr' = Some [] \<and> hr' \<noteq> hr"
proof -
  have ms: "manager_store K obs helmreleases helmreleases_update app_admit apps apps_update (Now L)"
    using assms(1) by (simp add: operator_env_def)
  note post = wp_run [OF manager_store.wp_manager_DeleteConfig [OF ms] assms(2)]
  let ?hr = "setValuesFrom hr (Some (remove_ref (values_ref cm) (hr_refs hr)))"
  have "helmreleases (obs w') k = Some ?hr"
    using post assms(3,4)
    by (simp add: step_post_def manager_store.remove_effect_def [OF ms] manager_store.remove_hr_def [OF ms] set_key_apply)
  moreover have "getValuesFrom ?hr = Some []" using assms(4) by (simp add: hr_refs_def remove_ref_def)
  ultimately show ?thesis using assms(4) by fastforce
qed

definition bare_release :: HelmRelease where
  "bare_release = \<lparr>hr_meta = \<lparr>Name = ''wc-agent'', Namespace = ''org''\<rparr>, gvk = helmReleaseGVK, Object = fmempty\<rparr>"

theorem delete_without_references_witness:
  "\<exists>hr. helmreleases (mem_obs (snd (bindE (NewTeleportAppConfigManager (mem_client steady) ''wc-agent'' ''org'' ''x'') DeleteConfig
     ((demo_world [])\<lparr>m_helmreleases := [bare_release]\<rparr>)))) \<lparr>Name = ''wc-agent'', Namespace = ''org''\<rparr> = Some hr \<and> hr \<noteq> bare_release"
proof -
  let ?w = "(demo_world [])\<lparr>m_helmreleases := [bare_release]\<rparr>"
  let ?m = "bindE (NewTeleportAppConfigManager (mem_client steady) (Name \<lparr>Name = ''wc-agent'', Namespace = ''org''\<rparr>)
    (Namespace \<lparr>Name = ''wc-agent'', Namespace = ''org''\<rparr>) ''x'') DeleteConfig"
  have none: "getValuesFrom bare_release = None" by (simp add: getValuesFrom_def bare_release_def)
  have key: "hr_meta bare_release = \<lparr>Name = ''wc-agent'', Namespace = ''org''\<rparr>" by (simp add: bare_release_def)
  have "fst (?m ?w) = Inr ()"
    by (simp add: run none key removeValuesReference_def steady_def cong: run_cong)
  then have "?m ?w = (Inr (), snd (?m ?w))" by (metis prod.collapse)
  from delete_without_references [OF steady.mem.operator_env_axioms this _ none] show ?thesis
    by (auto simp: mem_obs_def lookup_def bare_release_def)
qed

end
