(* ===== verification/Isolation.thy ===== *)
theory Isolation
  imports Reconciler
begin

text \<open>
  Clusters side by side: a reconciliation of one cluster, for creation or deletion and with
  any outcome, leaves another one in order. The operator tells clusters apart by their names
  alone, in the names of its objects and in the register name, so the names have to differ.
\<close>

section \<open>Clusters that do not get in each other's way\<close>

text \<open>
  The names the operator makes up for the agent of one cluster must not be those it makes
  up for the bot: \<open>teleport-tbot\<close> is a prefix a cluster's name could have.
\<close>

definition no_clash :: "'w Teleport \<Rightarrow> Cluster \<Rightarrow> Cluster \<Rightarrow> bool" where
  "no_clash t a b \<longleftrightarrow>
     (let app = cfg_AppName (t_Config t)
      in clusterName a \<noteq> clusterName b \<and>
         GetConfigmapName (clusterName a) app \<noteq> GetTbotConfigmapName (clusterName b) \<and>
         GetConfigmapName (clusterName b) app \<noteq> GetTbotConfigmapName (clusterName a) \<and>
         GetAppName (clusterName b) app \<noteq> TeleportBotAppName)"

lemma registerNameOf_distinct: "clusterName a \<noteq> clusterName b \<Longrightarrow> registerNameOf r a \<noteq> registerNameOf r b"
  using GetRegisterName_neq [of "cfg_ManagementClusterName (t_Config (r_Teleport r))" "clusterName a"]
    GetRegisterName_neq [of "cfg_ManagementClusterName (t_Config (r_Teleport r))" "clusterName b"]
  by (auto simp: registerNameOf_def GetRegisterName_inj)

section \<open>What one cluster's footprint leaves of another\<close>

lemma agree_off_at: "agree_off A m m' \<Longrightarrow> k \<notin> A \<Longrightarrow> m' k = m k"
  by (simp add: agree_off_def)

lemma tokens_kept_serves:
  "tokens_kept reg m m' \<Longrightarrow> m n = Some p \<Longrightarrow> serves rl u reg' roles p \<Longrightarrow> reg' \<noteq> reg \<Longrightarrow> m' n = Some p"
  by (auto simp: tokens_kept_def serves_def)

lemma footprint_other_objects:
  assumes fp: "footprint t a reg s s'" and nc: "no_clash t a b" and ne: "cluster_meta b \<noteq> cluster_meta a"
  shows "clusters s' (cluster_meta b) = clusters s (cluster_meta b)"
    and "secrets s' (secret_key (clusterName b) ns) = secrets s (secret_key (clusterName b) ns)"
    and "secrets s' (kubeconfig_key (clusterName b) ns) = secrets s (kubeconfig_key (clusterName b) ns)"
    and "configmaps s' (configmap_key t (clusterName b) ns) = configmaps s (configmap_key t (clusterName b) ns)"
    and "configmaps s' (tbot_key (clusterName b) ns) = configmaps s (tbot_key (clusterName b) ns)"
    and "deployed_version (agent_key t (clusterName b) ns) s' = deployed_version (agent_key t (clusterName b) ns) s"
proof -
  note keys = secret_key_def kubeconfig_key_def configmap_key_def tbot_key_def agent_key_def bot_key_def
  note apart = no_clash_def Let_def name_inj join_token_not_kubeconfig join_token_not_kubeconfig [symmetric]
  let ?ca = "clusterName a" and ?nsa = "clusterNamespace a" and ?b = TeleportBotNamespace
  have sec: "agree_off {secret_key ?ca ?nsa, kubeconfig_key ?ca ?b} (secrets s) (secrets s')"
    and cm: "agree_off {configmap_key t ?ca ?nsa, tbot_key ?ca ?b} (configmaps s) (configmaps s')"
    and hr: "agree_off {agent_key t ?ca ?nsa, bot_key} (helmreleases s) (helmreleases s')"
    and ap: "agree_off {agent_key t ?ca ?nsa, bot_key} (apps s) (apps s')"
    and cl: "agree_off {cluster_meta a} (clusters s) (clusters s')"
    using fp by (simp_all add: footprint_def Let_def)
  show "clusters s' (cluster_meta b) = clusters s (cluster_meta b)"
    using agree_off_at [OF cl] ne by simp
  show "secrets s' (secret_key (clusterName b) ns) = secrets s (secret_key (clusterName b) ns)"
    "secrets s' (kubeconfig_key (clusterName b) ns) = secrets s (kubeconfig_key (clusterName b) ns)"
    using nc by (intro agree_off_at [OF sec]; auto simp: keys apart)+
  show "configmaps s' (configmap_key t (clusterName b) ns) = configmaps s (configmap_key t (clusterName b) ns)"
    "configmaps s' (tbot_key (clusterName b) ns) = configmaps s (tbot_key (clusterName b) ns)"
    using nc by (intro agree_off_at [OF cm]; auto simp: keys apart)+
  have "agent_key t (clusterName b) ns \<notin> {agent_key t ?ca ?nsa, bot_key}"
    using nc by (auto simp: keys apart)
  then show "deployed_version (agent_key t (clusterName b) ns) s' = deployed_version (agent_key t (clusterName b) ns) s"
    using agree_off_at [OF hr] agree_off_at [OF ap] by (intro deployed_version_cong) simp_all
qed

lemma footprint_keeps_converged:
  assumes fp: "footprint (r_Teleport r) a (registerNameOf r a) s s'"
    and nc: "no_clash (r_Teleport r) a b" and ne: "cluster_meta b \<noteq> cluster_meta a"
    and conv: "converged L r u b (registerNameOf r b) roles s"
  shows "converged L r u b (registerNameOf r b) roles s'"
proof -
  let ?t = "r_Teleport r" and ?c = "clusterName b" and ?ns = "clusterNamespace b"
  note obj = footprint_other_objects [OF fp nc ne]
  have reg: "registerNameOf r b \<noteq> registerNameOf r a"
    using nc registerNameOf_distinct [of b a r] by (auto simp: no_clash_def Let_def)
  have tk: "tokens_kept (registerNameOf r a) (tokens s) (tokens s')" using fp by (simp add: footprint_def Let_def)
  have refs: "refs_kept {GetConfigmapName (clusterName a) (cfg_AppName (t_Config ?t)), GetTbotConfigmapName (clusterName a)} s s'"
    using fp by (simp add: footprint_def Let_def)
  have "secret_ready (lib_roles L) u (registerNameOf r b) ?c ?ns s'"
    using conv obj(2) tokens_kept_serves [OF tk _ _ reg]
    by (fastforce simp: converged_def Let_def secret_ready_def)
  moreover have "configmap_ready L ?t u (registerNameOf r b) roles (deployed_version (agent_key ?t ?c ?ns) s') ?c ?ns s'"
    unfolding obj(6) using conv obj(4) tokens_kept_serves [OF tk _ _ reg]
    by (fastforce simp: converged_def Let_def configmap_ready_def)
  moreover have "ref_ready (agent_key ?t ?c ?ns) (GetConfigmapName ?c (cfg_AppName (t_Config ?t))) s'"
    using conv refs nc by (auto simp: converged_def Let_def refs_kept_def no_clash_def name_inj)
  moreover have "bot_ready ?c s'" if "bot_ready ?c s"
    using that obj(3,5) refs nc
    by (auto simp: bot_ready_def refs_kept_def no_clash_def Let_def name_inj)
  moreover have "finalizer_ready (cluster_meta b) s'"
    using conv obj(1) by (simp add: converged_def Let_def finalizer_ready_def)
  ultimately show ?thesis using conv by (auto simp: converged_def Let_def)
qed

lemma footprint_keeps_cleaned:
  assumes fp: "footprint (r_Teleport r) a reg s s'"
    and nc: "no_clash (r_Teleport r) a b" and ne: "cluster_meta b \<noteq> cluster_meta a" and clean: "cleaned r b s"
  shows "cleaned r b s'"
proof -
  note obj = footprint_other_objects [OF fp nc ne]
  have "refs_kept {GetConfigmapName (clusterName a) (cfg_AppName (t_Config (r_Teleport r))), GetTbotConfigmapName (clusterName a)} s s'"
    using fp by (simp add: footprint_def Let_def)
  then show ?thesis
    using clean obj(2-5) nc by (auto simp: cleaned_def Let_def refs_kept_def no_clash_def name_inj)
qed

text \<open>The names of what the operator only reads are none of those it writes, for any cluster.\<close>

lemma read_names_apart:
  "user_values_name c \<noteq> GetConfigmapName c' app" "user_values_name c \<noteq> GetTbotConfigmapName c'"
  "TeleportBotSecretName \<noteq> GetSecretName c" "TeleportBotSecretName \<noteq> GetKubeconfigSecretName c"
proof -
  show "user_values_name c \<noteq> GetConfigmapName c' app" "user_values_name c \<noteq> GetTbotConfigmapName c'"
    by (auto simp: user_values_name_def GetConfigmapName_def GetTbotConfigmapName_def dest!: arg_cong [of _ _ last])
  show "TeleportBotSecretName \<noteq> GetSecretName c"
    by (auto simp: TeleportBotSecretName_def GetSecretName_def dest!: arg_cong [of _ _ last])
  show "TeleportBotSecretName \<noteq> GetKubeconfigSecretName c"
    by (auto simp: TeleportBotSecretName_def GetKubeconfigSecretName_def)
qed

lemma footprint_keeps_reads:
  assumes "footprint t a reg s s'"
  shows "configmaps s' \<lparr>Name = user_values_name c, Namespace = ns\<rparr> = configmaps s \<lparr>Name = user_values_name c, Namespace = ns\<rparr>"
    and "secrets s' \<lparr>Name = TeleportBotSecretName, Namespace = ns\<rparr> = secrets s \<lparr>Name = TeleportBotSecretName, Namespace = ns\<rparr>"
  using assms read_names_apart
  by (auto simp: footprint_def Let_def agree_off_def secret_key_def kubeconfig_key_def configmap_key_def tbot_key_def)

lemma footprint_keeps_roles: "footprint t a reg s s' \<Longrightarrow> rolesFor L b s' = rolesFor L b s"
  by (simp add: rolesFor_def apps_wanted_def footprint_keeps_reads(1))

context operator_world
begin

lemma Reconcile_footprint:
  assumes "Reconcile L req r w = ((res, r'), w')" "reconciler_ok K obs L r" "client_or_stale L r w"
    and "clusters (obs w) req = Some cl" "cluster_meta cl = req"
  shows "footprint (r_Teleport r) cl (registerNameOf r cl) (obs w) (obs w')"
  using Reconcile_normal_outcome [OF assms(1-5)] Reconcile_delete_outcome(1) [OF assms(1-5)] by blast

end

end
