(* ===== verification/Progress.thy ===== *)
theory Progress
  imports Reconciler
begin

text \<open>
  Progress: where the servers answer and what the operator has stored can be read, a
  reconciliation does not fail. The contracts of the other theories say what a successful
  call has done; here it is shown that the calls succeed.
\<close>

section \<open>Calls that succeed\<close>

definition succeeds :: "('w, 'a) action \<Rightarrow> 'w \<Rightarrow> bool" where
  "succeeds m w \<longleftrightarrow> wp m (\<lambda>r w'. \<exists>x. r = Inr x) w"

lemma succeeds_iff: "succeeds m w \<longleftrightarrow> (\<exists>x w'. m w = (Inr x, w'))"
  by (cases "m w") (simp add: succeeds_def wp_def)

lemma succeeds_returnE [simp]: "succeeds (returnE x) w"
  by (simp add: succeeds_def wp_returnE)

lemma succeeds_bind:
  assumes "succeeds m w" "wp m P w" "\<And>x w'. P (Inr x) w' \<Longrightarrow> succeeds (f x) w'"
  shows "succeeds (bindE m f) w"
proof -
  obtain x w' where "m w = (Inr x, w')" using assms(1) by (auto simp: succeeds_iff)
  then show ?thesis using assms(2,3) wp_run [of m P w] by (auto simp: succeeds_iff bindE_def)
qed

lemma succeeds_bind_any: "succeeds m w \<Longrightarrow> (\<And>x w'. succeeds (f x) w') \<Longrightarrow> succeeds (bindE m f) w"
  by (rule succeeds_bind [where P = "\<lambda>_ _. True"]) (simp_all add: wp_def)

section \<open>Tokens\<close>

text \<open>The tokens of a cluster in an observation, and deleting a token a number of times.\<close>

definition register_tokens :: "(string \<rightharpoonup> ProvisionToken) \<Rightarrow> string \<Rightarrow> ProvisionToken set" where
  "register_tokens m reg = {p. m (GetName p) = Some p \<and> label p ''cluster'' = reg}"

fun delete_tokens :: "nat \<Rightarrow> 'w Teleport \<Rightarrow> string \<Rightarrow> 'w \<Rightarrow> 'w" where
  "delete_tokens 0 t reg w = w"
| "delete_tokens (Suc n) t reg w = delete_tokens n t reg (snd (Token.DeleteToken t reg w))"

locale reliable_service =
  token_service C obs sel upd L t + rt: reliable_teleport C obs sel upd "Now L"
  for C :: "'w Client" and obs :: "'w \<Rightarrow> 's" and sel upd and L :: "'w libs" and t :: "'w Teleport"
begin

lemma wp_GetTokens_reliable:
  assumes "\<And>ts w'. obs w' = obs w \<Longrightarrow> (\<And>t. t \<in> set ts \<longleftrightarrow> sel (obs w) (GetName t) = Some t) \<Longrightarrow> Q (Inr ts) w'"
  shows "wp (GetTokens C) Q w"
proof (rule wp_casesI)
  fix ts w' assume r: "GetTokens C w = (Inr ts, w')"
  show "Q (Inr ts) w'" by (rule assms [OF GetTokens_obs [OF r] GetTokens_all [OF r]])
next
  fix e w' assume "GetTokens C w = (Inl e, w')"
  then show "Q (Inl e) w'" using rt.GetTokens_answers by blast
qed

lemma succeeds_IsTokenValid:
  assumes "ParseRoles tt = Inr roles"
  shows "succeeds (IsTokenValid L t reg tok tt) w"
  unfolding succeeds_def IsTokenValid_def with_client_def connected option.case wp_bindE assms liftE_Inr
  by (rule wp_GetTokens_reliable) (simp add: wp_def)

lemma succeeds_GenerateToken:
  assumes roles: "roles \<noteq> []" "set roles \<subseteq> set known_roles"
  shows "succeeds (GenerateToken L t reg roles) w"
proof -
  obtain n w1 where g: "Generate (TokenGenerator t) w = (n, w1)" by (cases "Generate (TokenGenerator t) w")
  have "RolesToSystemRoles (lib_roles L) roles \<noteq> []"
    using length_RolesToSystemRoles [OF roles(2)] roles(1) by (metis length_0_conv)
  then obtain p where p: "NewProvisionToken L n (RolesToSystemRoles (lib_roles L) roles)
      (time_Add (Now L w) TeleportKubeTokenValidity) = Inr p"
    using mk_ok gen.Generate_nonempty [OF g] set_RolesToSystemRoles by metis
  let ?p = "p\<lparr>Labels := [''cluster'' \<mapsto> reg, ''roles'' \<mapsto> RolesToString roles]\<rparr>"
  obtain x w2 where "UpsertToken C ?p w1 = (Inr x, w2)"
    using rt.UpsertToken_answers by (metis prod.exhaust_sel sum.exhaust_sel)
  with g p show ?thesis
    by (simp add: succeeds_iff GenerateToken_def Let_def with_client_def connected action_defs)
qed

lemma succeeds_deleteFirst:
  "(\<And>p. p \<in> set us \<Longrightarrow> sel (obs w) (GetName p) = Some p) \<Longrightarrow> succeeds (deleteFirst C reg us) w"
proof (induction us)
  case (Cons p us)
  show ?case
  proof (cases "label p ''cluster'' = reg")
    case True
    have "sel (obs w) (GetName p) \<noteq> None" using Cons.prems by simp
    then obtain x w1 where "Client.DeleteToken C (GetName p) w = (Inr x, w1)"
      using rt.DeleteToken_answers by (metis prod.exhaust_sel sum.exhaust_sel)
    with True show ?thesis by (simp add: succeeds_iff action_defs)
  qed (use Cons in simp)
qed simp

lemma succeeds_DeleteToken: "succeeds (Token.DeleteToken t reg) w"
  unfolding succeeds_def Token.DeleteToken_def with_client_def connected option.case wp_bindE
  by (rule wp_GetTokens_reliable, unfold sum.case) (rule succeeds_deleteFirst [unfolded succeeds_def], simp)

lemma DeleteToken_drops:
  "\<exists>p. register_tokens (sel (obs (snd (Token.DeleteToken t reg w)))) reg = register_tokens (sel (obs w)) reg - {p} \<and>
     (register_tokens (sel (obs w)) reg = {} \<or> p \<in> register_tokens (sel (obs w)) reg)"
proof -
  obtain w' where "Token.DeleteToken t reg w = (Inr (), w')"
    using succeeds_DeleteToken [of reg w] by (auto simp: succeeds_iff)
  then have w': "snd (Token.DeleteToken t reg w) = w'" and
    "(\<exists>p. token_of (obs w) reg p \<and> sel (obs w') = (sel (obs w))(GetName p := None)) \<or>
     (\<forall>p. \<not> token_of (obs w) reg p) \<and> obs w' = obs w"
    using DeleteToken_success by simp_all
  then show ?thesis
  proof (elim disjE exE conjE, goal_cases)
    case (1 p)
    then have "sel (obs w) (GetName p) = Some p" "label p ''cluster'' = reg" by (simp_all add: token_of_def)
    with 1 show ?case unfolding w' by (intro exI [of _ p]) (auto simp: register_tokens_def)
  next
    case 2
    then show ?case unfolding w' by (auto simp: register_tokens_def token_of_def)
  qed
qed

lemma delete_tokens_drain:
  assumes "finite (register_tokens (sel (obs w)) reg)" "card (register_tokens (sel (obs w)) reg) \<le> n"
  shows "register_tokens (sel (obs (delete_tokens n t reg w))) reg = {}"
  using assms
proof (induction n arbitrary: w)
  case (Suc n)
  let ?T = "\<lambda>w. register_tokens (sel (obs w)) reg"
  obtain p where p: "?T (snd (Token.DeleteToken t reg w)) = ?T w - {p}" "?T w = {} \<or> p \<in> ?T w"
    using DeleteToken_drops by blast
  have "card (?T w - {p}) \<le> n"
    using p(2) Suc.prems by (cases "?T w = {}") (auto simp: card_Diff_singleton)
  with p(1) Suc show ?case by simp
qed simp

end

section \<open>The environment\<close>

text \<open>
  The API server answers for every kind of object; so does Teleport, once the identity is
  given to it.
\<close>

locale reliable_world =
  operator_world K obs L app_admit +
  rse: reliable_api "Secrets K" secret_meta secret_admit obs secrets secrets_update "Now L" +
  rcm: reliable_api "ConfigMaps K" cm_meta "\<lambda>x. x" obs configmaps configmaps_update "Now L" +
  rhr: reliable_api "HelmReleases K" hr_meta "\<lambda>x. x" obs helmreleases helmreleases_update "Now L" +
  rap: reliable_api "Apps K" app_meta app_admit obs apps apps_update "Now L"
  for K :: "'w ctrl_client" and obs :: "'w \<Rightarrow> world_obs" and L :: "'w libs" and app_admit +
  assumes GetC_answers: "Get (Clusters K) k w = (Inl e, w') \<Longrightarrow> IsNotFound e"
    and NewHelper_answers: "patch_NewHelper K c w \<noteq> (Inl e, w')"
    and Patch_answers: "clusters (obs w) (cluster_meta c) = Some c \<Longrightarrow> patch_Patch K c d w \<noteq> (Inl e, w')"
    and New_answers: "tc_New L as f n w \<noteq> (Inl e, w')"
    and New_reliable: "tc_New L as f n w = (Inr C, w') \<Longrightarrow> reliable_teleport C obs tokens tokens_update (Now L)"
begin

subsection \<open>Secrets and ConfigMaps\<close>

lemma succeeds_GetSecret: "succeeds (GetSecret K c ns) w"
  unfolding succeeds_def GetSecret_def wp_simps by (rule rse.wp_Get_reliable) (simp_all add: wp_simps)

lemma succeeds_GetKubeconfigSecret: "succeeds (GetKubeconfigSecret K c ns) w"
  unfolding succeeds_def GetKubeconfigSecret_def wp_simps by (rule rse.wp_Get_reliable) (simp_all add: wp_simps)

lemma succeeds_CreateSecret: "secrets (obs w) (secret_key c ns) = None \<Longrightarrow> succeeds (CreateSecret K c ns tok) w"
  unfolding succeeds_def CreateSecret_def wp_simps by (rule rse.wp_Create_reliable) (simp_all add: wp_simps)

lemma succeeds_UpdateSecret: "secrets (obs w) (secret_key c ns) \<noteq> None \<Longrightarrow> succeeds (UpdateSecret K c ns tok) w"
  unfolding succeeds_def UpdateSecret_def wp_simps by (rule rse.wp_Update_reliable) (simp_all add: wp_simps)

lemma succeeds_deletes:
  "succeeds (DeleteSecret K c ns) w" "succeeds (DeleteKubeconfigSecret K c ns) w"
  "succeeds (DeleteConfigMap t K c ns) w" "succeeds (DeleteTbotConfigMap K c ns) w"
  unfolding succeeds_def DeleteSecret_def DeleteKubeconfigSecret_def DeleteConfigMap_def DeleteTbotConfigMap_def wp_simps
  by (rule rse.wp_Delete_reliable rcm.wp_Delete_reliable; simp add: wp_simps)+

lemma succeeds_GetConfigMap: "succeeds (GetConfigMap t K c ns) w"
  unfolding succeeds_def GetConfigMap_def wp_simps by (rule rcm.wp_Get_reliable) (simp_all add: wp_simps)

lemma succeeds_CreateConfigMap: "succeeds (CreateConfigMap L t K c ns reg tok roles tka) w"
  unfolding succeeds_def CreateConfigMap_def Let_def wp_simps
  by (rule rcm.wp_Get_reliable) (auto simp: wp_simps intro!: rcm.wp_Create_reliable)

lemma succeeds_UpdateConfigMap:
  "registerNameFromConfigMap L cm = Inr reg \<Longrightarrow> configmaps (obs w) (cm_meta cm) \<noteq> None \<Longrightarrow>
   succeeds (UpdateConfigMap L t K cm tok roles tka) w"
  unfolding succeeds_def UpdateConfigMap_def by (auto simp: wp_simps intro!: rcm.wp_Update_reliable)

lemma succeeds_EnsureTbotConfigMap: "succeeds (EnsureTbotConfigMap K c ns reg) w"
  unfolding succeeds_def EnsureTbotConfigMap_def GetTbotConfigMap_def wp_simps
  by (rule rcm.wp_Get_reliable)
    (auto simp: wp_simps CreateTbotConfigMap_def Let_def intro!: rcm.wp_Create_reliable)

subsection \<open>References\<close>

lemma succeeds_NewManager: "succeeds (NewTeleportAppConfigManager K n ns cm) w"
  unfolding succeeds_def NewTeleportAppConfigManager_def wp_simps
  by (rule rhr.wp_Get_reliable) (auto simp: wp_simps intro!: rap.wp_Get_reliable)

lemma succeeds_version: "succeeds (GetTeleportKubeAgentVersion K n ns) w"
  unfolding succeeds_def GetTeleportKubeAgentVersion_def wp_simps
  by (rule rhr.wp_Get_reliable) (auto simp: wp_simps intro!: rap.wp_Get_reliable)

lemma succeeds_helmRelease:
  assumes "helmreleases (obs w) k \<noteq> None"
  shows "succeeds (helmRelease_EnsureConfig (mg.hr_manager k cm)) w" "succeeds (helmRelease_DeleteConfig (mg.hr_manager k cm)) w"
  unfolding succeeds_def helmRelease_EnsureConfig_def helmRelease_DeleteConfig_def manager_simps wp_simps Let_def key_eta
  by (rule rhr.wp_Get_reliable; use assms in \<open>auto simp: wp_simps intro!: rhr.wp_Update_reliable\<close>)+

lemma succeeds_appCR:
  assumes "apps (obs w) k \<noteq> None"
  shows "succeeds (appCR_EnsureConfig (mg.app_manager k cm)) w" "succeeds (appCR_DeleteConfig (mg.app_manager k cm)) w"
  unfolding succeeds_def appCR_EnsureConfig_def appCR_DeleteConfig_def manager_simps wp_simps Let_def key_eta
  by (rule rap.wp_Get_reliable; use assms in \<open>auto simp: wp_simps intro!: rap.wp_Update_reliable\<close>)+

lemma succeeds_manager:
  assumes "m = EnsureConfig \<or> m = DeleteConfig"
  shows "succeeds (bindE (NewTeleportAppConfigManager K n ns cm) m) w"
proof (rule succeeds_bind [OF succeeds_NewManager mg.wp_NewTeleportAppConfigManager [of "\<lparr>Name = n, Namespace = ns\<rparr>", simplified]],
    goal_cases)
  case (1 x w')
  let ?k = "\<lparr>Name = n, Namespace = ns\<rparr>"
  from 1 show ?case
    using assms succeeds_helmRelease [of w' ?k cm] succeeds_appCR [of w' ?k cm] by (auto simp: mg.manager_of_def noOp_defs)
qed

end

section \<open>What has to be readable\<close>

text \<open>
  The stored Secret has a token; the stored ConfigMap has a token and a register name. Both
  hold of what the operator itself writes.
\<close>

definition secret_readable :: "string \<Rightarrow> string \<Rightarrow> world_obs \<Rightarrow> bool" where
  "secret_readable c ns s \<longleftrightarrow>
     (case secrets s (secret_key c ns) of None \<Rightarrow> True | Some sec \<Rightarrow> \<exists>tok. GetTokenFromSecret sec = Inr tok)"

definition configmap_readable :: "'w libs \<Rightarrow> 'w Teleport \<Rightarrow> string \<Rightarrow> string \<Rightarrow> world_obs \<Rightarrow> bool" where
  "configmap_readable L t c ns s \<longleftrightarrow>
     (case configmaps s (configmap_key t c ns) of
        None \<Rightarrow> True
      | Some cm \<Rightarrow> (\<exists>tok. GetTokenFromConfigMap L cm = Inr tok) \<and> (\<exists>reg. registerNameFromConfigMap L cm = Inr reg))"

text \<open>The user's values, if any, are YAML.\<close>

definition user_values_readable :: "'w libs \<Rightarrow> string \<Rightarrow> string \<Rightarrow> world_obs \<Rightarrow> bool" where
  "user_values_readable L c ns s \<longleftrightarrow>
     (\<forall>cm v. configmaps s \<lparr>Name = user_values_name c, Namespace = ns\<rparr> = Some cm \<longrightarrow> cm_Data cm ''values'' = Some v \<longrightarrow>
        (\<exists>vals. Unmarshal L v = Inr vals))"

text \<open>Where they are not, a call for the cluster fails before it has done anything.\<close>

context operator_world
begin

lemma wp_apps_unreadable:
  assumes "t_Client t = Some K" "\<not> user_values_readable L c ns (obs w)"
  shows "wp (AreTeleportAppsEnabled L t c ns) (\<lambda>res w'. obs w' = obs w \<and> (\<exists>e. res = Inl e)) w"
  unfolding AreTeleportAppsEnabled_def assms(1) option.case wp_tryE
  by (rule cm.wp_Get)
    (use assms(2) in \<open>auto simp: wp_simps user_values_readable_def split: option.split sum.split\<close>)

lemma Reconcile_unreadable:
  assumes ok: "reconciler_ok K obs L r" and cl: "clusters (obs w) req = Some cl"
    and user: "\<not> user_values_readable L (clusterName cl) (clusterNamespace cl) (obs w)"
  shows "\<exists>e w'. Reconcile L req r w = ((Inl e, r), w') \<and> obs w' = obs w"
proof -
  have K: "r_Client r = K" "t_Client (r_Teleport r) = Some K" using ok by (simp_all add: reconciler_ok_def)
  obtain g w1 where g: "Get (Clusters K) req w = (g, w1)" by (cases "Get (Clusters K) req w")
  note g1 = wp_run [OF cs.wp_GetCluster g]
  show ?thesis
  proof (cases g)
    case (Inl e)
    with g g1 cl show ?thesis by (auto simp: Reconcile_def K)
  next
    case (Inr cl')
    obtain a w2 where a: "AreTeleportAppsEnabled L (r_Teleport r) (clusterName cl) (clusterNamespace cl) w1 = (a, w2)"
      by (cases "AreTeleportAppsEnabled L (r_Teleport r) (clusterName cl) (clusterNamespace cl) w1")
    have "\<not> user_values_readable L (clusterName cl) (clusterNamespace cl) (obs w1)" using user g1 by simp
    with wp_run [OF wp_apps_unreadable [OF K(2) this] a] Inr g g1 a cl show ?thesis
      by (auto simp: Reconcile_def K)
  qed
qed

end

section \<open>The blocks succeed\<close>

locale reliable_connected =
  reliable_world K obs L app_admit + svc: reliable_service C obs tokens tokens_update L t
  for K :: "'w ctrl_client" and obs :: "'w \<Rightarrow> world_obs" and L :: "'w libs" and app_admit
    and C :: "'w Client" and t :: "'w Teleport"
begin

sublocale env: connected_env K obs L app_admit C t
  by (simp add: connected_env_def token_issuer_def operator_env_axioms svc.token_service_axioms)

lemma succeeds_ensureFinalizer:
  assumes "r_Client r = K" "clusters (obs w) (cluster_meta cl) = Some cl"
  shows "succeeds (ensureFinalizer L r cl) w"
proof -
  obtain x w1 where h: "patch_NewHelper K cl w = (Inr x, w1)"
    using NewHelper_answers by (metis prod.exhaust_sel sum.exhaust_sel)
  then have "clusters (obs w1) (cluster_meta cl) = Some cl" using assms(2) cs.NewHelper_obs by simp
  then obtain y w2 where "patch_Patch K cl (AddFinalizer_obj (lib_finalizers L) cl TeleportOperatorFinalizer) w1 = (Inr y, w2)"
    using Patch_answers by (metis prod.exhaust_sel sum.exhaust_sel)
  with h assms(1) show ?thesis
    by (simp add: succeeds_iff ensureFinalizer_def AddFinalizer_def action_defs)
qed

lemma succeeds_removeFinalizer:
  assumes "clusters (obs w) (cluster_meta cl) = Some cl"
  shows "succeeds (RemoveFinalizer (lib_finalizers L) cl K) w"
proof -
  obtain x w1 where h: "patch_NewHelper K cl w = (Inr x, w1)"
    using NewHelper_answers by (metis prod.exhaust_sel sum.exhaust_sel)
  then have "clusters (obs w1) (cluster_meta cl) = Some cl" using assms cs.NewHelper_obs by simp
  then obtain y w2 where "patch_Patch K cl (RemoveFinalizer_obj (lib_finalizers L) cl TeleportOperatorFinalizer) w1 = (Inr y, w2)"
    using Patch_answers by (metis prod.exhaust_sel sum.exhaust_sel)
  with h show ?thesis by (simp add: succeeds_iff RemoveFinalizer_def action_defs)
qed

lemma generate_obs:
  "wp (GenerateToken L t reg roles) (\<lambda>r w'. secrets (obs w') = secrets (obs w) \<and> configmaps (obs w') = configmaps (obs w)) w"
  by (rule wp_mono [OF svc.wp_GenerateToken]) (auto split: sum.splits)

lemma check_obs: "wp (IsTokenValid L t reg tok tt) (\<lambda>r w'. obs w' = obs w) w"
  by (rule wp_mono [OF svc.wp_IsTokenValid]) (simp add: svc.unchanged_def)

lemma succeeds_reconcileSecret:
  assumes r: "r_Client r = K" "r_Teleport r = t"
    and read: "secret_readable (clusterName cl) (clusterNamespace cl) (obs w)"
  shows "succeeds (reconcileSecret L r cl reg) w"
  unfolding reconcileSecret_def Let_def r
proof (rule succeeds_bind [OF succeeds_GetSecret se.wp_GetSecret], goal_cases)
  case (1 x w1)
  have node: "[RoleNode] \<noteq> []" "set [RoleNode] \<subseteq> set known_roles" by (simp_all add: known_roles_def)
  show ?case
  proof (cases x)
    case None
    with 1 show ?thesis
      by (auto intro!: succeeds_bind [OF svc.succeeds_GenerateToken [OF node] generate_obs] succeeds_CreateSecret)
  next
    case (Some sec)
    with 1 read obtain tok where tok: "GetTokenFromSecret sec = Inr tok" by (auto simp: secret_readable_def)
    have "succeeds (IsTokenValid L t reg tok RoleNode) w1"
      by (rule svc.succeeds_IsTokenValid, rule ParseRoles_role) (simp add: known_roles_def)
    with 1 Some tok show ?thesis
      by (auto intro!: succeeds_bind [OF _ check_obs] succeeds_bind [OF svc.succeeds_GenerateToken [OF node] generate_obs]
          succeeds_UpdateSecret)
  qed
qed

lemma succeeds_reconcileConfigMap:
  assumes r: "r_Client r = K" "r_Teleport r = t" and roles: "roles \<noteq> []" "set roles \<subseteq> set known_roles"
    and read: "configmap_readable L t (clusterName cl) (clusterNamespace cl) (obs w)"
  shows "succeeds (reconcileConfigMap L r cl reg roles tka) w"
  unfolding reconcileConfigMap_def Let_def r
proof (rule succeeds_bind [OF succeeds_GetConfigMap cm.wp_GetConfigMap], goal_cases)
  case (1 x w1)
  show ?case
  proof (cases x)
    case None
    with 1 show ?thesis
      by (auto intro!: succeeds_bind_any [OF svc.succeeds_GenerateToken [OF roles]] succeeds_CreateConfigMap)
  next
    case (Some cmap)
    with 1 have stored: "configmaps (obs w1) (cm_meta cmap) = Some cmap" by simp
    from 1 Some read obtain tok reg' where tok: "GetTokenFromConfigMap L cmap = Inr tok" "registerNameFromConfigMap L cmap = Inr reg'"
      by (auto simp: configmap_readable_def)
    have keep: "wp (if \<not> valid then GenerateToken L t reg roles else returnE tok)
        (\<lambda>r w'. configmaps (obs w') = configmaps (obs w2)) w2" for valid w2
      using wp_mono [OF generate_obs] by (simp add: wp_returnE)
    have gen: "succeeds (if \<not> valid then GenerateToken L t reg roles else returnE tok) w2" for valid w2
      using svc.succeeds_GenerateToken [OF roles] by simp
    have "succeeds (bindE (if \<not> valid then GenerateToken L t reg roles else returnE tok) (\<lambda>writeToken.
        if v = RenderConfigMapValues L t reg writeToken roles tka then returnE ()
        else UpdateConfigMap L t K cmap writeToken roles tka)) w2" if "obs w2 = obs w1" for valid v w2
      by (rule succeeds_bind [OF gen keep]) (use that stored succeeds_UpdateConfigMap [OF tok(2)] in simp)
    with Some tok show ?thesis
      by (auto intro!: succeeds_bind [OF svc.succeeds_IsTokenValid [OF ParseRoles_Join [OF roles]] check_obs])
  qed
qed

lemma succeeds_reconcileBot:
  assumes "r_Client r = K"
  shows "succeeds (reconcileBot r cl reg) w"
  unfolding reconcileBot_def Let_def assms
  by (auto intro!: succeeds_bind_any [OF succeeds_GetKubeconfigSecret] succeeds_bind_any [OF succeeds_EnsureTbotConfigMap]
      succeeds_manager)

text \<open>Up to the ConfigMap, no block changes what the later ones read.\<close>

lemma succeeds_reconcileNormal:
  assumes r: "r_Client r = K" "r_Teleport r = t" and roles: "roles \<noteq> []" "set roles \<subseteq> set known_roles"
    and cl: "clusters (obs w) (cluster_meta cl) = Some cl"
    and read: "secret_readable (clusterName cl) (clusterNamespace cl) (obs w)"
      "configmap_readable L t (clusterName cl) (clusterNamespace cl) (obs w)"
  shows "succeeds (reconcileNormal L r cl reg roles) w"
proof -
  let ?same = "\<lambda>w' w. configmaps (obs w') = configmaps (obs w)"
  have fin: "wp (ensureFinalizer L r cl) (\<lambda>_ w'. secrets (obs w') = secrets (obs w) \<and> ?same w' w) w"
    by (rule wp_mono [OF wp_ensureFinalizer [OF r(1) cl]]) (auto simp: step_post_def split: sum.splits)
  have sec: "wp (reconcileSecret L r cl reg) (\<lambda>_ w2. ?same w2 w1) w1" for w1
    by (rule wp_mono [OF env.wp_reconcileSecret [OF r order_refl]])
      (auto simp: env.secret_post_def dest: secret_moves_frame(2))
  have ver: "wp (GetTeleportKubeAgentVersion K (GetAppName n a) ns) (\<lambda>_ w2. obs w2 = obs w1) w1" for n a ns w1
    using wp_mono [OF wp_GetTeleportKubeAgentVersion [of "\<lparr>Name = GetAppName n a, Namespace = ns\<rparr>"]] by auto
  have agent: "succeeds (reconcileKubeAgent r cl) w4" for w4
    by (simp add: reconcileKubeAgent_def Let_def r succeeds_manager)
  show ?thesis
    unfolding reconcileNormal_def r(1)
    using read
    by (intro succeeds_bind [OF succeeds_ensureFinalizer [OF r(1) cl] fin] succeeds_bind [OF succeeds_reconcileSecret [OF r] sec]
        succeeds_bind [OF succeeds_version ver] succeeds_bind_any [OF succeeds_reconcileConfigMap [OF r roles]]
        succeeds_bind_any [OF agent] succeeds_bind_any [OF succeeds_reconcileBot] succeeds_returnE)
      (simp_all add: secret_readable_def configmap_readable_def r(1))
qed

lemma succeeds_reconcileDelete:
  assumes r: "r_Client r = K" "r_Teleport r = t" and cl: "clusters (obs w) (cluster_meta cl) = Some cl"
  shows "succeeds (reconcileDelete L r cl reg) w"
proof -
  have drop: "wp (Token.DeleteToken t reg) (\<lambda>_ w'. clusters (obs w') = clusters (obs w)) w"
    by (rule wp_mono [OF svc.wp_DeleteToken_service]) (auto split: sum.splits)
  have clean: "wp (env.cleanup tbot cl) (\<lambda>_ w'. clusters (obs w') = clusters (obs w1)) w1" for tbot w1
  proof (rule wp_mono [OF env.wp_cleanup], goal_cases)
    case (1 res w')
    have "clusters (apply_steps (take n (env.cleanup_steps tbot cl)) (obs w1)) = clusters (obs w1)" for n
      by (rule apply_steps_prefix) (simp_all add: env.cleanup_keeps)
    from this this [of "length (env.cleanup_steps tbot cl)"] 1 show ?case
      by (auto simp: steps_post_def split: sum.splits)
  qed
  have "succeeds (env.cleanup tbot cl) w1" for tbot w1
    unfolding env.cleanup_def Let_def
    by (auto intro!: succeeds_bind_any succeeds_deletes succeeds_manager
        simp flip: bindE_assoc [of "NewTeleportAppConfigManager K n ns cm" DeleteConfig for n ns cm])
  then show ?thesis
    unfolding env.reconcileDelete_eq [OF r] r(1)
    using cl succeeds_removeFinalizer
    by (intro succeeds_bind [OF svc.succeeds_DeleteToken drop] succeeds_bind [OF _ clean]) 
      (auto intro!: succeeds_bind_any)
qed

end

section \<open>Reconcile succeeds\<close>

text \<open>
  What a call needs of the world: an identity in the tbot Secret, YAML in the user's values
  and, unless the cluster is being deleted, a readable Secret and ConfigMap.
\<close>

definition inputs_readable :: "'w libs \<Rightarrow> 'w ClusterReconciler \<Rightarrow> Cluster \<Rightarrow> world_obs \<Rightarrow> bool" where
  "inputs_readable L r cl s \<longleftrightarrow>
     (\<exists>idf. identity_secret (r_Namespace r) idf s) \<and>
     user_values_readable L (clusterName cl) (clusterNamespace cl) s \<and>
     (deletion_IsZero (DeletionTimestamp cl) \<longrightarrow>
        secret_readable (clusterName cl) (clusterNamespace cl) s \<and>
        configmap_readable L (r_Teleport r) (clusterName cl) (clusterNamespace cl) s)"

definition client_reliable :: "'w libs \<Rightarrow> ('w \<Rightarrow> world_obs) \<Rightarrow> 'w ClusterReconciler \<Rightarrow> bool" where
  "client_reliable L obs r \<longleftrightarrow>
     (\<forall>C. TeleportClient (r_Teleport r) = Some C \<longrightarrow> reliable_teleport C obs tokens tokens_update (Now L))"

context reliable_world
begin

lemma succeeds_apps:
  assumes "t_Client t = Some K" "user_values_readable L c ns (obs w)"
  shows "succeeds (AreTeleportAppsEnabled L t c ns) w"
  unfolding succeeds_def AreTeleportAppsEnabled_def assms(1) option.case wp_tryE
  by (rule rcm.wp_Get_reliable)
    (use assms(2) in \<open>auto simp: wp_simps user_values_readable_def split: option.split sum.split\<close>)

lemma NewClient_connects:
  "\<exists>C w'. NewClient L addr idf w = (Inr C, w') \<and> reliable_teleport C obs tokens tokens_update (Now L)"
proof -
  obtain C w1 where C: "tc_New L [addr] idf (10 * 1024 * 1024) w = (Inr C, w1)"
    using New_answers by (metis prod.exhaust_sel sum.exhaust_sel)
  note rel = New_reliable [OF C]
  obtain x w2 where "Ping C w1 = (Inr x, w2)"
    using reliable_teleport.Ping_answers [OF rel] by (metis prod.exhaust_sel sum.exhaust_sel)
  with C rel show ?thesis by (simp add: NewClient_def action_defs)
qed

lemma refreshIdentity_succeeds:
  assumes ok: "reconciler_ok K obs L r" "client_or_stale L r w" and rel: "client_reliable L obs r"
    and ident: "identity_secret (r_Namespace r) idf (obs w)"
  shows "\<exists>r' w'. refreshIdentity L r w = ((Inr (), r'), w') \<and> client_reliable L obs r'"
proof (cases "identityStale L (r_Teleport r) w")
  case False
  with rel show ?thesis by (simp add: refreshIdentity_def)
next
  case True
  have K: "r_Client r = K" using ok(1) by (simp add: reconciler_ok_def)
  have "succeeds (GetIdentityConfigFromSecret (Now L) K (r_Namespace r)) w"
    unfolding succeeds_def GetIdentityConfigFromSecret_def wp_bindE
    by (rule rse.wp_Get_reliable)
      (use ident in \<open>auto simp: identity_secret_def getSecretString_def wp_simps wp_def liftE_def\<close>)
  then obtain i w1 where i: "GetIdentityConfigFromSecret (Now L) K (r_Namespace r) w = (Inr i, w1)"
    by (auto simp: succeeds_iff)
  obtain C w2 where "NewClient L (cfg_ProxyAddr (t_Config (r_Teleport r))) (id_IdentityFile i) w1 = (Inr C, w2)"
    "reliable_teleport C obs tokens tokens_update (Now L)"
    using NewClient_connects by blast
  with True i K show ?thesis by (simp add: refreshIdentity_def client_reliable_def)
qed

lemma refreshIdentity_client_reliable:
  assumes run: "refreshIdentity L r w = ((res, r'), w')" and rel: "client_reliable L obs r"
  shows "client_reliable L obs r'"
proof (cases "identityStale L (r_Teleport r) w")
  case False
  with run rel show ?thesis by (simp add: refreshIdentity_def)
next
  case True
  have new: "reliable_teleport C obs tokens tokens_update (Now L)" if "NewClient L a i w1 = (Inr C, w2)" for a i w1 C w2
    using NewClient_connects [of a i w1] that by simp
  from True run rel show ?thesis
    by (auto simp: refreshIdentity_def client_reliable_def dest: new split: prod.splits sum.splits)
qed

lemma reliable_connectedI:
  assumes "reconciler_ok K obs L r" "client_reliable L obs r" "TeleportClient (r_Teleport r) = Some C"
  shows "reliable_connected K obs L app_admit C (r_Teleport r)"
proof -
  have "token_service C obs tokens tokens_update L (r_Teleport r)"
    using token_issuerI [OF assms(1,3)] by (simp add: token_issuer_def)
  moreover have "reliable_teleport C obs tokens tokens_update (Now L)"
    using assms(2,3) by (simp add: client_reliable_def)
  ultimately show ?thesis
    by (simp add: reliable_connected_def reliable_service_def reliable_world_axioms)
qed

lemma branch_succeeds:
  assumes ok: "reconciler_ok K obs L r" "client_reliable L obs r" "TeleportClient (r_Teleport r) = Some C"
    and cl: "clusters (obs w) (cluster_meta cl) = Some cl" and inp: "inputs_readable L r cl (obs w)"
    and roles: "roles \<noteq> []" "set roles \<subseteq> set known_roles"
  shows "succeeds (if \<not> deletion_IsZero (DeletionTimestamp cl)
    then reconcileDelete L r cl reg else reconcileNormal L r cl reg roles) w"
proof -
  have env: "reliable_connected K obs L app_admit C (r_Teleport r)" by (rule reliable_connectedI [OF ok])
  have r: "r_Client r = K" using ok(1) by (simp add: reconciler_ok_def)
  show ?thesis
    using reliable_connected.succeeds_reconcileDelete [OF env r refl cl]
      reliable_connected.succeeds_reconcileNormal [OF env r refl roles cl] inp
    by (simp add: inputs_readable_def)
qed

text \<open>Up to the two branches a call does not fail.\<close>

lemma Reconcile_reaches:
  assumes ok: "reconciler_ok K obs L r" "client_or_stale L r w" and rel: "client_reliable L obs r"
    and cl: "clusters (obs w) req = Some cl" "cluster_meta cl = req"
    and ident: "\<exists>idf. identity_secret (r_Namespace r) idf (obs w)"
    and user: "user_values_readable L (clusterName cl) (clusterNamespace cl) (obs w)"
  obtains r2 w3 C where
    "\<And>res w4. (if \<not> deletion_IsZero (DeletionTimestamp cl)
       then reconcileDelete L r2 cl (registerNameOf r cl)
       else reconcileNormal L r2 cl (registerNameOf r cl) (rolesFor L cl (obs w))) w3 = (res, w4) \<Longrightarrow>
       Reconcile L req r w = ((res, r2), w4)"
    "rewired r r2" "r_Namespace r2 = r_Namespace r" "reconciler_ok K obs L r2" "client_reliable L obs r2"
    "TeleportClient (r_Teleport r2) = Some C" "obs w3 = obs w" "Now L w \<le> Now L w3"
proof -
  have K: "r_Client r = K" "t_Client (r_Teleport r) = Some K" using ok(1) by (simp_all add: reconciler_ok_def)
  obtain g w1 where g: "Get (Clusters K) req w = (g, w1)" by (cases "Get (Clusters K) req w")
  note g1 = wp_run [OF cs.wp_GetCluster g]
  have "g = Inr cl" using g1 GetC_answers [of req w _ w1] g cl(1) by (cases g) auto
  note w1 = conjunct1 [OF g1] conjunct1 [OF conjunct2 [OF g1]]
  have "succeeds (AreTeleportAppsEnabled L (r_Teleport r) (clusterName cl) (clusterNamespace cl)) w1"
    using user w1 by (intro succeeds_apps [OF K(2)]) simp
  then obtain b w2 where b: "AreTeleportAppsEnabled L (r_Teleport r) (clusterName cl) (clusterNamespace cl) w1 = (Inr b, w2)"
    by (auto simp: succeeds_iff)
  note w2 = wp_run [OF wp_AreTeleportAppsEnabled [OF K(2)] b]
  let ?r1 = "r\<lparr>lastAssignedRoles := assignedRoles b\<rparr>"
  have roles: "rolesFor L cl (obs w) = assignedRoles b" using w1 w2 by (simp add: rolesFor_def)
  have ok1: "reconciler_ok K obs L ?r1" "client_or_stale L ?r1 w2" "client_reliable L obs ?r1"
    using ok rel w1 w2 by (auto simp: reconciler_ok_def client_or_stale_def client_reliable_def intro: identityStale_later)
  obtain idf where "identity_secret (r_Namespace ?r1) idf (obs w2)" using ident w1 w2 by auto
  from refreshIdentity_succeeds [OF ok1 this] obtain r2 w3
    where v: "refreshIdentity L ?r1 w2 = ((Inr (), r2), w3)" and rel2: "client_reliable L obs r2" by blast
  note ref = refreshIdentity_run [OF v ok1(1), of "()"]
  obtain C where C: "TeleportClient (r_Teleport r2) = Some C" using ref ok1(2) by blast
  have fields: "registerNameOf r2 cl = registerNameOf r cl" "r_Namespace r2 = r_Namespace r"
    using ref reconnected_fields(3,8) [of ?r1 r2] by (simp_all add: registerNameOf_def)
  show thesis
  proof (rule that [of r2 w3 C])
    show "Reconcile L req r w = ((res, r2), w4)" if "(if \<not> deletion_IsZero (DeletionTimestamp cl)
       then reconcileDelete L r2 cl (registerNameOf r cl)
       else reconcileNormal L r2 cl (registerNameOf r cl) (rolesFor L cl (obs w))) w3 = (res, w4)" for res w4
      using that g \<open>g = Inr cl\<close> b v fields(1) roles
      by (auto simp: Reconcile_def K Let_def split: if_splits)
    show "rewired r r2" using ref by (auto simp: rewired_def)
  qed (use ref rel2 C fields w1 w2 in auto)
qed

lemma Reconcile_succeeds:
  assumes ok: "reconciler_ok K obs L r" "client_or_stale L r w" and rel: "client_reliable L obs r"
    and cl: "clusters (obs w) req = Some cl" "cluster_meta cl = req" and inp: "inputs_readable L r cl (obs w)"
  shows "\<exists>x r' w'. Reconcile L req r w = ((Inr x, r'), w') \<and> client_reliable L obs r'"
proof (rule Reconcile_reaches [OF ok rel cl])
  fix r2 w3 C
  assume go: "\<And>res w4. (if \<not> deletion_IsZero (DeletionTimestamp cl)
       then reconcileDelete L r2 cl (registerNameOf r cl)
       else reconcileNormal L r2 cl (registerNameOf r cl) (rolesFor L cl (obs w))) w3 = (res, w4) \<Longrightarrow>
       Reconcile L req r w = ((res, r2), w4)"
    and r2: "rewired r r2" "r_Namespace r2 = r_Namespace r" "reconciler_ok K obs L r2" "client_reliable L obs r2"
      "TeleportClient (r_Teleport r2) = Some C" and w3: "obs w3 = obs w"
  have "inputs_readable L r2 cl (obs w3)"
    using inp r2(2) rewired_fields(3) [OF r2(1)] w3
    by (simp add: inputs_readable_def configmap_readable_def configmap_key_def)
  from branch_succeeds [OF r2(3-5) _ this rolesFor_known] cl w3 go r2(4) show ?thesis
    unfolding succeeds_iff by (metis (no_types, lifting))
qed (use inp in \<open>simp_all add: inputs_readable_def\<close>)

text \<open>Whatever comes out of a call, the client in use is one that answers.\<close>

lemma Reconcile_client_reliable:
  assumes run: "Reconcile L req r w = ((res, r'), w')" and ok: "reconciler_ok K obs L r" and rel: "client_reliable L obs r"
  shows "client_reliable L obs r'"
  using ok
proof (cases rule: Reconcile_reads [of r w req])
  case (found cl w2)
  let ?r1 = "r\<lparr>lastAssignedRoles := rolesFor L cl (obs w)\<rparr>"
  obtain v r2 w3 where v: "refreshIdentity L ?r1 w2 = ((v, r2), w3)" by (metis prod.exhaust_sel)
  have "r' = r2" using found(5) v run by (auto simp: act_on_def split: sum.splits prod.splits)
  moreover have "client_reliable L obs r2"
    by (rule refreshIdentity_client_reliable [OF v]) (use rel in \<open>simp add: client_reliable_def\<close>)
  ultimately show ?thesis by simp
qed (use run rel in simp_all)

end

end
