(* ===== verification/Queue.thy ===== *)
theory Queue
  imports History Isolation Progress Steady
begin

text \<open>
  The reconciler and its queue: one worker takes the requests one after the other, in any
  order and with repetitions, and hands the reconciler from call to call. What holds of the
  calls one by one is put together: clusters that are in order stay in order through any
  sequence of calls, and where the servers answer one pass settles every cluster.
\<close>

section \<open>A sequence of calls\<close>

fun reconcile_all :: "'w libs \<Rightarrow> NamespacedName list \<Rightarrow> 'w state \<Rightarrow> 'w state" where
  "reconcile_all L [] s = s"
| "reconcile_all L (req # reqs) (r, w) =
     (case Reconcile L req r w of ((_, r'), w') \<Rightarrow> reconcile_all L reqs (r', w'))"

text \<open>The calls of a queue are steps of the operator: they lead to reachable states only.\<close>

lemma reconcile_all_steps: "(operator_step L)\<^sup>*\<^sup>* s (reconcile_all L reqs s)"
proof (induction reqs arbitrary: s)
  case (Cons req reqs)
  obtain r w where s: "s = (r, w)" by fastforce
  obtain res r' w' where run: "Reconcile L req r w = ((res, r'), w')" by (metis prod.exhaust_sel)
  then have "operator_step L (r, w) (r', w')" by (auto simp: operator_step_iff)
  then show ?case using Cons.IH [of "(r', w')"] by (simp add: s run converse_rtranclp_into_rtranclp)
qed simp

lemma reachable_reconcile_all: "reachable L K cfg tbot ns s \<Longrightarrow> reachable L K cfg tbot ns (reconcile_all L reqs s)"
  using reconcile_all_steps [of L s reqs] by (induction rule: rtranclp_induct) (auto intro: reachable.step)

text \<open>What a call is to achieve for a cluster.\<close>

definition settled :: "'w libs \<Rightarrow> 'w ClusterReconciler \<Rightarrow> time \<Rightarrow> Cluster \<Rightarrow> string list \<Rightarrow> world_obs \<Rightarrow> bool" where
  "settled L r u cl roles s \<longleftrightarrow>
     (if deletion_IsZero (DeletionTimestamp cl) then converged L r u cl (registerNameOf r cl) roles s
      else cleaned r cl s \<and> finalizer_gone (cluster_meta cl) s)"

lemma converged_mono:
  assumes "converged L r u cl reg roles s" "v \<le> u"
  shows "converged L r v cl reg roles s"
  using assms(1) serves_mono [OF _ assms(2)]
  by (fastforce simp: converged_def Let_def secret_ready_def configmap_ready_def)

lemma settled_mono: "settled L r u cl roles s \<Longrightarrow> v \<le> u \<Longrightarrow> settled L r v cl roles s"
  by (auto simp: settled_def intro: converged_mono)

lemma settled_rewired: "rewired r r' \<Longrightarrow> settled L r' = settled L r"
  by (simp add: settled_def rewired_fields fun_eq_iff)

lemma no_clash_rewired: "rewired r r' \<Longrightarrow> no_clash (r_Teleport r') = no_clash (r_Teleport r)"
  by (simp add: no_clash_def rewired_fields fun_eq_iff)

lemma footprint_keeps_settled:
  assumes "footprint (r_Teleport r) a (registerNameOf r a) s s'" "no_clash (r_Teleport r) a b"
    and ne: "cluster_meta b \<noteq> cluster_meta a" and "settled L r u b roles s"
  shows "settled L r u b roles s'"
  using assms footprint_keeps_converged [OF assms(1-3)] footprint_keeps_cleaned [OF assms(1-3)]
    footprint_other_objects(1) [OF assms(1-3)]
  by (auto simp: settled_def finalizer_gone_def split: if_splits)

text \<open>Requests that stand for other clusters, with names apart from those of one cluster.\<close>

definition others :: "'w Teleport \<Rightarrow> Cluster \<Rightarrow> NamespacedName set \<Rightarrow> bool" where
  "others t b reqs \<longleftrightarrow> (\<forall>a. cluster_meta a \<in> reqs \<longrightarrow> cluster_meta a \<noteq> cluster_meta b \<longrightarrow> no_clash t a b)"

context operator_world
begin

lemma reconcile_all_ok:
  assumes "reconcile_all L reqs (r, w) = (r', w')" "reconciler_ok K obs L r" "client_or_stale L r w"
  shows "reconciler_ok K obs L r' \<and> client_or_stale L r' w' \<and> Now L w \<le> Now L w'"
  using assms
proof (induction reqs arbitrary: r w)
  case (Cons req reqs)
  obtain res r1 w1 where run: "Reconcile L req r w = ((res, r1), w1)" by (metis prod.exhaust_sel)
  note keeps = Reconcile_reconciler [OF run Cons.prems(2)] Reconcile_now [OF run Cons.prems(2,3)]
  have "reconciler_ok K obs L r' \<and> client_or_stale L r' w' \<and> Now L w1 \<le> Now L w'"
    using Cons.prems(1,3) run keeps by (intro Cons.IH) simp_all
  with keeps show ?case by simp
qed simp

text \<open>A call for another cluster, or for none.\<close>

lemma Reconcile_other:
  assumes run: "Reconcile L req r w = ((res, r'), w')" and ok: "reconciler_ok K obs L r" "client_or_stale L r w"
  obtains "obs w' = obs w" | a where "clusters (obs w) req = Some a" "cluster_meta a = req"
      "footprint (r_Teleport r) a (registerNameOf r a) (obs w) (obs w')"
  using run ok(1)
proof (cases rule: Reconcile_cases)
  case (branch cl w3)
  then show thesis using that(2) [of cl] Reconcile_footprint [OF run ok] by blast
qed (use that(1) in simp_all)

lemma Reconcile_keeps_settled:
  assumes run: "Reconcile L req r w = ((res, r'), w')" and ok: "reconciler_ok K obs L r" "client_or_stale L r w"
    and "req \<noteq> cluster_meta b" "others (r_Teleport r) b {req}" "settled L r u b roles (obs w)"
  shows "settled L r' u b roles (obs w')"
proof -
  have same: "settled L r' = settled L r" by (rule settled_rewired [OF Reconcile_reconciler(2) [OF run ok(1)]])
  show ?thesis
    using run ok
  proof (cases rule: Reconcile_other)
    case 1
    then show ?thesis using assms(6) by (simp add: same)
  next
    case (2 a)
    then have "no_clash (r_Teleport r) a b" "cluster_meta b \<noteq> cluster_meta a"
      using assms(4,5) by (auto simp: others_def)
    with 2 assms(6) show ?thesis by (simp add: same footprint_keeps_settled)
  qed
qed

lemma others_rewired: "rewired r r' \<Longrightarrow> others (r_Teleport r') = others (r_Teleport r)"
  by (simp add: others_def no_clash_rewired fun_eq_iff)

lemma reconcile_all_keeps_settled:
  assumes "reconcile_all L reqs (r, w) = (r', w')" "reconciler_ok K obs L r" "client_or_stale L r w"
    and "cluster_meta b \<notin> set reqs" "others (r_Teleport r) b (set reqs)" "settled L r u b roles (obs w)"
  shows "settled L r' u b roles (obs w')"
  using assms
proof (induction reqs arbitrary: r w)
  case (Cons req reqs)
  obtain res r1 w1 where run: "Reconcile L req r w = ((res, r1), w1)" by (metis prod.exhaust_sel)
  note keeps = Reconcile_reconciler [OF run Cons.prems(2)]
  have "settled L r1 u b roles (obs w1)"
    using Cons.prems by (intro Reconcile_keeps_settled [OF run]) (auto simp: others_def)
  then show ?case
    using Cons.prems run keeps others_rewired [OF keeps(2)]
    by (intro Cons.IH [of r1 w1]) (auto simp: others_def)
qed simp

end

section \<open>Clusters in order stay in order\<close>

text \<open>A live cluster that is in order until \<open>u\<close>, with values that need no escaping.\<close>

definition in_order :: "'w libs \<Rightarrow> 'w ClusterReconciler \<Rightarrow> time \<Rightarrow> Cluster \<Rightarrow> world_obs \<Rightarrow> bool" where
  "in_order L r u b s \<longleftrightarrow>
     clusters s (cluster_meta b) = Some b \<and> deletion_IsZero (DeletionTimestamp b) \<and>
     converged L r u b (registerNameOf r b) (rolesFor L b s) s \<and>
     plain_tokens (r_Teleport r) (registerNameOf r b) (rolesFor L b s) s"

lemma in_order_rewired: "rewired r r' \<Longrightarrow> in_order L r' = in_order L r"
  by (simp add: in_order_def plain_tokens_def rewired_fields fun_eq_iff)

lemma footprint_keeps_order:
  assumes fp: "footprint (r_Teleport r) a (registerNameOf r a) s s'" and nc: "no_clash (r_Teleport r) a b"
    and ne: "cluster_meta b \<noteq> cluster_meta a" and ord: "in_order L r u b s"
  shows "in_order L r u b s'"
proof -
  have reg: "registerNameOf r b \<noteq> registerNameOf r a"
    using nc registerNameOf_distinct [of b a r] by (auto simp: no_clash_def Let_def)
  have "tokens_kept (registerNameOf r a) (tokens s) (tokens s')" using fp by (simp add: footprint_def Let_def)
  with ord reg have "plain_tokens (r_Teleport r) (registerNameOf r b) (rolesFor L b s) s'"
    by (fastforce simp: in_order_def plain_tokens_def tokens_kept_def)
  then show ?thesis
    using ord footprint_keeps_converged [OF fp nc ne] footprint_other_objects(1) [OF fp nc ne] footprint_keeps_roles [OF fp, of L b]
    by (simp add: in_order_def)
qed

context operator_world
begin

lemma Reconcile_keeps_order:
  assumes run: "Reconcile L req r w = ((res, r'), w')" and ok: "reconciler_ok K obs L r" "client_or_stale L r w"
    and yaml: "yaml_values L" and ord: "in_order L r u b (obs w)" and apart: "others (r_Teleport r) b {req}"
    and time: "Now L w' \<le> u"
  shows "in_order L r' u b (obs w')"
proof -
  have "in_order L r u b (obs w')"
  proof (cases "req = cluster_meta b")
    case True
    then have "obs w' = obs w"
      using ord by (intro Reconcile_quiet [OF run ok yaml _ _ _ _ _ time]) (auto simp: in_order_def)
    with ord show ?thesis by simp
  next
    case False
    from run ok show ?thesis
    proof (cases rule: Reconcile_other)
      case 1
      with ord show ?thesis by simp
    next
      case (2 a)
      then have "no_clash (r_Teleport r) a b" "cluster_meta b \<noteq> cluster_meta a"
        using False apart by (auto simp: others_def)
      with 2 ord show ?thesis by (blast intro: footprint_keeps_order)
    qed
  qed
  then show ?thesis by (simp add: in_order_rewired [OF Reconcile_reconciler(2) [OF run ok(1)]])
qed

lemma reconcile_all_keeps_order:
  assumes "reconcile_all L reqs (r, w) = (r', w')" "reconciler_ok K obs L r" "client_or_stale L r w" "yaml_values L"
    and "in_order L r u b (obs w)" "others (r_Teleport r) b (set reqs)" "Now L w' \<le> u"
  shows "in_order L r' u b (obs w')"
  using assms
proof (induction reqs arbitrary: r w)
  case (Cons req reqs)
  obtain res r1 w1 where run: "Reconcile L req r w = ((res, r1), w1)" by (metis prod.exhaust_sel)
  note keeps = Reconcile_reconciler [OF run Cons.prems(2)]
  have rest: "reconcile_all L reqs (r1, w1) = (r', w')" using Cons.prems(1) run by simp
  then have "Now L w1 \<le> u" using reconcile_all_ok [OF rest] keeps Cons.prems(3,7) by fastforce
  then have "in_order L r1 u b (obs w1)"
    using Cons.prems by (intro Reconcile_keeps_order [OF run]) (auto simp: others_def)
  then show ?case
    using Cons.prems keeps others_rewired [OF keeps(2)] by (intro Cons.IH [OF rest]) (auto simp: others_def)
qed simp

end

section \<open>A pass over all clusters\<close>

text \<open>What a pass needs of a cluster it has not come to yet.\<close>

definition pending :: "'w libs \<Rightarrow> 'w ClusterReconciler \<Rightarrow> Cluster \<Rightarrow> world_obs \<Rightarrow> bool" where
  "pending L r cl s \<longleftrightarrow>
     clusters s (cluster_meta cl) = Some cl \<and> inputs_readable L r cl s \<and>
     (deletion_IsZero (DeletionTimestamp cl) \<longrightarrow>
        register_kept L (r_Teleport r) (registerNameOf r cl) (clusterName cl) (clusterNamespace cl) s)"

lemma pending_rewired: "rewired r r' \<Longrightarrow> pending L r' = pending L r"
  by (simp add: pending_def inputs_readable_def configmap_readable_def configmap_key_def rewired_fields
      rewired_namespace fun_eq_iff)

lemma footprint_keeps_pending:
  assumes fp: "footprint (r_Teleport r) a (registerNameOf r a) s s'" and nc: "no_clash (r_Teleport r) a b"
    and ne: "cluster_meta b \<noteq> cluster_meta a" and pend: "pending L r b s"
  shows "pending L r b s'"
  using pend footprint_other_objects(1,2,4) [OF fp nc ne] footprint_keeps_reads [OF fp]
  by (simp add: pending_def inputs_readable_def register_kept_def identity_secret_def user_values_readable_def
      secret_readable_def configmap_readable_def)

text \<open>Every cluster in the queue is pending, once, and their names do not clash.\<close>

definition pass_ready :: "'w libs \<Rightarrow> 'w ClusterReconciler \<Rightarrow> NamespacedName list \<Rightarrow> world_obs \<Rightarrow> bool" where
  "pass_ready L r reqs s \<longleftrightarrow>
     distinct reqs \<and> (\<forall>a \<in> set reqs. \<exists>cl. cluster_meta cl = a \<and> pending L r cl s) \<and>
     (\<forall>b. cluster_meta b \<in> set reqs \<longrightarrow> others (r_Teleport r) b (set reqs))"

text \<open>After the first call the rest of the queue is still to be done, and can be.\<close>

lemma pass_ready_next:
  assumes ready: "pass_ready L r (req # reqs) s" and cl: "cluster_meta cl = req"
    and fp: "footprint (r_Teleport r) cl (registerNameOf r cl) s s'" and rew: "rewired r r'"
  shows "pass_ready L r' reqs s'"
proof -
  have pend: "pending L r a s'" if "pending L r a s" "cluster_meta a \<in> set reqs" for a
  proof -
    have ne: "cluster_meta a \<noteq> cluster_meta cl" using that(2) ready cl by (auto simp: pass_ready_def)
    then have "no_clash (r_Teleport r) cl a"
      using ready that(2) cl by (fastforce simp: pass_ready_def others_def)
    with ne show ?thesis using footprint_keeps_pending [OF fp] that(1) by simp
  qed
  have "\<exists>cl. cluster_meta cl = a \<and> pending L r cl s'" if "a \<in> set reqs" for a
    using ready that pend by (fastforce simp: pass_ready_def)
  then show ?thesis
    using ready by (auto simp: pass_ready_def others_def pending_rewired [OF rew] no_clash_rewired [OF rew])
qed

context reliable_world
begin

lemma Reconcile_settles:
  assumes ok: "reconciler_ok K obs L r" "client_or_stale L r w" "client_reliable L obs r"
    and pend: "pending L r cl (obs w)"
  obtains x r' w' where "Reconcile L (cluster_meta cl) r w = ((Inr x, r'), w')" "client_reliable L obs r'"
    "settled L r' (Now L w) cl (rolesFor L cl (obs w)) (obs w')"
proof -
  have cl: "clusters (obs w) (cluster_meta cl) = Some cl" using pend by (simp add: pending_def)
  obtain x r' w' where run: "Reconcile L (cluster_meta cl) r w = ((Inr x, r'), w')" "client_reliable L obs r'"
    using Reconcile_succeeds [OF ok cl refl] pend by (auto simp: pending_def)
  have "settled L r (Now L w) cl (rolesFor L cl (obs w)) (obs w')"
    using Reconcile_normal_outcome [OF run(1) ok(1,2) cl refl] Reconcile_delete_outcome(4) [OF run(1) ok(1,2) cl refl _ refl] pend
    by (simp add: settled_def pending_def)
  then show thesis
    using run that by (simp add: settled_rewired [OF Reconcile_reconciler(2) [OF run(1) ok(1)]])
qed

lemma reconcile_all_settles:
  assumes "reconcile_all L reqs (r, w) = (r', w')" "reconciler_ok K obs L r" "client_or_stale L r w" "client_reliable L obs r"
    and "pass_ready L r reqs (obs w)" "cluster_meta b \<in> set reqs" "clusters (obs w) (cluster_meta b) = Some b"
  shows "settled L r' (Now L w) b (rolesFor L b (obs w)) (obs w')"
  using assms
proof (induction reqs arbitrary: r w)
  case (Cons req reqs)
  obtain cl where cl: "cluster_meta cl = req" "pending L r cl (obs w)"
    using Cons.prems(5) by (fastforce simp: pass_ready_def)
  then obtain x r1 w1 where run: "Reconcile L req r w = ((Inr x, r1), w1)" "client_reliable L obs r1"
      "settled L r1 (Now L w) cl (rolesFor L cl (obs w)) (obs w1)"
    using Reconcile_settles [OF Cons.prems(2-4)] by metis
  note keeps = Reconcile_reconciler [OF run(1) Cons.prems(2)] Reconcile_now [OF run(1) Cons.prems(2,3)]
  have fp: "footprint (r_Teleport r) cl (registerNameOf r cl) (obs w) (obs w1)"
    using Reconcile_footprint [OF run(1) Cons.prems(2,3)] cl by (simp add: pending_def)
  have rest: "reconcile_all L reqs (r1, w1) = (r', w')" using Cons.prems(1) run by simp
  note ready = pass_ready_next [OF Cons.prems(5) cl(1) fp keeps(2)]
  show ?case
  proof (cases "cluster_meta b = req")
    case True
    have "others (r_Teleport r1) cl (set reqs)"
      using Cons.prems(5) cl(1) by (auto simp: pass_ready_def others_def no_clash_rewired [OF keeps(2)])
    moreover have "b = cl" "req \<notin> set reqs"
      using True Cons.prems(5,7) cl by (simp_all add: pending_def pass_ready_def)
    ultimately show ?thesis
      using run(3) keeps Cons.prems(3) cl(1) by (intro reconcile_all_keeps_settled [OF rest]) simp_all
  next
    case False
    then have b: "cluster_meta b \<in> set reqs" using Cons.prems(6) by simp
    have "clusters (obs w1) (cluster_meta b) = Some b"
      using fp False cl(1) Cons.prems(7) by (simp add: footprint_def Let_def agree_off_def)
    then have "settled L r' (Now L w1) b (rolesFor L b (obs w1)) (obs w')"
      using keeps Cons.prems(3) run(2) ready b by (intro Cons.IH [OF rest]) simp_all
    then show ?thesis
      using keeps(4) footprint_keeps_roles [OF fp, of L b] by (auto intro: settled_mono)
  qed
qed simp

section \<open>From any reachable state\<close>

text \<open>
  Where the servers answer the client in use is always one that does, whatever calls there
  were and whatever others did in between.
\<close>

lemma reachable_reliable:
  assumes gen: "token_generator (NewGenerator L) obs tokens (Now L)" and reach: "reachable L K cfg tbot ns s"
  shows "client_reliable L obs (fst s)"
  using reach
proof (induction rule: reachable.induct)
  case (start w)
  show ?case by (simp add: client_reliable_def)
next
  case (step s s')
  obtain r w where s: "s = (r, w)" by fastforce
  have "state_ok L obs K cfg tbot ns s" by (rule reachable_ok [OF gen step.hyps(1)])
  then have ok: "reconciler_ok K obs L r" by (simp add: s state_ok_def)
  show ?case
    using step.hyps(2) step.IH unfolding s
    by (elim operator_stepE) (auto dest: Reconcile_client_reliable [OF _ ok])
qed

lemma reachable_settles:
  assumes gen: "token_generator (NewGenerator L) obs tokens (Now L)" and reach: "reachable L K cfg tbot ns (r, w)"
    and "pass_ready L r reqs (obs w)" "cluster_meta b \<in> set reqs" "clusters (obs w) (cluster_meta b) = Some b"
    and "reconcile_all L reqs (r, w) = (r', w')"
  shows "settled L r' (Now L w) b (rolesFor L b (obs w)) (obs w')"
proof -
  have "reconciler_ok K obs L r" "client_or_stale L r w"
    using reachable_ok [OF gen reach] by (simp_all add: state_ok_def)
  then show ?thesis
    using reachable_reliable [OF gen reach] assms(3-6) by (auto intro: reconcile_all_settles)
qed

end

end
