(* ===== verification/Answers.thy ===== *)
theory Answers
  imports Memory Progress
begin

text \<open>
  The environment of theory \<open>Memory\<close> when every call is answered: it meets the contracts
  under which a reconciliation is shown to succeed.
\<close>

section \<open>Kubernetes\<close>

locale mem_answers = mem_calls +
  assumes answers: "nx w = (f, w') \<Longrightarrow> f = Answer"
begin

lemma mem_read_answers: "mem_read nx find_it w = (Inl e, w') \<Longrightarrow> e = NotFound"
  using answers by (auto simp: mem_read_def split: prod.splits option.splits if_splits)

lemma mem_write_answers: "mem_write nx check effect w = (Inl e, w') \<Longrightarrow> \<exists>w1. mem_obs w1 = mem_obs w \<and> check w1 = Some e"
  using answers nx_obs by (auto simp: mem_write_def split: prod.splits option.splits fault.splits) blast

end

locale mem_part_answers = mem_part + mem_answers
begin

sublocale reliable_api part key_of admit mem_obs sel put mem_now
proof
  fix k w e w' assume "Get part k w = (Inl e, w')"
  then show "IsNotFound e" unfolding part_runs by (auto dest: mem_read_answers)
next
  fix w x e w' assume none: "sel (mem_obs w) (key_of x) = None"
  show "Create part x w \<noteq> (Inl e, w')"
  proof
    assume "Create part x w = (Inl e, w')"
    from mem_write_answers [OF this [unfolded part_runs]] none show False by (auto split: if_splits)
  qed
next
  fix w x e w' assume some: "sel (mem_obs w) (key_of x) \<noteq> None"
  show "Update part x w \<noteq> (Inl e, w')"
  proof
    assume "Update part x w = (Inl e, w')"
    from mem_write_answers [OF this [unfolded part_runs]] some show False by (auto split: if_splits)
  qed
next
  fix x w e w' assume "Delete part x w = (Inl e, w')"
  from mem_write_answers [OF this [unfolded part_runs]] show "IsNotFound e" by (auto split: if_splits)
qed

end

section \<open>Teleport\<close>

text \<open>The fake client with its failure switches off.\<close>

definition calm :: "FakeTeleportClient \<Rightarrow> FakeTeleportClient" where
  "calm c = c\<lparr>failsPing := False, failsGet := False, failsList := False, failsCreate := False,
     failsUpsert := False, failsDelete := False\<rparr>"

definition calm_teleport :: "mem Client" where
  "calm_teleport = FakeClient (\<lambda>es. es) (calm \<circ> m_fake) m_fake_update"

interpretation calm_fake: fake_world "\<lambda>es. es" "calm \<circ> m_fake" m_fake_update mem_obs tokens tokens_update mem_now
  by unfold_locales (simp_all add: mem_obs_def mem_now_def calm_def)

interpretation calm_client: reliable_teleport calm_teleport mem_obs tokens tokens_update mem_now
proof (intro reliable_teleport.intro reliable_teleport_axioms.intro)
  show "teleport_client calm_teleport mem_obs tokens tokens_update mem_now"
    unfolding calm_teleport_def by (rule calm_fake.teleport_client_axioms)
qed (simp_all add: calm_teleport_def calm_fake.fake_method_defs calm_def)

definition calm_libs :: "(mem \<Rightarrow> fault \<times> mem) \<Rightarrow> mem libs" where
  "calm_libs nx = (mem_libs nx)\<lparr>tc_New := (\<lambda>addrs identity n. mem_read nx (\<lambda>w. Some calm_teleport))\<rparr>"

lemma calm_libs_simps [simp]:
  "Now (calm_libs nx) = mem_now" "Unmarshal (calm_libs nx) = ref_Unmarshal" "lib_semver (calm_libs nx) = ref_semver"
  "lib_roles (calm_libs nx) = ref_roles" "lib_finalizers (calm_libs nx) = ref_finalizers"
  "NewProvisionToken (calm_libs nx) = ref_NewProvisionToken"
  "uuid_NewString (calm_libs nx) = uuid_NewString (mem_libs nx)"
  by (simp_all add: calm_libs_def)

context mem_answers
begin

sublocale ans_secrets: mem_part_answers nx secret_meta secret_admit m_secrets m_secrets_update secrets secrets_update
  by unfold_locales

sublocale ans_configmaps: mem_part_answers nx cm_meta "\<lambda>x. x" m_configmaps m_configmaps_update configmaps configmaps_update
  by unfold_locales

sublocale ans_helmreleases: mem_part_answers nx hr_meta "\<lambda>x. x" m_helmreleases m_helmreleases_update helmreleases helmreleases_update
  by unfold_locales

sublocale ans_apps: mem_part_answers nx app_meta "\<lambda>x. x" m_apps m_apps_update apps apps_update
  by unfold_locales

lemma calm_New:
  assumes "tc_New (calm_libs nx) addrs identity n w = (r, w')"
  shows "mem_obs w' = mem_obs w" "mem_now w \<le> mem_now w'" "r = Inr calm_teleport"
proof -
  have run: "mem_read nx (\<lambda>w. Some calm_teleport) w = (r, w')" using assms by (simp add: calm_libs_def)
  show "mem_obs w' = mem_obs w" "mem_now w \<le> mem_now w'" using mem_read_post [OF run] by blast+
  show "r = Inr calm_teleport"
    using run answers by (auto simp: mem_read_def split: prod.splits if_splits)
qed

lemma calm_connecting: "connecting mem_obs (calm_libs nx)"
proof (intro connecting.intro connecting_axioms.intro, goal_cases)
  case 1 show ?case using ref_types.teleport_types_axioms by simp
next
  case (2 w) show ?case by (simp add: mem_now_def second_def)
next
  case (3 as f n w c w') then show ?case using calm_New(2) by simp
next
  case (4 as f n w c w') then show ?case using calm_New(1) by simp
next
  case 5 show ?case using calm_New(3) [OF 5] calm_client.teleport_client_axioms by simp
qed

lemma calm_world: "operator_world (mem_client nx) mem_obs (calm_libs nx) (\<lambda>x. x)"
proof (rule operator_world.intro [OF _ calm_connecting])
  show "operator_env (mem_client nx) mem_obs (calm_libs nx) (\<lambda>x. x)"
    using mem_operator_env by (simp add: operator_env_def cached_env_def)
qed

sublocale calm: reliable_world "mem_client nx" mem_obs "calm_libs nx" "\<lambda>x. x"
proof (intro reliable_world.intro reliable_world_axioms.intro, goal_cases)
  case 1 show ?case by (rule calm_world)
next
  case 2 show ?case using ans_secrets.reliable_api_axioms by simp
next
  case 3 show ?case using ans_configmaps.reliable_api_axioms by simp
next
  case 4 show ?case using ans_helmreleases.reliable_api_axioms by simp
next
  case 5 show ?case using ans_apps.reliable_api_axioms by simp
next
  case 6 then show ?case by (simp add: mem_clusters.part_runs) (drule mem_read_answers, simp)
next
  case 7 show ?case using answers by (auto simp: mem_client_def mem_read_def split: prod.splits)
next
  case (8 w c d e w')
  show ?case
  proof
    assume "patch_Patch (mem_client nx) c d w = (Inl e, w')"
    from mem_write_answers [OF this [unfolded mem_patch]] 8 show False by (auto split: if_splits)
  qed
next
  case 9 show ?case using calm_New(3) by blast
next
  case 10 show ?case using calm_New(3) [OF 10] calm_client.reliable_teleport_axioms by simp
qed

end

interpretation answering: mem_answers steady
  by unfold_locales (simp add: steady_def)

text \<open>A reconciler, a connected handle, and the services they use.\<close>

definition calm_reconciler :: "Config \<Rightarrow> bool \<Rightarrow> string \<Rightarrow> mem ClusterReconciler" where
  "calm_reconciler cfg tbot ns = newReconciler (calm_libs steady) (mem_client steady) cfg tbot ns"

lemma calm_reconciler_ok:
  "reconciler_ok (mem_client steady) mem_obs (calm_libs steady) (calm_reconciler cfg tbot ns)"
  "client_or_stale (calm_libs steady) (calm_reconciler cfg tbot ns) w"
  "client_reliable (calm_libs steady) mem_obs (calm_reconciler cfg tbot ns)"
  using mem_generator.token_generator_axioms [of steady]
  by (simp_all add: reconciler_ok_def calm_reconciler_def client_or_stale_def identityStale_def client_reliable_def
      NewGenerator_def RandomGenerator_def)

definition calm_handle :: "Config \<Rightarrow> mem Teleport" where
  "calm_handle cfg = (New '''' cfg (NewGenerator (calm_libs steady)))\<lparr>TeleportClient := Some calm_teleport\<rparr>"

interpretation calm_service: reliable_service calm_teleport mem_obs tokens tokens_update "calm_libs steady" "calm_handle cfg"
  for cfg
  using mem_generator.token_generator_axioms [of steady] calm_client.teleport_client_axioms
    calm_client.reliable_teleport_axioms ref_types.teleport_types_axioms
  by (auto simp: reliable_service_def token_service_def token_service_axioms_def calm_handle_def New_def
      NewGenerator_def RandomGenerator_def mem_now_def second_def)

interpretation calm_env: reliable_connected "mem_client steady" mem_obs "calm_libs steady" "\<lambda>x. x" calm_teleport "calm_handle cfg"
  for cfg
  by (simp add: reliable_connected_def answering.calm.reliable_world_axioms calm_service.reliable_service_axioms)

end
