(* ===== verification/Event_Systems.thy ===== *)
theory Event_Systems
  imports Kube "HOL-Library.Sublist"
begin

text \<open>
  Event systems: a step relation says which event may take a state to which. Runs of
  events, runs in a given order, the invariants that runs keep, and actions whose effect on
  the observed world is such a run.
\<close>

section \<open>Runs\<close>

inductive event_run :: "('e \<Rightarrow> 's \<Rightarrow> 's \<Rightarrow> bool) \<Rightarrow> 'e list \<Rightarrow> 's \<Rightarrow> 's \<Rightarrow> bool"
  for step where
  empty_run [intro!, simp]: "event_run step [] s s"
| cons_run: "step e s s1 \<Longrightarrow> event_run step es s1 s2 \<Longrightarrow> event_run step (e # es) s s2"

inductive_simps event_run_Nil [simp]: "event_run step [] s s'"
inductive_simps event_run_Cons: "event_run step (e # es) s s'"

lemma event_run_append:
  "event_run step es s s1 \<Longrightarrow> event_run step es' s1 s2 \<Longrightarrow> event_run step (es @ es') s s2"
  by (induction rule: event_run.induct) (auto intro: cons_run)

lemma event_run_one: "step e s s' \<Longrightarrow> event_run step [e] s s'"
  by (auto intro: cons_run)

lemma event_run_mono:
  assumes "event_run step es s s'" "\<And>e s1 s2. step e s1 s2 \<Longrightarrow> step' e s1 s2"
  shows "event_run step' es s s'"
  using assms(1) by induction (auto intro: cons_run assms(2))

text \<open>An invariant of the events of a run holds at its end.\<close>

lemma event_run_invariant:
  assumes "event_run step es s s'" "I s"
    and "\<And>e s1 s2. e \<in> set es \<Longrightarrow> step e s1 s2 \<Longrightarrow> I s1 \<Longrightarrow> I s2"
  shows "I s'"
  using assms
proof (induction rule: event_run.induct)
  case (cons_run e s s1 es s2)
  then have "I s1" by (meson list.set_intros(1))
  then show ?case using cons_run.IH cons_run.prems(2) by (meson list.set_intros(2))
qed

section \<open>Runs in an order\<close>

text \<open>
  A run in an order: some of its events, in that sequence. Runs one after the other are in
  the one order after the other.
\<close>

definition performs :: "('e \<Rightarrow> 's \<Rightarrow> 's \<Rightarrow> bool) \<Rightarrow> 'e list \<Rightarrow> 's \<Rightarrow> 's \<Rightarrow> bool" where
  "performs step order s s' \<longleftrightarrow> (\<exists>es. subseq es order \<and> event_run step es s s')"

lemma performs_none [simp]: "performs step order s s"
  unfolding performs_def by (intro exI [of _ "[]"]) simp

lemma performs_one: "step e s s' \<Longrightarrow> e \<in> set order \<Longrightarrow> performs step order s s'"
  unfolding performs_def by (intro exI [of _ "[e]"]) (simp add: event_run_one subseq_singleton_left)

lemma performs_append:
  "performs step o1 s s1 \<Longrightarrow> performs step o2 s1 s2 \<Longrightarrow> performs step (o1 @ o2) s s2"
  unfolding performs_def by (blast intro: event_run_append list_emb_append_mono)

lemma performs_before: "performs step o1 s s1 \<Longrightarrow> performs step (o1 @ o2) s s1"
  by (rule performs_append [OF _ performs_none])

lemma performs_weaken: "performs step o1 s s' \<Longrightarrow> subseq o1 o2 \<Longrightarrow> performs step o2 s s'"
  unfolding performs_def by (blast intro: subseq_order.trans)

lemma performs_mono:
  "performs step order s s' \<Longrightarrow> (\<And>e s1 s2. step e s1 s2 \<Longrightarrow> step' e s1 s2) \<Longrightarrow> performs step' order s s'"
  unfolding performs_def by (blast intro: event_run_mono)

lemma performs_invariant:
  assumes "performs step order s s'" "I s"
    and "\<And>e s1 s2. e \<in> set order \<Longrightarrow> step e s1 s2 \<Longrightarrow> I s1 \<Longrightarrow> I s2"
  shows "I s'"
proof -
  obtain es where es: "subseq es order" "event_run step es s s'" using assms(1) by (auto simp: performs_def)
  have "e \<in> set order" if "e \<in> set es" for e
    using list_emb_set [OF es(1) that] by blast
  then show ?thesis using event_run_invariant [OF es(2), where I = I] assms(2,3) by blast
qed

section \<open>Actions as runs\<close>

text \<open>On the way the clock does not go back.\<close>

definition traced ::
    "('w \<Rightarrow> time) \<Rightarrow> ('w \<Rightarrow> 's) \<Rightarrow> ('e \<Rightarrow> 's \<Rightarrow> 's \<Rightarrow> bool) \<Rightarrow> 'e list \<Rightarrow> 'w \<Rightarrow> error + 'a \<Rightarrow> 'w \<Rightarrow> bool" where
  "traced now obs step order w res w' \<longleftrightarrow> now w \<le> now w' \<and> performs step order (obs w) (obs w')"

lemma traced_bind:
  assumes m: "wp m P w" and P: "\<And>res w1. P res w1 \<Longrightarrow> traced now obs step o1 w res w1"
    and f: "\<And>x w1. P (Inr x) w1 \<Longrightarrow> now w \<le> now w1 \<Longrightarrow> wp (f x) (traced now obs step o2 w1) w1"
  shows "wp (bindE m f) (traced now obs step (o1 @ o2) w) w"
proof (rule wp_bindEI [OF m], goal_cases)
  case (1 x w1)
  then have w1: "now w \<le> now w1" "performs step o1 (obs w) (obs w1)"
    using P by (auto simp: traced_def)
  show ?case
    by (rule wp_mono [OF f [OF 1 w1(1)]]) (use w1 in \<open>auto simp: traced_def intro: performs_append\<close>)
next
  case (2 e w1)
  then have "now w \<le> now w1" "performs step o1 (obs w) (obs w1)"
    using P by (auto simp: traced_def)
  then show ?case by (auto simp: traced_def intro: performs_before)
qed

lemma traced_return: "wp (returnE x) (traced now obs step [] w) w"
  by (simp add: wp_returnE traced_def)

lemma traced_step:
  assumes "step_post obs now f w res w'" "performs step order (obs w) (f (obs w))"
  shows "traced now obs step order w res w'"
  using assms by (auto simp: step_post_def traced_def split: sum.splits)

text \<open>
  An action that runs in an order from every world with \<open>I\<close>, and ends with \<open>J\<close>, of its result
  and the world, when it succeeds. Such actions compose; what the first keeps is carried on.
\<close>

definition passes ::
    "('w \<Rightarrow> time) \<Rightarrow> ('w \<Rightarrow> 's) \<Rightarrow> ('e \<Rightarrow> 's \<Rightarrow> 's \<Rightarrow> bool) \<Rightarrow> 'e list \<Rightarrow> ('w \<Rightarrow> bool) \<Rightarrow> ('a \<Rightarrow> 'w \<Rightarrow> bool) \<Rightarrow>
      ('w, 'a) action \<Rightarrow> bool" where
  "passes now obs step order I J m \<longleftrightarrow>
     (\<forall>w. I w \<longrightarrow> wp m (\<lambda>res w'. traced now obs step order w res w' \<and> (\<forall>x. res = Inr x \<longrightarrow> J x w')) w)"

lemma passesI:
  assumes "\<And>w. I w \<Longrightarrow> wp m (P w) w"
    and "\<And>w res w'. I w \<Longrightarrow> P w res w' \<Longrightarrow> now w \<le> now w' \<and> performs step order (obs w) (obs w')"
    and "\<And>w x w'. I w \<Longrightarrow> P w (Inr x) w' \<Longrightarrow> J x w'"
  shows "passes now obs step order I J m"
  unfolding passes_def traced_def
proof (intro allI impI)
  fix w
  assume I: "I w"
  show "wp m (\<lambda>res w'. (now w \<le> now w' \<and> performs step order (obs w) (obs w')) \<and> (\<forall>x. res = Inr x \<longrightarrow> J x w')) w"
    by (rule wp_mono [OF assms(1) [OF I]]) (use assms(2,3) I in blast)
qed

lemma passes_wp:
  assumes "passes now obs step order I J m" "I w"
  shows "wp m (\<lambda>res w'. traced now obs step order w res w' \<and> (\<forall>x. res = Inr x \<longrightarrow> J x w')) w"
  using assms by (simp add: passes_def)

text \<open>Actions that are described by a relation or a function, or that do nothing.\<close>

lemma passes_rel:
  assumes "\<And>w. I w \<Longrightarrow> wp m (\<lambda>res w'. now w \<le> now w' \<and> R (obs w) (obs w')) w"
    and "\<And>w s. I w \<Longrightarrow> R (obs w) s \<Longrightarrow> performs step order (obs w) s"
  shows "passes now obs step order I (\<lambda>x w. True) m"
  by (rule passesI [OF assms(1)]) (use assms(2) in auto)

lemma passes_step:
  assumes "\<And>w. I w \<Longrightarrow> wp m (step_post obs now f w) w" "\<And>w. I w \<Longrightarrow> performs step order (obs w) (f (obs w))"
    and "\<And>s. G (f s)"
  shows "passes now obs step order I (\<lambda>x w. G (obs w)) m"
  by (rule passesI [OF assms(1)]) (use assms(2,3) in \<open>auto simp: step_post_def split: sum.splits\<close>)

lemma passes_read:
  assumes "\<And>w. wp m (\<lambda>res w'. obs w' = obs w \<and> now w \<le> now w' \<and> (\<forall>x. res = Inr x \<longrightarrow> Q x)) w"
  shows "passes now obs step [] I (\<lambda>x w. Q x) m"
  by (rule passesI [OF assms]) auto

lemma passes_return: "passes now obs step order I (\<lambda>x w. True) (returnE x)"
  by (simp add: passes_def wp_returnE traced_def)

lemma passes_return_with: "(\<And>w. I w \<Longrightarrow> J x w) \<Longrightarrow> passes now obs step order I J (returnE x)"
  by (simp add: passes_def wp_returnE traced_def)

lemma passes_throw: "passes now obs step order I J (throwE e)"
  by (simp add: passes_def wp_throwE traced_def)

lemma passes_mono:
  assumes "passes now obs step order I J m" "\<And>w. I' w \<Longrightarrow> I w" "\<And>x w. J x w \<Longrightarrow> J' x w"
  shows "passes now obs step order I' J' m"
  using assms unfolding passes_def by (fastforce elim: wp_mono)

lemma passes_weaken:
  assumes "passes now obs step o1 I J m" "subseq o1 o2"
  shows "passes now obs step o2 I J m"
  using assms(1) unfolding passes_def traced_def
  by (fastforce elim: wp_mono intro: performs_weaken [OF _ assms(2)])

text \<open>\<open>G\<close> is what the events of the first action keep, as time goes by.\<close>

lemma passes_bind:
  assumes m: "passes now obs step o1 I J m"
    and keep: "\<And>w w'. now w \<le> now w' \<Longrightarrow> performs step o1 (obs w) (obs w') \<Longrightarrow> G w \<Longrightarrow> G w'"
    and f: "\<And>x. passes now obs step o2 (\<lambda>w. J x w \<and> G w) H (f x)"
  shows "passes now obs step (o1 @ o2) (\<lambda>w. I w \<and> G w) H (bindE m f)"
  unfolding passes_def
proof (intro allI impI)
  fix w
  assume w: "I w \<and> G w"
  then have m': "wp m (\<lambda>res w'. traced now obs step o1 w res w' \<and> (\<forall>x. res = Inr x \<longrightarrow> J x w')) w"
    using passes_wp [OF m] by blast
  show "wp (bindE m f) (\<lambda>res w'. traced now obs step (o1 @ o2) w res w' \<and> (\<forall>x. res = Inr x \<longrightarrow> H x w')) w"
  proof (rule wp_bindEI [OF m'], goal_cases)
    case (1 x w1)
    then have w1: "now w \<le> now w1" "performs step o1 (obs w) (obs w1)" "J x w1" by (simp_all add: traced_def)
    then have "J x w1 \<and> G w1" using keep w by blast
    then show ?case
      by (rule wp_mono [OF passes_wp [OF f]]) (use w1 in \<open>auto simp: traced_def intro: performs_append\<close>)
  next
    case (2 e w1)
    then show ?case by (auto simp: traced_def intro: performs_before)
  qed
qed

text \<open>The clock is one thing that every action keeps.\<close>

lemma passes_seq:
  assumes "passes now obs step o1 (\<lambda>w. I w \<and> u \<le> now w) J m"
    and "\<And>x. passes now obs step o2 (\<lambda>w. J x w \<and> u \<le> now w) H (f x)"
  shows "passes now obs step (o1 @ o2) (\<lambda>w. I w \<and> u \<le> now w) H (bindE m f)"
proof -
  have "passes now obs step (o1 @ o2) (\<lambda>w. (I w \<and> u \<le> now w) \<and> u \<le> now w) H (bindE m f)"
    by (rule passes_bind [OF assms(1) _ assms(2)]) simp
  then show ?thesis by simp
qed

lemma passes_then:
  assumes "passes now obs step o1 (\<lambda>w. u \<le> now w) J m"
    and "\<And>x. passes now obs step o2 (\<lambda>w. J x w \<and> u \<le> now w) H (f x)"
  shows "passes now obs step (o1 @ o2) (\<lambda>w. u \<le> now w) H (bindE m f)"
  using assms by (rule passes_seq [where I = "\<lambda>w. True", simplified])

lemma passes_after:
  assumes "passes now obs step o1 (\<lambda>w. u \<le> now w) (\<lambda>x w. True) m" "\<And>x. passes now obs step o2 (\<lambda>w. u \<le> now w) H (f x)"
  shows "passes now obs step (o1 @ o2) (\<lambda>w. u \<le> now w) H (bindE m f)"
  by (rule passes_then [OF assms(1)]) (simp add: assms(2))

text \<open>What does not depend on the world is a premise.\<close>

lemma passes_fact:
  assumes "P \<Longrightarrow> passes now obs step order I J m"
  shows "passes now obs step order (\<lambda>w. P \<and> I w) J m"
  using assms by (simp add: passes_def)

end
