(* ===== verification/Protocol.thy ===== *)
theory Protocol
  imports Reconciler References Event_Systems
begin

text \<open>
  What the operator does to the world, as an abstract event system: the events a call of
  \<open>Reconcile\<close> may cause, each with its guard and its effect, and the order in which they
  come. Every call, with any outcome, is a run of these events; what holds of the runs
  therefore holds of the code.
\<close>

section \<open>Events\<close>

datatype event =
    Finalizer_Added | Node_Token_Issued | Secret_Written | Agent_Token_Issued | Values_Written
  | Agent_Referred | Tbot_Written | Bot_Referred
  | Token_Dropped | Secret_Deleted | Values_Deleted | Bot_Unreferred | Tbot_Deleted
  | Kubeconfig_Deleted | Agent_Unreferred | Finalizer_Removed

text \<open>The references of a resource are changed as \<open>f\<close> and \<open>g\<close> say, and nothing else is.\<close>

definition references_moved ::
    "(iface list \<Rightarrow> iface list) \<Rightarrow> (AppExtraConfig list \<Rightarrow> AppExtraConfig list) \<Rightarrow> NamespacedName \<Rightarrow>
      world_obs \<Rightarrow> world_obs \<Rightarrow> bool" where
  "references_moved f g k s s' \<longleftrightarrow>
     references k s' = map_option (map_sum f g) (references k s) \<and> only_resource k s s'"

abbreviation referred :: "NamespacedName \<Rightarrow> string \<Rightarrow> world_obs \<Rightarrow> world_obs \<Rightarrow> bool" where
  "referred k cm \<equiv> references_moved (insert_ref (values_ref cm)) (insert_ref (extra_config cm (Namespace k))) k"

abbreviation unreferred :: "NamespacedName \<Rightarrow> string \<Rightarrow> world_obs \<Rightarrow> world_obs \<Rightarrow> bool" where
  "unreferred k cm \<equiv> references_moved (remove_ref (values_ref cm)) (remove_ref (extra_config cm (Namespace k))) k"

text \<open>
  The events of a cluster \<open>cl\<close>, in a call that began at \<open>u\<close>. The guards are what matters: a
  token is issued under a free name, an object is written only with a token that the server
  has and that serves the cluster, and the finalizer is removed only when everything else is
  gone.
\<close>

inductive event_step ::
    "'w libs \<Rightarrow> 'w ClusterReconciler \<Rightarrow> time \<Rightarrow> Cluster \<Rightarrow> string list \<Rightarrow> event \<Rightarrow> world_obs \<Rightarrow> world_obs \<Rightarrow> bool"
  for L r u cl roles where
  finalizer_added: "clusters s (cluster_meta cl) = Some cl \<Longrightarrow> TeleportOperatorFinalizer \<notin> set (Finalizers cl) \<Longrightarrow>
    event_step L r u cl roles Finalizer_Added s (clusters_update (set_key (cluster_meta cl)
      (Some (cl\<lparr>Finalizers := Finalizers cl @ [TeleportOperatorFinalizer]\<rparr>))) s)"
| node_token_issued: "new_token (lib_roles L) u (registerNameOf r cl) [RoleNode] s p \<Longrightarrow>
    event_step L r u cl roles Node_Token_Issued s (add_token p s)"
| secret_written: "tokens s tok = Some p \<Longrightarrow> GetName p = tok \<Longrightarrow>
    serves (lib_roles L) u (registerNameOf r cl) [RoleNode] p \<Longrightarrow>
    event_step L r u cl roles Secret_Written s
      (put_secret (secret_key (clusterName cl) (clusterNamespace cl))
        (stored_token_secret (clusterName cl) (clusterNamespace cl) tok) s)"
| agent_token_issued: "new_token (lib_roles L) u (registerNameOf r cl) roles s p \<Longrightarrow>
    event_step L r u cl roles Agent_Token_Issued s (add_token p s)"
| values_written: "values_written L (r_Teleport r) u (registerNameOf r cl) roles
      (deployed_version (agent_key (r_Teleport r) (clusterName cl) (clusterNamespace cl)) s)
      (configmap_key (r_Teleport r) (clusterName cl) (clusterNamespace cl)) s s' \<Longrightarrow>
    event_step L r u cl roles Values_Written s s'"
| agent_referred: "referred (agent_key (r_Teleport r) (clusterName cl) (clusterNamespace cl))
      (GetConfigmapName (clusterName cl) (cfg_AppName (t_Config (r_Teleport r)))) s s' \<Longrightarrow>
    event_step L r u cl roles Agent_Referred s s'"
| tbot_written: "IsBotEnabled r \<Longrightarrow> configmaps s (tbot_key (clusterName cl) TeleportBotNamespace) = None \<Longrightarrow>
    secrets s (kubeconfig_key (clusterName cl) TeleportBotNamespace) = None \<Longrightarrow>
    event_step L r u cl roles Tbot_Written s
      (put_configmap (tbot_key (clusterName cl) TeleportBotNamespace)
        (values_configmap (GetTbotConfigmapName (clusterName cl)) TeleportBotNamespace
          (getTbotConfigMapData (registerNameOf r cl) (clusterName cl))) s)"
| bot_referred: "IsBotEnabled r \<Longrightarrow> configmaps s (tbot_key (clusterName cl) TeleportBotNamespace) \<noteq> None \<Longrightarrow>
    secrets s (kubeconfig_key (clusterName cl) TeleportBotNamespace) = None \<Longrightarrow>
    referred bot_key (GetTbotConfigmapName (clusterName cl)) s s' \<Longrightarrow>
    event_step L r u cl roles Bot_Referred s s'"
| token_dropped: "tokens s (GetName p) = Some p \<Longrightarrow> label p ''cluster'' = registerNameOf r cl \<Longrightarrow>
    event_step L r u cl roles Token_Dropped s (tokens_update (set_key (GetName p) None) s)"
| secret_deleted: "event_step L r u cl roles Secret_Deleted s
      (secrets_update (set_key (secret_key (clusterName cl) (clusterNamespace cl)) None) s)"
| values_deleted: "event_step L r u cl roles Values_Deleted s
      (configmaps_update (set_key (configmap_key (r_Teleport r) (clusterName cl) (clusterNamespace cl)) None) s)"
| bot_unreferred: "IsBotEnabled r \<Longrightarrow> unreferred bot_key (GetTbotConfigmapName (clusterName cl)) s s' \<Longrightarrow>
    event_step L r u cl roles Bot_Unreferred s s'"
| tbot_deleted: "IsBotEnabled r \<Longrightarrow> event_step L r u cl roles Tbot_Deleted s
      (configmaps_update (set_key (tbot_key (clusterName cl) TeleportBotNamespace) None) s)"
| kubeconfig_deleted: "IsBotEnabled r \<Longrightarrow> event_step L r u cl roles Kubeconfig_Deleted s
      (secrets_update (set_key (kubeconfig_key (clusterName cl) TeleportBotNamespace) None) s)"
| agent_unreferred: "unreferred (agent_key (r_Teleport r) (clusterName cl) (clusterNamespace cl))
      (GetConfigmapName (clusterName cl) (cfg_AppName (t_Config (r_Teleport r)))) s s' \<Longrightarrow>
    event_step L r u cl roles Agent_Unreferred s s'"
| finalizer_removed: "clusters s (cluster_meta cl) = Some cl \<Longrightarrow> TeleportOperatorFinalizer \<in> set (Finalizers cl) \<Longrightarrow>
    cleaned r cl s \<Longrightarrow>
    event_step L r u cl roles Finalizer_Removed s (clusters_update (set_key (cluster_meta cl)
      (settle (cl\<lparr>Finalizers := filter (\<lambda>f. f \<noteq> TeleportOperatorFinalizer) (Finalizers cl)\<rparr>))) s)"

inductive_cases event_stepE: "event_step L r u cl roles e s s'"

text \<open>The order of the events in a call.\<close>

definition live_order :: "event list" where
  "live_order = [Finalizer_Added, Node_Token_Issued, Secret_Written, Agent_Token_Issued, Values_Written,
     Agent_Referred, Tbot_Written, Bot_Referred]"

definition deletion_order :: "event list" where
  "deletion_order = [Token_Dropped, Secret_Deleted, Values_Deleted, Bot_Unreferred, Tbot_Deleted,
     Kubeconfig_Deleted, Agent_Unreferred, Finalizer_Removed]"

definition order_of :: "Cluster \<Rightarrow> event list" where
  "order_of cl = (if deletion_IsZero (DeletionTimestamp cl) then live_order else deletion_order)"

lemma event_performs:
  "event_step L r u cl roles e s s' \<Longrightarrow> e \<in> set order \<Longrightarrow> performs (event_step L r u cl roles) order s s'"
  by (rule performs_one)

end
