(* ===== verification/Simulation.thy ===== *)
theory Simulation
  imports Protocol
begin

text \<open>
  The code is simulated by the event system of theory \<open>Protocol\<close>: every block of
  \<open>Reconcile\<close>, and so every call, in every outcome, is a run of the events in their order,
  provided that reads are current.
\<close>

section \<open>The blocks\<close>

context connected_env
begin

lemma performs_finalizer:
  "clusters s (cluster_meta cl) = Some cl \<Longrightarrow> performs (event_step L r u cl roles) [Finalizer_Added] s (finalizer_effect cl s)"
  by (auto simp: finalizer_effect_def cs.with_finalizer_def cs.Add intro!: event_performs finalizer_added)

lemma performs_secret:
  assumes "secret_moves (lib_roles L) u (registerNameOf r cl) (clusterName cl) (clusterNamespace cl) s s'"
  shows "performs (event_step L r u cl roles) [Node_Token_Issued, Secret_Written] s s'"
proof -
  have issue: "performs (event_step L r u cl roles) [Node_Token_Issued] s (add_token p s)"
    if "new_token (lib_roles L) u (registerNameOf r cl) [RoleNode] s p" for p
    by (rule event_performs [OF node_token_issued [OF that]]) simp
  have put: "performs (event_step L r u cl roles) [Secret_Written] (add_token p s)
      (put_secret (secret_key (clusterName cl) (clusterNamespace cl))
        (stored_token_secret (clusterName cl) (clusterNamespace cl) (GetName p)) (add_token p s))"
    if "new_token (lib_roles L) u (registerNameOf r cl) [RoleNode] s p" for p
    using that by (intro event_performs [OF secret_written]) (auto simp: new_token_def add_token_def set_key_apply)
  show ?thesis
    using assms performs_weaken [OF issue, of _ "[Node_Token_Issued, Secret_Written]"] performs_append [OF issue put]
    by (auto simp: secret_moves_def)
qed

lemma performs_values:
  assumes moves: "configmap_moves L t u (registerNameOf r cl) roles
      (deployed_version (agent_key t (clusterName cl) (clusterNamespace cl)) s)
      (configmap_key t (clusterName cl) (clusterNamespace cl)) s s'" and r: "r_Teleport r = t"
  shows "performs (event_step L r u cl roles) [Agent_Token_Issued, Values_Written] s s'"
proof -
  let ?tka = "deployed_version (agent_key t (clusterName cl) (clusterNamespace cl)) s"
    and ?k = "configmap_key t (clusterName cl) (clusterNamespace cl)"
  from moves obtain s1 where s1: "s1 = s \<or> (\<exists>p. new_token (lib_roles L) u (registerNameOf r cl) roles s p \<and> s1 = add_token p s)"
    and s': "s' = s1 \<or> values_written L t u (registerNameOf r cl) roles ?tka ?k s1 s'"
    by (auto simp: configmap_moves_def)
  have "deployed_version (agent_key t (clusterName cl) (clusterNamespace cl)) s1 = ?tka"
    using s1 by (auto simp: add_token_def intro: deployed_version_cong)
  then have "performs (event_step L r u cl roles) [Values_Written] s1 s'" if "s' \<noteq> s1"
    using s' that values_written [of L r u cl roles s1 s'] by (auto simp: r intro: event_performs)
  then have s2: "performs (event_step L r u cl roles) [Values_Written] s1 s'" by (cases "s' = s1") simp_all
  have "performs (event_step L r u cl roles) [Agent_Token_Issued] s s1"
    using s1 by (auto intro: event_performs [OF agent_token_issued])
  from performs_append [OF this s2] show ?thesis by simp
qed

lemma performs_agent:
  assumes "r_Teleport r = t"
  shows "performs (event_step L r u cl roles) [Agent_Referred] s (mg.ensure_effect (agent_key t (clusterName cl) (clusterNamespace cl))
    (GetConfigmapName (clusterName cl) (cfg_AppName (t_Config t))) s)"
proof -
  have "event_step L r u cl roles Agent_Referred s (mg.ensure_effect (agent_key t (clusterName cl) (clusterNamespace cl))
      (GetConfigmapName (clusterName cl) (cfg_AppName (t_Config t))) s)"
    using ensure_references manager_only_resource(1)
    by (intro agent_referred) (simp add: assms references_moved_def)
  then show ?thesis by (rule performs_one) simp
qed

lemma performs_bot:
  assumes post: "bot_post (IsBotEnabled r) (clusterName cl) (registerNameOf r cl) w res w'"
  shows "performs (event_step L r u cl roles) [Tbot_Written, Bot_Referred] (obs w) (obs w')"
proof (cases "IsBotEnabled r \<and> secrets (obs w) (kubeconfig_key (clusterName cl) TeleportBotNamespace) = None")
  case True
  let ?k = "tbot_key (clusterName cl) TeleportBotNamespace"
  let ?s1 = "cm.create_effect ?k (getTbotConfigMapData (registerNameOf r cl) (clusterName cl)) (obs w)"
  have s1: "performs (event_step L r u cl roles) [Tbot_Written] (obs w) ?s1"
  proof (cases "configmaps (obs w) ?k = None")
    case create: True
    then have "event_step L r u cl roles Tbot_Written (obs w) ?s1"
      using True tbot_written [of r "obs w" cl L u roles]
      by (simp add: cm.create_effect_def put_configmap_def tbot_key_def)
    then show ?thesis by (rule performs_one) simp
  next
    case False
    then show ?thesis by (auto simp: cm.create_effect_def)
  qed
  have "event_step L r u cl roles Bot_Referred ?s1 (mg.ensure_effect bot_key (GetTbotConfigmapName (clusterName cl)) ?s1)"
    using True create_effect_present ensure_references manager_only_resource(1)
    by (intro bot_referred) (simp_all add: references_moved_def)
  then have s2: "performs (event_step L r u cl roles) [Bot_Referred] ?s1 (mg.ensure_effect bot_key (GetTbotConfigmapName (clusterName cl)) ?s1)"
    by (rule performs_one) simp
  show ?thesis
    using post performs_append [OF s1 s2] performs_weaken [OF s1, of "[Tbot_Written, Bot_Referred]"]
    by (auto simp: bot_post_def bot_moves_def Let_def)
qed (use post in \<open>auto simp: bot_post_def\<close>)

section \<open>Creation and update\<close>

lemma traced_reconcileNormal:
  assumes r: "r_Client r = K" "r_Teleport r = t" and u: "u \<le> Now L w"
    and roles: "roles \<noteq> []" "set roles \<subseteq> set known_roles" and cl: "clusters (obs w) (cluster_meta cl) = Some cl"
  shows "wp (reconcileNormal L r cl (registerNameOf r cl) roles) (traced (Now L) obs (event_step L r u cl roles) live_order w) w"
proof -
  let ?k = "agent_key t (clusterName cl) (clusterNamespace cl)"
  have agent: "wp (reconcileKubeAgent r cl) (traced (Now L) obs (event_step L r u cl roles) [Agent_Referred] w1) w1" for w1
    by (rule wp_mono [OF wp_reconcileKubeAgent [OF r] traced_step]) (auto intro: performs_agent r)
  have bot: "wp (reconcileBot r cl (registerNameOf r cl)) (traced (Now L) obs (event_step L r u cl roles) [Tbot_Written, Bot_Referred] w1) w1" for w1
    by (rule wp_mono [OF wp_reconcileBot [OF r(1)]]) (auto simp: traced_def bot_post_def intro: performs_bot)
  have ver: "wp (GetTeleportKubeAgentVersion K (GetAppName (clusterName cl) (cfg_AppName (t_Config t))) (clusterNamespace cl))
     (\<lambda>r w'. obs w' = obs w1 \<and> Now L w1 \<le> Now L w' \<and> (\<forall>v. r = Inr v \<longrightarrow> v = deployed_version ?k (obs w1))) w1" for w1
    using wp_GetTeleportKubeAgentVersion [of ?k w1] by (simp add: agent_key_def)
  have "wp (reconcileNormal L r cl (registerNameOf r cl) roles) (traced (Now L) obs (event_step L r u cl roles)
    ([Finalizer_Added] @ [Node_Token_Issued, Secret_Written] @ [] @ [Agent_Token_Issued, Values_Written] @
     [Agent_Referred] @ [Tbot_Written, Bot_Referred] @ []) w) w"
    unfolding reconcileNormal_def r
  proof (rule traced_bind [OF wp_ensureFinalizer [OF r(1) cl]], goal_cases)
    case 1 then show ?case by (rule traced_step) (rule performs_finalizer [OF cl])
  next
    case w1: (2 x w1)
    show ?case
    proof (rule traced_bind [OF wp_reconcileSecret [OF r order_trans [OF u w1(2)]]], goal_cases)
      case 1 then show ?case by (auto simp: secret_post_def traced_def intro: performs_secret)
    next
      case w2: (2 y w2)
      show ?case
      proof (rule traced_bind [OF ver], goal_cases)
        case 1 then show ?case by (simp add: traced_def)
      next
        case w3: (2 tka w3)
        then have u3: "u \<le> Now L w3" and tka: "tka = deployed_version ?k (obs w3)" using u w1(2) w2(2) by auto
        show ?case
        proof (rule traced_bind [OF wp_reconcileConfigMap [OF r u3 roles]], goal_cases)
          case 1 then show ?case by (auto simp: configmap_post_def traced_def tka intro: performs_values r)
        next
          case 2 show ?case by (intro traced_bind [OF agent] traced_bind [OF bot] traced_return)
        qed
      qed
    qed
  qed
  then show ?thesis by (simp add: live_order_def)
qed

section \<open>Deletion\<close>

lemma performs_steps:
  assumes "list_all2 (\<lambda>f e. \<forall>s. performs (event_step L r u cl roles) [e] s (f s)) fs es"
  shows "performs (event_step L r u cl roles) es s (apply_steps (take n fs) s)"
  using assms
proof (induction fs es arbitrary: s n rule: list_all2_induct)
  case (Cons f fs e es)
  then have "performs (event_step L r u cl roles) ([e] @ es) s (apply_steps (take m fs) (f s))" for m
    by (intro performs_append [of "event_step L r u cl roles" "[e]" s "f s"]) blast+
  then show ?case by (cases n) simp_all
qed simp

definition cleanup_events :: "bool \<Rightarrow> event list" where
  "cleanup_events tbot = [Secret_Deleted, Values_Deleted] @
     (if tbot then [Bot_Unreferred, Tbot_Deleted, Kubeconfig_Deleted] else []) @ [Agent_Unreferred]"

lemma performs_cleanup:
  assumes r: "r_Teleport r = t"
  shows "list_all2 (\<lambda>f e. \<forall>s. performs (event_step L r u cl roles) [e] s (f s))
    (cleanup_steps (IsBotEnabled r) cl) (cleanup_events (IsBotEnabled r))"
proof -
  have agent: "event_step L r u cl roles Agent_Unreferred s (mg.remove_effect (agent_key t (clusterName cl) (clusterNamespace cl))
      (GetConfigmapName (clusterName cl) (cfg_AppName (t_Config t))) s)" for s
    using remove_references manager_only_resource(2)
    by (intro agent_unreferred) (simp add: r references_moved_def)
  have bot: "event_step L r u cl roles Bot_Unreferred s (mg.remove_effect bot_key (GetTbotConfigmapName (clusterName cl)) s)"
    if "IsBotEnabled r" for s
    using that remove_references manager_only_resource(2)
    by (intro bot_unreferred) (simp_all add: references_moved_def)
  show ?thesis
    using values_deleted [of L r u cl roles] agent bot
    by (auto simp: cleanup_steps_def cleanup_events_def bot_steps_def Let_def r
        intro!: event_performs secret_deleted tbot_deleted kubeconfig_deleted)
qed

lemma performs_forget:
  assumes "clusters s (cluster_meta cl) = Some cl" "cleaned r cl s"
  shows "performs (event_step L r u cl roles) [Finalizer_Removed] s (forget_cluster cl s)"
proof (cases "TeleportOperatorFinalizer \<in> set (Finalizers cl)")
  case True
  with assms have "event_step L r u cl roles Finalizer_Removed s (forget_cluster cl s)"
    using finalizer_removed [of s cl r L u roles] by (simp add: forget_cluster_def cs.without_finalizer_def cs.Remove)
  then show ?thesis by (rule performs_one) simp
qed (simp add: forget_cluster_def)

lemma performs_drop:
  assumes "drops_one (registerNameOf r cl) s f"
  shows "performs (event_step L r u cl roles) [Token_Dropped] s (f s)"
  using assms by (auto simp: drops_one_def intro: event_performs [OF token_dropped])

lemma traced_delete:
  assumes post: "delete_post r cl (registerNameOf r cl) w res w'" and r: "r_Teleport r = t"
    and cl: "clusters (obs w) (cluster_meta cl) = Some cl"
  shows "traced (Now L) obs (event_step L r u cl roles) deletion_order w res w'"
proof -
  let ?cs = "cleanup_steps (IsBotEnabled r) cl" and ?es = "cleanup_events (IsBotEnabled r)"
  obtain f where f: "drops_one (registerNameOf r cl) (obs w) f"
    and st: "steps_post obs (Now L) (delete_steps f (IsBotEnabled r) cl) w res w'"
    using post by (auto simp: delete_post_def)
  obtain n where n: "obs w' = apply_steps (take n (delete_steps f (IsBotEnabled r) cl)) (obs w)"
    using st by (cases res) (auto simp: steps_post_def intro: that [of "length (delete_steps f (IsBotEnabled r) cl)"])
  have sub: "subseq ([Token_Dropped] @ ?es @ [Finalizer_Removed]) deletion_order"
    by (simp add: cleanup_events_def deletion_order_def)
  have cleanup: "performs (event_step L r u cl roles) ?es (f (obs w)) (apply_steps (take m ?cs) (f (obs w)))" for m
    by (rule performs_steps [OF performs_cleanup [OF r]])
  have forget: "performs (event_step L r u cl roles) [Finalizer_Removed] s (forget_cluster cl s)" if "s = apply_steps ?cs (f (obs w))" for s
  proof (rule performs_forget)
    have "clusters (apply_steps ?cs (f (obs w))) = clusters (f (obs w))"
      by (rule apply_steps_invariant) (simp_all add: cleanup_keeps)
    then show "clusters s (cluster_meta cl) = Some cl"
      using that f cl by (auto simp: drops_one_def)
    show "cleaned r cl s" unfolding that by (rule cleanup_cleans [OF r])
  qed
  have "performs (event_step L r u cl roles) ([Token_Dropped] @ ?es @ [Finalizer_Removed]) (obs w) (obs w')"
  proof (cases n)
    case (Suc m)
    have "performs (event_step L r u cl roles) (?es @ [Finalizer_Removed]) (f (obs w))
        (apply_steps (take m (?cs @ [forget_cluster cl])) (f (obs w)))"
    proof (cases "m \<le> length ?cs")
      case True
      then show ?thesis using performs_append [OF cleanup [of m] performs_none] by simp
    next
      case False
      then show ?thesis using performs_append [OF cleanup [of "length ?cs"] forget] by (simp add: Suc_le_eq)
    qed
    with performs_append [OF performs_drop [OF f] this] Suc show ?thesis by (simp add: n delete_steps_def)
  qed (simp add: n)
  then have "performs (event_step L r u cl roles) deletion_order (obs w) (obs w')" by (rule performs_weaken [OF _ sub])
  moreover have "Now L w \<le> Now L w'" using st by (simp add: steps_post_def)
  ultimately show ?thesis by (simp add: traced_def)
qed

end

section \<open>Whole calls\<close>

text \<open>Refreshing the identity changes nothing that the events depend on.\<close>

lemma performs_rewired:
  assumes "rewired r r'" "performs (event_step L r' u cl roles) order s s'"
  shows "performs (event_step L r u cl roles) order s s'"
proof -
  note f = rewired_fields [OF assms(1)]
  have k: "agent_key (r_Teleport r') = agent_key (r_Teleport r)" "configmap_key (r_Teleport r') = configmap_key (r_Teleport r)"
    by (simp_all add: agent_key_def configmap_key_def f fun_eq_iff)
  have d: "getConfigMapData L (r_Teleport r') = getConfigMapData L (r_Teleport r)"
    by (simp add: getConfigMapData_def f fun_eq_iff)
  have w: "rewritten L (r_Teleport r') = rewritten L (r_Teleport r)"
    by (simp add: rewritten_def d fun_eq_iff)
  have v: "values_written L (r_Teleport r') = values_written L (r_Teleport r)"
    unfolding values_written_def [abs_def] d w ..
  have step: "event_step L r u cl roles e s1 s2" if "event_step L r' u cl roles e s1 s2" for e s1 s2
    using that by cases (auto simp: f k v intro: event_step.intros)
  from assms(2) show ?thesis by (rule performs_mono) (rule step)
qed

context operator_world
begin

lemma Reconcile_performs:
  assumes run: "Reconcile L req r w = ((res, r'), w')" and ok: "reconciler_ok K obs L r" "client_or_stale L r w"
    and cl: "clusters (obs w) req = Some cl" "cluster_meta cl = req"
  shows "performs (event_step L r (Now L w) cl (rolesFor L cl (obs w))) (order_of cl) (obs w) (obs w')"
  using run ok(1)
proof (cases rule: Reconcile_cases)
  case (branch cl' w3)
  then have [simp]: "cl' = cl" using cl by simp
  obtain C where "TeleportClient (r_Teleport r') = Some C" using branch ok(2) by blast
  then have env: "connected_env K obs L app_admit C (r_Teleport r')" using branch connectedI by blast
  have r: "r_Client r' = K" using branch by (simp add: reconciler_ok_def)
  have cl3: "clusters (obs w3) (cluster_meta cl) = Some cl" using branch cl by simp
  have reg: "registerNameOf r cl = registerNameOf r' cl" using rewired_fields(8) [OF branch(5)] by simp
  note normal = wp_run [OF connected_env.traced_reconcileNormal [OF env r refl branch(4) rolesFor_known [of cl "obs w"] cl3]]
  note delete = connected_env.traced_delete [OF env wp_run [OF connected_env.wp_reconcileDelete [OF env r refl cl3]] refl cl3]
  have "traced (Now L) obs (event_step L r' (Now L w) cl (rolesFor L cl (obs w))) (order_of cl) w3 res w'"
    using branch(8) normal delete by (auto simp: order_of_def reg split: if_splits)
  then have "performs (event_step L r' (Now L w) cl (rolesFor L cl (obs w))) (order_of cl) (obs w) (obs w')"
    using branch(3) by (simp add: traced_def)
  then show ?thesis by (rule performs_rewired [OF branch(5)])
qed (use cl in simp_all)

end

end
