(* ===== verification/Guarantees.thy ===== *)
theory Guarantees
  imports Simulation Queue
begin

text \<open>
  What follows for every call, in any outcome, from being a run of the events: what a live
  call writes works. How many tokens an order of events can issue is counted here, too.
\<close>

section \<open>Writes that work\<close>

definition works :: "role_lib \<Rightarrow> time \<Rightarrow> string \<Rightarrow> string list \<Rightarrow> world_obs \<Rightarrow> string \<Rightarrow> bool" where
  "works rl u reg roles s tok \<longleftrightarrow> (\<exists>p. tokens s tok = Some p \<and> GetName p = tok \<and> serves rl u reg roles p)"

text \<open>
  Nothing has gone; new tokens serve the cluster; a Secret that is new or different holds a
  node token that works, a ConfigMap that is new or different, but for the bot's, holds the
  values with an agent token that works.
\<close>

definition sound_writes ::
    "'w libs \<Rightarrow> 'w ClusterReconciler \<Rightarrow> time \<Rightarrow> Cluster \<Rightarrow> string list \<Rightarrow> world_obs \<Rightarrow> world_obs \<Rightarrow> bool" where
  "sound_writes L r u cl roles s0 s \<longleftrightarrow>
     (let reg = registerNameOf r cl
      in tokens s0 \<subseteq>\<^sub>m tokens s \<and> dom (secrets s0) \<subseteq> dom (secrets s) \<and> dom (configmaps s0) \<subseteq> dom (configmaps s) \<and>
         (\<forall>n p. tokens s n = Some p \<longrightarrow> tokens s0 n = Some p \<or>
            serves (lib_roles L) u reg [RoleNode] p \<or> serves (lib_roles L) u reg roles p) \<and>
         (\<forall>k x. secrets s k = Some x \<longrightarrow> secrets s0 k = Some x \<or>
            (\<exists>tok. GetTokenFromSecret x = Inr tok \<and> works (lib_roles L) u reg [RoleNode] s tok)) \<and>
         (\<forall>k x. configmaps s k = Some x \<longrightarrow> configmaps s0 k = Some x \<or> k = tbot_key (clusterName cl) TeleportBotNamespace \<or>
            (\<exists>tok reg' tka. cm_Data x ''values'' = Some (getConfigMapData L (r_Teleport r) reg' tok roles tka) \<and>
               works (lib_roles L) u reg roles s tok)))"

lemma sound_writes_refl [simp]: "sound_writes L r u cl roles s s"
  by (simp add: sound_writes_def Let_def)

lemma works_mono: "works rl u reg roles s tok \<Longrightarrow> tokens s \<subseteq>\<^sub>m tokens s' \<Longrightarrow> works rl u reg roles s' tok"
  by (auto simp: works_def dest: map_leD)

text \<open>Issuing a token, writing a Secret and writing a ConfigMap, each one lemma.\<close>

lemma sound_writes_token:
  assumes I: "sound_writes L r u cl roles s0 s" and new: "new_token (lib_roles L) u (registerNameOf r cl) rs s p"
    and rs: "rs = [RoleNode] \<or> rs = roles"
  shows "sound_writes L r u cl roles s0 (add_token p s)"
proof -
  let ?s = "add_token p s" and ?reg = "registerNameOf r cl"
  have grow: "tokens s \<subseteq>\<^sub>m tokens ?s" using new by (simp add: new_token_def add_token_def map_le_set_key)
  have "tokens s0 \<subseteq>\<^sub>m tokens ?s" using I grow by (auto simp: sound_writes_def Let_def intro: map_le_trans)
  moreover have "serves (lib_roles L) u ?reg [RoleNode] p \<or> serves (lib_roles L) u ?reg roles p"
    using new rs by (auto simp: new_token_def)
  then have "\<forall>n q. tokens ?s n = Some q \<longrightarrow> tokens s0 n = Some q \<or>
      serves (lib_roles L) u ?reg [RoleNode] q \<or> serves (lib_roles L) u ?reg roles q"
    using I by (simp add: sound_writes_def Let_def add_token_def set_key_apply)
  moreover have eq: "secrets ?s = secrets s" "configmaps ?s = configmaps s" by (simp_all add: add_token_def)
  have "\<forall>k x. secrets ?s k = Some x \<longrightarrow> secrets s0 k = Some x \<or>
      (\<exists>tok. GetTokenFromSecret x = Inr tok \<and> works (lib_roles L) u ?reg [RoleNode] ?s tok)"
    using I unfolding sound_writes_def Let_def eq by (blast intro: works_mono [OF _ grow])
  moreover have "\<forall>k x. configmaps ?s k = Some x \<longrightarrow> configmaps s0 k = Some x \<or> k = tbot_key (clusterName cl) TeleportBotNamespace \<or>
      (\<exists>tok reg' tka. cm_Data x ''values'' = Some (getConfigMapData L (r_Teleport r) reg' tok roles tka) \<and>
         works (lib_roles L) u ?reg roles ?s tok)"
    using I unfolding sound_writes_def Let_def eq by (blast intro: works_mono [OF _ grow])
  ultimately show ?thesis
    using I unfolding sound_writes_def Let_def eq by simp
qed

lemma sound_writes_secret:
  assumes "sound_writes L r u cl roles s0 s" "GetTokenFromSecret x = Inr tok"
    and "works (lib_roles L) u (registerNameOf r cl) [RoleNode] s tok"
  shows "sound_writes L r u cl roles s0 (put_secret k x s)"
  using assms by (auto simp: sound_writes_def Let_def works_def put_secret_def set_key_apply dom_def)

lemma sound_writes_configmap:
  assumes "sound_writes L r u cl roles s0 s"
    and "k = tbot_key (clusterName cl) TeleportBotNamespace \<or>
      (\<exists>tok reg' tka. cm_Data x ''values'' = Some (getConfigMapData L (r_Teleport r) reg' tok roles tka) \<and>
         works (lib_roles L) u (registerNameOf r cl) roles s tok)"
  shows "sound_writes L r u cl roles s0 (put_configmap k x s)"
  using assms by (auto simp: sound_writes_def Let_def works_def put_configmap_def set_key_apply dom_def)

lemma sound_writes_cong:
  "tokens s' = tokens s \<Longrightarrow> secrets s' = secrets s \<Longrightarrow> configmaps s' = configmaps s \<Longrightarrow>
   sound_writes L r u cl roles s0 s' = sound_writes L r u cl roles s0 s"
  by (simp add: sound_writes_def works_def)

lemma references_moved_frame:
  assumes "references_moved f g k s s'"
  shows "tokens s' = tokens s" "secrets s' = secrets s" "configmaps s' = configmaps s"
  using assms by (auto simp: references_moved_def only_resource_def)

lemma values_written_sound:
  assumes "values_written L (r_Teleport r) u (registerNameOf r cl) roles tka k s s'" "sound_writes L r u cl roles s0 s"
  shows "sound_writes L r u cl roles s0 s'"
proof -
  obtain tok p x where s': "s' = put_configmap k x s"
    and tok: "tokens s tok = Some p" "GetName p = tok" "serves (lib_roles L) u (registerNameOf r cl) roles p"
    and x: "\<exists>reg'. cm_Data x ''values'' = Some (getConfigMapData L (r_Teleport r) reg' tok roles tka)"
    using assms(1) by (fastforce simp: values_written_def rewritten_def values_configmap_def split: option.splits)
  then have "works (lib_roles L) u (registerNameOf r cl) roles s tok" by (auto simp: works_def)
  with x assms(2) show ?thesis unfolding s' by (intro sound_writes_configmap) blast+
qed

lemma sound_writes_step:
  assumes "event_step L r u cl roles e s s'" "e \<in> set live_order" "sound_writes L r u cl roles s0 s"
  shows "sound_writes L r u cl roles s0 s'"
  using assms(1)
proof (cases rule: event_step.cases)
  case (values_written)
  then show ?thesis using assms(3) by (blast intro: values_written_sound)
next
  case agent_referred
  with assms(3) show ?thesis by (simp add: sound_writes_cong [OF references_moved_frame])
next
  case bot_referred
  with assms(3) show ?thesis by (simp add: sound_writes_cong [OF references_moved_frame])
next
  case (secret_written tok p)
  with assms(3) show ?thesis
    by (auto simp: works_def GetTokenFromSecret_stored intro!: sound_writes_secret)
qed (use assms(2,3) in \<open>auto simp: live_order_def sound_writes_cong [of "clusters_update f s" s for f s]
       intro: sound_writes_token sound_writes_configmap\<close>)

section \<open>How many tokens are issued\<close>

definition new_names :: "world_obs \<Rightarrow> world_obs \<Rightarrow> string set" where
  "new_names s s' = dom (tokens s') - dom (tokens s)"

text \<open>At most so many names are new.\<close>

definition issues_at_most :: "nat \<Rightarrow> world_obs \<Rightarrow> world_obs \<Rightarrow> bool" where
  "issues_at_most n s s' \<longleftrightarrow> finite (new_names s s') \<and> card (new_names s s') \<le> n"

lemma issues_at_most_subset:
  assumes "dom (tokens s') \<subseteq> dom (tokens s) \<union> N" "finite N" "card N \<le> n"
  shows "issues_at_most n s s'"
proof -
  have "new_names s s' \<subseteq> N" using assms(1) by (auto simp: new_names_def)
  then show ?thesis using assms(2,3) card_mono finite_subset unfolding issues_at_most_def by (metis le_trans)
qed

lemma issues_at_most_trans:
  assumes "issues_at_most m s s1" "issues_at_most n s1 s2"
  shows "issues_at_most (m + n) s s2"
  using assms card_Un_le [of "new_names s s1" "new_names s1 s2"]
  by (intro issues_at_most_subset [where N = "new_names s s1 \<union> new_names s1 s2"])
    (auto simp: issues_at_most_def new_names_def)

lemma issues_at_most_refl [simp]: "issues_at_most n s s"
  by (simp add: issues_at_most_def new_names_def)

lemma issues_at_most_mono: "issues_at_most m s s' \<Longrightarrow> m \<le> n \<Longrightarrow> issues_at_most n s s'"
  by (simp add: issues_at_most_def)

fun issuing :: "event \<Rightarrow> nat" where
  "issuing Node_Token_Issued = 1"
| "issuing Agent_Token_Issued = 1"
| "issuing _ = 0"

lemma subseq_sum_list: "subseq xs ys \<Longrightarrow> sum_list (map f xs) \<le> sum_list (map f ys)" for f :: "'a \<Rightarrow> nat"
  by (induction rule: list_emb.induct) auto

lemma orders_issue: "sum_list (map issuing (order_of cl)) = (if deletion_IsZero (DeletionTimestamp cl) then 2 else 0)"
  by (simp add: order_of_def live_order_def deletion_order_def)

section \<open>Calls\<close>

context operator_world
begin

lemma Reconcile_sound_writes:
  assumes "Reconcile L req r w = ((res, r'), w')" "reconciler_ok K obs L r" "client_or_stale L r w"
    and "clusters (obs w) req = Some cl" "cluster_meta cl = req" "deletion_IsZero (DeletionTimestamp cl)"
  shows "sound_writes L r (Now L w) cl (rolesFor L cl (obs w)) (obs w) (obs w')"
proof -
  have "performs (event_step L r (Now L w) cl (rolesFor L cl (obs w))) live_order (obs w) (obs w')"
    using Reconcile_performs [OF assms(1-5)] assms(6) by (simp add: order_of_def)
  then show ?thesis
    by (rule performs_invariant [where I = "sound_writes L r (Now L w) cl (rolesFor L cl (obs w)) (obs w)"])
      (auto intro: sound_writes_step)
qed

end

end
