(* ===== verification/Caches.thy ===== *)
theory Caches
  imports Guarantees
begin

text \<open>
  The manager's client reads from a cache, and what it reads may be old: an object that has
  changed since, one that is gone, none where there is one by now. The events of theory
  \<open>Protocol\<close> again, with the guards that survive that: they speak of writes, which go to the
  server, and of tokens, which are read from Teleport. Every call is a run of them, too.
\<close>

section \<open>Events\<close>

abbreviation refers_now :: "NamespacedName \<Rightarrow> string \<Rightarrow> world_obs \<Rightarrow> world_obs \<Rightarrow> bool" where
  "refers_now k cm \<equiv> resource_put helmreleases_update apps_update
     (\<lambda>refs. values_ref cm \<in> set refs) (\<lambda>refs. extra_config cm (Namespace k) \<in> set refs) k"

abbreviation unrefers_now :: "NamespacedName \<Rightarrow> string \<Rightarrow> world_obs \<Rightarrow> world_obs \<Rightarrow> bool" where
  "unrefers_now k cm \<equiv> resource_put helmreleases_update apps_update
     (\<lambda>refs. values_ref cm \<notin> set refs) (\<lambda>refs. extra_config cm (Namespace k) \<notin> set refs) k"

text \<open>What the server has of a cluster, when its references may have been overlooked.\<close>

definition objects_gone :: "'w ClusterReconciler \<Rightarrow> Cluster \<Rightarrow> world_obs \<Rightarrow> bool" where
  "objects_gone r cl s \<longleftrightarrow>
     (let c = clusterName cl; ns = clusterNamespace cl; b = TeleportBotNamespace
      in secrets s (secret_key c ns) = None \<and> configmaps s (configmap_key (r_Teleport r) c ns) = None \<and>
         (IsBotEnabled r \<longrightarrow> configmaps s (tbot_key c b) = None \<and> secrets s (kubeconfig_key c b) = None))"

lemma cleaned_objects_gone: "cleaned r cl s \<Longrightarrow> objects_gone r cl s"
  by (simp add: cleaned_def objects_gone_def Let_def)

text \<open>
  \<open>cl\<close> is the Cluster as it was read, \<open>c\<close> the one that is stored. The finalizers of \<open>c\<close> become
  those of \<open>cl\<close> with the operator's added or removed.
\<close>

definition put_finalizers :: "Cluster \<Rightarrow> Cluster \<Rightarrow> string list \<Rightarrow> world_obs \<Rightarrow> world_obs" where
  "put_finalizers cl c fs = clusters_update (set_key (cluster_meta cl) (settle (c\<lparr>Finalizers := fs\<rparr>)))"

definition finalizers_put :: "Cluster \<Rightarrow> string list \<Rightarrow> world_obs \<Rightarrow> world_obs \<Rightarrow> bool" where
  "finalizers_put cl fs s s' \<longleftrightarrow>
     s' = s \<or> (\<exists>c. clusters s (cluster_meta cl) = Some c \<and> s' = put_finalizers cl c fs s)"

inductive late_step ::
    "'w libs \<Rightarrow> 'w ClusterReconciler \<Rightarrow> time \<Rightarrow> Cluster \<Rightarrow> string list \<Rightarrow> event \<Rightarrow> world_obs \<Rightarrow> world_obs \<Rightarrow> bool"
  for L r u cl roles where
  finalizer_added: "clusters s (cluster_meta cl) = Some c \<Longrightarrow> TeleportOperatorFinalizer \<notin> set (Finalizers cl) \<Longrightarrow>
    late_step L r u cl roles Finalizer_Added s (put_finalizers cl c (Finalizers cl @ [TeleportOperatorFinalizer]) s)"
| node_token_issued: "new_token (lib_roles L) u (registerNameOf r cl) [RoleNode] s p \<Longrightarrow>
    late_step L r u cl roles Node_Token_Issued s (add_token p s)"
| secret_written: "tokens s tok = Some p \<Longrightarrow> GetName p = tok \<Longrightarrow>
    serves (lib_roles L) u (registerNameOf r cl) [RoleNode] p \<Longrightarrow>
    late_step L r u cl roles Secret_Written s
      (put_secret (secret_key (clusterName cl) (clusterNamespace cl))
        (stored_token_secret (clusterName cl) (clusterNamespace cl) tok) s)"
| agent_token_issued: "new_token (lib_roles L) u (registerNameOf r cl) roles s p \<Longrightarrow>
    late_step L r u cl roles Agent_Token_Issued s (add_token p s)"
| values_written: "tokens s tok = Some p \<Longrightarrow> GetName p = tok \<Longrightarrow>
    serves (lib_roles L) u (registerNameOf r cl) roles p \<Longrightarrow>
    cm_Data x ''values'' = Some (getConfigMapData L (r_Teleport r) reg tok roles tka) \<Longrightarrow>
    late_step L r u cl roles Values_Written s
      (put_configmap (configmap_key (r_Teleport r) (clusterName cl) (clusterNamespace cl)) x s)"
| agent_referred: "refers_now (agent_key (r_Teleport r) (clusterName cl) (clusterNamespace cl))
      (GetConfigmapName (clusterName cl) (cfg_AppName (t_Config (r_Teleport r)))) s s' \<Longrightarrow>
    late_step L r u cl roles Agent_Referred s s'"
| tbot_written: "IsBotEnabled r \<Longrightarrow> late_step L r u cl roles Tbot_Written s
      (put_configmap (tbot_key (clusterName cl) TeleportBotNamespace)
        (values_configmap (GetTbotConfigmapName (clusterName cl)) TeleportBotNamespace
          (getTbotConfigMapData (registerNameOf r cl) (clusterName cl))) s)"
| bot_referred: "IsBotEnabled r \<Longrightarrow> refers_now bot_key (GetTbotConfigmapName (clusterName cl)) s s' \<Longrightarrow>
    late_step L r u cl roles Bot_Referred s s'"
| token_dropped: "tokens s (GetName p) = Some p \<Longrightarrow> label p ''cluster'' = registerNameOf r cl \<Longrightarrow>
    late_step L r u cl roles Token_Dropped s (tokens_update (set_key (GetName p) None) s)"
| secret_deleted: "late_step L r u cl roles Secret_Deleted s
      (secrets_update (set_key (secret_key (clusterName cl) (clusterNamespace cl)) None) s)"
| values_deleted: "late_step L r u cl roles Values_Deleted s
      (configmaps_update (set_key (configmap_key (r_Teleport r) (clusterName cl) (clusterNamespace cl)) None) s)"
| bot_unreferred: "IsBotEnabled r \<Longrightarrow> unrefers_now bot_key (GetTbotConfigmapName (clusterName cl)) s s' \<Longrightarrow>
    late_step L r u cl roles Bot_Unreferred s s'"
| tbot_deleted: "IsBotEnabled r \<Longrightarrow> late_step L r u cl roles Tbot_Deleted s
      (configmaps_update (set_key (tbot_key (clusterName cl) TeleportBotNamespace) None) s)"
| kubeconfig_deleted: "IsBotEnabled r \<Longrightarrow> late_step L r u cl roles Kubeconfig_Deleted s
      (secrets_update (set_key (kubeconfig_key (clusterName cl) TeleportBotNamespace) None) s)"
| agent_unreferred: "unrefers_now (agent_key (r_Teleport r) (clusterName cl) (clusterNamespace cl))
      (GetConfigmapName (clusterName cl) (cfg_AppName (t_Config (r_Teleport r)))) s s' \<Longrightarrow>
    late_step L r u cl roles Agent_Unreferred s s'"
| finalizer_removed: "clusters s (cluster_meta cl) = Some c \<Longrightarrow> TeleportOperatorFinalizer \<in> set (Finalizers cl) \<Longrightarrow>
    objects_gone r cl s \<Longrightarrow>
    late_step L r u cl roles Finalizer_Removed s
      (put_finalizers cl c (filter (\<lambda>f. f \<noteq> TeleportOperatorFinalizer) (Finalizers cl)) s)"

lemma late_performs: "late_step L r u cl roles e s s' \<Longrightarrow> performs (late_step L r u cl roles) [e] s s'"
  by (rule performs_one) simp_all

text \<open>The events of a deletion only take away.\<close>

definition takes_away :: "world_obs \<Rightarrow> world_obs \<Rightarrow> bool" where
  "takes_away s s' \<longleftrightarrow> secrets s' \<subseteq>\<^sub>m secrets s \<and> configmaps s' \<subseteq>\<^sub>m configmaps s \<and> tokens s' \<subseteq>\<^sub>m tokens s"

lemma takes_away_refl [simp]: "takes_away s s"
  by (simp add: takes_away_def)

lemma takes_away_trans: "takes_away s s1 \<Longrightarrow> takes_away s1 s2 \<Longrightarrow> takes_away s s2"
  unfolding takes_away_def by (blast intro: map_le_trans)

lemma set_key_None_le: "set_key k None m \<subseteq>\<^sub>m m"
  by (auto simp: map_le_def set_key_def)

lemma map_le_None: "m \<subseteq>\<^sub>m m' \<Longrightarrow> m' k = None \<Longrightarrow> m k = None"
  by (cases "m k") (auto simp: map_le_def dom_def)

lemma resource_put_frame:
  assumes "resource_put helmreleases_update apps_update P Q k s s'"
  shows "clusters s' = clusters s" "secrets s' = secrets s" "configmaps s' = configmaps s" "tokens s' = tokens s"
    "agree_off {k} (helmreleases s) (helmreleases s')" "agree_off {k} (apps s) (apps s')"
  using assms by (auto simp: resource_put_def agree_off_set_key)

lemma late_step_takes_away:
  assumes "late_step L r u cl roles e s s'" "e \<in> set deletion_order"
  shows "takes_away s s'"
  using assms(1)
  by (cases rule: late_step.cases)
    (use assms(2) in \<open>auto simp: deletion_order_def takes_away_def set_key_None_le put_finalizers_def dest: resource_put_frame\<close>)

lemma performs_takes_away:
  assumes "performs (late_step L r u cl roles) order s s'" "set order \<subseteq> set deletion_order"
  shows "takes_away s s'"
  by (rule performs_invariant [where I = "takes_away s", OF assms(1)])
    (use assms(2) in \<open>auto intro: takes_away_trans late_step_takes_away\<close>)

text \<open>There are no such Secrets and ConfigMaps.\<close>

definition absent :: "NamespacedName set \<Rightarrow> NamespacedName set \<Rightarrow> world_obs \<Rightarrow> bool" where
  "absent S M s \<longleftrightarrow> (\<forall>k \<in> S. secrets s k = None) \<and> (\<forall>k \<in> M. configmaps s k = None)"

section \<open>The blocks\<close>

context cached_connected
begin

abbreviation runs_late ::
    "'w ClusterReconciler \<Rightarrow> time \<Rightarrow> Cluster \<Rightarrow> string list \<Rightarrow> event list \<Rightarrow> ('w \<Rightarrow> bool) \<Rightarrow> ('a \<Rightarrow> 'w \<Rightarrow> bool) \<Rightarrow> ('w, 'a) action \<Rightarrow> bool" where
  "runs_late r u cl roles \<equiv> passes (Now L) obs (late_step L r u cl roles)"

lemma late_finalizer:
  assumes "r_Client r = K"
  shows "runs_late r u cl roles [Finalizer_Added] I (\<lambda>x w. True) (ensureFinalizer L r cl)"
proof (cases "TeleportOperatorFinalizer \<in> set (Finalizers cl)")
  case True
  then show ?thesis
    by (auto simp: ensureFinalizer_def cs.Contains passes_def wp_returnE traced_def)
next
  case False
  have add: "cs.with_finalizer cl = cl\<lparr>Finalizers := Finalizers cl @ [TeleportOperatorFinalizer]\<rparr>"
    using False by (simp add: cs.with_finalizer_def cs.Add)
  show ?thesis
  proof (rule passes_rel)
    show "wp (ensureFinalizer L r cl) (\<lambda>res w'. Now L w \<le> Now L w' \<and>
        finalizers_put cl (Finalizers cl @ [TeleportOperatorFinalizer]) (obs w) (obs w')) w" for w
      using cs.wp_patch_any [OF cs.with_finalizer_differs [OF False], of w] False
      by (simp add: ensureFinalizer_def cs.Contains assms AddFinalizer_def finalizers_put_def put_finalizers_def add
          cs.with_finalizer_def [symmetric])
    show "performs (late_step L r u cl roles) [Finalizer_Added] s s'"
      if "finalizers_put cl (Finalizers cl @ [TeleportOperatorFinalizer]) s s'" for s s'
      using that by (auto simp: finalizers_put_def intro: late_performs [OF finalizer_added [OF _ False]])
  qed
qed

subsection \<open>Tokens\<close>

text \<open>A token that is issued works, one that is found valid does.\<close>

lemma late_generate:
  assumes "set roles' \<subseteq> set known_roles"
    and "\<And>s p. new_token (lib_roles L) u (registerNameOf r cl) roles' s p \<Longrightarrow> late_step L r u cl roles e s (add_token p s)"
  shows "runs_late r u cl roles [e] (\<lambda>w. u \<le> Now L w) (\<lambda>tok w. works (lib_roles L) u (registerNameOf r cl) roles' (obs w) tok)
    (GenerateToken L t (registerNameOf r cl) roles')"
proof (rule passesI)
  let ?new = "new_token (lib_roles L) u (registerNameOf r cl) roles'"
  let ?P = "\<lambda>w res w'. Now L w \<le> Now L w' \<and>
    (case res of Inr tok \<Rightarrow> \<exists>p. tok = GetName p \<and> ?new (obs w) p \<and> obs w' = add_token p (obs w)
     | Inl e \<Rightarrow> obs w' = obs w \<or> (\<exists>p. ?new (obs w) p \<and> obs w' = add_token p (obs w)))"
  fix w
  assume u: "u \<le> Now L w"
  have "wp (bindE (GenerateToken L t (registerNameOf r cl) roles') returnE) (?P w) w"
    by (rule wp_generate_then [OF assms(1) u]) (auto simp: wp_returnE)
  then show "wp (GenerateToken L t (registerNameOf r cl) roles') (?P w) w" by simp
next
  fix w res w'
  assume "Now L w \<le> Now L w' \<and>
    (case res of Inr tok \<Rightarrow> \<exists>p. tok = GetName p \<and> new_token (lib_roles L) u (registerNameOf r cl) roles' (obs w) p \<and> obs w' = add_token p (obs w)
     | Inl e \<Rightarrow> obs w' = obs w \<or> (\<exists>p. new_token (lib_roles L) u (registerNameOf r cl) roles' (obs w) p \<and> obs w' = add_token p (obs w)))"
  moreover have "performs (late_step L r u cl roles) [e] s (add_token p s)"
    if "new_token (lib_roles L) u (registerNameOf r cl) roles' s p" for s p
    by (rule late_performs [OF assms(2) [OF that]])
  ultimately show "Now L w \<le> Now L w' \<and> performs (late_step L r u cl roles) [e] (obs w) (obs w')"
    by (auto split: sum.splits)
qed (auto simp: works_def new_token_def add_token_def set_key_apply)

lemma late_check:
  assumes "ParseRoles tt = Inr roles'"
  shows "runs_late r u cl roles [] (\<lambda>w. u \<le> Now L w) (\<lambda>b w. b \<longrightarrow> works (lib_roles L) u reg roles' (obs w) tok)
    (IsTokenValid L t reg tok tt)"
  by (rule passesI [OF ts.wp_IsTokenValid])
    (use assms in \<open>auto simp: ts.unchanged_def works_def intro: serves_mono [OF _ order_trans]\<close>)

subsection \<open>The Secret and the ConfigMap\<close>

lemma late_write_secret:
  assumes "m = CreateSecret K (clusterName cl) (clusterNamespace cl) tok \<or> m = UpdateSecret K (clusterName cl) (clusterNamespace cl) tok"
  shows "runs_late r u cl roles [Secret_Written]
    (\<lambda>w. works (lib_roles L) u (registerNameOf r cl) [RoleNode] (obs w) tok \<and> u \<le> Now L w) (\<lambda>x w. True) m"
proof (rule passes_rel)
  let ?f = "put_secret (secret_key (clusterName cl) (clusterNamespace cl)) (stored_token_secret (clusterName cl) (clusterNamespace cl) tok)"
  have "wp m (step_post obs (Now L) ?f w) w" for w
    using assms se.wp_CreateSecret se.wp_UpdateSecret by (auto simp: put_secret_def)
  then show "wp m (\<lambda>res w'. Now L w \<le> Now L w' \<and> (obs w' = obs w \<or> obs w' = ?f (obs w))) w" for w
    by (rule wp_mono) (auto simp: step_post_def split: sum.splits)
qed (auto simp: works_def intro: late_performs secret_written)

lemma late_secret:
  assumes r: "r_Client r = K" "r_Teleport r = t"
  shows "runs_late r u cl roles [Node_Token_Issued, Secret_Written] (\<lambda>w. u \<le> Now L w) (\<lambda>x w. True)
    (reconcileSecret L r cl (registerNameOf r cl))"
proof -
  let ?order = "[Node_Token_Issued, Secret_Written]" and ?reg = "registerNameOf r cl"
  have new: "runs_late r u cl roles ?order (\<lambda>w. u \<le> Now L w) (\<lambda>x w. True)
      (bindE (GenerateToken L t ?reg [RoleNode]) m)"
    if "m = CreateSecret K (clusterName cl) (clusterNamespace cl) \<or> m = UpdateSecret K (clusterName cl) (clusterNamespace cl)" for m
  proof -
    have "runs_late r u cl roles ([Node_Token_Issued] @ [Secret_Written]) (\<lambda>w. u \<le> Now L w) (\<lambda>x w. True)
        (bindE (GenerateToken L t ?reg [RoleNode]) m)"
      by (rule passes_then [OF late_generate late_write_secret])
        (use that in \<open>auto simp: known_roles_def intro: node_token_issued\<close>)
    then show ?thesis by simp
  qed
  have check: "runs_late r u cl roles ([] @ ?order) (\<lambda>w. u \<le> Now L w) (\<lambda>x w. True)
      (bindE (IsTokenValid L t ?reg tok RoleNode) (\<lambda>tokenValid.
         if \<not> tokenValid then bindE (GenerateToken L t ?reg [RoleNode]) (UpdateSecret K (clusterName cl) (clusterNamespace cl))
         else returnE ()))" for tok
    by (rule passes_then [OF late_check]) 
      (auto intro: ParseRoles_role passes_return simp: known_roles_def new)
  have "runs_late r u cl roles ([] @ ?order) (\<lambda>w. u \<le> Now L w) (\<lambda>x w. True) (reconcileSecret L r cl ?reg)"
    unfolding reconcileSecret_def Let_def r
  proof (rule passes_then [OF passes_read])
    show "wp (GetSecret K (clusterName cl) (clusterNamespace cl))
        (\<lambda>res w'. obs w' = obs w \<and> Now L w \<le> Now L w' \<and> (\<forall>x. res = Inr x \<longrightarrow> True)) w" for w
      using se.wp_GetSecret_any by simp
    show "runs_late r u cl roles ?order (\<lambda>w. True \<and> u \<le> Now L w) (\<lambda>x w. True)
        (case x of None \<Rightarrow> bindE (GenerateToken L t ?reg [RoleNode]) (CreateSecret K (clusterName cl) (clusterNamespace cl))
         | Some secret \<Rightarrow> bindE (liftE (GetTokenFromSecret secret)) (\<lambda>token.
             bindE (IsTokenValid L t ?reg token RoleNode) (\<lambda>tokenValid.
               if \<not> tokenValid then bindE (GenerateToken L t ?reg [RoleNode]) (UpdateSecret K (clusterName cl) (clusterNamespace cl))
               else returnE ())))" for x
    proof (cases x)
      case (Some secret)
      with check show ?thesis by (cases "GetTokenFromSecret secret") (auto simp: passes_throw)
    qed (simp add: new)
  qed
  then show ?thesis by simp
qed

lemma late_values:
  assumes "r_Teleport r = t" "\<And>w. wp m (\<lambda>res w'. Now L w \<le> Now L w' \<and> R (obs w) (obs w')) w"
    and "\<And>s s'. R s s' \<Longrightarrow> s' = s \<or> (\<exists>x reg tka. cm_Data x ''values'' = Some (getConfigMapData L t reg tok roles tka) \<and>
      s' = put_configmap (configmap_key t (clusterName cl) (clusterNamespace cl)) x s)"
  shows "runs_late r u cl roles [Values_Written]
    (\<lambda>w. works (lib_roles L) u (registerNameOf r cl) roles (obs w) tok \<and> u \<le> Now L w) (\<lambda>x w. True) m"
proof (rule passes_rel [where R = R])
  show "wp m (\<lambda>res w'. Now L w \<le> Now L w' \<and> R (obs w) (obs w')) w" for w by (rule assms(2))
next
  fix w s
  assume w: "works (lib_roles L) u (registerNameOf r cl) roles (obs w) tok \<and> u \<le> Now L w" and R: "R (obs w) s"
  obtain p where p: "tokens (obs w) tok = Some p" "GetName p = tok" "serves (lib_roles L) u (registerNameOf r cl) roles p"
    using w by (auto simp: works_def)
  show "performs (late_step L r u cl roles) [Values_Written] (obs w) s"
    using assms(3) [OF R] late_performs [OF values_written [where r = r, OF p]] by (auto simp: assms(1))
qed

lemma late_create_values:
  assumes "r_Teleport r = t"
  shows "runs_late r u cl roles [Values_Written]
    (\<lambda>w. works (lib_roles L) u (registerNameOf r cl) roles (obs w) tok \<and> u \<le> Now L w) (\<lambda>x w. True)
    (CreateConfigMap L t K (clusterName cl) (clusterNamespace cl) reg tok roles tka)"
  by (rule late_values [OF assms cm.wp_CreateConfigMap_any])
    (auto simp: cm.created_at_def put_configmap_def intro!: exI)

lemma late_update_values:
  assumes "r_Teleport r = t" "cm_meta cm = configmap_key t (clusterName cl) (clusterNamespace cl)"
  shows "runs_late r u cl roles [Values_Written]
    (\<lambda>w. works (lib_roles L) u (registerNameOf r cl) roles (obs w) tok \<and> u \<le> Now L w) (\<lambda>x w. True)
    (UpdateConfigMap L t K cm tok roles tka)"
proof (cases "registerNameFromConfigMap L cm")
  case (Inl e)
  then show ?thesis by (simp add: cm.wp_UpdateConfigMap_malformed passes_throw)
next
  case (Inr reg)
  let ?f = "put_configmap (configmap_key t (clusterName cl) (clusterNamespace cl)) (rewritten L t cm reg tok roles tka)"
  show ?thesis
  proof (rule late_values [OF assms(1)])
    show "wp (UpdateConfigMap L t K cm tok roles tka)
        (\<lambda>res w'. Now L w \<le> Now L w' \<and> (obs w' = obs w \<or> obs w' = ?f (obs w))) w" for w
      by (rule wp_mono [OF cm.wp_UpdateConfigMap [OF Inr]])
        (auto simp: step_post_def put_configmap_def assms(2) split: sum.splits)
    show "s' = s \<or> (\<exists>x reg tka. cm_Data x ''values'' = Some (getConfigMapData L t reg tok roles tka) \<and>
        s' = put_configmap (configmap_key t (clusterName cl) (clusterNamespace cl)) x s)"
      if "s' = s \<or> s' = ?f s" for s s'
      using that by (auto simp: rewritten_def intro!: exI)
  qed
qed

lemma late_configmap:
  assumes r: "r_Client r = K" "r_Teleport r = t" and roles: "roles \<noteq> []" "set roles \<subseteq> set known_roles"
  shows "runs_late r u cl roles [Agent_Token_Issued, Values_Written] (\<lambda>w. u \<le> Now L w) (\<lambda>x w. True)
    (reconcileConfigMap L r cl (registerNameOf r cl) roles tka)"
proof -
  let ?reg = "registerNameOf r cl" and ?c = "clusterName cl" and ?ns = "clusterNamespace cl"
  let ?order = "[Agent_Token_Issued] @ [Values_Written]"
  note gen = late_generate [OF roles(2) agent_token_issued]
  have create: "runs_late r u cl roles ?order (\<lambda>w. u \<le> Now L w) (\<lambda>x w. True)
      (bindE (GenerateToken L t ?reg roles) (\<lambda>token. CreateConfigMap L t K ?c ?ns ?reg token roles tka))"
    by (rule passes_then [OF gen late_create_values [OF r(2)]])
  let ?put = "\<lambda>cm tok. if (case cm_Data cm ''values'' of None \<Rightarrow> '''' | Some v \<Rightarrow> v) = RenderConfigMapValues L t ?reg tok roles tka
    then returnE () else UpdateConfigMap L t K cm tok roles tka"
  have put: "runs_late r u cl roles [Values_Written]
      (\<lambda>w. works (lib_roles L) u ?reg roles (obs w) tok \<and> u \<le> Now L w) (\<lambda>x w. True) (?put cm tok)"
    if "cm_meta cm = configmap_key t ?c ?ns" for cm tok
    using late_update_values [OF r(2) that] by (simp add: passes_return)
  have choose: "runs_late r u cl roles [Agent_Token_Issued]
      (\<lambda>w. (b \<longrightarrow> works (lib_roles L) u ?reg roles (obs w) tok) \<and> u \<le> Now L w) (\<lambda>tk w. works (lib_roles L) u ?reg roles (obs w) tk)
      (if \<not> b then GenerateToken L t ?reg roles else returnE tok)" for b tok
    using passes_mono [OF gen] by (cases b) (auto simp: passes_def wp_returnE traced_def)
  have update: "runs_late r u cl roles ([] @ ?order) (\<lambda>w. u \<le> Now L w) (\<lambda>x w. True)
      (bindE (IsTokenValid L t ?reg tok (RolesToString roles)) (\<lambda>b.
       bindE (if \<not> b then GenerateToken L t ?reg roles else returnE tok) (?put cm)))"
    if "cm_meta cm = configmap_key t ?c ?ns" for cm tok
    by (rule passes_then [OF late_check [OF ParseRoles_Join [OF roles]]], rule passes_seq [OF choose put [OF that]])
  have "runs_late r u cl roles ([] @ ?order) (\<lambda>w. u \<le> Now L w) (\<lambda>x w. True) (reconcileConfigMap L r cl ?reg roles tka)"
    unfolding reconcileConfigMap_def Let_def r
  proof (rule passes_then [OF passes_read])
    show "wp (GetConfigMap t K ?c ?ns) (\<lambda>res w'. obs w' = obs w \<and> Now L w \<le> Now L w' \<and>
        (\<forall>x. res = Inr x \<longrightarrow> (\<forall>cm. x = Some cm \<longrightarrow> cm_meta cm = configmap_key t ?c ?ns))) w" for w
      by (rule wp_mono [OF cm.wp_GetConfigMap_any]) auto
    show "runs_late r u cl roles ?order (\<lambda>w. (\<forall>cm. x = Some cm \<longrightarrow> cm_meta cm = configmap_key t ?c ?ns) \<and> u \<le> Now L w) (\<lambda>x w. True)
        (case x of None \<Rightarrow> bindE (GenerateToken L t ?reg roles) (\<lambda>token. CreateConfigMap L t K ?c ?ns ?reg token roles tka)
         | Some configMap \<Rightarrow> bindE (liftE (GetTokenFromConfigMap L configMap)) (\<lambda>token.
             bindE (IsTokenValid L t ?reg token (RolesToString roles)) (\<lambda>b.
             bindE (if \<not> b then GenerateToken L t ?reg roles else returnE token) (?put configMap))))" for x
    proof (rule passes_fact, goal_cases)
      case 1
      show ?case
      proof (cases x)
        case None
        with create show ?thesis by simp
      next
        case (Some cm)
        with 1 have "cm_meta cm = configmap_key t ?c ?ns" by simp
        from update [OF this] Some show ?thesis
          by (cases "GetTokenFromConfigMap L cm") (simp_all add: passes_throw)
      qed
    qed
  qed
  then show ?thesis by simp
qed

subsection \<open>References and the bot\<close>

text \<open>A manager that is detected and used, for whatever it is detected to be.\<close>

lemma late_resource:
  assumes "\<And>w. wp m (\<lambda>res w'. Now L w \<le> Now L w' \<and> R (obs w) (obs w')) w"
    and "\<And>s s'. R s s' \<Longrightarrow> late_step L r u cl roles e s s'"
  shows "runs_late r u cl roles [e] I (\<lambda>x w. True) m"
proof (rule passes_rel [where R = R])
  show "wp m (\<lambda>res w'. Now L w \<le> Now L w' \<and> R (obs w) (obs w')) w" for w by (rule assms(1))
  show "performs (late_step L r u cl roles) [e] (obs w) s" if "R (obs w) s" for w s
    by (rule late_performs [OF assms(2) [OF that]])
qed

lemma late_agent:
  assumes "r_Client r = K" "r_Teleport r = t"
  shows "runs_late r u cl roles [Agent_Referred] I (\<lambda>x w. True) (reconcileKubeAgent r cl)"
proof (rule late_resource)
  show "wp (reconcileKubeAgent r cl) (\<lambda>res w'. Now L w \<le> Now L w' \<and>
      refers_now (agent_key t (clusterName cl) (clusterNamespace cl))
        (GetConfigmapName (clusterName cl) (cfg_AppName (t_Config t))) (obs w) (obs w')) w" for w
    using mg.wp_manager_any(1) [of "agent_key t (clusterName cl) (clusterNamespace cl)"]
    by (simp add: reconcileKubeAgent_def Let_def assms agent_key_def)
qed (intro agent_referred, simp add: assms)

lemma late_bot_use:
  assumes "IsBotEnabled r"
  shows "runs_late r u cl roles [Bot_Referred] I (\<lambda>x w. True)
      (bindE (NewTeleportAppConfigManager K TeleportBotAppName TeleportBotNamespace (GetTbotConfigmapName (clusterName cl))) EnsureConfig)"
    and "runs_late r u cl roles [Bot_Unreferred] I (\<lambda>x w. True)
      (bindE (NewTeleportAppConfigManager K TeleportBotAppName TeleportBotNamespace (GetTbotConfigmapName (clusterName cl))) DeleteConfig)"
proof -
  let ?cm = "GetTbotConfigmapName (clusterName cl)"
  show "runs_late r u cl roles [Bot_Referred] I (\<lambda>x w. True)
      (bindE (NewTeleportAppConfigManager K TeleportBotAppName TeleportBotNamespace ?cm) EnsureConfig)"
  proof (rule late_resource [where R = "refers_now bot_key ?cm"])
    show "wp (bindE (NewTeleportAppConfigManager K TeleportBotAppName TeleportBotNamespace ?cm) EnsureConfig)
        (\<lambda>res w'. Now L w \<le> Now L w' \<and> refers_now bot_key ?cm (obs w) (obs w')) w" for w
      using mg.wp_manager_any(1) [of bot_key] by (simp add: bot_key_def)
  qed (rule bot_referred [OF assms])
  show "runs_late r u cl roles [Bot_Unreferred] I (\<lambda>x w. True)
      (bindE (NewTeleportAppConfigManager K TeleportBotAppName TeleportBotNamespace ?cm) DeleteConfig)"
  proof (rule late_resource [where R = "unrefers_now bot_key ?cm"])
    show "wp (bindE (NewTeleportAppConfigManager K TeleportBotAppName TeleportBotNamespace ?cm) DeleteConfig)
        (\<lambda>res w'. Now L w \<le> Now L w' \<and> unrefers_now bot_key ?cm (obs w) (obs w')) w" for w
      using mg.wp_manager_any(2) [of bot_key] by (simp add: bot_key_def)
  qed (rule bot_unreferred [OF assms])
qed

lemma late_tbot:
  assumes "IsBotEnabled r"
  shows "runs_late r u cl roles [Tbot_Written] I (\<lambda>x w. True)
    (EnsureTbotConfigMap K (clusterName cl) TeleportBotNamespace (registerNameOf r cl))"
proof (rule passes_rel)
  show "wp (EnsureTbotConfigMap K (clusterName cl) TeleportBotNamespace (registerNameOf r cl))
     (\<lambda>res w'. Now L w \<le> Now L w' \<and> cm.created_at (tbot_key (clusterName cl) TeleportBotNamespace)
        (getTbotConfigMapData (registerNameOf r cl) (clusterName cl)) (obs w) (obs w')) w" for w
    by (rule cm.wp_EnsureTbotConfigMap_any)
  show "performs (late_step L r u cl roles) [Tbot_Written] (obs w) s"
    if "cm.created_at (tbot_key (clusterName cl) TeleportBotNamespace) (getTbotConfigMapData (registerNameOf r cl) (clusterName cl)) (obs w) s"
    for w s
    using that late_performs [OF tbot_written [OF assms, of L u cl roles "obs w"]]
    by (auto simp: cm.created_at_def tbot_key_def put_configmap_def)
qed

lemma late_bot:
  assumes r: "r_Client r = K"
  shows "runs_late r u cl roles [Tbot_Written, Bot_Referred] (\<lambda>w. u \<le> Now L w) (\<lambda>x w. True)
    (reconcileBot r cl (registerNameOf r cl))"
proof (cases "IsBotEnabled r")
  case False
  then show ?thesis by (simp add: reconcileBot_def Let_def passes_return)
next
  case True
  have tell: "runs_late r u cl roles ([Tbot_Written] @ [Bot_Referred]) (\<lambda>w. u \<le> Now L w) (\<lambda>x w. True)
      (bindE (EnsureTbotConfigMap K (clusterName cl) TeleportBotNamespace (registerNameOf r cl)) (\<lambda>_.
       bindE (NewTeleportAppConfigManager K TeleportBotAppName TeleportBotNamespace (GetTbotConfigmapName (clusterName cl))) EnsureConfig))"
    by (rule passes_then [OF late_tbot [OF True] late_bot_use(1) [OF True]])
  have "runs_late r u cl roles ([] @ [Tbot_Written] @ [Bot_Referred]) (\<lambda>w. u \<le> Now L w) (\<lambda>x w. True)
      (reconcileBot r cl (registerNameOf r cl))"
    unfolding reconcileBot_def Let_def r if_P [OF True]
  proof (rule passes_then [OF passes_read])
    show "wp (GetKubeconfigSecret K (clusterName cl) TeleportBotNamespace)
        (\<lambda>res w'. obs w' = obs w \<and> Now L w \<le> Now L w' \<and> (\<forall>x. res = Inr x \<longrightarrow> True)) w" for w
      using se.wp_GetKubeconfigSecret_any by simp
  qed (use tell in \<open>simp add: passes_return\<close>)
  then show ?thesis by simp
qed

lemma late_version:
  "runs_late r u cl roles [] I (\<lambda>x w. True) (GetTeleportKubeAgentVersion K n ns)"
proof -
  have "wp (GetTeleportKubeAgentVersion K n ns) (\<lambda>res w'. obs w' = obs w \<and> Now L w \<le> Now L w' \<and> (\<forall>x. res = Inr x \<longrightarrow> True)) w" for w
    unfolding GetTeleportKubeAgentVersion_def wp_simps
    by (rule mg.hr.wp_Get_any) (auto simp: wp_simps intro!: mg.ap.wp_Get_any)
  then show ?thesis by (rule passes_read)
qed

lemma late_reconcileNormal:
  assumes r: "r_Client r = K" "r_Teleport r = t" and roles: "roles \<noteq> []" "set roles \<subseteq> set known_roles"
  shows "runs_late r u cl roles live_order (\<lambda>w. u \<le> Now L w) (\<lambda>x w. True)
    (reconcileNormal L r cl (registerNameOf r cl) roles)"
proof -
  have "runs_late r u cl roles ([Finalizer_Added] @ [Node_Token_Issued, Secret_Written] @ [] @
      [Agent_Token_Issued, Values_Written] @ [Agent_Referred] @ [Tbot_Written, Bot_Referred] @ []) (\<lambda>w. u \<le> Now L w) (\<lambda>x w. True)
    (reconcileNormal L r cl (registerNameOf r cl) roles)"
    unfolding reconcileNormal_def r
    by (intro passes_after late_finalizer [OF r(1)] late_agent [OF r] late_bot [OF r(1)] late_version passes_return
        late_secret [OF r] late_configmap [OF r roles])
  then show ?thesis by (simp add: live_order_def)
qed

subsection \<open>Deletion\<close>

lemma late_drop: "runs_late r u cl roles [Token_Dropped] I (\<lambda>x w. True) (Token.DeleteToken t (registerNameOf r cl))"
proof (rule passesI [OF wp_drop_token])
  fix w res w'
  assume "\<exists>f. drops_one (registerNameOf r cl) (obs w) f \<and> step_post obs (Now L) f w res w'"
  then obtain f where f: "drops_one (registerNameOf r cl) (obs w) f" "step_post obs (Now L) f w res w'" by blast
  then have "performs (late_step L r u cl roles) [Token_Dropped] (obs w) (f (obs w))"
    by (auto simp: drops_one_def intro: late_performs [OF token_dropped])
  with f(2) show "Now L w \<le> Now L w' \<and> performs (late_step L r u cl roles) [Token_Dropped] (obs w) (obs w')"
    by (auto simp: step_post_def split: sum.splits)
qed simp

text \<open>A deletion that succeeds leaves nothing under the key.\<close>

lemma late_deleted:
  assumes "r_Teleport r = t"
  shows "runs_late r u cl roles [Secret_Deleted] I
      (\<lambda>x w. absent {secret_key (clusterName cl) (clusterNamespace cl)} {} (obs w))
      (DeleteSecret K (clusterName cl) (clusterNamespace cl))"
    and "runs_late r u cl roles [Values_Deleted] I
      (\<lambda>x w. absent {} {configmap_key t (clusterName cl) (clusterNamespace cl)} (obs w))
      (DeleteConfigMap t K (clusterName cl) (clusterNamespace cl))"
    and "IsBotEnabled r \<Longrightarrow> runs_late r u cl roles [Tbot_Deleted] I
      (\<lambda>x w. absent {} {tbot_key (clusterName cl) TeleportBotNamespace} (obs w))
      (DeleteTbotConfigMap K (clusterName cl) TeleportBotNamespace)"
    and "IsBotEnabled r \<Longrightarrow> runs_late r u cl roles [Kubeconfig_Deleted] I
      (\<lambda>x w. absent {kubeconfig_key (clusterName cl) TeleportBotNamespace} {} (obs w))
      (DeleteKubeconfigSecret K (clusterName cl) TeleportBotNamespace)"
proof -
  show "runs_late r u cl roles [Secret_Deleted] I
      (\<lambda>x w. absent {secret_key (clusterName cl) (clusterNamespace cl)} {} (obs w))
      (DeleteSecret K (clusterName cl) (clusterNamespace cl))"
    by (rule passes_step [OF se.wp_DeleteSecret late_performs [OF secret_deleted]]) (simp add: absent_def set_key_apply)
  show "runs_late r u cl roles [Values_Deleted] I
      (\<lambda>x w. absent {} {configmap_key t (clusterName cl) (clusterNamespace cl)} (obs w))
      (DeleteConfigMap t K (clusterName cl) (clusterNamespace cl))"
    by (rule passes_step [OF cm.wp_DeleteConfigMap late_performs [OF values_deleted [of L r, unfolded assms]]])
      (simp add: absent_def set_key_apply)
  assume bot: "IsBotEnabled r"
  show "runs_late r u cl roles [Tbot_Deleted] I
      (\<lambda>x w. absent {} {tbot_key (clusterName cl) TeleportBotNamespace} (obs w))
      (DeleteTbotConfigMap K (clusterName cl) TeleportBotNamespace)"
    by (rule passes_step [OF cm.wp_DeleteTbotConfigMap late_performs [OF tbot_deleted [OF bot]]])
      (simp add: absent_def set_key_apply)
  show "runs_late r u cl roles [Kubeconfig_Deleted] I
      (\<lambda>x w. absent {kubeconfig_key (clusterName cl) TeleportBotNamespace} {} (obs w))
      (DeleteKubeconfigSecret K (clusterName cl) TeleportBotNamespace)"
    by (rule passes_step [OF se.wp_DeleteKubeconfigSecret late_performs [OF kubeconfig_deleted [OF bot]]])
      (simp add: absent_def set_key_apply)
qed

text \<open>Nothing comes back in the course of a deletion.\<close>

lemma absent_kept:
  assumes "performs (late_step L r u cl roles) order s s'" "set order \<subseteq> set deletion_order" "absent S M s"
  shows "absent S M s'"
  using performs_takes_away [OF assms(1,2)] assms(3) by (auto simp: takes_away_def absent_def intro: map_le_None)

lemma late_chain:
  assumes m: "\<And>I. runs_late r u cl roles o1 I (\<lambda>x w. absent S' M' (obs w)) m" and o1: "set o1 \<subseteq> set deletion_order"
    and f: "\<And>x. runs_late r u cl roles o2 (\<lambda>w. absent (S' \<union> S) (M' \<union> M) (obs w)) H (f x)"
  shows "runs_late r u cl roles (o1 @ o2) (\<lambda>w. absent S M (obs w)) H (bindE m f)"
proof -
  have "runs_late r u cl roles (o1 @ o2) (\<lambda>w. absent S M (obs w) \<and> absent S M (obs w)) H (bindE m f)"
  proof (rule passes_bind [OF m], goal_cases)
    case (1 w w')
    then show ?case using absent_kept [OF _ o1] by blast
  next
    case (2 x)
    show ?case by (rule passes_mono [OF f]) (auto simp: absent_def)
  qed
  then show ?thesis by simp
qed

lemma late_end:
  assumes m: "\<And>I. runs_late r u cl roles order I (\<lambda>x w. absent S' M' (obs w)) m" and o1: "set order \<subseteq> set deletion_order"
  shows "runs_late r u cl roles order (\<lambda>w. absent S M (obs w)) (\<lambda>x w. absent (S' \<union> S) (M' \<union> M) (obs w)) m"
proof -
  have "runs_late r u cl roles (order @ []) (\<lambda>w. absent S M (obs w)) (\<lambda>x w. absent (S' \<union> S) (M' \<union> M) (obs w)) (bindE m returnE)"
    by (rule late_chain [OF m o1 passes_return_with])
  then show ?thesis by simp
qed

lemma late_start: "runs_late r u cl roles order (\<lambda>w. absent {} {} (obs w)) J m \<Longrightarrow> runs_late r u cl roles order I J m"
  by (erule passes_mono) (simp_all add: absent_def)

lemma late_any: "runs_late r u cl roles order I J m \<Longrightarrow> runs_late r u cl roles order I (\<lambda>x w. absent {} {} (obs w)) m"
  by (erule passes_mono) (simp_all add: absent_def)

lemma late_forget:
  assumes "r_Client r = K"
  shows "runs_late r u cl roles [Finalizer_Removed] (\<lambda>w. objects_gone r cl (obs w)) (\<lambda>x w. True)
    (if ContainsFinalizer (lib_finalizers L) cl TeleportOperatorFinalizer
     then RemoveFinalizer (lib_finalizers L) cl (r_Client r) else returnE ())"
proof (cases "TeleportOperatorFinalizer \<in> set (Finalizers cl)")
  case False
  then show ?thesis by (simp add: cs.Contains passes_return)
next
  case True
  let ?fs = "filter (\<lambda>f. f \<noteq> TeleportOperatorFinalizer) (Finalizers cl)"
  have sub: "cs.without_finalizer cl = cl\<lparr>Finalizers := ?fs\<rparr>" by (simp add: cs.without_finalizer_def cs.Remove)
  show ?thesis
  proof (rule passes_rel)
    show "wp (if ContainsFinalizer (lib_finalizers L) cl TeleportOperatorFinalizer
        then RemoveFinalizer (lib_finalizers L) cl (r_Client r) else returnE ())
      (\<lambda>res w'. Now L w \<le> Now L w' \<and> finalizers_put cl ?fs (obs w) (obs w')) w" for w
      using cs.wp_patch_any [OF cs.without_finalizer_differs [OF True], of w] True
      by (simp add: cs.Contains assms RemoveFinalizer_def finalizers_put_def put_finalizers_def sub
          cs.without_finalizer_def [symmetric])
    show "performs (late_step L r u cl roles) [Finalizer_Removed] (obs w) s"
      if "objects_gone r cl (obs w)" "finalizers_put cl ?fs (obs w) s" for w s
      using that by (auto simp: finalizers_put_def intro: late_performs [OF finalizer_removed [OF _ True]])
  qed
qed

text \<open>What the bot has been told, and made of it.\<close>

lemma late_forget_bot:
  assumes r: "r_Teleport r = t"
  shows "runs_late r u cl roles ([Bot_Unreferred] @ [Tbot_Deleted] @ [Kubeconfig_Deleted]) I
    (\<lambda>x w. absent (if IsBotEnabled r then {kubeconfig_key (clusterName cl) TeleportBotNamespace} else {})
       (if IsBotEnabled r then {tbot_key (clusterName cl) TeleportBotNamespace} else {}) (obs w))
    (if IsBotEnabled r
     then bindE (bindE (NewTeleportAppConfigManager K TeleportBotAppName TeleportBotNamespace
                   (GetTbotConfigmapName (clusterName cl))) DeleteConfig) (\<lambda>_.
          bindE (DeleteTbotConfigMap K (clusterName cl) TeleportBotNamespace) (\<lambda>_.
          DeleteKubeconfigSecret K (clusterName cl) TeleportBotNamespace))
     else returnE ())"
proof (cases "IsBotEnabled r")
  case True
  let ?c = "clusterName cl" and ?b = TeleportBotNamespace
  note del = late_deleted(3,4) [OF r True]
  have kube: "runs_late r u cl roles [Kubeconfig_Deleted] (\<lambda>w. absent {} {tbot_key ?c ?b} (obs w))
      (\<lambda>x w. absent {kubeconfig_key ?c ?b} {tbot_key ?c ?b} (obs w)) (DeleteKubeconfigSecret K ?c ?b)"
    using late_end [OF del(2), where S = "{}" and M = "{tbot_key ?c ?b}"] by (simp add: deletion_order_def)
  have tbot: "runs_late r u cl roles ([Tbot_Deleted] @ [Kubeconfig_Deleted]) (\<lambda>w. absent {} {} (obs w))
      (\<lambda>x w. absent {kubeconfig_key ?c ?b} {tbot_key ?c ?b} (obs w))
      (bindE (DeleteTbotConfigMap K ?c ?b) (\<lambda>_. DeleteKubeconfigSecret K ?c ?b))"
    by (rule late_chain [OF del(1)]) (simp_all add: deletion_order_def kube)
  have "runs_late r u cl roles ([Bot_Unreferred] @ [Tbot_Deleted] @ [Kubeconfig_Deleted]) (\<lambda>w. absent {} {} (obs w))
      (\<lambda>x w. absent {kubeconfig_key ?c ?b} {tbot_key ?c ?b} (obs w)) (bindE (bindE (NewTeleportAppConfigManager K TeleportBotAppName ?b (GetTbotConfigmapName ?c)) DeleteConfig) (\<lambda>_.
        bindE (DeleteTbotConfigMap K ?c ?b) (\<lambda>_. DeleteKubeconfigSecret K ?c ?b)))"
    by (rule late_chain [OF late_any [OF late_bot_use(2) [OF True]]]) (use tbot in \<open>simp_all add: deletion_order_def\<close>)
  with True show ?thesis by (auto intro: late_start)
qed (simp add: passes_return_with absent_def)

lemma late_unrefer_agent:
  assumes r: "r_Teleport r = t"
  shows "runs_late r u cl roles [Agent_Unreferred] I (\<lambda>x w. True)
    (bindE (NewTeleportAppConfigManager K (GetAppName (clusterName cl) (cfg_AppName (t_Config t))) (clusterNamespace cl)
       (GetConfigmapName (clusterName cl) (cfg_AppName (t_Config t)))) DeleteConfig)"
proof (rule late_resource)
  show "wp (bindE (NewTeleportAppConfigManager K (GetAppName (clusterName cl) (cfg_AppName (t_Config t))) (clusterNamespace cl)
       (GetConfigmapName (clusterName cl) (cfg_AppName (t_Config t)))) DeleteConfig)
      (\<lambda>res w'. Now L w \<le> Now L w' \<and> unrefers_now (agent_key t (clusterName cl) (clusterNamespace cl))
        (GetConfigmapName (clusterName cl) (cfg_AppName (t_Config t))) (obs w) (obs w')) w" for w
    using mg.wp_manager_any(2) [of "agent_key t (clusterName cl) (clusterNamespace cl)"] by (simp add: agent_key_def)
qed (intro agent_unreferred, simp add: r)

lemma late_reconcileDelete:
  assumes r: "r_Client r = K" "r_Teleport r = t"
  shows "runs_late r u cl roles deletion_order (\<lambda>w. True) (\<lambda>x w. True) (reconcileDelete L r cl (registerNameOf r cl))"
proof -
  let ?c = "clusterName cl" and ?ns = "clusterNamespace cl" and ?b = TeleportBotNamespace
  let ?bot = "bindE (bindE (NewTeleportAppConfigManager K TeleportBotAppName TeleportBotNamespace (GetTbotConfigmapName ?c)) DeleteConfig) (\<lambda>_.
      bindE (DeleteTbotConfigMap K ?c ?b) (\<lambda>_. DeleteKubeconfigSecret K ?c ?b))"
  let ?S = "if IsBotEnabled r then {kubeconfig_key ?c ?b} else {}" and ?M = "if IsBotEnabled r then {tbot_key ?c ?b} else {}"
  let ?agent = "bindE (NewTeleportAppConfigManager K (GetAppName ?c (cfg_AppName (t_Config t))) ?ns
        (GetConfigmapName ?c (cfg_AppName (t_Config t)))) DeleteConfig"
    and ?fin = "bindE (if ContainsFinalizer (lib_finalizers L) cl TeleportOperatorFinalizer
       then RemoveFinalizer (lib_finalizers L) cl (r_Client r) else returnE ()) (\<lambda>_. returnE noRequeue)"
    and ?sk = "secret_key ?c ?ns" and ?ck = "configmap_key t ?c ?ns"
  have fin: "runs_late r u cl roles ([Finalizer_Removed] @ []) (\<lambda>w. objects_gone r cl (obs w) \<and> True) (\<lambda>x w. True) ?fin"
    by (rule passes_bind [OF late_forget [OF r(1)]]) (simp_all add: passes_return)
  have fin: "runs_late r u cl roles [Finalizer_Removed] (\<lambda>w. absent (insert ?sk ?S) (insert ?ck ?M) (obs w)) (\<lambda>x w. True) ?fin"
  proof (rule passes_mono)
    show "runs_late r u cl roles [Finalizer_Removed] (\<lambda>w. objects_gone r cl (obs w) \<and> True) (\<lambda>x w. True) ?fin"
      using fin by simp
  qed (auto simp: absent_def objects_gone_def Let_def r)
  have "runs_late r u cl roles ([Agent_Unreferred] @ [Finalizer_Removed])
      (\<lambda>w. absent (insert ?sk ?S) (insert ?ck ?M) (obs w)) (\<lambda>x w. True) (bindE ?agent (\<lambda>_. ?fin))"
    by (rule late_chain [OF late_any [OF late_unrefer_agent [OF r(2)]]]) (use fin in \<open>simp_all add: deletion_order_def\<close>)
  then have "runs_late r u cl roles (([Bot_Unreferred] @ [Tbot_Deleted] @ [Kubeconfig_Deleted]) @ [Agent_Unreferred] @ [Finalizer_Removed])
      (\<lambda>w. absent {?sk} {?ck} (obs w)) (\<lambda>x w. True)
      (bindE (if IsBotEnabled r then ?bot else returnE ()) (\<lambda>_. bindE ?agent (\<lambda>_. ?fin)))"
    by (intro late_chain [OF late_forget_bot [OF r(2)]]) (simp_all add: deletion_order_def Un_commute)
  then have "runs_late r u cl roles ([Values_Deleted] @ ([Bot_Unreferred] @ [Tbot_Deleted] @ [Kubeconfig_Deleted]) @ [Agent_Unreferred] @ [Finalizer_Removed])
      (\<lambda>w. absent {?sk} {} (obs w)) (\<lambda>x w. True) (bindE (DeleteConfigMap t K ?c ?ns) (\<lambda>_.
       bindE (if IsBotEnabled r then ?bot else returnE ()) (\<lambda>_. bindE ?agent (\<lambda>_. ?fin))))"
    by (intro late_chain [OF late_deleted(2) [OF r(2)]]) (simp_all add: deletion_order_def)
  then have "runs_late r u cl roles ([Secret_Deleted] @ [Values_Deleted] @ ([Bot_Unreferred] @ [Tbot_Deleted] @ [Kubeconfig_Deleted]) @ [Agent_Unreferred] @ [Finalizer_Removed])
      (\<lambda>w. absent {} {} (obs w)) (\<lambda>x w. True) (bindE (DeleteSecret K ?c ?ns) (\<lambda>_. bindE (DeleteConfigMap t K ?c ?ns) (\<lambda>_.
       bindE (if IsBotEnabled r then ?bot else returnE ()) (\<lambda>_. bindE ?agent (\<lambda>_. ?fin)))))"
    by (intro late_chain [OF late_deleted(1) [OF r(2)]]) (simp_all add: deletion_order_def)
  then have "runs_late r u cl roles ([Token_Dropped] @ [Secret_Deleted] @ [Values_Deleted] @ ([Bot_Unreferred] @ [Tbot_Deleted] @ [Kubeconfig_Deleted]) @ [Agent_Unreferred] @ [Finalizer_Removed])
      (\<lambda>w. absent {} {} (obs w)) (\<lambda>x w. True) (bindE (Token.DeleteToken t (registerNameOf r cl)) (\<lambda>_.
       bindE (DeleteSecret K ?c ?ns) (\<lambda>_. bindE (DeleteConfigMap t K ?c ?ns) (\<lambda>_.
       bindE (if IsBotEnabled r then ?bot else returnE ()) (\<lambda>_. bindE ?agent (\<lambda>_. ?fin))))))"
    by (intro late_chain [OF late_any [OF late_drop]]) (simp_all add: deletion_order_def)
  moreover have "reconcileDelete L r cl (registerNameOf r cl) = bindE (Token.DeleteToken t (registerNameOf r cl)) (\<lambda>_.
       bindE (DeleteSecret K ?c ?ns) (\<lambda>_. bindE (DeleteConfigMap t K ?c ?ns) (\<lambda>_.
       bindE (if IsBotEnabled r then ?bot else returnE ()) (\<lambda>_. bindE ?agent (\<lambda>_. ?fin)))))"
    by (simp add: reconcileDelete_def Let_def r bindE_assoc)
  ultimately show ?thesis by (simp add: deletion_order_def absent_def)
qed

end

end
