(* ===== verification/Cached_Calls.thy ===== *)
theory Cached_Calls
  imports Caches
begin

text \<open>
  Whole calls with a client that reads from a cache: each is a run of the events of theory
  \<open>Caches\<close>. What still holds then: only the cluster's own objects are touched, what is
  written works, at most two tokens are issued, and the finalizer goes last.
\<close>

section \<open>Calls as runs\<close>

lemma late_rewired:
  assumes "rewired r r'" "performs (late_step L r' u cl roles) order s s'"
  shows "performs (late_step L r u cl roles) order s s'"
proof -
  note f = rewired_fields [OF assms(1)]
  have k: "agent_key (r_Teleport r') = agent_key (r_Teleport r)" "configmap_key (r_Teleport r') = configmap_key (r_Teleport r)"
    by (simp_all add: agent_key_def configmap_key_def f fun_eq_iff)
  have d: "getConfigMapData L (r_Teleport r') = getConfigMapData L (r_Teleport r)"
    by (simp add: getConfigMapData_def f fun_eq_iff)
  have g: "objects_gone r' = objects_gone r" by (simp add: objects_gone_def f k fun_eq_iff)
  have step: "late_step L r u cl roles e s1 s2" if "late_step L r' u cl roles e s1 s2" for e s1 s2
    using that by cases (auto simp: f k d g intro: late_step.intros)
  from assms(2) show ?thesis by (rule performs_mono) (rule step)
qed

definition known_assignment :: "string list \<Rightarrow> bool" where
  "known_assignment roles \<longleftrightarrow> (\<exists>appsEnabled. roles = assignedRoles appsEnabled)"

lemma known_assignmentD: "known_assignment roles \<Longrightarrow> roles \<noteq> [] \<and> set roles \<subseteq> set known_roles"
  by (auto simp: known_assignment_def assignedRoles_def known_roles_def split: if_splits)

text \<open>Some Cluster of the requested name was read, live or not, with some roles.\<close>

definition late_call :: "'w libs \<Rightarrow> 'w ClusterReconciler \<Rightarrow> time \<Rightarrow> NamespacedName \<Rightarrow> world_obs \<Rightarrow> world_obs \<Rightarrow> bool" where
  "late_call L r u req s s' \<longleftrightarrow>
     (\<exists>cl roles. cluster_meta cl = req \<and> known_assignment roles \<and>
        performs (late_step L r u cl roles) (order_of cl) s s')"

lemma late_call_same: "late_call L r u req s s"
proof -
  have "cluster_meta \<lparr>cluster_meta = req, Finalizers = [], DeletionTimestamp = None\<rparr> = req" by simp
  then show ?thesis unfolding late_call_def known_assignment_def by (blast intro: performs_none)
qed

section \<open>What a call touches\<close>

text \<open>The footprint of theory \<open>Operator\<close>, without what it says of single references.\<close>

definition own_objects :: "'w Teleport \<Rightarrow> Cluster \<Rightarrow> string \<Rightarrow> world_obs \<Rightarrow> world_obs \<Rightarrow> bool" where
  "own_objects t cl reg s s' \<longleftrightarrow>
     (let c = clusterName cl; ns = clusterNamespace cl; b = TeleportBotNamespace
      in agree_off {cluster_meta cl} (clusters s) (clusters s') \<and>
         agree_off {secret_key c ns, kubeconfig_key c b} (secrets s) (secrets s') \<and>
         agree_off {configmap_key t c ns, tbot_key c b} (configmaps s) (configmaps s') \<and>
         agree_off {agent_key t c ns, bot_key} (helmreleases s) (helmreleases s') \<and>
         agree_off {agent_key t c ns, bot_key} (apps s) (apps s') \<and>
         tokens_kept reg (tokens s) (tokens s'))"

lemma own_objects_refl [simp]: "own_objects t cl reg s s"
  by (simp add: own_objects_def Let_def)

lemma own_objects_trans: "own_objects t cl reg s s1 \<Longrightarrow> own_objects t cl reg s1 s2 \<Longrightarrow> own_objects t cl reg s s2"
  unfolding own_objects_def Let_def by (blast intro: agree_off_trans tokens_kept_trans)

lemma agree_off_mono: "agree_off A m m' \<Longrightarrow> A \<subseteq> B \<Longrightarrow> agree_off B m m'"
  by (auto simp: agree_off_def)

lemma resource_put_own:
  assumes "resource_put helmreleases_update apps_update P Q k s s'"
    and "k \<in> {agent_key t (clusterName cl) (clusterNamespace cl), bot_key}"
  shows "own_objects t cl reg s s'"
  using resource_put_frame [OF assms(1)] assms(2)
  by (auto simp: own_objects_def Let_def intro: agree_off_mono)

lemma late_step_own:
  assumes "late_step L r u cl roles e s s'"
  shows "own_objects (r_Teleport r) cl (registerNameOf r cl) s s'"
  using assms
proof (cases rule: late_step.cases)
  case (node_token_issued p)
  then show ?thesis using tokens_kept_add by (fastforce simp: own_objects_def Let_def add_token_def)
next
  case (agent_token_issued p)
  then show ?thesis using tokens_kept_add by (fastforce simp: own_objects_def Let_def add_token_def)
qed (auto simp: own_objects_def [of _ _ _ s "clusters_update f s" for f] own_objects_def [of _ _ _ s "secrets_update f s" for f]
    own_objects_def [of _ _ _ s "configmaps_update f s" for f] own_objects_def [of _ _ _ s "tokens_update f s" for f]
    Let_def agree_off_set_key put_finalizers_def put_secret_def put_configmap_def
    intro: tokens_kept_drop resource_put_own)

lemma late_own:
  assumes "performs (late_step L r u cl roles) order s s'"
  shows "own_objects (r_Teleport r) cl (registerNameOf r cl) s s'"
  by (rule performs_invariant [OF assms, where I = "own_objects (r_Teleport r) cl (registerNameOf r cl) s"])
    (auto intro: own_objects_trans late_step_own)

section \<open>What a call writes\<close>

lemma late_step_sound:
  assumes "late_step L r u cl roles e s s'" "e \<in> set live_order" "sound_writes L r u cl roles s0 s"
  shows "sound_writes L r u cl roles s0 s'"
  using assms(1)
proof (cases rule: late_step.cases)
  case (secret_written tok p)
  with assms(3) show ?thesis
    by (auto simp: works_def GetTokenFromSecret_stored intro!: sound_writes_secret)
next
  case (values_written tok p x reg tka)
  then have "works (lib_roles L) u (registerNameOf r cl) roles s tok" by (auto simp: works_def)
  with values_written assms(3) show ?thesis by (auto intro: sound_writes_configmap)
next
  case agent_referred
  with assms(3) show ?thesis by (simp add: sound_writes_cong [OF resource_put_frame(4,2,3)])
next
  case bot_referred
  with assms(3) show ?thesis by (simp add: sound_writes_cong [OF resource_put_frame(4,2,3)])
qed (use assms(2,3) in \<open>auto simp: live_order_def put_finalizers_def sound_writes_cong [of "clusters_update f s" s for f s]
       intro: sound_writes_token sound_writes_configmap\<close>)

lemma late_sound:
  assumes "performs (late_step L r u cl roles) (order_of cl) s s'"
  shows "sound_writes L r u cl roles s s' \<or> takes_away s s'"
proof (cases "deletion_IsZero (DeletionTimestamp cl)")
  case True
  then have live: "performs (late_step L r u cl roles) live_order s s'" using assms by (simp add: order_of_def)
  have "sound_writes L r u cl roles s s'"
    by (rule performs_invariant [OF live, where I = "sound_writes L r u cl roles s"]) (auto intro: late_step_sound)
  then show ?thesis ..
next
  case False
  then show ?thesis using performs_takes_away [OF assms] by (simp add: order_of_def)
qed

lemma issues_at_most_same: "tokens s' = tokens s \<Longrightarrow> issues_at_most n s s'"
  by (rule issues_at_most_subset [where N = "{}"]) simp_all

lemma late_step_issues:
  assumes "late_step L r u cl roles e s s'"
  shows "issues_at_most (issuing e) s s'"
  using assms
proof (cases rule: late_step.cases)
  case (node_token_issued p)
  then show ?thesis by (intro issues_at_most_subset [where N = "{GetName p}"]) (auto simp: add_token_def set_key_def)
next
  case (agent_token_issued p)
  then show ?thesis by (intro issues_at_most_subset [where N = "{GetName p}"]) (auto simp: add_token_def set_key_def)
next
  case (token_dropped p)
  then show ?thesis by (intro issues_at_most_subset [where N = "{}"]) (auto simp: set_key_def)
qed (auto intro!: issues_at_most_same simp: put_finalizers_def put_secret_def put_configmap_def dest: resource_put_frame(4))

lemma late_issues:
  assumes "performs (late_step L r u cl roles) order s s'"
  shows "issues_at_most (sum_list (map issuing order)) s s'"
proof -
  obtain es where es: "subseq es order" "event_run (late_step L r u cl roles) es s s'" using assms by (auto simp: performs_def)
  from es(2) have "issues_at_most (sum_list (map issuing es)) s s'"
    by (induction rule: event_run.induct) (auto intro: issues_at_most_trans late_step_issues)
  then show ?thesis using issues_at_most_mono subseq_sum_list [OF es(1)] by blast
qed

section \<open>When the finalizer goes\<close>

text \<open>
  As long as anything of the cluster is left, the finalizer stays: an event that does not
  remove it leaves it, and the one that does comes last.
\<close>

lemma late_step_finalizer:
  assumes "late_step L r u cl roles e s s'" "e \<noteq> Finalizer_Removed" "finalizer_ready (cluster_meta cl) s"
  shows "finalizer_ready (cluster_meta cl) s'"
  using assms(1)
  by (cases rule: late_step.cases)
    (use assms(2,3) in \<open>auto simp: finalizer_ready_def put_finalizers_def put_secret_def put_configmap_def add_token_def
       settle_def set_key_apply resource_put_frame\<close>)

lemma late_run_finalizer:
  assumes "event_run (late_step L r u cl roles) es s s'" "finalizer_ready (cluster_meta cl) s"
    and "\<And>i. i < length es \<Longrightarrow> es ! i = Finalizer_Removed \<Longrightarrow> Suc i = length es"
  shows "finalizer_ready (cluster_meta cl) s' \<or> objects_gone r cl s'"
  using assms
proof (induction rule: event_run.induct)
  case (cons_run e s s1 es s2)
  show ?case
  proof (cases "e = Finalizer_Removed")
    case True
    then have "es = []" using cons_run.prems(2) [of 0] by simp
    then have "s2 = s1" using cons_run.hyps(2) by simp
    moreover have "objects_gone r cl s1"
      using cons_run.hyps(1) True by cases (auto simp: objects_gone_def put_finalizers_def Let_def)
    ultimately show ?thesis by simp
  next
    case False
    have "finalizer_ready (cluster_meta cl) s1" by (rule late_step_finalizer [OF cons_run.hyps(1) False cons_run.prems(1)])
    moreover have "Suc i = length es" if "i < length es" "es ! i = Finalizer_Removed" for i
      using cons_run.prems(2) [of "Suc i"] that by simp
    ultimately show ?thesis by (rule cons_run.IH)
  qed
qed simp

lemma deletion_order_last:
  assumes "subseq es deletion_order" "i < length es" "es ! i = Finalizer_Removed"
  shows "Suc i = length es"
proof (rule ccontr)
  assume "Suc i \<noteq> length es"
  then have "Suc i < length es" using assms(2) by simp
  then have "subseq [Finalizer_Removed, es ! Suc i] es"
    using assms(2,3) by (metis Cons_nth_drop_Suc list_emb_append2 append_take_drop_id subseq_Cons2 list_emb_Nil)
  with assms(1) have "subseq [Finalizer_Removed, es ! Suc i] deletion_order" by (rule subseq_order.trans [rotated])
  then show False by (simp add: deletion_order_def)
qed

lemma finalizer_outlives:
  assumes "performs (late_step L r u cl roles) (order_of cl) s s'" "finalizer_ready (cluster_meta cl) s"
  shows "finalizer_ready (cluster_meta cl) s' \<or> objects_gone r cl s'"
proof -
  obtain es where es: "subseq es (order_of cl)" "event_run (late_step L r u cl roles) es s s'"
    using assms(1) by (auto simp: performs_def)
  have "Suc i = length es" if "i < length es" "es ! i = Finalizer_Removed" for i
  proof (cases "deletion_IsZero (DeletionTimestamp cl)")
    case True
    have "es ! i \<in> set (order_of cl)" using list_emb_set [OF es(1) nth_mem [OF that(1)]] by blast
    with True have "es ! i \<in> set live_order" by (simp add: order_of_def)
    with that(2) show ?thesis by (simp add: live_order_def)
  next
    case False
    with es(1) that show ?thesis by (auto simp: order_of_def intro: deletion_order_last)
  qed
  with late_run_finalizer [OF es(2) assms(2)] show ?thesis by blast
qed

section \<open>Every call\<close>

text \<open>The names that matter are those of the request, whatever was read under it.\<close>

lemma own_objects_named:
  "cluster_meta cl = cluster_meta cl' \<Longrightarrow> own_objects t cl = own_objects t cl'"
  "cluster_meta cl = cluster_meta cl' \<Longrightarrow> registerNameOf r cl = registerNameOf r cl'"
  "cluster_meta cl = cluster_meta cl' \<Longrightarrow> objects_gone r cl = objects_gone r cl'"
  "cluster_meta cl = cluster_meta cl' \<Longrightarrow> sound_writes L r u cl = sound_writes L r u cl'"
  by (simp_all add: own_objects_def registerNameOf_def objects_gone_def sound_writes_def clusterName_def clusterNamespace_def
      Let_def fun_eq_iff)

lemma late_call_cases:
  assumes "late_call L r u req s s'" "cluster_meta cl = req"
  shows "own_objects (r_Teleport r) cl (registerNameOf r cl) s s'"
    and "(\<exists>roles. known_assignment roles \<and> sound_writes L r u cl roles s s') \<or> takes_away s s'"
    and "issues_at_most 2 s s'"
    and "finalizer_ready req s \<Longrightarrow> finalizer_ready req s' \<or> objects_gone r cl s'"
proof -
  obtain cl' roles where cl': "cluster_meta cl' = req" "known_assignment roles"
    and run: "performs (late_step L r u cl' roles) (order_of cl') s s'"
    using assms(1) by (auto simp: late_call_def)
  note named = own_objects_named [of cl cl', unfolded assms(2) cl'(1), OF refl]
  show "own_objects (r_Teleport r) cl (registerNameOf r cl) s s'"
    unfolding named by (rule late_own [OF run])
  show "(\<exists>roles. known_assignment roles \<and> sound_writes L r u cl roles s s') \<or> takes_away s s'"
    unfolding named using late_sound [OF run] cl'(2) by blast
  show "issues_at_most 2 s s'"
    by (rule issues_at_most_mono [OF late_issues [OF run]]) (simp add: orders_issue)
  show "finalizer_ready req s \<Longrightarrow> finalizer_ready req s' \<or> objects_gone r cl s'"
    unfolding named using finalizer_outlives [OF run] cl'(1) by simp
qed

context cached_world
begin

lemma Reconcile_late:
  assumes run: "Reconcile L req r w = ((res, r'), w')" and ok: "reconciler_ok K obs L r" "client_or_stale L r w"
  shows "late_call L r (Now L w) req (obs w) (obs w')"
  using run ok(1)
proof (cases rule: Reconcile_cases_any)
  case stopped
  then show ?thesis by (simp add: late_call_same)
next
  case (branch cl b w3)
  obtain C where C: "TeleportClient (r_Teleport r') = Some C" using branch(6) ok(2) by blast
  note env = cached_connectedI [OF branch(5) C]
  have r: "r_Client r' = K" using branch(5) by (simp add: reconciler_ok_def)
  have roles: "known_assignment (assignedRoles b)" by (auto simp: known_assignment_def)
  note normal = passes_wp [OF cached_connected.late_reconcileNormal [OF env r refl]]
    and delete = passes_wp [OF cached_connected.late_reconcileDelete [OF env r refl]]
  have "performs (late_step L r' (Now L w) cl (assignedRoles b)) (order_of cl) (obs w) (obs w')"
  proof (cases "deletion_IsZero (DeletionTimestamp cl)")
    case True
    then have "reconcileNormal L r' cl (registerNameOf r' cl) (assignedRoles b) w3 = (res, w')" using branch(7) by simp
    from wp_run [OF normal this] branch(2,3) known_assignmentD [OF roles] True show ?thesis
      by (simp add: order_of_def traced_def)
  next
    case False
    then have "reconcileDelete L r' cl (registerNameOf r' cl) w3 = (res, w')" using branch(7) by simp
    from wp_run [OF delete this] branch(2) False show ?thesis by (simp add: order_of_def traced_def)
  qed
  from late_rewired [OF branch(4) this] branch(1) roles show ?thesis by (auto simp: late_call_def)
qed

lemma Reconcile_issues_any:
  assumes "Reconcile L req r w = ((res, r'), w')" "reconciler_ok K obs L r" "client_or_stale L r w"
  shows "issues_at_most 2 (obs w) (obs w')"
proof -
  have "cluster_meta \<lparr>cluster_meta = req, Finalizers = [], DeletionTimestamp = None\<rparr> = req" by simp
  from late_call_cases(3) [OF Reconcile_late [OF assms] this] show ?thesis .
qed

text \<open>And so for any sequence of calls.\<close>

lemma reconcile_all_issues:
  assumes "reconcile_all L reqs (r, w) = (r', w')" "reconciler_ok K obs L r" "client_or_stale L r w"
  shows "issues_at_most (2 * length reqs) (obs w) (obs w')"
  using assms
proof (induction reqs arbitrary: r w)
  case (Cons req reqs)
  obtain res r1 w1 where run: "Reconcile L req r w = ((res, r1), w1)" by (metis prod.exhaust_sel)
  note keeps = Reconcile_reconciler [OF run Cons.prems(2)]
  have "issues_at_most (2 + 2 * length reqs) (obs w) (obs w')"
    using Cons.prems run keeps
    by (intro issues_at_most_trans [OF Reconcile_issues_any [OF run] Cons.IH]) simp_all
  then show ?case by simp
qed simp

end

end
