(* ===== verification/Stuck.thy ===== *)
theory Stuck
  imports Cached_Calls
begin

text \<open>
  A values ConfigMap that the operator can read a token from but no register name, with a
  token that has expired: every call issues a new token, finds out that it cannot write the
  ConfigMap and fails, and the next one does the same.
\<close>

section \<open>The state\<close>

definition values_stuck ::
    "'w libs \<Rightarrow> 'w ClusterReconciler \<Rightarrow> time \<Rightarrow> Cluster \<Rightarrow> string list \<Rightarrow> world_obs \<Rightarrow> bool" where
  "values_stuck L r u cl roles s \<longleftrightarrow>
     (\<exists>cm tok p e. configmaps s (configmap_key (r_Teleport r) (clusterName cl) (clusterNamespace cl)) = Some cm \<and>
        GetTokenFromConfigMap L cm = Inr tok \<and> registerNameFromConfigMap L cm = Inl e \<and>
        tokens s tok = Some p \<and> \<not> serves (lib_roles L) u (registerNameOf r cl) roles p \<and>
        (\<forall>tok' tka. cm_Data cm ''values'' \<noteq>
           Some (getConfigMapData L (r_Teleport r) (registerNameOf r cl) tok' roles tka)))"

text \<open>Such a cluster, live and otherwise as the operator wants it.\<close>

definition stuck :: "'w libs \<Rightarrow> 'w ClusterReconciler \<Rightarrow> time \<Rightarrow> Cluster \<Rightarrow> world_obs \<Rightarrow> bool" where
  "stuck L r u cl s \<longleftrightarrow>
     clusters s (cluster_meta cl) = Some cl \<and> deletion_IsZero (DeletionTimestamp cl) \<and>
     TeleportOperatorFinalizer \<in> set (Finalizers cl) \<and>
     (\<exists>idf. identity_secret (r_Namespace r) idf s) \<and>
     user_values_readable L (clusterName cl) (clusterNamespace cl) s \<and>
     secret_readable (clusterName cl) (clusterNamespace cl) s \<and>
     values_stuck L r u cl (rolesFor L cl s) s"

text \<open>A call that fails, keeps the Cluster and the ConfigMaps, and leaves a token more.\<close>

definition wasted_call ::
    "'w libs \<Rightarrow> 'w ClusterReconciler \<Rightarrow> time \<Rightarrow> Cluster \<Rightarrow> string list \<Rightarrow> world_obs \<Rightarrow> error + 'a \<Rightarrow> world_obs \<Rightarrow> bool" where
  "wasted_call L r u cl roles s res s' \<longleftrightarrow>
     (\<exists>e. res = Inl e) \<and> clusters s' = clusters s \<and> configmaps s' = configmaps s \<and>
     secret_readable (clusterName cl) (clusterNamespace cl) s' \<and> tokens s \<subseteq>\<^sub>m tokens s' \<and>
     (\<exists>p. new_token (lib_roles L) u (registerNameOf r cl) roles s p \<and> tokens s' (GetName p) = Some p)"

lemma values_stuck_later:
  assumes "values_stuck L r u cl roles s" "configmaps s' = configmaps s" "tokens s \<subseteq>\<^sub>m tokens s'" "u \<le> v"
  shows "values_stuck L r v cl roles s'"
  using assms(1) map_leD [OF assms(3)] serves_mono [OF _ assms(4)]
  unfolding values_stuck_def assms(2) by blast

lemma succeeds_bindI:
  assumes "succeeds m w" "wp m P w" "\<And>x w1. P (Inr x) w1 \<Longrightarrow> wp (f x) Q w1"
  shows "wp (bindE m f) Q w"
proof -
  obtain x w1 where m: "m w = (Inr x, w1)" using assms(1) by (auto simp: succeeds_iff)
  with wp_run [OF assms(2) m] assms(3) show ?thesis by (simp add: wp_def bindE_def)
qed

section \<open>One call\<close>

context reliable_connected
begin

lemma wp_generated:
  assumes "set roles \<subseteq> set known_roles" "u \<le> Now L w"
  shows "wp (GenerateToken L t reg roles)
    (\<lambda>res w'. \<forall>n. res = Inr n \<longrightarrow> (\<exists>q. new_token (lib_roles L) u reg roles (obs w) q \<and> obs w' = add_token q (obs w))) w"
  by (subst bindE_returnE(2) [symmetric], rule env.wp_generate_then [OF assms]) (auto simp: wp_returnE)

lemma wp_stuck_values:
  assumes r: "r_Client r = K" "r_Teleport r = t" and u: "u \<le> Now L w"
    and roles: "roles \<noteq> []" "set roles \<subseteq> set known_roles" and stuck: "values_stuck L r u cl roles (obs w)"
  shows "wp (reconcileConfigMap L r cl (registerNameOf r cl) roles tka)
    (\<lambda>res w'. (\<exists>e. res = Inl e) \<and> (\<exists>p. new_token (lib_roles L) u (registerNameOf r cl) roles (obs w) p \<and> obs w' = add_token p (obs w))) w"
    (is "wp _ ?Q w")
proof -
  let ?reg = "registerNameOf r cl"
  from stuck r(2) obtain cm tok p e where cm: "configmaps (obs w) (configmap_key t (clusterName cl) (clusterNamespace cl)) = Some cm"
    and tok: "GetTokenFromConfigMap L cm = Inr tok" and name: "registerNameFromConfigMap L cm = Inl e"
    and p: "tokens (obs w) tok = Some p" "\<not> serves (lib_roles L) u ?reg roles p"
    and other: "\<And>tok'. cm_Data cm ''values'' \<noteq> Some (getConfigMapData L t ?reg tok' roles tka)"
    unfolding values_stuck_def by metis
  from tok obtain v where v: "cm_Data cm ''values'' = Some v"
    by (auto simp: GetTokenFromConfigMap_def parseConfigMapValues_def split: option.splits sum.splits)
  have rewrite: "wp (bindE (GenerateToken L t ?reg roles) (\<lambda>writeToken.
      if v = RenderConfigMapValues L t ?reg writeToken roles tka then returnE ()
      else UpdateConfigMap L t K cm writeToken roles tka)) ?Q w2"
    if w2: "obs w2 = obs w" "u \<le> Now L w2" for w2
  proof (rule succeeds_bindI [OF svc.succeeds_GenerateToken [OF roles] wp_generated [OF roles(2) w2(2)]])
    fix tk :: string and w3
    assume "\<forall>n. Inr tk = Inr n \<longrightarrow> (\<exists>q. new_token (lib_roles L) u ?reg roles (obs w2) q \<and> obs w3 = add_token q (obs w2))"
    then obtain q where q: "new_token (lib_roles L) u ?reg roles (obs w) q" "obs w3 = add_token q (obs w)"
      using w2(1) by auto
    have "v \<noteq> RenderConfigMapValues L t ?reg tk roles tka" using other [of tk] v by (simp add: RenderConfigMapValues_def)
    with q show "wp (if v = RenderConfigMapValues L t ?reg tk roles tka then returnE ()
        else UpdateConfigMap L t K cm tk roles tka) ?Q w3"
      by (auto simp: cm.wp_UpdateConfigMap_malformed [OF name] wp_throwE)
  qed
  have check: "wp (IsTokenValid L t ?reg tok (RolesToString roles))
      (\<lambda>res w2. obs w2 = obs w1 \<and> Now L w1 \<le> Now L w2 \<and> (\<forall>b. res = Inr b \<longrightarrow> \<not> b)) w1"
    if w1: "obs w1 = obs w" "u \<le> Now L w1" for w1
    by (rule wp_mono [OF svc.wp_IsTokenValid])
      (use w1 p serves_mono ParseRoles_Join [OF roles] in \<open>fastforce simp: svc.unchanged_def\<close>)
  show ?thesis
    unfolding reconcileConfigMap_def Let_def r
  proof (rule succeeds_bindI [OF succeeds_GetConfigMap cm.wp_GetConfigMap], goal_cases)
    case (1 x w1)
    then have w1: "obs w1 = obs w" "u \<le> Now L w1" "x = Some cm" using u cm by auto
    show ?case
      unfolding w1(3) option.case tok liftE_Inr v
      by (rule succeeds_bindI [OF svc.succeeds_IsTokenValid [OF ParseRoles_Join [OF roles]] check [OF w1(1,2)]])
        (use w1 rewrite in auto)
  qed
qed

lemma wp_stuck_normal:
  assumes r: "r_Client r = K" "r_Teleport r = t" and u: "u \<le> Now L w"
    and roles: "roles \<noteq> []" "set roles \<subseteq> set known_roles" and cl: "clusters (obs w) (cluster_meta cl) = Some cl"
    and fin: "TeleportOperatorFinalizer \<in> set (Finalizers cl)"
    and sec: "secret_readable (clusterName cl) (clusterNamespace cl) (obs w)" and stuck: "values_stuck L r u cl roles (obs w)"
  shows "wp (reconcileNormal L r cl (registerNameOf r cl) roles)
    (\<lambda>res w'. wasted_call L r u cl roles (obs w) res (obs w')) w"
  unfolding reconcileNormal_def r(1)
proof (rule succeeds_bindI [OF succeeds_ensureFinalizer [OF r(1) cl] wp_ensureFinalizer [OF r(1) cl]], goal_cases)
  case (1 x w1)
  then have w1: "obs w1 = obs w" "u \<le> Now L w1" using fin u by (auto simp: step_post_def finalizer_effect_def)
  show ?case
  proof (rule succeeds_bindI [OF succeeds_reconcileSecret [OF r] env.wp_reconcileSecret [OF r w1(2)]], goal_cases)
    case 1 show ?case using sec w1 by simp
  next
    case (2 y w2)
    then have moves: "secret_moves (lib_roles L) u (registerNameOf r cl) (clusterName cl) (clusterNamespace cl) (obs w) (obs w2)"
      and ready: "secret_ready (lib_roles L) u (registerNameOf r cl) (clusterName cl) (clusterNamespace cl) (obs w2)"
      and now2: "u \<le> Now L w2"
      using w1 by (auto simp: env.secret_post_def)
    note frame = secret_moves_frame [OF moves]
    have ver: "wp (GetTeleportKubeAgentVersion K n ns) (\<lambda>_ w3. obs w3 = obs w2 \<and> Now L w2 \<le> Now L w3) w2" for n ns
      using wp_mono [OF wp_GetTeleportKubeAgentVersion [of "\<lparr>Name = n, Namespace = ns\<rparr>"]] by auto
    show ?case
    proof (rule succeeds_bindI [OF succeeds_version ver], goal_cases)
      case (1 tka w3)
      then have w3: "obs w3 = obs w2" "u \<le> Now L w3" using now2 by auto
      have stuck3: "values_stuck L r u cl roles (obs w3)"
        using stuck w3(1) frame values_stuck_later [of L r u cl roles "obs w" "obs w3" u] by simp
      show ?case
      proof (rule wp_bindEI [OF wp_stuck_values [OF r w3(2) roles stuck3]], goal_cases)
        case (2 e w4)
        then obtain p where p: "new_token (lib_roles L) u (registerNameOf r cl) roles (obs w2) p" "obs w4 = add_token p (obs w2)"
          using w3 by auto
        have "tokens (obs w) \<subseteq>\<^sub>m tokens (obs w4)"
          using map_le_trans [OF frame(5) map_le_set_key] p by (simp add: new_token_def add_token_def)
        moreover have "new_token (lib_roles L) u (registerNameOf r cl) roles (obs w) p"
          using p(1) map_leD [OF frame(5)] by (cases "tokens (obs w) (GetName p)") (auto simp: new_token_def)
        ultimately show ?case
          using p(2) frame(1,2) ready
          by (auto simp: wasted_call_def secret_readable_def secret_ready_def add_token_def set_key_apply intro!: exI [of _ p])
      qed simp
    qed
  qed
qed

end

section \<open>Every call\<close>

lemma rewired_values: "rewired r r' \<Longrightarrow> values_stuck L r' = values_stuck L r"
proof -
  assume rew: "rewired r r'"
  have "getConfigMapData L (r_Teleport r') = getConfigMapData L (r_Teleport r)"
    by (simp add: getConfigMapData_def rewired_fields [OF rew] fun_eq_iff)
  then show "values_stuck L r' = values_stuck L r"
    by (simp add: values_stuck_def configmap_key_def rewired_fields [OF rew] fun_eq_iff)
qed

lemma stuck_rewired: "rewired r r' \<Longrightarrow> stuck L r' = stuck L r"
  by (simp add: stuck_def rewired_values rewired_namespace fun_eq_iff)

context reliable_world
begin

lemma Reconcile_stuck:
  assumes ok: "reconciler_ok K obs L r" "client_or_stale L r w" and rel: "client_reliable L obs r"
    and stuck: "stuck L r (Now L w) cl (obs w)"
  obtains e r' w' where "Reconcile L (cluster_meta cl) r w = ((Inl e, r'), w')"
    "wasted_call L r (Now L w) cl (rolesFor L cl (obs w)) (obs w) (Inl e :: error + Result) (obs w')"
    "stuck L r' (Now L w') cl (obs w')" "client_reliable L obs r'"
proof -
  have cl: "clusters (obs w) (cluster_meta cl) = Some cl" "deletion_IsZero (DeletionTimestamp cl)"
    "TeleportOperatorFinalizer \<in> set (Finalizers cl)"
    and reads: "\<exists>idf. identity_secret (r_Namespace r) idf (obs w)" "user_values_readable L (clusterName cl) (clusterNamespace cl) (obs w)"
      "secret_readable (clusterName cl) (clusterNamespace cl) (obs w)"
    and vals: "values_stuck L r (Now L w) cl (rolesFor L cl (obs w)) (obs w)"
    using stuck by (simp_all add: stuck_def)
  show thesis
  proof (rule Reconcile_reaches [OF ok rel cl(1) refl reads(1,2)])
    fix r2 w3 C
    assume go: "\<And>res w4. (if \<not> deletion_IsZero (DeletionTimestamp cl)
         then reconcileDelete L r2 cl (registerNameOf r cl)
         else reconcileNormal L r2 cl (registerNameOf r cl) (rolesFor L cl (obs w))) w3 = (res, w4) \<Longrightarrow>
         Reconcile L (cluster_meta cl) r w = ((res, r2), w4)"
      and r2: "rewired r r2" "r_Namespace r2 = r_Namespace r" "reconciler_ok K obs L r2" "client_reliable L obs r2"
        "TeleportClient (r_Teleport r2) = Some C" and w3: "obs w3 = obs w" "Now L w \<le> Now L w3"
    have env: "reliable_connected K obs L app_admit C (r_Teleport r2)" by (rule reliable_connectedI [OF r2(3-5)])
    have K2: "r_Client r2 = K" using r2(3) by (simp add: reconciler_ok_def)
    have reg: "registerNameOf r2 cl = registerNameOf r cl" by (simp add: rewired_fields [OF r2(1)])
    obtain res w' where run: "reconcileNormal L r2 cl (registerNameOf r cl) (rolesFor L cl (obs w)) w3 = (res, w')" by fastforce
    have "wasted_call L r2 (Now L w) cl (rolesFor L cl (obs w)) (obs w3) res (obs w')"
      using reliable_connected.wp_stuck_normal [OF env K2 refl w3(2) rolesFor_known [of cl "obs w"], of cl] run cl reads(3) vals w3
      unfolding reg by (auto simp: rewired_values [OF r2(1)] dest: wp_run)
    then have wasted: "wasted_call L r (Now L w) cl (rolesFor L cl (obs w)) (obs w) res (obs w')"
      by (simp add: wasted_call_def reg w3)
    then obtain e where e: "res = Inl e" by (auto simp: wasted_call_def)
    have call: "Reconcile L (cluster_meta cl) r w = ((Inl e, r2), w')" using go run cl(2) e by simp
    have fp: "footprint (r_Teleport r) cl (registerNameOf r cl) (obs w) (obs w')"
      by (rule Reconcile_footprint [OF call ok cl(1) refl])
    have "stuck L r (Now L w') cl (obs w')"
      using wasted stuck footprint_keeps_reads [OF fp] footprint_keeps_roles [OF fp, of L cl]
        values_stuck_later [OF vals _ _ Reconcile_now [OF call ok]]
      by (auto simp: stuck_def wasted_call_def identity_secret_def user_values_readable_def)
    then have "stuck L r2 (Now L w') cl (obs w')" by (simp add: stuck_rewired [OF r2(1)])
    with call wasted e r2(4) show thesis by (intro that) simp_all
  qed
qed

text \<open>Calling again does not help: every call fails and adds a token.\<close>

lemma stuck_for_ever:
  assumes "reconcile_all L (replicate n (cluster_meta cl)) (r, w) = (r', w')"
    and "reconciler_ok K obs L r" "client_or_stale L r w" "client_reliable L obs r" "stuck L r (Now L w) cl (obs w)"
  shows "n \<le> card (new_names (obs w) (obs w')) \<and> tokens (obs w) \<subseteq>\<^sub>m tokens (obs w') \<and> stuck L r' (Now L w') cl (obs w')"
  using assms
proof (induction n arbitrary: r w)
  case (Suc n)
  obtain e r1 w1 where run: "Reconcile L (cluster_meta cl) r w = ((Inl e, r1), w1)"
    and wasted: "wasted_call L r (Now L w) cl (rolesFor L cl (obs w)) (obs w) (Inl e :: error + Result) (obs w1)"
    and later: "stuck L r1 (Now L w1) cl (obs w1)" "client_reliable L obs r1"
    by (rule Reconcile_stuck [OF Suc.prems(2-5)])
  note keeps = Reconcile_reconciler [OF run Suc.prems(2)]
  have rest: "reconcile_all L (replicate n (cluster_meta cl)) (r1, w1) = (r', w')" using Suc.prems(1) run by simp
  note IH = Suc.IH [OF rest keeps(1) keeps(3) [OF Suc.prems(3)] later(2,1)]
  obtain p where p: "tokens (obs w) (GetName p) = None" "tokens (obs w1) (GetName p) = Some p"
    and grow: "tokens (obs w) \<subseteq>\<^sub>m tokens (obs w1)"
    using wasted by (auto simp: wasted_call_def new_token_def)
  have fin: "finite (new_names (obs w) (obs w'))"
    using reconcile_all_issues [OF Suc.prems(1-3)] by (simp add: issues_at_most_def)
  have "GetName p \<notin> new_names (obs w1) (obs w')" using p by (auto simp: new_names_def)
  moreover have sub: "insert (GetName p) (new_names (obs w1) (obs w')) \<subseteq> new_names (obs w) (obs w')"
    using p IH map_le_implies_dom_le [OF grow] by (auto simp: new_names_def dest: map_leD)
  ultimately have "Suc (card (new_names (obs w1) (obs w'))) \<le> card (new_names (obs w) (obs w'))"
    using card_mono [OF fin sub] finite_subset [OF sub fin] by simp
  with IH show ?case using map_le_trans [OF grow] by auto
qed simp

end

end
