(* ===== verification/Two_Clusters.thy ===== *)
theory Two_Clusters
  imports Queue Runs Answers Stuck
begin

text \<open>
  Worlds for the properties about several clusters or calls: one cluster in order or new
  and one that is being deleted beside it, and a cluster whose stored values are malformed.
\<close>

section \<open>Reliable worlds\<close>

lemma calm_config [simp]:
  "t_Config (r_Teleport (calm_reconciler cfg tbot ns)) = cfg" "r_Namespace (calm_reconciler cfg tbot ns) = ns"
  by (simp_all add: calm_reconciler_def)

lemma demo_inputs:
  "inputs_readable (calm_libs steady) (calm_reconciler demo_config True ''ns'') new_cluster (mem_obs (demo_world faults))"
  "inputs_readable (calm_libs steady) (calm_reconciler demo_config True ''ns'') old_cluster (mem_obs (gone_world faults))"
  by (simp_all add: inputs_readable_def identity_secret_def user_values_readable_def secret_readable_def
      configmap_readable_def mem_obs_def lookup_def run user_values_name_def secret_key_def GetSecretName_def)

text \<open>A cluster that is being deleted and whose user values are not YAML.\<close>

definition unreadable_world :: mem where
  "unreadable_world = (gone_world [])\<lparr>m_configmaps :=
     [\<lparr>cm_meta = \<lparr>Name = user_values_name ''wc'', Namespace = ''org''\<rparr>, cm_Data = [''values'' \<mapsto> ''{''],
       BinaryData = Map.empty\<rparr>]\<rparr>"

lemma unreadable_document: "isl (ref_Unmarshal ''{'')"
  by code_simp

lemma unreadable_there:
  "clusters (mem_obs unreadable_world) demo_key = Some old_cluster"
  "\<not> user_values_readable (calm_libs steady) (clusterName old_cluster) (clusterNamespace old_cluster) (mem_obs unreadable_world)"
  using unreadable_document
  by (auto simp: unreadable_world_def user_values_readable_def mem_obs_def lookup_def gone_world_def old_cluster_def
      demo_key_def clusterName_def clusterNamespace_def)

section \<open>A cluster in order and one being deleted\<close>

definition other_key :: NamespacedName where
  "other_key = \<lparr>Name = ''xc'', Namespace = ''org''\<rparr>"

definition other_cluster :: Cluster where
  "other_cluster = \<lparr>cluster_meta = other_key, Finalizers = [], DeletionTimestamp = Some 1\<rparr>"

lemma pair_metas [simp]: "cluster_meta other_cluster = other_key" "demo_key \<noteq> other_key" "other_key \<noteq> demo_key"
  by (simp_all add: other_cluster_def other_key_def demo_key_def)

lemma other_deleted [simp]: "\<not> deletion_IsZero (DeletionTimestamp other_cluster)"
  by (simp add: other_cluster_def deletion_IsZero_def IsZero_def)

definition two_world :: "fault list \<Rightarrow> mem" where
  "two_world faults = made_world\<lparr>m_clusters := [made_cluster, other_cluster], m_faults := faults\<rparr>"

lemma two_obs: "mem_obs (two_world faults) = (mem_obs made_world)\<lparr>clusters := lookup cluster_meta [made_cluster, other_cluster]\<rparr>"
  by (simp add: mem_obs_def two_world_def)

lemma two_clusters:
  "clusters (mem_obs (two_world faults)) demo_key = Some made_cluster"
  "clusters (mem_obs (two_world faults)) other_key = Some other_cluster"
  by (simp_all add: two_obs lookup_def)

lemma converged_clusters:
  assumes "m (cluster_meta cl) = clusters s (cluster_meta cl)"
  shows "converged L r u cl reg roles (s\<lparr>clusters := m\<rparr>) = converged L r u cl reg roles s"
proof -
  have "ref_ready k cm (s\<lparr>clusters := m\<rparr>) = ref_ready k cm s" for k cm by (rule ref_ready_cong) simp_all
  moreover have "deployed_version k (s\<lparr>clusters := m\<rparr>) = deployed_version k s" for k by (rule deployed_version_cong) simp_all
  ultimately show ?thesis
    using assms by (simp add: converged_def Let_def finalizer_ready_def secret_ready_def configmap_ready_def bot_ready_def)
qed

lemma two_converged:
  "converged (mem_libs scripted) (mem_reconciler scripted demo_config True ''ns'') hour made_cluster ''mc-wc'' [''kube'']
     (mem_obs (two_world faults))"
  unfolding two_obs
  by (rule converged_clusters [THEN iffD2]) (use made_clusters in \<open>simp_all add: made_converged lookup_def\<close>)

lemma names_apart:
  "others t b {other_key, demo_key}" if "cluster_meta b \<in> {demo_key, other_key}" "t_Config t = demo_config"
  using that
  by (auto simp: others_def no_clash_def Let_def other_key_def clusterName_def demo_key_def demo_config_def
        GetConfigmapName_def GetTbotConfigmapName_def GetAppName_def TeleportBotAppName_def)

lemma two_in_order:
  "in_order (mem_libs scripted) (mem_reconciler scripted demo_config True ''ns'') hour made_cluster (mem_obs (two_world faults))"
proof -
  have "rolesFor (mem_libs scripted) made_cluster (mem_obs (two_world faults)) = [''kube'']"
    using made_roles [of "mem_libs scripted"] by (simp add: two_obs rolesFor_def apps_wanted_def)
  moreover have "tokens (mem_obs (two_world faults)) = tokens (mem_obs made_world)" by (simp add: two_obs)
  ultimately show ?thesis
    using two_converged two_clusters(1)
    by (auto simp: in_order_def demo_register plain_tokens_def made_tokens intro: demo_plain split: if_splits)
qed

text \<open>Two calls: the first is refused by the server, the second runs to its end.\<close>

definition two_run :: "mem state" where
  "two_run = reconcile_all (mem_libs scripted) [other_key, demo_key]
     (mem_reconciler scripted demo_config True ''ns'', two_world [Refuse])"

lemma two_time: "mem_now (snd two_run) \<le> hour"
  unfolding two_run_def
  using made_token [of scripted "''wc-agent-config''" "''org''", unfolded values_configmap_def]
    made_values(1) [where nx = scripted]
  by (simp add: run two_world_def other_cluster_def other_key_def
      mem_now_def hour_def minute_def second_def cong: run_cong)

section \<open>A new cluster and one being deleted\<close>

definition pair_world :: mem where
  "pair_world = (demo_world [])\<lparr>m_clusters := [new_cluster, other_cluster]\<rparr>"

lemma pair_clusters:
  "clusters (mem_obs pair_world) demo_key = Some new_cluster" "clusters (mem_obs pair_world) other_key = Some other_cluster"
  by (simp_all add: pair_world_def mem_obs_def lookup_def other_cluster_def other_key_def demo_key_def new_cluster_def)

lemma pair_time: "mem_now pair_world = second"
  by (simp add: pair_world_def mem_now_def demo_world_def)

lemma pair_pending:
  "pending (calm_libs steady) (calm_reconciler demo_config True ''ns'') new_cluster (mem_obs pair_world)"
  "pending (calm_libs steady) (calm_reconciler demo_config True ''ns'') other_cluster (mem_obs pair_world)"
  using pair_clusters
  by (simp_all add: pending_def inputs_readable_def identity_secret_def user_values_readable_def secret_readable_def
      configmap_readable_def register_kept_def mem_obs_def lookup_def run user_values_name_def secret_key_def GetSecretName_def
       other_cluster_def other_key_def pair_world_def)

lemma pair_ready:
  "pass_ready (calm_libs steady) (calm_reconciler demo_config True ''ns'') [other_key, demo_key] (mem_obs pair_world)"
  using pair_pending pair_metas names_apart [of _ "r_Teleport (calm_reconciler demo_config True ''ns'')"]
  unfolding pass_ready_def
  by (auto intro: exI [of _ new_cluster] exI [of _ other_cluster])

section \<open>A cluster whose values are malformed\<close>

text \<open>The stored values have an expired token and no register name.\<close>

definition stuck_values :: string where
  "stuck_values = emit [(''authToken'', YStr ''aa'')]"

definition stuck_world :: mem where
  "stuck_world = made_world\<lparr>
     m_configmaps := [values_configmap ''wc-agent-config'' ''org'' stuck_values],
     m_fake := demo_fake\<lparr>fake_tokens := put_token ((demo_token ''aa'' ''Kube'')\<lparr>Expiry := 1\<rparr>)
       (put_token (demo_token ''a'' ''Node'') no_tokens)\<rparr>\<rparr>"

lemma stuck_Unmarshal: "ref_Unmarshal stuck_values = Inr (denote [(''authToken'', YStr ''aa'')])"
proof -
  have "safe_doc [(''authToken'', YStr ''aa'')]" by code_simp
  then show ?thesis unfolding stuck_values_def by (rule ref_yaml.unmarshal_emit)
qed

lemma stuck_document:
  "GetTokenFromConfigMap (calm_libs steady) (values_configmap n ns stuck_values) = Inr ''aa''"
  "\<exists>e. registerNameFromConfigMap (calm_libs steady) (values_configmap n ns stuck_values) = Inl e"
  by (simp_all add: GetTokenFromConfigMap_def registerNameFromConfigMap_def parseConfigMapValues_def values_configmap_def
     stuck_Unmarshal denote_def TeleportKubeAgentValuesKey_def)

lemma stuck_foreign: "stuck_values \<noteq> getConfigMapData L t reg tok roles tka"
  by (auto simp: stuck_values_def emit_def emit_line_def getConfigMapData_def GetConfigmapDataFromTemplate_def renderFlatValuesBlock_def
    renderNestedValuesBlock_def TeleportKubeAgentValuesKey_def Let_def)

lemma stuck_time: "mem_now stuck_world = second"
  by (simp add: stuck_world_def mem_now_def made_world_def)

lemma stuck_there:
  "stuck (calm_libs steady) (calm_reconciler demo_config True ''ns'') second made_cluster (mem_obs stuck_world)"
proof -
  let ?r = "calm_reconciler demo_config True ''ns''" and ?s = "mem_obs stuck_world"
  have s: "?s = (mem_obs made_world)\<lparr>configmaps := lookup cm_meta [values_configmap ''wc-agent-config'' ''org'' stuck_values],
      tokens := (tokens (mem_obs made_world))(''aa'' \<mapsto> (demo_token ''aa'' ''Kube'')\<lparr>Expiry := 1\<rparr>)\<rparr>"
    by (auto simp: mem_obs_def stuck_world_def made_world_def demo_fake_def demo_token_def NewTeleportClient_def)
  have roles: "rolesFor (calm_libs steady) made_cluster ?s = [''kube'']"
    using made_roles [of "calm_libs steady"]
    by (simp add: s rolesFor_def apps_wanted_def lookup_def values_configmap_def user_values_name_def assignedRoles_def RoleKube_def)
  obtain e where "registerNameFromConfigMap (calm_libs steady) (values_configmap ''wc-agent-config'' ''org'' stuck_values) = Inl e"
    using stuck_document(2) by blast
  then have "values_stuck (calm_libs steady) ?r second made_cluster [''kube''] ?s"
    using stuck_document(1)
    by (auto simp: stuck_foreign values_stuck_def s lookup_def configmap_key_def GetConfigmapName_def clusterName_def clusterNamespace_def
        made_cluster_def demo_key_def demo_config_def values_configmap_def serves_def second_def)
  moreover have sec: "secrets ?s = lookup secret_meta [identity_object, stored_token_secret ''wc'' ''org'' ''a'']"
    by (simp add: mem_obs_def stuck_world_def made_world_def)
  have "identity_secret ''ns'' ''key'' ?s"
    by (simp add: sec identity_secret_def lookup_def identity_object_def TeleportBotSecretName_def Identity_def)
  moreover have "secret_readable (clusterName made_cluster) (clusterNamespace made_cluster) ?s"
    using GetTokenFromSecret_stored [of "''wc''" "''org''" "''a''"]
    by (auto simp: sec secret_readable_def lookup_def identity_object_def secret_key_def GetSecretName_def clusterName_def
        clusterNamespace_def made_cluster_def demo_key_def)
  moreover have "clusters ?s demo_key = Some made_cluster" using made_clusters by (simp add: s)
  moreover have "TeleportOperatorFinalizer \<in> set (Finalizers made_cluster)" by (simp add: made_cluster_def)
  moreover have "user_values_readable (calm_libs steady) (clusterName made_cluster) (clusterNamespace made_cluster) ?s"
    by (simp add: user_values_readable_def s lookup_def values_configmap_def user_values_name_def)
  ultimately show ?thesis by (auto simp: stuck_def roles)
qed

end
