(* ===== verification/Cached_Runs.thy ===== *)
theory Cached_Runs
  imports Runs Cached_Calls
begin

text \<open>
  The in-memory environment behind a cache: reads see one old state of the world, writes go
  to the present one. It meets the contracts of a cached client, and two runs in it show what
  the operator does with what it reads too late.
\<close>

section \<open>A cache that has stopped\<close>

definition stale_Get ::
    "mem \<Rightarrow> (mem \<Rightarrow> fault \<times> mem) \<Rightarrow> ('o \<Rightarrow> NamespacedName) \<Rightarrow> (mem \<Rightarrow> 'o list) \<Rightarrow> NamespacedName \<Rightarrow> (mem, 'o) action" where
  "stale_Get V nx key_of get k = mem_read nx (\<lambda>_. lookup key_of (get V) k)"

definition stale_client :: "mem \<Rightarrow> (mem \<Rightarrow> fault \<times> mem) \<Rightarrow> mem ctrl_client" where
  "stale_client V nx =
     (mem_client nx)\<lparr>
       Clusters := Clusters (mem_client nx)\<lparr>Get := stale_Get V nx cluster_meta m_clusters\<rparr>,
       Secrets := Secrets (mem_client nx)\<lparr>Get := stale_Get V nx secret_meta m_secrets\<rparr>,
       ConfigMaps := ConfigMaps (mem_client nx)\<lparr>Get := stale_Get V nx cm_meta m_configmaps\<rparr>,
       Unstructureds := (\<lambda>gvk. Unstructureds (mem_client nx) gvk\<lparr>Get := stale_Get V nx hr_meta m_helmreleases\<rparr>),
       Apps := Apps (mem_client nx)\<lparr>Get := stale_Get V nx app_meta m_apps\<rparr>\<rparr>"

lemma stale_client_kinds:
  "Clusters (stale_client V nx) = Clusters (mem_client nx)\<lparr>Get := stale_Get V nx cluster_meta m_clusters\<rparr>"
  "Secrets (stale_client V nx) = Secrets (mem_client nx)\<lparr>Get := stale_Get V nx secret_meta m_secrets\<rparr>"
  "ConfigMaps (stale_client V nx) = ConfigMaps (mem_client nx)\<lparr>Get := stale_Get V nx cm_meta m_configmaps\<rparr>"
  "HelmReleases (stale_client V nx) = HelmReleases (mem_client nx)\<lparr>Get := stale_Get V nx hr_meta m_helmreleases\<rparr>"
  "Apps (stale_client V nx) = Apps (mem_client nx)\<lparr>Get := stale_Get V nx app_meta m_apps\<rparr>"
  "patch_NewHelper (stale_client V nx) = patch_NewHelper (mem_client nx)"
  "patch_Patch (stale_client V nx) = patch_Patch (mem_client nx)"
  by (simp_all add: stale_client_def HelmReleases_def)

text \<open>Only the laws of the read have to be shown again.\<close>

lemma cached_api_Get:
  assumes "cached_api C key_of admit obs sel upd now"
    and "\<And>k w g w'. G k w = (g, w') \<Longrightarrow> now w \<le> now w' \<and> obs w' = obs w"
    and "\<And>k w x w'. G k w = (Inr x, w') \<Longrightarrow> key_of x = k"
  shows "cached_api (C\<lparr>Get := G\<rparr>) key_of admit obs sel upd now"
  using assms unfolding cached_api_def by simp

context mem_calls
begin

lemma stale_Get_reads:
  "stale_Get V nx key_of get k w = (g, w') \<Longrightarrow> mem_now w \<le> mem_now w' \<and> mem_obs w' = mem_obs w"
  "stale_Get V nx key_of get k w = (Inr x, w') \<Longrightarrow> key_of x = k"
  unfolding stale_Get_def by (rule conjI, erule mem_read_post(2), erule mem_read_post(1), drule mem_read_post(3) [OF _ refl], erule lookup_key)

lemma stale_part:
  assumes "cached_api C key_of admit mem_obs sel upd mem_now"
  shows "cached_api (C\<lparr>Get := stale_Get V nx key_of get\<rparr>) key_of admit mem_obs sel upd mem_now"
  by (rule cached_api_Get [OF assms]) (fact stale_Get_reads(1), fact stale_Get_reads(2))

lemma stale_clusters:
  "cached_clusters (stale_client V nx) mem_obs clusters clusters_update mem_now ref_finalizers"
  using mem_cached_clusters [unfolded cached_clusters_def cached_clusters_axioms_def]
    stale_Get_reads [where key_of = cluster_meta and get = m_clusters]
  unfolding cached_clusters_def cached_clusters_axioms_def stale_client_kinds by simp

lemma stale_env: "cached_env (stale_client V nx) mem_obs (mem_libs nx) (\<lambda>x. x)"
  unfolding cached_env_def secret_writes_def configmap_writes_def cached_managers_def cached_managers_axioms_def
    stale_client_kinds mem_client_kinds mem_libs_simps
  using stale_clusters mem_secrets.cached_api_axioms mem_configmaps.cached_api_axioms
    mem_helmreleases.cached_api_axioms mem_apps.cached_api_axioms
  by (simp add: stale_part)

sublocale stale: cached_world "stale_client V nx" mem_obs "mem_libs nx" "\<lambda>x. x" for V
  using stale_env mem_connecting by (rule cached_world.intro)

end

definition stale_reconciler :: "mem \<Rightarrow> mem ClusterReconciler" where
  "stale_reconciler V = newReconciler (mem_libs scripted) (stale_client V scripted) demo_config True ''ns''"

lemma stale_reconciler_ok:
  "reconciler_ok (stale_client V scripted) mem_obs (mem_libs scripted) (stale_reconciler V)"
  "client_or_stale (mem_libs scripted) (stale_reconciler V) w"
  using mem_generator.token_generator_axioms
  by (simp_all add: reconciler_ok_def stale_reconciler_def client_or_stale_def identityStale_def)

definition stale_run :: "mem \<Rightarrow> mem \<Rightarrow> ((error + Result) \<times> mem ClusterReconciler) \<times> mem" where
  "stale_run V w = Reconcile (mem_libs scripted) demo_key (stale_reconciler V) w"

lemma stale_split:
  "fst (fst (stale_run V w)) = res \<Longrightarrow>
   Reconcile (mem_libs scripted) demo_key (stale_reconciler V) w = ((res, snd (fst (stale_run V w))), snd (stale_run V w))"
  unfolding stale_run_def by (metis prod.collapse)

lemmas stale_env_at = scripted.stale.cached_world_axioms stale_reconciler_ok

lemma run_stale [run]:
  "Get (k\<lparr>Get := g\<rparr>) = g" "Create (k\<lparr>Get := g\<rparr>) = Create k" "Update (k\<lparr>Get := g\<rparr>) = Update k"
  "Delete (k\<lparr>Get := g\<rparr>) = Delete k"
  "stale_Get V nx key_of get x w = mem_read nx (\<lambda>_. lookup key_of (get V) x) w"
  by (simp_all add: stale_Get_def)

lemmas run_stale_client [run] = stale_client_kinds stale_reconciler_def

section \<open>Two runs\<close>

text \<open>
  The cluster is being deleted, the cache has it from before it was joined: a token is
  issued for it, and the server refuses to create the Secret that is there.
\<close>

lemma stale_joins:
  "fst (fst (stale_run (demo_world []) (gone_world []))) = Inl (Wrapped ''failed to create Secret'' (OtherError ''already exists''))"
  "tokens (mem_obs (snd (stale_run (demo_world []) (gone_world [])))) ''aaaa'' \<noteq> None"
  "tokens (mem_obs (gone_world [])) ''aaaa'' = None"
  unfolding stale_run_def by (simp_all add: run mem_obs_def cong: run_cong)

text \<open>The cache has the cluster that is being deleted, but not the App of its agent.\<close>

definition late_world :: mem where
  "late_world = (gone_world [])\<lparr>m_apps := []\<rparr>"

lemma stale_deletes:
  "fst (fst (stale_run late_world (gone_world []))) = Inr noRequeue"
  "clusters (mem_obs (snd (stale_run late_world (gone_world [])))) demo_key = None"
  "apps (mem_obs (snd (stale_run late_world (gone_world [])))) = apps (mem_obs (gone_world []))"
  unfolding stale_run_def by (simp_all add: run late_world_def mem_obs_def cong: run_cong)

end
