(* ===== verification/Fixtures.thy ===== *)
theory Fixtures
  imports Token Secret_Ops ConfigMap_Ops App_Manager Reference_Libs
begin

text \<open>
  \<open>pkg/test/resources.go\<close> and \<open>matchers.go\<close>: the sample objects of the tests and the
  comparisons of what a test expects with what it finds. The samples are written
  independently of the code that is tested, and so say what its authors mean it to produce.
  A matcher that stops the test is false here.
\<close>

section \<open>Constants\<close>

definition ClusterKey :: string where "ClusterKey = ''cluster''"
definition TokenTypeKey :: string where "TokenTypeKey = ''type''"
definition JoinTokenKey :: string where "JoinTokenKey = ''joinToken''"
definition test_ManagementClusterName :: string where "test_ManagementClusterName = ''management-cluster''"
definition test_ProxyAddr :: string where "test_ProxyAddr = ''127.0.0.1''"
definition test_TeleportVersion :: string where "test_TeleportVersion = ''1.0.0''"
definition test_TeleportVersionForNested :: string where "test_TeleportVersionForNested = ''18.7.6''"

text \<open>Names and versions that only the tests use.\<close>

definition TokenName :: string where "TokenName = ''oldTokenWithLengthOf32Characters''"
definition NewTokenName :: string where "NewTokenName = ''newTokenWithLengthOf32Characters''"
definition test_ClusterName :: string where "test_ClusterName = ''test-cluster''"
definition test_AppName :: string where "test_AppName = ''app-name''"
definition NamespaceName :: string where "NamespaceName = ''test-namespace''"
definition TokenTypeKube :: string where "TokenTypeKube = ''kube''"
definition TokenTypeNode :: string where "TokenTypeNode = ''node''"
definition TokenTypeApp :: string where "TokenTypeApp = ''app''"
definition test_AppCatalog :: string where "test_AppCatalog = ''app-catalog''"
definition test_AppVersion :: string where "test_AppVersion = ''appVersion''"
definition AppVersionNested :: string where "AppVersionNested = ''0.11.0''"
definition IdentityFileValue :: string where "IdentityFileValue = ''identity-file-value''"
definition TeleportVersionNew :: string where "TeleportVersionNew = ''2.0.0''"
definition TeleportVersionForNestedNew :: string where "TeleportVersionForNestedNew = ''18.8.0''"

text \<open>The time at which the test package was loaded.\<close>

definition LastReadValue :: "('w \<Rightarrow> time) \<Rightarrow> 'w \<Rightarrow> time" where
  "LastReadValue now start = now start"

lemmas test_constants = ClusterKey_def TokenTypeKey_def JoinTokenKey_def test_ManagementClusterName_def
  test_ProxyAddr_def test_TeleportVersion_def test_TeleportVersionForNested_def

definition ConfigMapValuesFormat :: string where
  "ConfigMapValuesFormat =
     ''authToken: %s'' @ newline @ ''proxyAddr: %s'' @ newline @ ''roles: %s'' @ newline @
     ''kubeClusterName: %s'' @ newline @ ''teleportVersionOverride: %s''"

definition ConfigMapValuesNestedFormat :: string where
  "ConfigMapValuesNestedFormat =
     ''teleport-kube-agent:'' @ newline @ ''  authToken: %s'' @ newline @ ''  proxyAddr: %s'' @ newline @
     ''  roles: %s'' @ newline @ ''  kubeClusterName: %s'' @ newline @ ''  teleportVersionOverride: %s''"

definition ConfigMapValuesNestedFormatNoVerOvr :: string where
  "ConfigMapValuesNestedFormatNoVerOvr =
     ''teleport-kube-agent:'' @ newline @ ''  authToken: %s'' @ newline @ ''  proxyAddr: %s'' @ newline @
     ''  roles: %s'' @ newline @ ''  kubeClusterName: %s'' @ newline"

text \<open>\<open>fmt.Sprintf\<close> with the verb \<open>%s\<close>, the only one in the formats.\<close>

function Sprintf :: "string \<Rightarrow> string list \<Rightarrow> string" where
  "Sprintf [] args =
     (if args = [] then '''' else ''%!(EXTRA '' @ Join (map (\<lambda>a. ''string='' @ a) args) '', '' @ '')'')"
| "Sprintf (c # cs) args =
     (if c = CHR ''%'' \<and> take 1 cs = ''s''
      then (case args of
              [] \<Rightarrow> ''%!s(MISSING)'' @ Sprintf (tl cs) []
            | a # rest \<Rightarrow> a @ Sprintf (tl cs) rest)
      else c # Sprintf cs args)"
  by pat_completeness auto
termination
  by (relation "measure (length \<circ> fst)") auto

section \<open>Samples\<close>

definition ObjectKeyFromObjectMeta :: "ObjectMeta \<Rightarrow> NamespacedName" where
  "ObjectKeyFromObjectMeta objectMeta = \<lparr>Name = Name objectMeta, Namespace = Namespace objectMeta\<rparr>"

definition test_NewSecret :: "string \<Rightarrow> string \<Rightarrow> string \<Rightarrow> Secret" where
  "test_NewSecret clusterName namespaceName tokenName =
     \<lparr>secret_meta = \<lparr>Name = GetSecretName clusterName, Namespace = namespaceName\<rparr>,
      Data = [JoinTokenKey \<mapsto> tokenName], StringData = [JoinTokenKey \<mapsto> tokenName]\<rparr>"

definition NewIdentitySecret :: "string \<Rightarrow> string \<Rightarrow> Secret" where
  "NewIdentitySecret namespaceName identityFile =
     \<lparr>secret_meta = \<lparr>Name = TeleportBotSecretName, Namespace = namespaceName\<rparr>,
      Data = [Identity \<mapsto> identityFile], StringData = Map.empty\<rparr>"

definition newConfigMap ::
    "string \<Rightarrow> string \<Rightarrow> string \<Rightarrow> string \<Rightarrow> string list \<Rightarrow> string \<Rightarrow> string \<Rightarrow> ConfigMap" where
  "newConfigMap clusterName appName namespaceName tokenName roles teleportVersion valuesFormat =
     (let registerName = GetRegisterName test_ManagementClusterName clusterName;
          vals = Sprintf valuesFormat [tokenName, test_ProxyAddr, Join roles '','', registerName, teleportVersion];
          vals = (if valuesFormat = ConfigMapValuesNestedFormatNoVerOvr
                  then Sprintf valuesFormat [tokenName, test_ProxyAddr, Join roles '','', registerName] else vals)
      in \<lparr>cm_meta = \<lparr>Name = GetConfigmapName clusterName appName, Namespace = namespaceName\<rparr>,
          cm_Data = [''values'' \<mapsto> vals], BinaryData = Map.empty\<rparr>)"

definition NewConfigMap :: "string \<Rightarrow> string \<Rightarrow> string \<Rightarrow> string \<Rightarrow> string list \<Rightarrow> ConfigMap" where
  "NewConfigMap c app ns tok roles = newConfigMap c app ns tok roles test_TeleportVersion ConfigMapValuesFormat"

definition NewConfigMapWithTeleportVersion :: "string \<Rightarrow> string \<Rightarrow> string \<Rightarrow> string \<Rightarrow> string \<Rightarrow> string list \<Rightarrow> ConfigMap" where
  "NewConfigMapWithTeleportVersion c app ns tok ver roles = newConfigMap c app ns tok roles ver ConfigMapValuesFormat"

definition NewNestedConfigMap :: "string \<Rightarrow> string \<Rightarrow> string \<Rightarrow> string \<Rightarrow> string list \<Rightarrow> ConfigMap" where
  "NewNestedConfigMap c app ns tok roles = newConfigMap c app ns tok roles test_TeleportVersionForNested ConfigMapValuesNestedFormat"

definition NewNestedConfigMapWithTeleportVersion :: "string \<Rightarrow> string \<Rightarrow> string \<Rightarrow> string \<Rightarrow> string \<Rightarrow> string list \<Rightarrow> ConfigMap" where
  "NewNestedConfigMapWithTeleportVersion c app ns tok ver roles = newConfigMap c app ns tok roles ver ConfigMapValuesNestedFormat"

definition NewNestedConfigMapWithoutVersionOverride :: "string \<Rightarrow> string \<Rightarrow> string \<Rightarrow> string \<Rightarrow> string list \<Rightarrow> ConfigMap" where
  "NewNestedConfigMapWithoutVersionOverride c app ns tok roles = newConfigMap c app ns tok roles '''' ConfigMapValuesNestedFormatNoVerOvr"

text \<open>The document that clusters with an old or unknown chart are to have.\<close>

definition NewDualBlockConfigMapWithTeleportVersion ::
    "semver \<Rightarrow> string \<Rightarrow> string \<Rightarrow> string \<Rightarrow> string \<Rightarrow> string \<Rightarrow> string list \<Rightarrow> ConfigMap" where
  "NewDualBlockConfigMapWithTeleportVersion sv clusterName appName namespaceName tokenName teleportVersion roles =
     (let registerName = GetRegisterName test_ManagementClusterName clusterName;
          flat = Sprintf
            (''roles: '' @ dquote @ ''%s'' @ dquote @ newline @
             ''authToken: '' @ dquote @ ''%s'' @ dquote @ newline @
             ''proxyAddr: '' @ dquote @ ''%s'' @ dquote @ newline @
             ''kubeClusterName: '' @ dquote @ ''%s'' @ dquote @ newline)
            [Join roles '','', tokenName, test_ProxyAddr, registerName];
          flat = (if teleportVersion \<noteq> '''' then flat @ ''teleportVersionOverride: '' @ Quote teleportVersion @ newline else flat);
          nested = Sprintf
            (''%s:'' @ newline @
             ''  roles: '' @ dquote @ ''%s'' @ dquote @ newline @
             ''  authToken: '' @ dquote @ ''%s'' @ dquote @ newline @
             ''  proxyAddr: '' @ dquote @ ''%s'' @ dquote @ newline @
             ''  kubeClusterName: '' @ dquote @ ''%s'' @ dquote @ newline)
            [TeleportKubeAgentValuesKey, Join roles '','', tokenName, test_ProxyAddr, registerName];
          override = ResolveNestedTeleportVersionOverride sv teleportVersion;
          nested = (if override \<noteq> '''' then nested @ ''  teleportVersionOverride: '' @ Quote override @ newline else nested)
      in \<lparr>cm_meta = \<lparr>Name = GetConfigmapName clusterName appName, Namespace = namespaceName\<rparr>,
          cm_Data = [''values'' \<mapsto> flat @ nested], BinaryData = Map.empty\<rparr>)"

definition NewDualBlockConfigMap :: "semver \<Rightarrow> string \<Rightarrow> string \<Rightarrow> string \<Rightarrow> string \<Rightarrow> string list \<Rightarrow> ConfigMap" where
  "NewDualBlockConfigMap sv c app ns tok roles =
     NewDualBlockConfigMapWithTeleportVersion sv c app ns tok test_TeleportVersion roles"

text \<open>An expiry that is given, or 720 hours from now; a role that is not known is skipped.\<close>

fun sample_roles :: "role_lib \<Rightarrow> string list \<Rightarrow> SystemRole list \<Rightarrow> SystemRole list" where
  "sample_roles rl [] acc = acc"
| "sample_roles rl (role # roles) acc =
     sample_roles rl roles
       (if role = RoleKube then acc @ [types_RoleKube rl]
        else if role = RoleApp then acc @ [types_RoleApp rl]
        else if role = RoleNode then acc @ [types_RoleNode rl]
        else acc)"

definition NewToken :: "role_lib \<Rightarrow> time \<Rightarrow> string \<Rightarrow> string \<Rightarrow> string list \<Rightarrow> time list \<Rightarrow> ProvisionToken" where
  "NewToken rl now tokenName clusterName roles expiry =
     (let expiryTime = (case expiry of t # _ \<Rightarrow> t | [] \<Rightarrow> time_Add now (720 * hour))
      in \<lparr>GetName = tokenName, GetRoles = sample_roles rl roles [], Expiry = expiryTime,
          Labels = [ClusterKey \<mapsto> GetRegisterName test_ManagementClusterName clusterName, TokenTypeKey \<mapsto> Join roles '','']\<rparr>)"

definition NewCluster :: "string \<Rightarrow> string \<Rightarrow> string list \<Rightarrow> time \<Rightarrow> Cluster" where
  "NewCluster name namespace finalizers deletionTimestamp =
     \<lparr>cluster_meta = \<lparr>Name = name, Namespace = namespace\<rparr>, Finalizers = finalizers,
      DeletionTimestamp = (if \<not> IsZero deletionTimestamp then Some deletionTimestamp else None)\<rparr>"

text \<open>A Kubernetes server of Teleport: its name, its host and the name of its cluster.\<close>

record KubeServer =
  server_Name :: string
  HostID :: string
  Hostname :: string
  server_Cluster :: string

definition NewKubeServer :: "string \<Rightarrow> string \<Rightarrow> string \<Rightarrow> KubeServer" where
  "NewKubeServer clusterName hostId hostName =
     \<lparr>server_Name = clusterName, HostID = hostId, Hostname = hostName,
      server_Cluster = GetRegisterName test_ManagementClusterName clusterName\<rparr>"

definition NewHelmRelease :: "string \<Rightarrow> string \<Rightarrow> HelmRelease" where
  "NewHelmRelease name namespace =
     \<lparr>hr_meta = \<lparr>Name = name, Namespace = namespace\<rparr>,
      gvk = \<lparr>Group = ''helm.toolkit.fluxcd.io'', gvk_Version = ''v2'', gvk_Kind = ''HelmRelease''\<rparr>,
      Object = fmempty\<rparr>"

definition NewApp :: "string \<Rightarrow> string \<Rightarrow> App" where
  "NewApp name namespace = \<lparr>app_meta = \<lparr>Name = name, Namespace = namespace\<rparr>, Spec_Version = '''', ExtraConfigs = None\<rparr>"

section \<open>Matchers\<close>

text \<open>Two pointers: both nil, or both there and alike.\<close>

definition both_match :: "('a \<Rightarrow> 'a \<Rightarrow> bool) \<Rightarrow> 'a option \<Rightarrow> 'a option \<Rightarrow> bool" where
  "both_match alike expected actual =
     (case (expected, actual) of (None, None) \<Rightarrow> True | (Some e, Some a) \<Rightarrow> alike e a | _ \<Rightarrow> False)"

definition full_name :: "ObjectMeta \<Rightarrow> string" where
  "full_name m = Namespace m @ ''/'' @ Name m"

definition CheckCluster :: "Cluster option \<Rightarrow> Cluster option \<Rightarrow> bool" where
  "CheckCluster = both_match (\<lambda>expected actual.
     full_name (cluster_meta expected) = full_name (cluster_meta actual) \<and> Finalizers expected = Finalizers actual)"

text \<open>A missing key reads as the empty string.\<close>

definition key_of :: "(string \<rightharpoonup> string) \<Rightarrow> string \<Rightarrow> string" where
  "key_of m k = (case m k of None \<Rightarrow> '''' | Some v \<Rightarrow> v)"

definition CheckSecret :: "Secret option \<Rightarrow> Secret option \<Rightarrow> bool" where
  "CheckSecret = both_match (\<lambda>expected actual.
     full_name (secret_meta expected) = full_name (secret_meta actual) \<and>
     key_of (StringData expected) JoinTokenKey = key_of (StringData actual) JoinTokenKey)"

definition CheckConfigMap :: "(string \<Rightarrow> error + (string, iface) fmap) \<Rightarrow> ConfigMap option \<Rightarrow> ConfigMap option \<Rightarrow> bool" where
  "CheckConfigMap unmarshal = both_match (\<lambda>expected actual.
     full_name (cm_meta expected) = full_name (cm_meta actual) \<and>
     (case (unmarshal (key_of (cm_Data expected) ''values''), unmarshal (key_of (cm_Data actual) ''values'')) of
        (Inr expectedValues, Inr actualValues) \<Rightarrow> expectedValues = actualValues
      | _ \<Rightarrow> False))"

definition CheckTokens :: "ProvisionToken list \<Rightarrow> ProvisionToken list \<Rightarrow> bool" where
  "CheckTokens expected actual \<longleftrightarrow>
     length expected = length actual \<and>
     list_all (\<lambda>actualToken. list_ex (\<lambda>expectedToken. GetName expectedToken = GetName actualToken) expected) actual"

text \<open>\<open>roles_String\<close> prints a list of roles.\<close>

definition CheckToken :: "(SystemRole list \<Rightarrow> string) \<Rightarrow> ProvisionToken option \<Rightarrow> ProvisionToken option \<Rightarrow> bool" where
  "CheckToken roles_String = both_match (\<lambda>expected actual.
     GetName expected = GetName actual \<and>
     roles_String (GetRoles expected) = roles_String (GetRoles actual) \<and>
     card (dom (Labels expected)) = card (dom (Labels actual)) \<and>
     (\<forall>key \<in> dom (Labels expected). label expected key = label actual key))"

definition CheckK8sServers :: "KubeServer list \<Rightarrow> KubeServer list \<Rightarrow> bool" where
  "CheckK8sServers expected actual \<longleftrightarrow>
     length expected = length actual \<and>
     list_all (\<lambda>actualServer. list_ex (\<lambda>expectedServer. server_Name expectedServer = server_Name actualServer) expected) actual"

definition CheckError :: "bool \<Rightarrow> error option \<Rightarrow> bool" where
  "CheckError expectError err \<longleftrightarrow> \<not> (err \<noteq> None \<and> \<not> expectError) \<and> \<not> (err = None \<and> expectError)"

section \<open>Facts\<close>

lemma marks: "dquote = [CHR 0x22]" "newline = [CHR 0x0A]"
  by code_simp+

lemma sample_roles_eq: "sample_roles rl roles acc = acc @ RolesToSystemRoles rl roles"
  by (induction rl roles acc rule: sample_roles.induct) auto

text \<open>Every name that is found was expected; one that is missing may go unnoticed.\<close>

lemma all_among_iff:
  "list_all (\<lambda>a. list_ex (\<lambda>e. f e = f a) expected) actual \<longleftrightarrow> f ` set actual \<subseteq> f ` set expected"
proof -
  have "f a \<in> f ` set expected \<longleftrightarrow> (\<exists>x \<in> set expected. f x = f a)" for a
    unfolding image_iff by (simp add: eq_commute)
  then show ?thesis by (simp add: list_all_iff list_ex_iff image_subset_iff)
qed

lemma CheckTokens_iff:
  "CheckTokens expected actual \<longleftrightarrow> length expected = length actual \<and> GetName ` set actual \<subseteq> GetName ` set expected"
  unfolding CheckTokens_def all_among_iff ..

lemma CheckK8sServers_iff:
  "CheckK8sServers expected actual \<longleftrightarrow>
   length expected = length actual \<and> server_Name ` set actual \<subseteq> server_Name ` set expected"
  unfolding CheckK8sServers_def all_among_iff ..

text \<open>
  The labels of single tokens are compared by their number and from one side, a missing
  one reading as empty. That is equality where no expected label is empty.
\<close>

lemma CheckToken_labels:
  assumes "CheckToken str (Some expected) (Some actual)" "finite (dom (Labels actual))"
    and "\<And>k v. Labels expected k = Some v \<Longrightarrow> v \<noteq> ''''"
  shows "Labels expected = Labels actual"
proof -
  have same: "Labels actual k = Labels expected k" if k: "k \<in> dom (Labels expected)" for k
  proof -
    obtain v where v: "Labels expected k = Some v" using k by auto
    have "label expected k = label actual k" using assms(1) k by (simp add: CheckToken_def both_match_def)
    with v assms(3) [OF v] show ?thesis by (simp add: label_def split: option.splits)
  qed
  then have "dom (Labels expected) \<subseteq> dom (Labels actual)" by (auto simp: domIff)
  moreover have "card (dom (Labels expected)) = card (dom (Labels actual))"
    using assms(1) by (simp add: CheckToken_def both_match_def)
  ultimately have "dom (Labels expected) = dom (Labels actual)" by (rule card_subset_eq [OF assms(2)])
  with same show ?thesis by (metis domIff ext)
qed

text \<open>With an empty one it may be anything else.\<close>

lemma CheckToken_blind:
  "CheckToken str
     (Some \<lparr>GetName = n, GetRoles = rs, Expiry = e, Labels = [''a'' \<mapsto> '''']\<rparr>)
     (Some \<lparr>GetName = n, GetRoles = rs, Expiry = e, Labels = [''b'' \<mapsto> ''x'']\<rparr>)"
  by (simp add: CheckToken_def both_match_def label_def)

lemma NewHelmRelease_kind: "gvk (NewHelmRelease name namespace) = gvk newHelmReleaseUnstructured"
  by (simp add: NewHelmRelease_def newHelmReleaseUnstructured_def helmReleaseGVK_def)


text \<open>Without repeated names it is a comparison of sets.\<close>

lemma CheckTokens_distinct:
  assumes "distinct (map GetName expected)" "distinct (map GetName actual)" "CheckTokens expected actual"
  shows "GetName ` set expected = GetName ` set actual"
proof -
  have "card (GetName ` set expected) = length expected" "card (GetName ` set actual) = length actual"
    using assms(1,2) distinct_card by (fastforce simp del: set_map simp flip: set_map)+
  then show ?thesis
    using assms(3) card_subset_eq [of "GetName ` set expected" "GetName ` set actual"] by (simp add: CheckTokens_iff)
qed

text \<open>
  C34. The samples for clusters with an old chart, written out in the tests, are what the
  operator renders: the same name and, byte for byte, the same values.
\<close>

theorem dual_sample_rendered:
  assumes "\<not> UsesNestedKubeAgentValues sv tkaVersion"
  shows "NewDualBlockConfigMapWithTeleportVersion sv c app ns tok ver roles =
    values_configmap (GetConfigmapName c app) ns
      (GetConfigmapDataFromTemplate sv tok test_ProxyAddr (GetRegisterName test_ManagementClusterName c) ver roles tkaVersion)"
  using assms
  by (simp add: NewDualBlockConfigMapWithTeleportVersion_def Let_def GetConfigmapDataFromTemplate_def
      renderFlatValuesBlock_def renderNestedValuesBlock_def RolesToString_def values_configmap_def marks)

theorem dual_sample_rendered_witness:
  "NewDualBlockConfigMapWithTeleportVersion ref_semver ''wc'' ''agent'' ''org'' ''tok'' ''18.8.0'' [''kube''] =
    values_configmap ''wc-agent-config'' ''org''
      (GetConfigmapDataFromTemplate ref_semver ''tok'' ''127.0.0.1'' ''management-cluster-wc'' ''18.8.0'' [''kube''] ''0.10.9'')"
proof -
  have "\<not> UsesNestedKubeAgentValues ref_semver ''0.10.9''" by code_simp
  from dual_sample_rendered [OF this, of "''wc''" "''agent''" "''org''" "''tok''" "''18.8.0''" "[''kube'']"]
  show ?thesis by (simp add: GetConfigmapName_def test_constants GetRegisterName_def)
qed

end
