(* ===== verification/Spec2Isabelle.thy ===== *)
theory Spec2Isabelle
  imports Component_Properties Two_Clusters Cached_Runs Fixtures
begin

text \<open>
  teleport-operator, a Kubernetes operator in Go that joins Cluster API clusters to a
  Teleport server. This file imports the whole development, holds the properties that span
  components, and this overview.

  The program. \<open>main.go\<close> reads flags and the operator's own ConfigMap and hands a
  \<open>ClusterReconciler\<close> to the controller manager. For each request of the queue
  \<open>Reconcile\<close> (\<open>internal/controller/cluster_controller.go\<close>) reads the Cluster, works out the
  roles from the user's values, refreshes the Teleport identity and client when the identity
  is older than twenty minutes, and takes one of two branches. A live cluster gets the
  finalizer, a Secret with a node token, a ConfigMap with the values of its kube agent (with
  a token of its own), a reference to that ConfigMap in the agent's HelmRelease or App, and
  with the bot switched on a ConfigMap and a reference for tbot; the request is put back for
  five minutes later. A cluster that is being deleted loses all this, and its finalizer last.
  The packages under \<open>internal/pkg\<close> hold the operations: \<open>key\<close> names, roles, versions and the
  values documents, \<open>config\<close> the configuration and the identity, \<open>teleport\<close> everything done
  through the Kubernetes and the Teleport client, \<open>token\<close> the generator of token names,
  \<open>test\<close> a fake Teleport client.

  Conventions. A call is an action: a function from the world to a result (an error or a
  value) and the world afterwards, so that an error does not undo what was done before it.
  \<open>bindE\<close> is \<open>if err != nil { return err }\<close>, \<open>tryE\<close> a call whose error is looked at.
  Definitions have the names of the source; fields that would clash have a prefix. Go maps
  are partial maps, decoded YAML and unstructured objects are the tree \<open>iface\<close>, a slice that
  can be nil is an option of a list, a nil pointer that is followed is the error \<open>Panic\<close>.
  Instants and durations are integers in nanoseconds; \<open>time.Sub\<close> saturates at 64 bits.

  The theories, in the order of their dependency:

  \<^item> Prelude, \<open>Go_Std\<close>, Kube: actions and their weakest preconditions; the parts of
    \<open>strings\<close> and \<open>time\<close> the code uses; the Kubernetes objects and the client interface.
    The locale \<open>cached_api\<close> says what a Create, Update or Delete that is answered has done and
    that a failed one has done nothing or all of it, and of a Get only that it changes nothing;
    \<open>resource_api\<close> adds that a Get reads the present state, \<open>reliable_api\<close> that the server
    answers. The interfaces of the components come in the same two strengths (\<open>secret_writes\<close>
    and \<open>secret_store\<close>, \<open>cached_clusters\<close> and \<open>cluster_store\<close>, \<open>cached_world\<close> and
    \<open>operator_world\<close>), the stronger extending the weaker.
  \<^item> Key (\<open>pkg/key/key.go\<close>), Config (\<open>pkg/config\<close>), Teleport (\<open>teleport.go\<close>, \<open>client.go\<close>,
    \<open>token/generator.go\<close>), Token (\<open>token.go\<close>), \<open>Secret_Ops\<close> (\<open>secret.go\<close>), \<open>ConfigMap_Ops\<close>
    (\<open>configmap.go\<close>), Finalizer (\<open>finalizer.go\<close>), \<open>App_Manager\<close> (\<open>app_manager.go\<close>): one theory
    per source file, each with its data, operations and contracts. The contracts are stated
    inside the locales of the interfaces: \<open>teleport_client\<close> and \<open>token_generator\<close>,
    \<open>token_service\<close>, \<open>semver_lib\<close>, \<open>finalizer_laws\<close> and the ones of Kube.
  \<^item> Yaml: what is relied on in the YAML decoder (\<open>yaml_lib\<close>: documents of plain entries are
    read back), and that the flat and the nested values documents are such documents.
  \<^item> Controller: the reconciler and \<open>Reconcile\<close>, cut into the blocks its comments mark.
    Startup (\<open>main.go\<close>): the scheme filled before \<open>main\<close>, the flags, and the order of the
    steps of \<open>main\<close>.
  \<^item> Operator, Deletion, Reconciler: the observed world (the objects and tokens, as maps), what
    it means for a cluster to be in order (\<open>converged\<close>) or gone (\<open>cleaned\<close>), the footprint of a
    call, the contract of every block, and the outcome of \<open>Reconcile\<close> for every branch and
    every failure. Deletion is a sequence of effects of which a failing call has done a prefix.
  \<^item> Steady, Progress, Isolation: nothing is changed where all is in order; calls succeed where
    the servers answer; clusters do not get in each other's way.
  \<^item> History, Queue: the reconciler over time, as an inductive step relation with arbitrary
    moves of others, and as the one worker that takes the requests of the queue in turn (the
    controller is set up without \<open>MaxConcurrentReconciles\<close>, so there is one).
  \<^item> References: the app managers refine insertion into and removal from a list of references.
  \<^item> \<open>Event_Systems\<close>: runs of guarded events over any step relation, and how a program that
    passes through such a run is put together from its parts.
  \<^item> Protocol, Simulation, Guarantees: what a call does to the world as an abstract event
    system, each event with its guard and its effect, and the order of the events in a call.
    Every block of \<open>Reconcile\<close>, and so every call in every outcome, is simulated by a run of
    these events; invariants of the events are then facts about the code: what a live call
    writes works.
  \<^item> Caches, \<open>Cached_Calls\<close>: the same with a client that reads from a cache, as the manager's
    does: nothing is assumed of what is read but its key. The guards that are left speak of
    writes and tokens; every call, in every outcome, is a run of these events, from which
    follow what a call touches, how many tokens it issues, that what it writes works and that
    the finalizer goes last.
  \<^item> Stuck: a ConfigMap that cannot be repaired, and what calling again does to it.
  \<^item> \<open>Fake_Client\<close> (\<open>pkg/test/teleport_client.go\<close>), \<open>Reference_Libs\<close>, Memory, Answers: instances.
    The repository's fake Teleport client meets the contract of a Teleport client;
    \<open>Reference_Libs\<close> has executable versions, YAML documents, roles and finalizers; Memory is an
    in-memory API server with a script of faults, which meets every contract with and without
    faults; Answers is the same with every call answered, which meets the contracts of
    Progress. Every locale is interpreted there, on the models of these components.
  \<^item> Fixtures (\<open>pkg/test/resources.go\<close>, \<open>matchers.go\<close>): the sample objects and comparisons of
    the tests, and how they relate to what the operator renders.
  \<^item> Runs, \<open>Two_Clusters\<close>, \<open>Cached_Runs\<close>: worlds and runs on which the properties are
    exercised; the last with a cache that has stopped, whose contracts are shown there.
    \<open>Component_Properties\<close>: the properties of single components that need such a run.

  What is proved. A successful call puts a live cluster in order (C1); for a deleted one it
  removes what C2 lists and leaves further tokens, an App that a HelmRelease of the same name
  hides, and what the bot had if it has been switched off; the finalizer goes last (C3). Every
  call, with any outcome, is a run of the abstract events in their order (C4), and what it
  writes works (C5). Where the servers answer and what the call reads is readable it succeeds
  (C6, C7); in order, nothing changes (C8); one cluster's call, or any sequence of calls,
  leaves the others in order (C9, C10); and from any reachable state one pass over the queue
  settles every cluster that can be (C11). Then the footprint of a call, the connection to
  Teleport, what is left of all this when reads are stale (C15 to C18), start-up, how many
  tokens are issued and wasted, and the operations of each package: round trips of the values
  documents, refinement of the managers, errors of the configuration, bounds on versions. No
  recursion here needs fuel: loops are structural or have a measure; that several deletions
  drain the tokens of a cluster is proved for as many calls as there are tokens.

  What the hypotheses mean. \<open>operator_world\<close>: reads of Kubernetes objects are of
  the current state. \<open>cached_world\<close>: they may be of any state; a call of Teleport
  is always answered by Teleport. \<open>reconciler_ok\<close> and
  \<open>client_or_stale\<close> hold of the reconciler main sets up and after every call.
  Fresh token names are unused, as UUIDs are. \<open>register_kept\<close>: a values
  ConfigMap, if there is one, holds the cluster's register name; updating it keeps whatever
  name is found. \<open>plain_tokens\<close> and \<open>plain_values\<close>: what is put into
  the values documents needs no escaping in YAML; the code escapes the version only.
  \<open>no_clash\<close> and \<open>others\<close>: clusters have different names; the
  operator tells them apart by name without the namespace.

  Found on the way. \<open>DeleteToken\<close> stops after one token though a cluster has at
  least two; \<open>UpdateConfigMap\<close> keeps a register name that differs, so that every
  call updates and none repairs, and refuses values without one, after a token was issued for
  them: every retry wastes another. \<open>DeleteConfig\<close> writes a HelmRelease without
  references; the fake client's switch for a failing upsert is the one for deleting; the
  tests' comparison of token lists lets a repeated token stand for a missing one. A deletion
  takes the reference out of the HelmRelease and leaves the one in an App of the same name; it
  reads the user's values, and is held up for good if these are not YAML. With a stale cache a
  deletion can overlook the agent's App and leave it a reference to a ConfigMap that is gone
  (\<open>Cached_Runs.stale_deletes\<close>).

  Not modelled: log lines, metrics and the text of wrapped errors beyond what is compared;
  parsing the command line (which takes the logging library's flags too), RBAC and the health
  probes' content; of \<open>pkg/test\<close> the builders of the fake Kubernetes client,
  which assemble one of the library's and whose place Memory takes; the Helm chart and build
  files. Parameters, because they are not in the repository: the API server and its client,
  the scheme, the patch helper and the finalizer functions, the Teleport server and its API
  types, the YAML decoder, \<open>semver\<close>, UUIDs and SHA-512.
  \<open>strings.ToLower\<close> is modelled on ASCII.
\<close>

section \<open>Reconcile\<close>

text \<open>
  C1. A reconciliation of an existing cluster that succeeds asks to be called again in
  five minutes and leaves the cluster in order: finalizer, join-token Secret and values
  ConfigMap with tokens valid at the time, the layout for the deployed agent, and the
  references in the agent and the bot; provided that a ConfigMap that was there before did
  not hold another register name.
\<close>

theorem reconcile_converges:
  assumes "operator_world K obs L app_admit" "reconciler_ok K obs L r" "client_or_stale L r w"
    and "Reconcile L req r w = ((Inr x, r'), w')"
    and "clusters (obs w) req = Some cl" "cluster_meta cl = req" "deletion_IsZero (DeletionTimestamp cl)"
    and "register_kept L (r_Teleport r) (registerNameOf r cl) (clusterName cl) (clusterNamespace cl) (obs w)"
  shows "x = \<lparr>RequeueAfter = 5 * minute\<rparr> \<and>
    converged L r (Now L w) cl (registerNameOf r cl) (rolesFor L cl (obs w)) (obs w')"
  using operator_world.Reconcile_normal_outcome [OF assms(1,4,2,3,5,6,7)] assms(8) by simp

theorem reconcile_converges_witness:
  "converged (mem_libs scripted) (mem_reconciler scripted demo_config True ''ns'') second new_cluster ''mc-wc'' [''kube'']
     (mem_obs (snd (demo_run scripted (demo_world []))))"
  using reconcile_converges [OF demo_env demo_split [OF demo_creates] demo_clusters(1)]
  by (simp add: demo_register demo_roles demo_register_kept)

text \<open>
  C2. A reconciliation of a cluster that is being deleted, when it succeeds, has removed the
  join-token Secret and the values ConfigMap, the reference in the agent it detects, with the
  bot switched on the bot's ConfigMap, kubeconfig Secret and reference, one of the cluster's
  tokens if there was any, and the finalizer. It leaves the rest: further tokens, an App
  beside a HelmRelease of the same name with whatever it refers to, and without the bot
  everything but the first three.
\<close>

theorem reconcile_deletes:
  assumes "operator_world K obs L app_admit" "reconciler_ok K obs L r" "client_or_stale L r w"
    and "Reconcile L req r w = ((Inr x, r'), w')"
    and "clusters (obs w) req = Some cl" "cluster_meta cl = req" "\<not> deletion_IsZero (DeletionTimestamp cl)"
  shows "x = noRequeue \<and> cleaned r cl (obs w') \<and> finalizer_gone req (obs w') \<and>
    (\<exists>f. drops_one (registerNameOf r cl) (obs w) f \<and> tokens (obs w') = tokens (f (obs w))) \<and>
    passed_over r cl (obs w) (obs w')"
  using operator_world.Reconcile_delete_outcome(4) [OF assms(1,4,2,3,5,6,7) refl]
    operator_world.Reconcile_delete_outcome(2) [OF assms(1,4,2,3,5,6,7)] by blast

theorem reconcile_deletes_witness:
  "cleaned (mem_reconciler scripted demo_config True ''ns'') old_cluster (mem_obs (snd (demo_run scripted (gone_world [])))) \<and>
   passed_over (mem_reconciler scripted demo_config True ''ns'') old_cluster (mem_obs (gone_world []))
     (mem_obs (snd (demo_run scripted (gone_world []))))"
  using reconcile_deletes [OF demo_env demo_split [OF demo_deletes] demo_clusters(2)] by simp

text \<open>
  C3. Whatever happens during a deletion, success or failure at any call, the Cluster
  object is touched, and so its finalizer removed, only when all that one call removes is
  gone: Secret, ConfigMap and the reference in the agent it detects, with the bot what is the
  bot's, and one token of the cluster if there was any. Further tokens may remain.
\<close>

theorem finalizer_goes_last:
  assumes "operator_world K obs L app_admit" "reconciler_ok K obs L r" "client_or_stale L r w"
    and "Reconcile L req r w = ((res, r'), w')"
    and "clusters (obs w) req = Some cl" "cluster_meta cl = req" "\<not> deletion_IsZero (DeletionTimestamp cl)"
  shows "clusters (obs w') = clusters (obs w) \<or> cleaned r cl (obs w') \<and>
    (\<exists>f. drops_one (registerNameOf r cl) (obs w) f \<and> tokens (obs w') = tokens (f (obs w)))"
  by (rule operator_world.Reconcile_delete_outcome(3) [OF assms(1,4,2,3,5,6,7)])

theorem finalizer_goes_last_witness:
  "cleaned (mem_reconciler scripted demo_config True ''ns'') old_cluster (mem_obs (snd (demo_run scripted (gone_world [])))) \<and>
   (\<exists>f. drops_one ''mc-wc'' (mem_obs (gone_world [])) f \<and>
      tokens (mem_obs (snd (demo_run scripted (gone_world [])))) = tokens (f (mem_obs (gone_world []))))"
  using finalizer_goes_last [OF demo_env demo_split [OF refl] demo_clusters(2), of "[]"] demo_released
  by (auto simp: demo_register demo_clusters(2))

text \<open>
  C12. In every outcome a reconciliation touches the objects of its own cluster only: the
  Cluster, its Secrets, ConfigMaps, agent and bot resources; tokens with another register
  name stay as they are, and new tokens carry this cluster's.
\<close>

theorem reconcile_footprint:
  assumes "operator_world K obs L app_admit" "reconciler_ok K obs L r" "client_or_stale L r w"
    and "Reconcile L req r w = ((res, r'), w')" "clusters (obs w) req = Some cl" "cluster_meta cl = req"
  shows "footprint (r_Teleport r) cl (registerNameOf r cl) (obs w) (obs w')"
  using operator_world.Reconcile_normal_outcome [OF assms(1,4,2,3,5,6)]
    operator_world.Reconcile_delete_outcome(1) [OF assms(1,4,2,3,5,6)]
  by blast

theorem reconcile_footprint_witness:
  "footprint (r_Teleport (mem_reconciler scripted demo_config True ''ns'')) new_cluster ''mc-wc''
     (mem_obs (demo_world [Answer, Lose])) (mem_obs (snd (demo_run scripted (demo_world [Answer, Lose]))))"
  using reconcile_footprint [OF demo_env demo_split [OF refl] demo_clusters(1)] by (simp add: demo_register)

text \<open>
  C8. A reconciliation of a cluster that is in order changes nothing, in any outcome,
  provided the tokens stay valid until it ends and the values need no escaping in YAML.
\<close>

theorem reconcile_steady:
  assumes "operator_world K obs L app_admit" "reconciler_ok K obs L r" "client_or_stale L r w" "yaml_values L"
    and "Reconcile L req r w = ((res, r'), w')"
    and "clusters (obs w) req = Some cl" "cluster_meta cl = req" "deletion_IsZero (DeletionTimestamp cl)"
    and "plain_tokens (r_Teleport r) (registerNameOf r cl) (rolesFor L cl (obs w)) (obs w)"
    and "converged L r u cl (registerNameOf r cl) (rolesFor L cl (obs w)) (obs w)" "Now L w' \<le> u"
  shows "obs w' = obs w"
  by (rule operator_world.Reconcile_quiet [OF assms(1,5,2,3,4,9,6,7,8,10,11)])

theorem reconcile_steady_witness:
  "mem_obs (snd (demo_run scripted made_world)) = mem_obs made_world"
  using made_run
  by (intro reconcile_steady [OF demo_env demo_yaml demo_split [OF refl] made_clusters, where u = hour])
    (auto simp: demo_register made_roles made_converged plain_tokens_def made_tokens
      intro: demo_plain split: if_splits)

section \<open>Progress and clusters side by side\<close>

text \<open>
  C6. Where the servers answer, the tbot Secret holds an identity, and the user's values and
  the cluster's join-token Secret and values ConfigMap, as far as they exist, can be read, one
  reconciliation of a live cluster succeeds. It puts the cluster in order if the ConfigMap
  does not hold another register name; where it does, no call repairs that (C27).
\<close>

theorem reconcile_makes_progress:
  assumes "reliable_world K obs L app_admit" "reconciler_ok K obs L r" "client_or_stale L r w" "client_reliable L obs r"
    and "clusters (obs w) req = Some cl" "cluster_meta cl = req" "deletion_IsZero (DeletionTimestamp cl)"
    and "inputs_readable L r cl (obs w)"
  shows "\<exists>r' w'. Reconcile L req r w = ((Inr \<lparr>RequeueAfter = 5 * minute\<rparr>, r'), w') \<and>
    (register_kept L (r_Teleport r) (registerNameOf r cl) (clusterName cl) (clusterNamespace cl) (obs w) \<longrightarrow>
     converged L r (Now L w) cl (registerNameOf r cl) (rolesFor L cl (obs w)) (obs w'))"
proof -
  from assms(1) have world: "operator_world K obs L app_admit" by (simp add: reliable_world_def)
  obtain x r' w' where run: "Reconcile L req r w = ((Inr x, r'), w')"
    using reliable_world.Reconcile_succeeds [OF assms(1-6,8)] by blast
  with operator_world.Reconcile_normal_outcome [OF world run assms(2,3,5,6,7)] show ?thesis by blast
qed

theorem reconcile_makes_progress_witness:
  "\<exists>r' w'. Reconcile (calm_libs steady) demo_key (calm_reconciler demo_config True ''ns'') (demo_world []) =
      ((Inr \<lparr>RequeueAfter = 5 * minute\<rparr>, r'), w') \<and>
    converged (calm_libs steady) (calm_reconciler demo_config True ''ns'') second new_cluster ''mc-wc'' [''kube''] (mem_obs w')"
proof -
  have reg: "registerNameOf (calm_reconciler demo_config True ''ns'') new_cluster = ''mc-wc''"
    by (simp add: registerNameOf_def clusterName_def GetRegisterName_def demo_key_def new_cluster_def)
  show ?thesis
    using reconcile_makes_progress [OF answering.calm.reliable_world_axioms calm_reconciler_ok demo_clusters(1)
        _ _ demo_inputs(1)]
    by (simp add: reg demo_roles demo_register_kept)
qed

text \<open>
  C7. Where the servers answer, the tbot Secret holds an identity and the user's values, if
  any, are YAML, one reconciliation of a cluster that is being deleted succeeds: what C2
  has removed is gone, and the operator's finalizer with it. The values are read although a
  deletion has no use for them: where they are not YAML the call fails and leaves everything
  as it was, the finalizer included, and so does every call after it.
\<close>

theorem deletion_makes_progress:
  assumes "reliable_world K obs L app_admit" "reconciler_ok K obs L r" "client_or_stale L r w" "client_reliable L obs r"
    and "clusters (obs w) req = Some cl" "cluster_meta cl = req" "\<not> deletion_IsZero (DeletionTimestamp cl)"
  shows "(inputs_readable L r cl (obs w) \<longrightarrow>
      (\<exists>r' w'. Reconcile L req r w = ((Inr noRequeue, r'), w') \<and> cleaned r cl (obs w') \<and> finalizer_gone req (obs w'))) \<and>
    (\<not> user_values_readable L (clusterName cl) (clusterNamespace cl) (obs w) \<longrightarrow>
      (\<exists>e w'. Reconcile L req r w = ((Inl e, r), w') \<and> obs w' = obs w))"
proof -
  from assms(1) have world: "operator_world K obs L app_admit" by (simp add: reliable_world_def)
  have "\<exists>r' w'. Reconcile L req r w = ((Inr noRequeue, r'), w') \<and> cleaned r cl (obs w') \<and> finalizer_gone req (obs w')"
    if readable: "inputs_readable L r cl (obs w)"
  proof -
    obtain x r' w' where run: "Reconcile L req r w = ((Inr x, r'), w')"
      using reliable_world.Reconcile_succeeds [OF assms(1-6) readable] by blast
    with operator_world.Reconcile_delete_outcome(4) [OF world run assms(2,3,5,6,7) refl] show ?thesis by blast
  qed
  then show ?thesis using operator_world.Reconcile_unreadable [OF world assms(2,5)] by blast
qed

theorem deletion_makes_progress_witness:
  "(\<exists>r' w'. Reconcile (calm_libs steady) demo_key (calm_reconciler demo_config True ''ns'') (gone_world []) =
      ((Inr noRequeue, r'), w') \<and> finalizer_gone demo_key (mem_obs w')) \<and>
   (\<exists>e w'. Reconcile (calm_libs steady) demo_key (calm_reconciler demo_config True ''ns'') unreadable_world =
      ((Inl e, calm_reconciler demo_config True ''ns''), w') \<and> mem_obs w' = mem_obs unreadable_world)"
proof -
  note progress = deletion_makes_progress [OF answering.calm.reliable_world_axioms calm_reconciler_ok]
  show ?thesis
    using progress [OF demo_clusters(2) [of "[]"] demo_deletion(2,4)] demo_inputs(2)
      progress [OF unreadable_there(1) demo_deletion(2,4)] unreadable_there(2)
    by blast
qed

text \<open>
  C9. A reconciliation of one cluster, for creation or deletion and with any outcome,
  leaves another cluster that is in order in order, provided their names do not clash.
\<close>

theorem clusters_independent:
  assumes "operator_world K obs L app_admit" "reconciler_ok K obs L r" "client_or_stale L r w"
    and "Reconcile L req r w = ((res, r'), w')" "clusters (obs w) req = Some a" "cluster_meta a = req"
    and "no_clash (r_Teleport r) a b" "cluster_meta b \<noteq> req"
    and "converged L r u b (registerNameOf r b) roles (obs w)"
  shows "converged L r u b (registerNameOf r b) roles (obs w')"
  using footprint_keeps_converged [OF operator_world.Reconcile_footprint [OF assms(1,4,2,3,5,6)] assms(7) _ assms(9)] assms(6,8)
  by simp

theorem clusters_independent_witness:
  "converged (mem_libs scripted) (mem_reconciler scripted demo_config True ''ns'') hour made_cluster ''mc-wc'' [''kube'']
     (mem_obs (snd (Reconcile (mem_libs scripted) other_key (mem_reconciler scripted demo_config True ''ns'') (two_world []))))"
proof -
  let ?r = "mem_reconciler scripted demo_config True ''ns''"
  let ?run = "Reconcile (mem_libs scripted) other_key ?r (two_world [])"
  have run: "?run = ((fst (fst ?run), snd (fst ?run)), snd ?run)" by simp
  have "no_clash (r_Teleport ?r) other_cluster made_cluster"
    using names_apart [of made_cluster "r_Teleport ?r"] by (simp add: others_def)
  moreover have "registerNameOf ?r made_cluster = ''mc-wc''" by (simp add: demo_register)
  ultimately show ?thesis
    using clusters_independent [OF demo_env run two_clusters(2), of made_cluster hour "[''kube'']"] two_converged by simp
qed

text \<open>
  C10. Clusters in order stay in order: after any sequence of calls, for them and for
  others, with any outcomes, a live cluster that was in order until \<open>u\<close> still is, provided
  the sequence ends by then, the names do not clash and the values need no escaping in YAML.
\<close>

theorem queue_keeps_order:
  assumes "operator_world K obs L app_admit" "reconciler_ok K obs L r" "client_or_stale L r w" "yaml_values L"
    and "reconcile_all L reqs (r, w) = (r', w')"
    and "in_order L r u b (obs w)" "others (r_Teleport r) b (set reqs)" "Now L w' \<le> u"
  shows "in_order L r' u b (obs w')"
  by (rule operator_world.reconcile_all_keeps_order [OF assms(1,5,2,3,4,6,7,8)])

theorem queue_keeps_order_witness:
  "in_order (mem_libs scripted) (fst two_run) hour made_cluster (mem_obs (snd two_run))"
proof -
  have "reconcile_all (mem_libs scripted) [other_key, demo_key]
      (mem_reconciler scripted demo_config True ''ns'', two_world [Refuse]) = (fst two_run, snd two_run)"
    by (simp add: two_run_def)
  from queue_keeps_order [OF demo_env demo_yaml this two_in_order] two_time
    names_apart [of made_cluster "r_Teleport (mem_reconciler scripted demo_config True ''ns'')"]
  show ?thesis by simp
qed

text \<open>
  C11. The operator stabilises: from every state that calls, failures of calls and arbitrary
  moves of others can reach from the start, one pass over the queue settles every cluster in
  it, provided that the servers answer and the pass is ready: no request twice, every request
  of an existing Cluster, the identity and user values and, for live clusters, the Secret and
  ConfigMap readable, a register name in the ConfigMap, if there is one, that is the
  cluster's, and no two clusters with clashing names. Live clusters are then in order, with
  tokens valid when the pass began or longer, and the ones being deleted are cleaned up, in
  the sense of C2, and released.
\<close>

theorem operator_stabilises:
  assumes "reliable_world K obs L app_admit" "token_generator (NewGenerator L) obs tokens (Now L)"
    and "reachable L K cfg tbot ns (r, w)" "reconcile_all L reqs (r, w) = (r', w')" "pass_ready L r reqs (obs w)"
    and "clusters (obs w) (cluster_meta b) = Some b" "cluster_meta b \<in> set reqs"
  shows "settled L r' (Now L w) b (rolesFor L b (obs w)) (obs w')"
  by (rule reliable_world.reachable_settles [OF assms(1,2,3,5,7,6,4)])

theorem operator_stabilises_witness:
  "\<exists>r' w'. reconcile_all (calm_libs steady) [other_key, demo_key] (calm_reconciler demo_config True ''ns'', pair_world) = (r', w') \<and>
     settled (calm_libs steady) r' second new_cluster [''kube''] (mem_obs w') \<and>
     settled (calm_libs steady) r' second other_cluster [''kube''] (mem_obs w')"
proof -
  let ?r = "calm_reconciler demo_config True ''ns''"
  obtain r' w' where run: "reconcile_all (calm_libs steady) [other_key, demo_key] (?r, pair_world) = (r', w')" by fastforce
  have roles: "rolesFor (calm_libs steady) b (mem_obs pair_world) = [''kube'']" for b
    by (simp add: rolesFor_def apps_wanted_def assignedRoles_def mem_obs_def pair_world_def demo_world_def lookup_def RoleKube_def)
  have gen: "token_generator (NewGenerator (calm_libs steady)) mem_obs tokens (Now (calm_libs steady))"
    using mem_generator.token_generator_axioms [of steady] by (simp add: NewGenerator_def RandomGenerator_def)
  have "reachable (calm_libs steady) (mem_client steady) demo_config True ''ns'' (?r, demo_world [])"
    unfolding calm_reconciler_def by (rule reachable.start)
  then have reach: "reachable (calm_libs steady) (mem_client steady) demo_config True ''ns'' (?r, pair_world)"
    by (rule reachable.step) (simp add: operator_step.environment pair_time)
  note settles = operator_stabilises [OF answering.calm.reliable_world_axioms gen reach run pair_ready]
  have "settled (calm_libs steady) r' second new_cluster [''kube''] (mem_obs w')"
    "settled (calm_libs steady) r' second other_cluster [''kube''] (mem_obs w')"
    using settles [of new_cluster] settles [of other_cluster] pair_clusters pair_time by (simp_all add: roles)
  with run show ?thesis by blast
qed

section \<open>Calls as events\<close>

text \<open>
  C4. Every call for a cluster, with any outcome, is a run of the abstract events of that
  cluster: some of them, each under its guard and with exactly its effect, in the order of
  creation for a live cluster and of deletion otherwise.
\<close>

theorem reconcile_refines:
  assumes "operator_world K obs L app_admit" "reconciler_ok K obs L r" "client_or_stale L r w"
    and "Reconcile L req r w = ((res, r'), w')" "clusters (obs w) req = Some cl" "cluster_meta cl = req"
  shows "\<exists>es. subseq es (order_of cl) \<and> event_run (event_step L r (Now L w) cl (rolesFor L cl (obs w))) es (obs w) (obs w')"
  using operator_world.Reconcile_performs [OF assms(1,4,2,3,5,6)] unfolding performs_def .

theorem reconcile_refines_witness:
  "\<exists>es. subseq es live_order \<and>
     event_run (event_step (mem_libs scripted) (mem_reconciler scripted demo_config True ''ns'') second new_cluster [''kube'']) es
       (mem_obs (demo_world [Answer, Lose])) (mem_obs (snd (demo_run scripted (demo_world [Answer, Lose]))))"
  using reconcile_refines [OF demo_env demo_split [OF refl] demo_clusters(1)] by (simp add: demo_roles order_of_def)

text \<open>
  C5. What a call for a live cluster writes works, whatever its outcome: no token, Secret
  or ConfigMap is gone, new tokens serve the cluster, every Secret that is new or different
  holds a node token, and every ConfigMap that is, but for the bot's, holds values with an
  agent token, that the server has and that serves the cluster at the time of the call.
\<close>

theorem writes_work:
  assumes "operator_world K obs L app_admit" "reconciler_ok K obs L r" "client_or_stale L r w"
    and "Reconcile L req r w = ((res, r'), w')"
    and "clusters (obs w) req = Some cl" "cluster_meta cl = req" "deletion_IsZero (DeletionTimestamp cl)"
  shows "sound_writes L r (Now L w) cl (rolesFor L cl (obs w)) (obs w) (obs w')"
  by (rule operator_world.Reconcile_sound_writes [OF assms(1,4,2,3,5,6,7)])

theorem writes_work_witness:
  "sound_writes (mem_libs scripted) (mem_reconciler scripted demo_config True ''ns'') second new_cluster [''kube'']
     (mem_obs (demo_world [])) (mem_obs (snd (demo_run scripted (demo_world []))))"
  using writes_work [OF demo_env demo_split [OF refl] demo_clusters(1)] by (simp add: demo_roles)

text \<open>
  C22. Tokens are issued sparingly: through any sequence of calls with any outcomes the
  number of names that are new on the server is at most twice the number of calls.
\<close>

theorem tokens_bounded:
  assumes "cached_world K obs L app_admit" "reconciler_ok K obs L r" "client_or_stale L r w"
    and "reconcile_all L reqs (r, w) = (r', w')"
  shows "finite (new_names (obs w) (obs w')) \<and> card (new_names (obs w) (obs w')) \<le> 2 * length reqs"
  using cached_world.reconcile_all_issues [OF assms(1,4,2,3)] by (simp add: issues_at_most_def)

theorem tokens_bounded_witness:
  "card (new_names (mem_obs (two_world [Refuse])) (mem_obs (snd two_run))) \<le> 4"
proof -
  have "reconcile_all (mem_libs scripted) [other_key, demo_key]
      (mem_reconciler scripted demo_config True ''ns'', two_world [Refuse]) = (fst two_run, snd two_run)"
    by (simp add: two_run_def)
  from tokens_bounded [OF operator_world.cached [OF demo_env(1)] demo_env(2,3) this] show ?thesis by simp
qed

text \<open>
  C23. A values ConfigMap without a register name is never repaired. Where the servers
  answer and its token has expired, every call for the cluster fails, having issued a token
  that nothing will use, and leaves all as it was: \<open>n\<close> calls waste at least \<open>n\<close> tokens.
\<close>

theorem malformed_values_leak:
  assumes "reliable_world K obs L app_admit" "reconciler_ok K obs L r" "client_or_stale L r w" "client_reliable L obs r"
    and "stuck L r (Now L w) cl (obs w)" "reconcile_all L (replicate n (cluster_meta cl)) (r, w) = (r', w')"
  shows "(\<exists>e r1 w1. Reconcile L (cluster_meta cl) r w = ((Inl e, r1), w1)) \<and>
    n \<le> card (new_names (obs w) (obs w')) \<and> stuck L r' (Now L w') cl (obs w')"
  using reliable_world.Reconcile_stuck [OF assms(1-5)] reliable_world.stuck_for_ever [OF assms(1,6,2-5)] by metis

theorem malformed_values_leak_witness:
  "\<exists>r' w'. reconcile_all (calm_libs steady) (replicate 3 demo_key) (calm_reconciler demo_config True ''ns'', stuck_world) = (r', w') \<and>
     3 \<le> card (new_names (mem_obs stuck_world) (mem_obs w'))"
proof -
  obtain r' w' where run: "reconcile_all (calm_libs steady) (replicate 3 (cluster_meta made_cluster))
      (calm_reconciler demo_config True ''ns'', stuck_world) = (r', w')" by fastforce
  from malformed_values_leak [OF answering.calm.reliable_world_axioms calm_reconciler_ok _ run] stuck_there run
  show ?thesis by (simp add: stuck_time)
qed

section \<open>Reading from a cache\<close>

text \<open>
  C15. With a client that reads from a cache, however old what it reads, a call in any
  outcome is still a run of events: for some Cluster of the requested name and some roles,
  some of the events of a creation or of a deletion, in their order, each with the part of
  its guard that does not depend on what was read.
\<close>

theorem cached_refines:
  assumes "cached_world K obs L app_admit" "reconciler_ok K obs L r" "client_or_stale L r w"
    and "Reconcile L req r w = ((res, r'), w')"
  shows "\<exists>cl roles es. cluster_meta cl = req \<and> known_assignment roles \<and> subseq es (order_of cl) \<and>
    event_run (late_step L r (Now L w) cl roles) es (obs w) (obs w')"
  using cached_world.Reconcile_late [OF assms(1,4,2,3)] unfolding late_call_def performs_def by blast

theorem cached_refines_witness:
  "\<exists>cl roles es. cluster_meta cl = demo_key \<and> subseq es (order_of cl) \<and>
     event_run (late_step (mem_libs scripted) (stale_reconciler (demo_world [])) second cl roles) es
       (mem_obs (gone_world [])) (mem_obs (snd (stale_run (demo_world []) (gone_world []))))"
  using cached_refines [OF stale_env_at stale_split [OF refl], of "demo_world []" "gone_world []"] by auto

text \<open>
  C16. With a client that reads from a cache a call still touches only the objects of the
  cluster it was asked for, leaves the tokens of others alone, and issues at most two.
\<close>

theorem cached_footprint:
  assumes "cached_world K obs L app_admit" "reconciler_ok K obs L r" "client_or_stale L r w"
    and "Reconcile L req r w = ((res, r'), w')" "cluster_meta cl = req"
  shows "own_objects (r_Teleport r) cl (registerNameOf r cl) (obs w) (obs w') \<and> issues_at_most 2 (obs w) (obs w')"
  using late_call_cases(1,3) [OF cached_world.Reconcile_late [OF assms(1,4,2,3)] assms(5)] by (rule conjI)

theorem cached_footprint_witness:
  "own_objects (r_Teleport (stale_reconciler (demo_world []))) old_cluster
     (registerNameOf (stale_reconciler (demo_world [])) old_cluster)
     (mem_obs (gone_world [])) (mem_obs (snd (stale_run (demo_world []) (gone_world []))))"
  using cached_footprint [OF stale_env_at stale_split [OF refl] demo_deletion(2)] by (rule conjunct1)

text \<open>
  C17. With a client that reads from a cache what a call writes still works: either every
  token, Secret and values ConfigMap that is new or different serves the cluster at the time
  of the call and nothing is gone, or the call only took away.
\<close>

theorem cached_writes_work:
  assumes "cached_world K obs L app_admit" "reconciler_ok K obs L r" "client_or_stale L r w"
    and "Reconcile L req r w = ((res, r'), w')" "cluster_meta cl = req"
  shows "(\<exists>roles. known_assignment roles \<and> sound_writes L r (Now L w) cl roles (obs w) (obs w')) \<or>
    takes_away (obs w) (obs w')"
  by (rule late_call_cases(2) [OF cached_world.Reconcile_late [OF assms(1,4,2,3)] assms(5)])

theorem cached_writes_work_witness:
  "\<exists>roles. known_assignment roles \<and>
     sound_writes (mem_libs scripted) (stale_reconciler (demo_world [])) second old_cluster roles
       (mem_obs (gone_world [])) (mem_obs (snd (stale_run (demo_world []) (gone_world []))))"
  using cached_writes_work [OF stale_env_at stale_split [OF refl] demo_deletion(2), of "demo_world []" "gone_world []"]
    stale_joins(2,3)
  by (auto simp: takes_away_def dest: map_le_None)

text \<open>
  C18. With a client that reads from a cache the finalizer still outlives what the operator
  has made: if the Cluster has it before a call, it has it afterwards, or the Secret and the
  ConfigMap of the agent (and with the bot those of the bot) are gone. The references are
  not among them: an agent that the cache does not show keeps its own.
\<close>

theorem cached_finalizer_last:
  assumes "cached_world K obs L app_admit" "reconciler_ok K obs L r" "client_or_stale L r w"
    and "Reconcile L req r w = ((res, r'), w')" "cluster_meta cl = req" "finalizer_ready req (obs w)"
  shows "finalizer_ready req (obs w') \<or> objects_gone r cl (obs w')"
  by (rule late_call_cases(4) [OF cached_world.Reconcile_late [OF assms(1,4,2,3)] assms(5,6)])

theorem cached_finalizer_last_witness:
  "objects_gone (stale_reconciler late_world) old_cluster (mem_obs (snd (stale_run late_world (gone_world []))))"
proof -
  have "finalizer_ready demo_key (mem_obs (gone_world []))"
    by (simp add: finalizer_ready_def demo_clusters old_cluster_def)
  from cached_finalizer_last [OF stale_env_at stale_split [OF refl] demo_deletion(2) this, of late_world]
  show ?thesis using stale_deletes(2) by (simp add: finalizer_ready_def)
qed

section \<open>Start-up\<close>

text \<open>
  C19. If the program gets as far as starting the manager, it has filled the scheme first,
  found the configuration of the connection and given both to the manager, and read the
  operator's configuration before setting up the controller; the reconciler it hands over is
  in a state from which all that is proved of Reconcile follows.
\<close>

theorem startup_hands_over:
  assumes "program R L fl w = (Inr u, w')"
    and "token_generator (NewGenerator L) obs tokens (Now L)"
  shows "\<exists>restConfig K ctrlClient cfg w0 wc w1 w2 w3.
    init R w = (Inr (), w0) \<and> GetConfigOrDie R w0 = (Inr restConfig, wc) \<and>
    NewManager R restConfig (NewScheme R) (metricsAddr fl) 9443 (probeAddr fl) (enableLeaderElection fl) ''765979b4.giantswarm.io'' wc =
      (Inr K, w1) \<and>
    client_New R restConfig w1 = (Inr ctrlClient, w2) \<and>
    GetConfigFromConfigMap ctrlClient (namespace_flag fl) w2 = (Inr cfg, w3) \<and>
    (\<exists>w4. Complete R (newReconciler L K cfg (enableTeleportBot fl) (namespace_flag fl)) w3 = (Inr (), w4)) \<and>
    state_ok L obs K cfg (enableTeleportBot fl) (namespace_flag fl)
      (newReconciler L K cfg (enableTeleportBot fl) (namespace_flag fl), w')"
proof -
  from assms(1) obtain w0 restConfig wc K w1 ctrlClient w2 cfg w3 w4 where
    "init R w = (Inr (), w0)" "GetConfigOrDie R w0 = (Inr restConfig, wc)"
    "NewManager R restConfig (NewScheme R) (metricsAddr fl) 9443 (probeAddr fl) (enableLeaderElection fl) ''765979b4.giantswarm.io'' wc =
      (Inr K, w1)"
    "client_New R restConfig w1 = (Inr ctrlClient, w2)" "GetConfigFromConfigMap ctrlClient (namespace_flag fl) w2 = (Inr cfg, w3)"
    "Complete R (newReconciler L K cfg (enableTeleportBot fl) (namespace_flag fl)) w3 = (Inr (), w4)"
    by (auto simp: program_def main_run_def bindE_def SetupWithManager_def split: prod.splits sum.splits)
  moreover have "state_ok L obs K cfg (enableTeleportBot fl) (namespace_flag fl)
      (newReconciler L K cfg (enableTeleportBot fl) (namespace_flag fl), w')"
    using assms(2) by (simp add: state_ok_def reconciler_ok_def client_or_stale_def identityStale_def)
  ultimately show ?thesis by blast
qed

definition mem_runtime :: "(mem, unit, unit) runtime" where
  "mem_runtime =
     \<lparr>NewScheme = (), AddToScheme = (\<lambda>_ _ w. (Inr (), w)), Must = (\<lambda>err w. (case err of None \<Rightarrow> Inr () | Some e \<Rightarrow> Inl (Panic ''Must''), w)),
      GetConfigOrDie = (\<lambda>w. (Inr (), w)), NewManager = (\<lambda>_ _ _ _ _ _ _ w. (Inr (mem_client steady), w)),
      client_New = (\<lambda>_ w. (Inr (mem_client steady), w)),
      Complete = (\<lambda>_ w. (Inr (), w)), AddHealthzCheck = (\<lambda>_ w. (Inr (), w)), AddReadyzCheck = (\<lambda>_ w. (Inr (), w)),
      Start = (\<lambda>w. (Inr (), w))\<rparr>"

definition full_config_world :: mem where
  "full_config_world = (demo_world [])\<lparr>m_configmaps := [\<lparr>cm_meta = \<lparr>Name = ''teleport-operator'', Namespace = ''''\<rparr>,
     cm_Data = [''proxyAddr'' \<mapsto> ''127.0.0.1'', ''teleportVersion'' \<mapsto> ''18.7.6'', ''managementClusterName'' \<mapsto> ''mc'',
       ''appName'' \<mapsto> ''agent'', ''appVersion'' \<mapsto> ''0.12.0'', ''appCatalog'' \<mapsto> ''catalog''], BinaryData = Map.empty\<rparr>]\<rparr>"

theorem startup_hands_over_witness:
  "\<exists>K cfg w'. state_ok (mem_libs steady) mem_obs K cfg False '''' (newReconciler (mem_libs steady) K cfg False '''', w')"
proof -
  have "program mem_runtime (mem_libs steady) default_flags full_config_world = (Inr (), snd (steady full_config_world))"
    by (simp add: program_def init_def addOrPanic_def main_run_def mem_runtime_def default_flags_def GetConfigFromConfigMap_def SetupWithManager_def
        mem_client_def mem_kind_def mem_read_def steady_def full_config_world_def lookup_def action_defs liftE_def
        getConfigMapString_def TeleportOperatorConfigName_def ProxyAddr_def ManagementClusterName_def TeleportVersion_def
        AppName_def AppVersion_def AppCatalog_def)
  moreover have "token_generator (NewGenerator (mem_libs steady)) mem_obs tokens (Now (mem_libs steady))"
    using mem_generator.token_generator_axioms [of steady] by simp
  ultimately show ?thesis using startup_hands_over [of mem_runtime "mem_libs steady" default_flags]
    unfolding default_flags_def flags.simps by blast
qed


section \<open>The Teleport connection\<close>

text \<open>
  C13. In every state that calls of Reconcile, with any outcome, and moves of others can
  reach from the start, the reconciler still has the configuration main gave it, and once
  the identity check of a call passes there is a Teleport client to use.
\<close>

theorem client_when_needed:
  assumes "cached_world K obs L app_admit" "token_generator (NewGenerator L) obs tokens (Now L)"
    and "reachable L K cfg tbot ns (r, w)" "refreshIdentity L r w = ((Inr u, r'), w')"
  shows "t_Config (r_Teleport r) = cfg \<and> lastAssignedRoles r \<in> {[], [RoleKube], [RoleKube, RoleApp]} \<and>
    (\<exists>C. TeleportClient (r_Teleport r') = Some C \<and> teleport_client C obs tokens tokens_update (Now L))"
proof -
  have "state_ok L obs K cfg tbot ns (r, w)"
    by (rule cached_world.reachable_ok [OF assms(1,2,3)])
  moreover from this have ok: "reconciler_ok K obs L r" "client_or_stale L r w" by (simp_all add: state_ok_def)
  moreover note cached_world.refreshIdentity_run [OF assms(1,4) ok(1), of u]
  ultimately show ?thesis by (auto simp: state_ok_def reconciler_ok_def)
qed

lemma demo_refresh:
  "fst (fst (refreshIdentity (mem_libs scripted) (mem_reconciler scripted demo_config True ''ns'') (demo_world []))) = Inr ()"
  by (simp add: run cong: run_cong)

theorem client_when_needed_witness:
  "\<exists>C. TeleportClient (r_Teleport (snd (fst (refreshIdentity (mem_libs scripted)
     (mem_reconciler scripted demo_config True ''ns'') (demo_world []))))) = Some C"
proof -
  let ?run = "refreshIdentity (mem_libs scripted) (mem_reconciler scripted demo_config True ''ns'') (demo_world [])"
  have "?run = ((Inr (), snd (fst ?run)), snd ?run)" using demo_refresh by (metis prod.collapse)
  from client_when_needed [OF operator_world.cached [OF demo_env(1)] _ reachable.start this [unfolded mem_reconciler_def]]
  show ?thesis using mem_generator.token_generator_axioms [of scripted] by (auto simp: mem_reconciler_def)
qed

text \<open>
  C14. After a successful identity check the identity in use was at most twenty minutes
  old, or it has just been read from the tbot Secret.
\<close>

theorem identity_fresh:
  assumes "operator_world K obs L app_admit" "reconciler_ok K obs L r"
    and "refreshIdentity L r w = ((Inr u, r'), w')"
  shows "\<exists>i. t_Identity (r_Teleport r') = Some i \<and>
    (r' = r \<and> time_Sub (Now L w) (LastRead i) \<le> 20 * minute \<or>
     Now L w \<le> LastRead i \<and> identity_secret (r_Namespace r) (id_IdentityFile i) (obs w))"
  using assms(1,3,2)
  by (cases rule: operator_world.refreshIdentity_cases)
    (auto simp: identityStale_def identityExpirationPeriod_def split: option.splits)

theorem identity_fresh_witness:
  "\<exists>i. t_Identity (r_Teleport (snd (fst (refreshIdentity (mem_libs scripted)
     (mem_reconciler scripted demo_config True ''ns'') (demo_world []))))) = Some i \<and> second \<le> LastRead i"
proof -
  let ?r = "mem_reconciler scripted demo_config True ''ns''"
  let ?run = "refreshIdentity (mem_libs scripted) ?r (demo_world [])"
  have "?run = ((Inr (), snd (fst ?run)), snd ?run)" using demo_refresh by (metis prod.collapse)
  from identity_fresh [OF demo_env(1,2) this]
  obtain i where i: "t_Identity (r_Teleport (snd (fst ?run))) = Some i" "snd (fst ?run) = ?r \<or> second \<le> LastRead i"
    by auto
  have "t_Identity (r_Teleport ?r) = None" by (simp add: mem_reconciler_def)
  with i show ?thesis by auto
qed

section \<open>Join tokens\<close>

text \<open>
  C20. A token is found valid exactly when the server has it, for this cluster, with an
  expiry in the future and the expected roles, no more and no fewer.
\<close>

theorem token_valid_iff:
  assumes "token_service C obs sel upd L t" "IsTokenValid L t reg tok tt w = (Inr b, w')"
  shows "\<exists>roles. ParseRoles tt = Inr roles \<and>
    (b \<longleftrightarrow> (\<exists>p. sel (obs w) tok = Some p \<and> GetName p = tok \<and> serves (lib_roles L) (Now L w') reg roles p))"
  using wp_run [OF token_service.wp_IsTokenValid [OF assms(1)] assms(2)] by blast

theorem token_valid_iff_witness:
  "\<exists>p. tokens (mem_obs made_world) ''aa'' = Some p \<and> GetName p = ''aa''"
  using token_valid_iff [OF demo_service.token_service_axioms, of "''mc-wc''" "''aa''" "''kube''" made_world True]
    demo_valid by (metis prod.collapse)

text \<open>
  C21. A token just generated is valid for its cluster and roles until 720 hours after it
  was asked for.
\<close>

theorem generated_token_valid:
  assumes "token_service C obs sel upd L t" "roles \<noteq> []" "set roles \<subseteq> {RoleKube, RoleApp, RoleNode}"
    and "GenerateToken L t reg roles w = (Inr n, w1)" "IsTokenValid L t reg n (RolesToString roles) w1 = (Inr b, w2)"
    and "Now L w2 < Now L w + 720 * hour"
  shows "b"
  using assms token_service.generated_valid [OF assms(1,2) _ assms(4,5)]
  by (auto simp: known_roles_def TeleportKubeTokenValidity_def)

theorem generated_token_valid_witness: "the (case fst demo_checked of Inr b \<Rightarrow> Some b | Inl _ \<Rightarrow> None)"
  using generated_token_valid [OF demo_service.token_service_axioms, of "[''kube'']" "''mc-wc''" "demo_world []" "''a''"
      "snd demo_made" True "snd demo_checked"] demo_generated
  by (simp add: role_defs demo_made_def demo_checked_def prod_eq_iff hour_def minute_def second_def)

text \<open>
  C32. Deleting a token of a cluster as many times as it has tokens removes them all, where
  Teleport answers: each call removes one. Reconcile makes one such call.
\<close>

theorem deletions_drain_tokens:
  assumes "reliable_service C obs sel upd L t" "finite (register_tokens (sel (obs w)) reg)"
  shows "register_tokens (sel (obs (delete_tokens (card (register_tokens (sel (obs w)) reg)) t reg w))) reg = {}"
  by (rule reliable_service.delete_tokens_drain [OF assms]) simp

lemma made_register_tokens: "register_tokens (tokens (mem_obs made_world)) ''mc-wc'' = {demo_token ''a'' ''Node'', demo_token ''aa'' ''Kube''}"
  by (auto simp: register_tokens_def made_tokens demo_token_def label_def split: if_splits)

theorem deletions_drain_tokens_witness:
  "register_tokens (tokens (mem_obs (delete_tokens 2 (calm_handle demo_config) ''mc-wc'' made_world))) ''mc-wc'' = {}"
  using deletions_drain_tokens [OF calm_service.reliable_service_axioms, of made_world "''mc-wc''" demo_config]
  by (simp add: made_register_tokens demo_token_def numeral_2_eq_2)

text \<open>
  C33. A deletion that succeeds leaves a token behind whenever the cluster had two: the one
  call of DeleteToken removes one, and the finalizer goes with the others still on the server.
\<close>

theorem deletion_leaves_tokens:
  assumes "operator_world K obs L app_admit" "reconciler_ok K obs L r" "client_or_stale L r w"
    and "Reconcile L req r w = ((Inr x, r'), w')"
    and "clusters (obs w) req = Some cl" "cluster_meta cl = req" "\<not> deletion_IsZero (DeletionTimestamp cl)"
    and "tokens (obs w) n = Some p" "tokens (obs w) m = Some q" "n \<noteq> m"
    and "label p ''cluster'' = registerNameOf r cl" "label q ''cluster'' = registerNameOf r cl"
  shows "finalizer_gone req (obs w') \<and>
    (\<exists>k t. tokens (obs w') k = Some t \<and> label t ''cluster'' = registerNameOf r cl)"
proof -
  obtain f where f: "drops_one (registerNameOf r cl) (obs w) f" "tokens (obs w') = tokens (f (obs w))"
    and gone: "finalizer_gone req (obs w')"
    using operator_world.Reconcile_delete_outcome(4) [OF assms(1,4,2,3,5,6,7) refl] by blast
  from f assms(8-10) have "tokens (obs w') n = Some p \<or> tokens (obs w') m = Some q"
    by (auto simp: drops_one_def set_key_apply)
  with gone assms(11,12) show ?thesis by blast
qed

definition leaving_world :: mem where
  "leaving_world = made_world\<lparr>m_clusters := [old_cluster]\<rparr>"

lemma leaving_obs:
  "clusters (mem_obs leaving_world) demo_key = Some old_cluster" "tokens (mem_obs leaving_world) = tokens (mem_obs made_world)"
  "inputs_readable (calm_libs steady) (calm_reconciler demo_config True ''ns'') old_cluster (mem_obs leaving_world)"
  by (simp_all add: leaving_world_def mem_obs_def lookup_def old_cluster_def deletion_IsZero_def IsZero_def
      inputs_readable_def identity_secret_def user_values_readable_def clusterName_def made_world_def identity_object_def
      user_values_name_def demo_key_def values_configmap_def TeleportBotSecretName_def Identity_def)

theorem deletion_leaves_tokens_witness:
  "\<exists>x r' w' k t. Reconcile (calm_libs steady) demo_key (calm_reconciler demo_config True ''ns'') leaving_world = ((Inr x, r'), w') \<and>
     tokens (mem_obs w') k = Some t"
proof -
  note env = answering.calm.reliable_world_axioms calm_reconciler_ok
  obtain x r' w' where
    run: "Reconcile (calm_libs steady) demo_key (calm_reconciler demo_config True ''ns'') leaving_world = ((Inr x, r'), w')"
    using reliable_world.Reconcile_succeeds [OF env leaving_obs(1) demo_deletion(2) leaving_obs(3)] by blast
  have reg: "registerNameOf (calm_reconciler demo_config True ''ns'') old_cluster = ''mc-wc''"
    by (simp add: registerNameOf_def clusterName_def GetRegisterName_def demo_key_def old_cluster_def)
  have "operator_world (mem_client steady) mem_obs (calm_libs steady) (\<lambda>x. x)" using env(1) by (simp add: reliable_world_def)
  from deletion_leaves_tokens [OF this calm_reconciler_ok(1,2) run leaving_obs(1) demo_deletion(2,4),
      of "''a''" "demo_token ''a'' ''Node''" "''aa''" "demo_token ''aa'' ''Kube''"]
  have "\<exists>k t. tokens (mem_obs w') k = Some t"
    by (auto simp: leaving_obs(2) made_tokens reg demo_token_def label_def)
  with run show ?thesis by blast
qed

end
